(* ===== verification/Prelude.thy ===== *)
theory Prelude
  imports Main "HOL-Library.Word" "HOL-Library.Sublist"
begin

text \<open>
  Shared vocabulary of the development: the exceptions of the bridge and how a \<open>catch\<close>
  clause selects them, results of code that may throw, the string routines of the C++
  standard library that the sources call, and the collections of simplification rules
  that the component theories extend.
\<close>

named_theorems res_simps \<open>results of code that may throw\<close>
named_theorems wf_intros \<open>well-formedness is preserved by the operations\<close>

section \<open>Exceptions\<close>

text \<open>
  The classes thrown or caught by the sources: the standard ones, the four of
  m2e_exceptions.h, and \<open>json::exception\<close>.  \<open>Foreign_exception\<close> is a thrown object that does
  not derive from \<open>std::exception\<close>.
\<close>

datatype exn_class =
    Std_exception | Logic_error | Invalid_argument | Out_of_range | Configuration_error
  | Runtime_error | Overflow_error | Underflow_error | Duplicate_error
  | Missing_dependency | Incompatible_dependency | Json_exception | Bad_variant_access
  | Foreign_exception

fun exn_base :: "exn_class \<Rightarrow> exn_class option" where
  "exn_base Duplicate_error = Some Runtime_error"
| "exn_base Missing_dependency = Some Runtime_error"
| "exn_base Incompatible_dependency = Some Runtime_error"
| "exn_base Configuration_error = Some Logic_error"
| "exn_base Invalid_argument = Some Logic_error"
| "exn_base Out_of_range = Some Logic_error"
| "exn_base Overflow_error = Some Runtime_error"
| "exn_base Underflow_error = Some Runtime_error"
| "exn_base Logic_error = Some Std_exception"
| "exn_base Runtime_error = Some Std_exception"
| "exn_base Json_exception = Some Std_exception"
| "exn_base Bad_variant_access = Some Std_exception"
| "exn_base Std_exception = None"
| "exn_base Foreign_exception = None"

text \<open>
  \<open>catch(C)\<close> takes an exception whose class is \<open>C\<close> or derives from it.  The hierarchy is three
  levels deep.
\<close>

definition exn_ancestors :: "exn_class \<Rightarrow> exn_class list" where
  "exn_ancestors e =
     e # (case exn_base e of None \<Rightarrow> []
          | Some b \<Rightarrow> b # (case exn_base b of None \<Rightarrow> [] | Some b' \<Rightarrow> [b']))"

definition catches :: "exn_class \<Rightarrow> exn_class \<Rightarrow> bool" where
  "catches h e \<longleftrightarrow> h \<in> set (exn_ancestors e)"

lemma catches_refl [simp]: "catches e e"
  by (simp add: catches_def exn_ancestors_def)

lemma catches_std: "catches Std_exception e \<longleftrightarrow> e \<noteq> Foreign_exception"
  by (cases e) (simp_all add: catches_def exn_ancestors_def)

lemma catches_runtime:
  "catches Runtime_error e \<longleftrightarrow>
     e \<in> {Runtime_error, Overflow_error, Underflow_error, Duplicate_error,
          Missing_dependency, Incompatible_dependency}"
  by (cases e) (simp_all add: catches_def exn_ancestors_def)

lemma catches_leaf:
  assumes "h \<in> {Invalid_argument, Out_of_range, Configuration_error, Overflow_error,
    Underflow_error, Duplicate_error, Missing_dependency, Incompatible_dependency,
    Json_exception, Bad_variant_access, Foreign_exception}"
  shows "catches h e \<longleftrightarrow> e = h"
  using assms by (cases e) (auto simp: catches_def exn_ancestors_def)

lemmas catches_simps [res_simps] =
  catches_std catches_runtime
  catches_leaf [where h = Invalid_argument, simplified]
  catches_leaf [where h = Out_of_range, simplified]
  catches_leaf [where h = Configuration_error, simplified]
  catches_leaf [where h = Underflow_error, simplified]
  catches_leaf [where h = Duplicate_error, simplified]
  catches_leaf [where h = Json_exception, simplified]

section \<open>Results\<close>

text \<open>
  A call ends with a value, with an exception and its \<open>what()\<close> text, or in undefined behaviour
  (a null pointer followed, an iterator past the end dereferenced, control running off the
  end of a function).  No \<open>catch\<close> clause recovers from the last.
\<close>

datatype fault = Exn exn_class string | Undefined string

type_synonym 'a res = "fault + 'a"

abbreviation throw :: "exn_class \<Rightarrow> string \<Rightarrow> 'a res" where
  "throw c m \<equiv> Inl (Exn c m)"

definition bind_res :: "'a res \<Rightarrow> ('a \<Rightarrow> 'b res) \<Rightarrow> 'b res" where
  "bind_res r f = (case r of Inl e \<Rightarrow> Inl e | Inr x \<Rightarrow> f x)"

definition try_catch :: "exn_class \<Rightarrow> 'a res \<Rightarrow> (string \<Rightarrow> 'a res) \<Rightarrow> 'a res" where
  "try_catch h r handler =
     (case r of
        Inl (Exn c m) \<Rightarrow> if catches h c then handler m else r
      | _ \<Rightarrow> r)"

text \<open>A call of the JSON library throws \<open>json::exception\<close> with some text, or returns.\<close>

definition json_res :: "string + 'a \<Rightarrow> 'a res" where
  "json_res r = (case r of Inl w \<Rightarrow> throw Json_exception w | Inr x \<Rightarrow> Inr x)"

lemma bind_res_simps [simp, res_simps]:
  "bind_res (Inl e) f = Inl e"
  "bind_res (Inr x) f = f x"
  by (simp_all add: bind_res_def)

lemma bind_res_Inr_iff [res_simps]:
  "bind_res r f = Inr y \<longleftrightarrow> (\<exists>x. r = Inr x \<and> f x = Inr y)"
  by (cases r) simp_all

lemma bind_res_split:
  "P (bind_res r f) \<longleftrightarrow> (\<forall>e. r = Inl e \<longrightarrow> P (Inl e)) \<and> (\<forall>x. r = Inr x \<longrightarrow> P (f x))"
  by (cases r) simp_all

lemma try_catch_simps [simp, res_simps]:
  "try_catch h (Inr x) f = Inr x"
  "try_catch h (Inl (Undefined m)) f = Inl (Undefined m)"
  "try_catch h (Inl (Exn c m)) f = (if catches h c then f m else Inl (Exn c m))"
  by (simp_all add: try_catch_def)

lemma json_res_simps [simp, res_simps]:
  "json_res (Inl w) = throw Json_exception w"
  "json_res (Inr x) = Inr x"
  by (simp_all add: json_res_def)

lemma json_res_Inr_iff [simp]: "json_res r = Inr x \<longleftrightarrow> r = Inr x"
  by (cases r) simp_all

lemma json_res_Inl: "json_res r = Inl e \<Longrightarrow> \<exists>w. e = Exn Json_exception w"
  by (cases r) auto

section \<open>Strings\<close>

text \<open>\<open>std::string::find\<close>: the least position at which the pattern occurs.\<close>

fun str_find :: "string \<Rightarrow> string \<Rightarrow> nat option" where
  "str_find pat [] = (if pat = [] then Some 0 else None)"
| "str_find pat (c # s) =
     (if prefix pat (c # s) then Some 0 else map_option Suc (str_find pat s))"

lemma str_find_sublist: "str_find pat s \<noteq> None \<longleftrightarrow> sublist pat s"
  by (induction s) (auto simp: sublist_Cons_right)

lemma str_find_Some:
  "str_find pat s = Some i \<Longrightarrow> i \<le> length s \<and> prefix pat (drop i s)"
  by (induction s arbitrary: i) (auto split: if_splits)

text \<open>\<open>std::tolower\<close> in the C locale, over a whole string.\<close>

definition char_lower :: "char \<Rightarrow> char" where
  "char_lower c =
     (let n = (of_char c :: nat) in if 65 \<le> n \<and> n \<le> 90 then char_of (n + 32) else c)"

definition str_lower :: "string \<Rightarrow> string" where
  "str_lower s = map char_lower s"

lemma char_lower_idem [simp]: "char_lower (char_lower c) = char_lower c"
proof (cases "65 \<le> (of_char c :: nat) \<and> (of_char c :: nat) \<le> 90")
  case True
  then have "(of_char (char_lower c) :: nat) = of_char c + 32"
    by (simp add: char_lower_def Let_def)
  with True show ?thesis
    unfolding char_lower_def [of "char_lower c"] by (simp add: Let_def)
next
  case False
  then have "char_lower c = c"
    by (auto simp: char_lower_def Let_def)
  then show ?thesis by simp
qed

lemma str_lower_idem [simp]: "str_lower (str_lower s) = str_lower s"
  by (simp add: str_lower_def)

text \<open>Splitting at a separator, every field kept, the empty ones included.\<close>

fun split_on :: "char \<Rightarrow> string \<Rightarrow> string list" where
  "split_on c [] = [[]]"
| "split_on c (x # xs) =
     (if x = c then [] # split_on c xs
      else (x # hd (split_on c xs)) # tl (split_on c xs))"

fun join_with :: "char \<Rightarrow> string list \<Rightarrow> string" where
  "join_with c [] = []"
| "join_with c [s] = s"
| "join_with c (s # t # ts) = s @ c # join_with c (t # ts)"

lemma split_on_nonempty [simp]: "split_on c s \<noteq> []"
  by (cases s) auto

lemma split_on_no_sep: "t \<in> set (split_on c s) \<Longrightarrow> c \<notin> set t"
proof (induction s arbitrary: t)
  case (Cons x xs)
  obtain u us where u: "split_on c xs = u # us"
    by (cases "split_on c xs") auto
  with Cons show ?case by (auto split: if_splits)
qed simp

lemma join_with_Cons: "ts \<noteq> [] \<Longrightarrow> join_with c ((x # t) # ts) = x # join_with c (t # ts)"
  by (cases ts) auto

lemma join_split [simp]: "join_with c (split_on c s) = s"
proof (induction s)
  case (Cons x xs)
  obtain u us where u: "split_on c xs = u # us"
    by (cases "split_on c xs") auto
  with Cons show ?case by (cases us) auto
qed simp

lemma split_on_fresh: "c \<notin> set s \<Longrightarrow> split_on c s = [s]"
  by (induction s) auto

lemma split_on_append: "c \<notin> set s \<Longrightarrow> split_on c (s @ c # t) = s # split_on c t"
  by (induction s) auto

lemma split_join:
  assumes "ts \<noteq> []" and "\<forall>t \<in> set ts. c \<notin> set t"
  shows "split_on c (join_with c ts) = ts"
  using assms
  by (induction c ts rule: join_with.induct) (auto simp: split_on_fresh split_on_append)

text \<open>The bytes of a string; \<open>std::string\<close> is a sequence of bytes.\<close>

definition bytes_of :: "string \<Rightarrow> 8 word list" where
  "bytes_of s = map of_char s"

lemma length_bytes_of [simp]: "length (bytes_of s) = length s"
  by (simp add: bytes_of_def)

definition string_of_bytes :: "8 word list \<Rightarrow> string" where
  "string_of_bytes bs = map (\<lambda>b. char_of (unat b)) bs"

lemma length_string_of_bytes [simp]: "length (string_of_bytes bs) = length bs"
  by (simp add: string_of_bytes_def)

lemma unat_of_char_byte: "unat (of_char c :: 8 word) = of_char c"
proof -
  have "(of_char c :: 8 word) = word_of_nat (of_char c)"
    by (rule of_nat_of_char [symmetric])
  moreover have "(of_char c :: nat) < 256"
    by (metis nat_of_char_less_256)
  ultimately show ?thesis
    by (simp only: unat_of_nat) simp
qed

lemma of_char_of_byte: "(of_char (char_of (unat b)) :: 8 word) = b"
proof -
  have "unat b < 256"
    using unsigned_less [of b, where ?'a = nat] by simp
  then have "(of_char (char_of (unat b)) :: nat) = unat b"
    by simp
  then show ?thesis
    by (metis of_nat_of_char of_nat_unat ucast_id)
qed

lemma string_of_bytes_of [simp]: "string_of_bytes (bytes_of s) = s"
  by (simp add: string_of_bytes_def bytes_of_def unat_of_char_byte comp_def)

lemma bytes_of_string_of [simp]: "bytes_of (string_of_bytes bs) = bs"
  by (simp add: string_of_bytes_def bytes_of_def comp_def of_char_of_byte)

section \<open>Decimal numbers\<close>

text \<open>\<open>std::to_string\<close> of an unsigned value, and \<open>std::stoi\<close>.\<close>

definition is_digit :: "char \<Rightarrow> bool" where
  "is_digit c \<longleftrightarrow> (let n = (of_char c :: nat) in 48 \<le> n \<and> n \<le> 57)"

definition digit_char :: "nat \<Rightarrow> char" where
  "digit_char d = char_of (48 + d)"

definition digit_value :: "char \<Rightarrow> nat" where
  "digit_value c = of_char c - 48"

fun nat_to_string :: "nat \<Rightarrow> string" where
  "nat_to_string n =
     (if n < 10 then [digit_char n] else nat_to_string (n div 10) @ [digit_char (n mod 10)])"

declare nat_to_string.simps [simp del]

definition digits_value :: "string \<Rightarrow> nat" where
  "digits_value s = foldl (\<lambda>a c. 10 * a + digit_value c) 0 s"

definition int_to_string :: "int \<Rightarrow> string" where
  "int_to_string i =
     (if i < 0 then CHR ''-'' # nat_to_string (nat (- i)) else nat_to_string (nat i))"

definition is_space :: "char \<Rightarrow> bool" where
  "is_space c \<longleftrightarrow> (let n = (of_char c :: nat) in n = 32 \<or> (9 \<le> n \<and> n \<le> 13))"

definition stoi :: "string \<Rightarrow> int res" where
  "stoi s =
     (let t = dropWhile is_space s;
          neg = (t \<noteq> [] \<and> hd t = CHR ''-'');
          u = (if t \<noteq> [] \<and> (hd t = CHR ''-'' \<or> hd t = CHR ''+'') then tl t else t);
          ds = takeWhile is_digit u;
          v = (if neg then - int (digits_value ds) else int (digits_value ds))
      in if ds = [] then throw Invalid_argument ''stoi''
         else if v < - (2 ^ 31) \<or> 2 ^ 31 \<le> v then throw Out_of_range ''stoi''
         else Inr v)"

lemma of_digit_char: "d < 10 \<Longrightarrow> (of_char (digit_char d) :: nat) = 48 + d"
  by (simp add: digit_char_def)

lemma digit_char_digit: "d < 10 \<Longrightarrow> is_digit (digit_char d) \<and> digit_value (digit_char d) = d"
  by (simp add: is_digit_def digit_value_def of_digit_char)

lemma nat_to_string_digits: "\<forall>c \<in> set (nat_to_string n). is_digit c"
proof (induction n rule: nat_to_string.induct)
  case (1 n)
  then show ?case
    by (cases "n < 10") (auto simp: nat_to_string.simps [of n] digit_char_digit)
qed

lemma nat_to_string_nonempty [simp]: "nat_to_string n \<noteq> []"
  by (subst nat_to_string.simps) simp

lemma digits_value_snoc: "digits_value (s @ [c]) = 10 * digits_value s + digit_value c"
  by (simp add: digits_value_def)

lemma digits_value_nat_to_string [simp]: "digits_value (nat_to_string n) = n"
proof (induction n rule: nat_to_string.induct)
  case (1 n)
  show ?case
  proof (cases "n < 10")
    case True
    then have "nat_to_string n = [digit_char n]" by (subst nat_to_string.simps) simp
    then show ?thesis using True by (simp add: digits_value_def digit_char_digit)
  next
    case False
    then have "nat_to_string n = nat_to_string (n div 10) @ [digit_char (n mod 10)]"
      by (subst nat_to_string.simps) simp
    then have "digits_value (nat_to_string n) = 10 * (n div 10) + n mod 10"
      using 1 [OF False] by (simp add: digits_value_snoc digit_char_digit)
    then show ?thesis by simp
  qed
qed

lemma stoi_to_string:
  assumes "int n < 2 ^ 31"
  shows "stoi (nat_to_string n) = Inr (int n)"
proof -
  obtain c cs where s: "nat_to_string n = c # cs"
    using nat_to_string_nonempty [of n] by (cases "nat_to_string n") auto
  have c: "is_digit c" using nat_to_string_digits [of n] s by simp
  have "\<not> is_space c" "c \<noteq> CHR ''-''" "c \<noteq> CHR ''+''"
    using c by (auto simp: is_digit_def is_space_def Let_def)
  then have d: "dropWhile is_space (nat_to_string n) = nat_to_string n"
    by (simp add: s)
  have t: "takeWhile is_digit (nat_to_string n) = nat_to_string n"
    using nat_to_string_digits [of n] by (simp add: takeWhile_eq_all_conv)
  have h: "hd (nat_to_string n) = c" by (simp add: s)
  show ?thesis
    unfolding stoi_def d Let_def h
    using assms \<open>c \<noteq> CHR ''-''\<close> \<open>c \<noteq> CHR ''+''\<close> by (simp add: t)
qed

section \<open>C strings\<close>

text \<open>A text handed over as a character pointer is read up to its first NUL character.\<close>

definition c_string :: "string \<Rightarrow> string" where
  "c_string s = takeWhile (\<lambda>c. c \<noteq> CHR 0x00) s"

lemma c_string_simps [simp]:
  "c_string [] = []"
  "c_string (c # s) = (if c = CHR 0x00 then [] else c # c_string s)"
  by (simp_all add: c_string_def)

lemma c_string_no_nul: "CHR 0x00 \<notin> set s \<Longrightarrow> c_string s = s"
  by (induction s) auto

lemma c_string_idem [simp]: "c_string (c_string s) = c_string s"
  by (induction s) auto

end
