(* ===== verification/Floating.thy ===== *)
theory Floating
  imports Prelude Complex_Main "HOL-Library.Log_Nat"
begin

text \<open>
  The C++ \<open>double\<close> of the target platform: an IEEE 754 binary64 value, read as the rational it
  denotes, an infinity or a NaN.  Conversion from an integer and division round to nearest,
  ties to even, with 53 significant bits and gradual underflow; comparison is exact.  The
  sign of a zero is not kept.
\<close>

datatype double = NaN | PInf | NInf | Fin rat

definition pow2 :: "int \<Rightarrow> rat" where
  "pow2 k = (if 0 \<le> k then 2 ^ nat k else 1 / 2 ^ nat (- k))"

text \<open>The exponent of a positive rational: the greatest \<open>k\<close> with \<open>2 ^ k\<close> at most it.\<close>

definition ilog2 :: "rat \<Rightarrow> int" where
  "ilog2 r =
     (let (p, q) = quotient_of r;
          k = int (floorlog 2 (nat p)) - int (floorlog 2 (nat q))
      in if pow2 k \<le> r then k else k - 1)"

definition round_half_even :: "rat \<Rightarrow> int" where
  "round_half_even r =
     (let f = \<lfloor>r\<rfloor>; d = r - of_int f
      in if d < 1 / 2 then f else if 1 / 2 < d then f + 1 else if even f then f else f + 1)"

definition double_limit :: rat where
  "double_limit = 2 ^ 1024"

definition round64 :: "rat \<Rightarrow> double" where
  "round64 r =
     (if r = 0 then Fin 0
      else let e = max (ilog2 \<bar>r\<bar> - 52) (- 1074);
               v = of_int (round_half_even (r / pow2 e)) * pow2 e
           in if double_limit \<le> \<bar>v\<bar> then (if 0 < r then PInf else NInf) else Fin v)"

text \<open>The conversion of a \<open>long long\<close>.\<close>

definition double_of_int64 :: "64 word \<Rightarrow> double" where
  "double_of_int64 w = round64 (of_int (sint w))"

fun ddiv :: "double \<Rightarrow> double \<Rightarrow> double" where
  "ddiv NaN _ = NaN"
| "ddiv _ NaN = NaN"
| "ddiv (Fin a) (Fin b) =
     (if b = 0 then (if a = 0 then NaN else if 0 < a then PInf else NInf) else round64 (a / b))"
| "ddiv (Fin a) _ = Fin 0"
| "ddiv PInf (Fin b) = (if b < 0 then NInf else PInf)"
| "ddiv NInf (Fin b) = (if b < 0 then PInf else NInf)"
| "ddiv _ _ = NaN"

fun dmul :: "double \<Rightarrow> double \<Rightarrow> double" where
  "dmul NaN _ = NaN"
| "dmul _ NaN = NaN"
| "dmul (Fin a) (Fin b) = round64 (a * b)"
| "dmul (Fin a) y = (if a = 0 then NaN else if (0 < a) = (y = PInf) then PInf else NInf)"
| "dmul x (Fin b) = (if b = 0 then NaN else if (0 < b) = (x = PInf) then PInf else NInf)"
| "dmul x y = (if x = y then PInf else NInf)"

text \<open>\<open>static_cast<int>\<close>: towards zero, undefined when the value does not fit.\<close>

fun int_of_double :: "double \<Rightarrow> int res" where
  "int_of_double (Fin r) =
     (let i = (if r < 0 then \<lceil>r\<rceil> else \<lfloor>r\<rfloor>)
      in if - (2 ^ 31) \<le> i \<and> i < 2 ^ 31 then Inr i
         else Inl (Undefined ''conversion out of range''))"
| "int_of_double _ = Inl (Undefined ''conversion out of range'')"

fun dle :: "double \<Rightarrow> double \<Rightarrow> bool" where
  "dle NaN _ = False"
| "dle _ NaN = False"
| "dle NInf _ = True"
| "dle _ PInf = True"
| "dle (Fin a) (Fin b) = (a \<le> b)"
| "dle _ _ = False"

definition deq :: "double \<Rightarrow> double \<Rightarrow> bool" where
  "deq x y \<longleftrightarrow> x \<noteq> NaN \<and> x = y"

definition dlt :: "double \<Rightarrow> double \<Rightarrow> bool" where
  "dlt x y \<longleftrightarrow> dle x y \<and> \<not> deq x y"

lemma dle_trans: "dle x y \<Longrightarrow> dle y z \<Longrightarrow> dle x z"
  by (cases x; cases y; cases z) auto

lemma dle_Fin [simp]: "dle (Fin a) (Fin b) \<longleftrightarrow> a \<le> b"
  by simp

lemma dlt_Fin [simp]: "dlt (Fin a) (Fin b) \<longleftrightarrow> a < b"
  by (auto simp: dlt_def deq_def)

lemma deq_Fin [simp]: "deq (Fin a) (Fin b) \<longleftrightarrow> a = b"
  by (simp add: deq_def)

lemma not_NaN_total: "x \<noteq> NaN \<Longrightarrow> y \<noteq> NaN \<Longrightarrow> dle x y \<or> dlt y x"
  by (cases x; cases y) (auto simp: dlt_def deq_def)

section \<open>Small integers are exact\<close>

lemma round_half_even_of_int [simp]: "round_half_even (of_int n) = n"
  by (simp add: round_half_even_def)

lemma pow2_pos [simp]: "0 < pow2 k"
  by (simp add: pow2_def)

lemma floorlog_le_iff_pow: "n < 2 ^ k \<Longrightarrow> floorlog 2 n \<le> k"
  by (rule floorlog_leI) simp_all

lemma ilog2_nat_bound:
  assumes "0 < n" and "n < 2 ^ 53"
  shows "ilog2 (of_int n) \<le> 52"
proof -
  have q: "quotient_of (of_int n) = (n, 1)" by (simp add: quotient_of_int)
  have "floorlog 2 (nat n) \<le> 53"
    using assms by (intro floorlog_le_iff_pow) (auto simp: nat_less_iff)
  then have "int (floorlog 2 (nat n)) - int (floorlog 2 1) \<le> 52"
    by (simp add: floorlog_def)
  then show ?thesis
    by (auto simp: ilog2_def q Let_def)
qed

lemma round64_small_int:
  assumes "\<bar>n\<bar> < 2 ^ 53"
  shows "round64 (of_int n) = Fin (of_int n)"
proof (cases "n = 0")
  case True
  then show ?thesis by (simp add: round64_def)
next
  case False
  define e where "e = max (ilog2 \<bar>of_int n :: rat\<bar> - 52) (- 1074)"
  have "ilog2 \<bar>of_int n :: rat\<bar> \<le> 52"
    using ilog2_nat_bound [of "\<bar>n\<bar>"] False assms by simp
  then have e: "e \<le> 0" by (simp add: e_def)
  then have p: "pow2 e = 1 / of_int (2 ^ nat (- e))"
    by (cases "e = 0") (simp_all add: pow2_def)
  then have "of_int n / pow2 e = (of_int (n * 2 ^ nat (- e)) :: rat)"
    by simp
  then have m: "round_half_even (of_int n / pow2 e) = n * 2 ^ nat (- e)"
    by (simp only: round_half_even_of_int)
  have v: "of_int (n * 2 ^ nat (- e)) * pow2 e = (of_int n :: rat)"
    by (simp add: p)
  have "\<bar>of_int n :: rat\<bar> < double_limit"
  proof -
    have "\<bar>n\<bar> < 2 ^ 1024" using assms by (rule less_trans) simp
    then have "of_int \<bar>n\<bar> < (of_int (2 ^ 1024) :: rat)" by (simp only: of_int_less_iff)
    then show ?thesis by (simp add: double_limit_def)
  qed
  then show ?thesis
    using False by (simp only: round64_def Let_def e_def [symmetric] m v) simp
qed

lemma double_of_int64_exact:
  "\<bar>sint w\<bar> < 2 ^ 53 \<Longrightarrow> double_of_int64 w = Fin (of_int (sint w))"
  using round64_small_int [of "sint w"] by (simp add: double_of_int64_def)

end
