(* ===== verification/Js_Values.thy ===== *)
theory Js_Values
  imports Floating
begin

text \<open>
  The values of JavaScript that the documentation bundle computes with: property access, which
  throws on \<open>undefined\<close> and \<open>null\<close>, truthiness, and the conversions between numbers and
  texts.  Texts are sequences of characters below 256.  Numbers are binary64.
\<close>

named_theorems js_simps \<open>evaluation of JavaScript values\<close>

section \<open>Values and errors\<close>

datatype js =
    Undef | Null | Bool bool | Num double | Str string
  | Arr "js list" | Obj "(string \<times> js) list" | Closure string

text \<open>
  \<open>Closure f\<close> is a function supplied from outside, known by its name.  \<open>Polished n\<close> is the error
  class \<open>or\<close> of the colour library and \<open>Styled n\<close> the one that \<open>Ho\<close> makes; \<open>Js_Error\<close> is a plain
  \<open>Error\<close>.
\<close>

datatype js_error = Type_error string | Polished nat | Styled nat | Js_Error string

type_synonym 'a jsr = "js_error + 'a"

definition jbind :: "'a jsr \<Rightarrow> ('a \<Rightarrow> 'b jsr) \<Rightarrow> 'b jsr" where
  "jbind r f = (case r of Inl e \<Rightarrow> Inl e | Inr x \<Rightarrow> f x)"

lemma jbind_simps [simp, js_simps]:
  "jbind (Inl e) f = Inl e"
  "jbind (Inr x) f = f x"
  by (simp_all add: jbind_def)

lemma jbind_Inr_iff [js_simps]:
  "jbind r f = Inr y \<longleftrightarrow> (\<exists>x. r = Inr x \<and> f x = Inr y)"
  by (cases r) simp_all

lemma jbind_assoc: "jbind (jbind r f) g = jbind r (\<lambda>x. jbind (f x) g)"
  by (cases r) simp_all

lemma jbind_cong [fundef_cong]:
  "\<lbrakk>r = r'; \<And>x. r' = Inr x \<Longrightarrow> f x = f' x\<rbrakk> \<Longrightarrow> jbind r f = jbind r' f'"
  by (cases r') (simp_all add: jbind_def)

definition jmap :: "('a \<Rightarrow> 'b) \<Rightarrow> 'a jsr \<Rightarrow> 'b jsr" where
  "jmap f r = jbind r (\<lambda>x. Inr (f x))"

lemma jmap_simps [simp, js_simps]:
  "jmap f (Inl e) = Inl e"
  "jmap f (Inr x) = Inr (f x)"
  by (simp_all add: jmap_def)

lemma jmap_Inr_iff [js_simps]: "jmap f r = Inr y \<longleftrightarrow> (\<exists>x. r = Inr x \<and> y = f x)"
  by (cases r) auto

lemma jmap_jmap [simp]: "jmap f (jmap g r) = jmap (\<lambda>x. f (g x)) r"
  by (cases r) simp_all

section \<open>Property access\<close>

text \<open>The members every object inherits, reached when it has no property of its own.\<close>

definition object_members :: "string list" where
  "object_members =
     [''constructor'', ''toString'', ''toLocaleString'', ''valueOf'', ''hasOwnProperty'',
      ''isPrototypeOf'', ''propertyIsEnumerable'', ''__proto__'', ''__defineGetter__'',
      ''__defineSetter__'', ''__lookupGetter__'', ''__lookupSetter__'']"

definition inherited :: "string \<Rightarrow> js" where
  "inherited k = (if k \<in> set object_members then Closure k else Undef)"

definition num_of_nat :: "nat \<Rightarrow> js" where
  "num_of_nat n = Num (Fin (of_nat n))"

fun js_get :: "js \<Rightarrow> string \<Rightarrow> js jsr" where
  "js_get Undef k = Inl (Type_error (''Cannot read properties of undefined (reading '' @ k @ '')''))"
| "js_get Null k = Inl (Type_error (''Cannot read properties of null (reading '' @ k @ '')''))"
| "js_get (Obj fs) k = Inr (case map_of fs k of None \<Rightarrow> inherited k | Some v \<Rightarrow> v)"
| "js_get (Str s) k = Inr (if k = ''length'' then num_of_nat (length s) else inherited k)"
| "js_get (Arr vs) k = Inr (if k = ''length'' then num_of_nat (length vs) else inherited k)"
| "js_get _ k = Inr (inherited k)"

fun js_path :: "js \<Rightarrow> string list \<Rightarrow> js jsr" where
  "js_path v [] = Inr v"
| "js_path v (k # ks) = jbind (js_get v k) (\<lambda>w. js_path w ks)"

lemma js_path_append: "js_path v (ks @ ls) = jbind (js_path v ks) (\<lambda>w. js_path w ls)"
  by (induction ks arbitrary: v) (simp_all add: jbind_assoc)

declare js_path.simps(2) [simp del]

lemma js_get_Inr: "js_get v k = Inr w \<Longrightarrow> v \<noteq> Undef \<and> v \<noteq> Null"
  by auto

lemma js_get_defined: "v \<noteq> Undef \<Longrightarrow> v \<noteq> Null \<Longrightarrow> \<exists>w. js_get v k = Inr w"
  by (cases v) simp_all

section \<open>Tests\<close>

fun truthy :: "js \<Rightarrow> bool" where
  "truthy Undef = False"
| "truthy Null = False"
| "truthy (Bool b) = b"
| "truthy (Num d) = (d \<noteq> NaN \<and> d \<noteq> Fin 0)"
| "truthy (Str s) = (s \<noteq> [])"
| "truthy _ = True"

definition js_or :: "js \<Rightarrow> js \<Rightarrow> js" where
  "js_or a b = (if truthy a then a else b)"

definition js_and :: "js \<Rightarrow> js \<Rightarrow> js" where
  "js_and a b = (if truthy a then b else a)"

definition js_cond :: "js \<Rightarrow> 'a \<Rightarrow> 'a \<Rightarrow> 'a" where
  "js_cond c a b = (if truthy c then a else b)"

fun is_string :: "js \<Rightarrow> bool" where
  "is_string (Str _) = True"
| "is_string _ = False"

fun is_number :: "js \<Rightarrow> bool" where
  "is_number (Num _) = True"
| "is_number _ = False"

text \<open>\<open>typeof v === "object" && v !== null\<close>.\<close>

fun is_object :: "js \<Rightarrow> bool" where
  "is_object (Obj _) = True"
| "is_object (Arr _) = True"
| "is_object _ = False"

section \<open>Numbers as text\<close>

definition dadd :: "double \<Rightarrow> double \<Rightarrow> double" where
  "dadd x y =
     (case (x, y) of
        (Fin a, Fin b) \<Rightarrow> round64 (a + b)
      | (NaN, _) \<Rightarrow> NaN
      | (_, NaN) \<Rightarrow> NaN
      | (Fin _, z) \<Rightarrow> z
      | (z, Fin _) \<Rightarrow> z
      | (z, z') \<Rightarrow> if z = z' then z else NaN)"

fun dneg :: "double \<Rightarrow> double" where
  "dneg (Fin a) = Fin (- a)"
| "dneg PInf = NInf"
| "dneg NInf = PInf"
| "dneg NaN = NaN"

definition dsub :: "double \<Rightarrow> double \<Rightarrow> double" where
  "dsub x y = dadd x (dneg y)"

text \<open>The number of digits before the decimal point: least \<open>n\<close> with \<open>r < 10 ^ n\<close>.\<close>

definition pow10 :: "int \<Rightarrow> rat" where
  "pow10 k = (if 0 \<le> k then 10 ^ nat k else 1 / 10 ^ nat (- k))"

fun decimal_up :: "nat \<Rightarrow> rat \<Rightarrow> int \<Rightarrow> int" where
  "decimal_up 0 r n = n"
| "decimal_up (Suc fuel) r n = (if r < pow10 n then n else decimal_up fuel r (n + 1))"

fun decimal_down :: "nat \<Rightarrow> rat \<Rightarrow> int \<Rightarrow> int" where
  "decimal_down 0 r n = n"
| "decimal_down (Suc fuel) r n =
     (if r < pow10 (n - 1) then decimal_down fuel r (n - 1) else n)"

definition decimal_exponent :: "rat \<Rightarrow> int" where
  "decimal_exponent r =
     (if 1 \<le> r then decimal_up 400 r 1 else decimal_down 400 r 0)"

text \<open>
  The shortest digits that read back as the number: for \<open>k\<close> digits, the nearer of the two
  neighbours that does.
\<close>

definition digits_fit :: "rat \<Rightarrow> int \<Rightarrow> nat \<Rightarrow> int option" where
  "digits_fit r n k =
     (let scale = pow10 (n - int k);
          lo = \<lfloor>r / scale\<rfloor>;
          fits = (\<lambda>s. round64 (of_int s * scale) = Fin r);
          near = (if 2 * (r / scale - of_int lo) \<le> 1 then [lo, lo + 1] else [lo + 1, lo])
      in find fits near)"

fun shortest_from :: "nat \<Rightarrow> rat \<Rightarrow> int \<Rightarrow> nat \<Rightarrow> int \<times> nat" where
  "shortest_from 0 r n k = (round_half_even (r / pow10 (n - int k)), k)"
| "shortest_from (Suc fuel) r n k =
     (case digits_fit r n k of Some s \<Rightarrow> (s, k) | None \<Rightarrow> shortest_from fuel r n (Suc k))"

text \<open>
  \<open>Number::toString\<close> of a positive number from its digits and its exponent \<open>n\<close>.  An integer below
  \<open>2 ^ 53\<close> is written in full.
\<close>

definition layout_digits :: "string \<Rightarrow> int \<Rightarrow> string" where
  "layout_digits ds n =
     (let k = int (length ds) in
      if k \<le> n \<and> n \<le> 21 then ds @ replicate (nat (n - k)) (CHR ''0'')
      else if 0 < n \<and> n \<le> 21 then take (nat n) ds @ ''.'' @ drop (nat n) ds
      else if - 6 < n \<and> n \<le> 0 then ''0.'' @ replicate (nat (- n)) (CHR ''0'') @ ds
      else let e = n - 1;
               sign = (if e < 0 then ''-'' else ''+'');
               m = (case ds of [] \<Rightarrow> [] | d # rest \<Rightarrow> if rest = [] then [d] else d # CHR ''.'' # rest)
           in m @ ''e'' @ sign @ nat_to_string (nat \<bar>e\<bar>))"

definition positive_text :: "rat \<Rightarrow> string" where
  "positive_text r =
     (if r = of_int \<lfloor>r\<rfloor> \<and> r < 2 ^ 53 then nat_to_string (nat \<lfloor>r\<rfloor>)
      else let n = decimal_exponent r;
               (s, k) = shortest_from 16 r n 1;
               ds = nat_to_string (nat s)
           in if length ds \<le> k then layout_digits ds n else layout_digits (take k ds) (n + 1))"

fun number_text :: "double \<Rightarrow> string" where
  "number_text NaN = ''NaN''"
| "number_text PInf = ''Infinity''"
| "number_text NInf = ''-Infinity''"
| "number_text (Fin r) =
     (if r = 0 then ''0'' else if r < 0 then ''-'' @ positive_text (- r) else positive_text r)"

lemma digit_chars [js_simps]:
  "digit_char 0 = CHR ''0''" "digit_char 1 = CHR ''1''" "digit_char (Suc 0) = CHR ''1''"
  "digit_char 2 = CHR ''2''"
  "digit_char 3 = CHR ''3''" "digit_char 4 = CHR ''4''" "digit_char 5 = CHR ''5''"
  "digit_char 6 = CHR ''6''" "digit_char 7 = CHR ''7''" "digit_char 8 = CHR ''8''"
  "digit_char 9 = CHR ''9''"
  by code_simp+

lemma number_text_nat:
  assumes "n < 2 ^ 53"
  shows "number_text (Fin (of_nat n)) = nat_to_string n"
proof -
  have "(of_nat n :: rat) < 2 ^ 53"
    using assms of_nat_less_iff [of n "2 ^ 53", where 'a = rat] by simp
  then show ?thesis
    by (cases "n = 0") (simp_all add: positive_text_def nat_to_string.simps digit_chars)
qed

declare number_text.simps(4) [simp del]

lemma number_text_zero [simp]: "number_text (Fin 0) = ''0''"
  by (simp add: number_text.simps(4))

lemma number_text_numeral [js_simps]:
  "(numeral w :: nat) < 2 ^ 53 \<Longrightarrow> number_text (Fin (numeral w)) = nat_to_string (numeral w)"
  using number_text_nat [of "numeral w"] by simp

section \<open>Conversion to text\<close>

definition join :: "string \<Rightarrow> string list \<Rightarrow> string" where
  "join sep xs = (case xs of [] \<Rightarrow> [] | y # ys \<Rightarrow> y @ concat (map (\<lambda>z. sep @ z) ys))"

text \<open>\<open>Array.prototype.join\<close> writes \<open>null\<close> and \<open>undefined\<close> elements as nothing.\<close>

fun js_text :: "js \<Rightarrow> string" where
  "js_text Undef = ''undefined''"
| "js_text Null = ''null''"
| "js_text (Bool b) = (if b then ''true'' else ''false'')"
| "js_text (Num d) = number_text d"
| "js_text (Str s) = s"
| "js_text (Arr vs) =
     join '','' (map (\<lambda>v. if v = Undef \<or> v = Null then [] else js_text v) vs)"
| "js_text (Obj fs) = ''[object Object]''"
| "js_text (Closure f) = f"

section \<open>Texts as numbers\<close>

text \<open>The characters \<open>\\s\<close> and \<open>trim()\<close> take as blank.\<close>

definition is_blank :: "char \<Rightarrow> bool" where
  "is_blank c \<longleftrightarrow> (let n = (of_char c :: nat) in 9 \<le> n \<and> n \<le> 13 \<or> n = 32 \<or> n = 160)"

text \<open>\<open>parseInt(s, 10)\<close> and \<open>parseFloat(s)\<close>: leading blanks, a sign, and the longest prefix that
  reads as a number; NaN when there is none.\<close>

fun span_digits :: "string \<Rightarrow> string \<times> string" where
  "span_digits [] = ([], [])"
| "span_digits (c # cs) =
     (if is_digit c then (case span_digits cs of (ds, rest) \<Rightarrow> (c # ds, rest)) else ([], c # cs))"

definition take_sign :: "string \<Rightarrow> rat \<times> string" where
  "take_sign s =
     (case s of
        c # cs \<Rightarrow> if c = CHR ''-'' then (- 1, cs) else if c = CHR ''+'' then (1, cs) else (1, s)
      | [] \<Rightarrow> (1, []))"

definition digits_rat :: "string \<Rightarrow> rat" where
  "digits_rat ds = of_nat (digits_value ds)"

definition parse_int :: "string \<Rightarrow> double" where
  "parse_int s =
     (let (sg, rest) = take_sign (dropWhile is_blank s);
          (ds, _) = span_digits rest
      in if ds = [] then NaN else round64 (sg * digits_rat ds))"

text \<open>The exponent part is read only when digits follow the \<open>e\<close>.\<close>

definition exponent_part :: "string \<Rightarrow> int" where
  "exponent_part s =
     (case s of
        c # cs \<Rightarrow>
          if c = CHR ''e'' \<or> c = CHR ''E'' then
            (let (sg, rest) = take_sign cs; (ds, _) = span_digits rest
             in if ds = [] then 0 else (if sg < 0 then - int (digits_value ds) else int (digits_value ds)))
          else 0
      | [] \<Rightarrow> 0)"

definition parse_float :: "string \<Rightarrow> double" where
  "parse_float s =
     (let (sg, rest) = take_sign (dropWhile is_blank s);
          (ds, rest1) = span_digits rest;
          (fs, rest2) = (case rest1 of
              c # cs \<Rightarrow> if c = CHR ''.'' then span_digits cs else ([], rest1)
            | [] \<Rightarrow> ([], []))
      in if take 8 rest = ''Infinity'' then (if sg < 0 then NInf else PInf)
         else if ds = [] \<and> fs = [] then NaN
         else round64 (sg * digits_rat (ds @ fs) * pow10 (exponent_part rest2 - int (length fs))))"

text \<open>\<open>Number(v)\<close>: the whole text must read as a number; an empty one is zero.\<close>

definition numeric_text :: "string \<Rightarrow> bool" where
  "numeric_text s \<longleftrightarrow>
     (let (_, u) = take_sign s; (ds, rest) = span_digits u;
          (fs, rest2) = (case rest of
              c # cs \<Rightarrow> if c = CHR ''.'' then span_digits cs else ([], rest)
            | [] \<Rightarrow> ([], []))
      in u = ''Infinity'' \<or>
         ((ds \<noteq> [] \<or> fs \<noteq> []) \<and>
          (case rest2 of
             [] \<Rightarrow> True
           | c # cs \<Rightarrow> (c = CHR ''e'' \<or> c = CHR ''E'') \<and>
               (let (_, v) = take_sign cs in v \<noteq> [] \<and> list_all is_digit v))))"

definition trim_blanks :: "string \<Rightarrow> string" where
  "trim_blanks s = rev (dropWhile is_blank (rev (dropWhile is_blank s)))"

definition text_number :: "string \<Rightarrow> double" where
  "text_number s =
     (let t = trim_blanks s in
      if t = [] then Fin 0 else if numeric_text t then parse_float t else NaN)"

fun js_number :: "js \<Rightarrow> double" where
  "js_number Undef = NaN"
| "js_number Null = Fin 0"
| "js_number (Bool b) = (if b then Fin 1 else Fin 0)"
| "js_number (Num d) = d"
| "js_number v = text_number (js_text v)"

text \<open>\<open>toFixed(d)\<close> below \<open>10 ^ 21\<close>: the nearest multiple of \<open>10 ^ - d\<close>, the larger of two.\<close>

fun to_fixed :: "nat \<Rightarrow> double \<Rightarrow> string" where
  "to_fixed d (Fin r) =
     (if 10 ^ 21 \<le> \<bar>r\<bar> then number_text (Fin r)
      else let n = \<lfloor>\<bar>r\<bar> * 10 ^ d + 1 / 2\<rfloor>;
               ds = nat_to_string (nat n);
               padded = replicate (Suc d - length ds) (CHR ''0'') @ ds;
               split = length padded - d;
               m = (if d = 0 then padded else take split padded @ ''.'' @ drop split padded)
           in if r < 0 then ''-'' @ m else m)"
| "to_fixed d v = number_text v"

end
