(* ===== verification/Js_Style.thy ===== *)
theory Js_Style
  imports Js_Values "HOL-Library.List_Lexorder"
begin

text \<open>
  The style engine of the documentation bundle (redoc.standalone.js, line 8): how a template
  with interpolations becomes rules (\<open>Fi\<close>, \<open>Mi\<close>), how an object becomes declarations, how a
  component turns its rules into text for given properties, and how class names are made from
  hashes (\<open>mi\<close>, \<open>hi\<close>).
\<close>

section \<open>Interpolations and rules\<close>

text \<open>
  Functions supplied from outside are parameters: what they return, the text that flattening
  their results gives, and their source.  So are the generated identifiers of the components
  and of the keyframes, and \<open>Math.pow\<close>.
\<close>

record host =
  h_invoke :: "string \<Rightarrow> js list \<Rightarrow> js jsr"
  h_style :: "string \<Rightarrow> js \<Rightarrow> string jsr"
  h_source :: "string \<Rightarrow> string"
  h_class :: "string \<Rightarrow> string"
  h_frames :: "string \<Rightarrow> string"
  h_pow :: "double \<Rightarrow> double \<Rightarrow> double"

datatype chunk =
    Js js
  | Styled_ref string
  | Keyframes_ref string
  | Chunks "chunk list"
  | Style_fun "host \<Rightarrow> js \<Rightarrow> js_error + chunk"

text \<open>What \<open>Mi\<close> returns without an execution context: functions and keyframes wait for one.\<close>

datatype rule =
    Piece string
  | Later_host string
  | Later_ref string
  | Later_frames string
  | Later "host \<Rightarrow> js \<Rightarrow> js_error + chunk"

abbreviation lit :: "string \<Rightarrow> chunk" where
  "lit s \<equiv> Js (Str s)"

text \<open>\<open>Li\<close>: the values that leave no trace.\<close>

fun falsish :: "js \<Rightarrow> bool" where
  "falsish Undef = True"
| "falsish Null = True"
| "falsish (Bool b) = (\<not> b)"
| "falsish (Str s) = (s = [])"
| "falsish _ = False"

section \<open>Objects as declarations\<close>

text \<open>\<open>Di\<close>: camel case to hyphens, with the vendor prefix \<open>ms\<close> repaired.\<close>

definition is_upper :: "char \<Rightarrow> bool" where
  "is_upper c \<longleftrightarrow> (let n = (of_char c :: nat) in 65 \<le> n \<and> n \<le> 90)"

definition lower_char :: "char \<Rightarrow> char" where
  "lower_char c = (if is_upper c then char_of ((of_char c :: nat) + 32) else c)"

definition hyphenate :: "string \<Rightarrow> string" where
  "hyphenate s =
     (if list_ex is_upper s then
        (let t = concat (map (\<lambda>c. if is_upper c then [CHR ''-'', lower_char c] else [c]) s)
         in if take 3 t = ''ms-'' then ''-'' @ t else t)
      else s)"

text \<open>\<open>Ao\<close>: the properties whose numbers have no unit.\<close>

definition unitless :: "string list" where
  "unitless =
     [''animationIterationCount'', ''borderImageOutset'', ''borderImageSlice'',
      ''borderImageWidth'', ''boxFlex'', ''boxFlexGroup'', ''boxOrdinalGroup'', ''columnCount'',
      ''columns'', ''flex'', ''flexGrow'', ''flexPositive'', ''flexShrink'', ''flexNegative'',
      ''flexOrder'', ''gridRow'', ''gridRowEnd'', ''gridRowSpan'', ''gridRowStart'',
      ''gridColumn'', ''gridColumnEnd'', ''gridColumnSpan'', ''gridColumnStart'', ''msGridRow'',
      ''msGridRowSpan'', ''msGridColumn'', ''msGridColumnSpan'', ''fontWeight'', ''lineHeight'',
      ''opacity'', ''order'', ''orphans'', ''tabSize'', ''widows'', ''zIndex'', ''zoom'',
      ''WebkitLineClamp'', ''fillOpacity'', ''floodOpacity'', ''stopOpacity'',
      ''strokeDasharray'', ''strokeDashoffset'', ''strokeMiterlimit'', ''strokeOpacity'',
      ''strokeWidth'']"

fun style_value :: "string \<Rightarrow> js \<Rightarrow> string" where
  "style_value k Undef = []"
| "style_value k Null = []"
| "style_value k (Bool b) = []"
| "style_value k (Num d) =
     (if d = Fin 0 \<or> k \<in> set unitless \<or> k \<in> set object_members
      then number_text d else number_text d @ ''px'')"
| "style_value k v = trim_blanks (js_text v)"

text \<open>An object inside an object is a nested block.\<close>

fun object_rules :: "(string \<times> js) list \<Rightarrow> rule list" and
    member_rules :: "string \<Rightarrow> js \<Rightarrow> rule list" where
  "object_rules [] = []"
| "object_rules ((k, v) # fs) = member_rules k v @ object_rules fs"
| "member_rules k (Obj gs) = Piece (k @ '' {'') # object_rules gs @ [Piece ''}'']"
| "member_rules k (Closure f) = [Piece (hyphenate k @ '':''), Later_host f, Piece '';'']"
| "member_rules k v =
     (if falsish v then [] else [Piece (hyphenate k @ '': '' @ style_value k v @ '';'')])"

section \<open>Flattening\<close>

text \<open>\<open>Mi\<close> without an execution context.\<close>

fun prepare_js :: "js \<Rightarrow> rule list" where
  "prepare_js (Obj fs) = object_rules fs"
| "prepare_js (Arr vs) = concat (map prepare_js vs)"
| "prepare_js (Closure f) = [Later_host f]"
| "prepare_js v = (if falsish v then [] else [Piece (js_text v)])"

fun prepare :: "chunk \<Rightarrow> rule list" where
  "prepare (Js v) = prepare_js v"
| "prepare (Styled_ref c) = [Later_ref c]"
| "prepare (Keyframes_ref k) = [Later_frames k]"
| "prepare (Chunks cs) = concat (map prepare cs)"
| "prepare (Style_fun f) = [Later f]"

text \<open>
  \<open>Mi\<close> with one.  Inside an object a function is not called: joining the pieces writes its
  source.
\<close>

definition jcat :: "string jsr \<Rightarrow> string jsr \<Rightarrow> string jsr" where
  "jcat a b = jbind a (\<lambda>x. jbind b (\<lambda>y. Inr (x @ y)))"

definition jconcat :: "string jsr list \<Rightarrow> string jsr" where
  "jconcat rs = foldr jcat rs (Inr [])"

fun source_rule :: "host \<Rightarrow> rule \<Rightarrow> string" where
  "source_rule h (Piece s) = s"
| "source_rule h (Later_host f) = h_source h f"
| "source_rule h _ = []"

fun flatten_js :: "host \<Rightarrow> js \<Rightarrow> js \<Rightarrow> string jsr" where
  "flatten_js h p (Obj fs) = Inr (concat (map (source_rule h) (object_rules fs)))"
| "flatten_js h p (Arr vs) = jconcat (map (flatten_js h p) vs)"
| "flatten_js h p (Closure f) = h_style h f p"
| "flatten_js h p v = Inr (if falsish v then [] else js_text v)"

primrec Mi :: "chunk \<Rightarrow> host \<Rightarrow> js \<Rightarrow> string jsr" where
  "Mi (Js v) h p = flatten_js h p v"
| "Mi (Styled_ref c) h p = Inr (''.'' @ h_class h c)"
| "Mi (Keyframes_ref k) h p = Inr (h_frames h k)"
| "Mi (Chunks cs) h p = jconcat (map (\<lambda>f. f h p) (map Mi cs))"
| "Mi (Style_fun f) h p = (case map_sum id Mi (f h p) of Inl e \<Rightarrow> Inl e | Inr g \<Rightarrow> g h p)"

fun as_chunk :: "rule \<Rightarrow> chunk" where
  "as_chunk (Piece s) = lit s"
| "as_chunk (Later_host f) = Js (Closure f)"
| "as_chunk (Later_ref c) = Styled_ref c"
| "as_chunk (Later_frames k) = Keyframes_ref k"
| "as_chunk (Later f) = Style_fun f"

text \<open>\<open>Fi\<close>, the tag \<open>css\<close>: the template interleaved with its interpolations, flattened.\<close>

definition Fi :: "chunk list \<Rightarrow> rule list" where
  "Fi cs = prepare (Chunks cs)"

abbreviation pa :: "chunk list \<Rightarrow> chunk" where
  "pa cs \<equiv> Chunks (map as_chunk (Fi cs))"

text \<open>
  \<open>generateAndInjectStyles\<close>: the text of a component's own rules for its properties; a rule that
  is not a text goes through \<open>Mi\<close> again.
\<close>

fun rule_text :: "host \<Rightarrow> js \<Rightarrow> rule \<Rightarrow> string jsr" where
  "rule_text h p (Piece s) = Inr s"
| "rule_text h p r = Mi (as_chunk r) h p"

definition component_text :: "host \<Rightarrow> js \<Rightarrow> rule list \<Rightarrow> string jsr" where
  "component_text h p rs = jconcat (map (rule_text h p) rs)"

section \<open>Flattening early changes nothing\<close>

lemma jcat_simps [simp]:
  "jcat (Inl e) r = Inl e"
  "jcat (Inr x) (Inr y) = Inr (x @ y)"
  "jcat (Inr []) r = r"
  by (cases r; simp add: jcat_def)+

lemma jcat_assoc: "jcat (jcat a b) c = jcat a (jcat b c)"
  by (cases a; cases b; cases c) (simp_all add: jcat_def)

lemma jcat_Inr_iff: "jcat a b = Inr s \<longleftrightarrow> (\<exists>x y. a = Inr x \<and> b = Inr y \<and> s = x @ y)"
  by (cases a; cases b) (auto simp: jcat_def)

lemma jcat_Nil_right [simp]: "jcat r (Inr []) = r"
  by (cases r) (simp_all add: jcat_def)

lemma jconcat_simps [simp]:
  "jconcat [] = Inr []"
  "jconcat (r # rs) = jcat r (jconcat rs)"
  by (simp_all add: jconcat_def)

lemma jconcat_append [simp]: "jconcat (rs @ ss) = jcat (jconcat rs) (jconcat ss)"
  by (induction rs) (simp_all add: jcat_assoc)

lemma jconcat_concat: "jconcat (concat rss) = jconcat (map jconcat rss)"
  by (induction rss) simp_all

lemma jconcat_Inr: "jconcat (map Inr ss) = Inr (concat ss)"
  by (induction ss) simp_all

lemma Mi_Chunks [simp]: "Mi (Chunks cs) h p = jconcat (map (\<lambda>c. Mi c h p) cs)"
  by (simp add: comp_def)

declare Mi.simps(4) [simp del]

lemma Mi_Style_fun [simp]: "Mi (Style_fun f) h p = jbind (f h p) (\<lambda>c. Mi c h p)"
  by (simp add: jbind_def map_sum_def split: sum.split)

declare Mi.simps(5) [simp del]

text \<open>No function stands as the value of a member of an object.\<close>

fun no_member_functions :: "js \<Rightarrow> bool" where
  "no_member_functions (Obj fs) =
     (\<forall>r \<in> set (object_rules fs). case r of Later_host _ \<Rightarrow> False | _ \<Rightarrow> True)"
| "no_member_functions (Arr vs) = list_all no_member_functions vs"
| "no_member_functions _ = True"

primrec literal_chunk :: "chunk \<Rightarrow> bool" where
  "literal_chunk (Js v) = no_member_functions v"
| "literal_chunk (Styled_ref c) = True"
| "literal_chunk (Keyframes_ref k) = True"
| "literal_chunk (Chunks cs) = list_all id (map literal_chunk cs)"
| "literal_chunk (Style_fun f) = True"

lemma object_rules_pieces:
  "\<forall>r \<in> set (object_rules fs). (\<exists>s. r = Piece s) \<or> (\<exists>f. r = Later_host f)"
  "\<forall>r \<in> set (member_rules k v). (\<exists>s. r = Piece s) \<or> (\<exists>f. r = Later_host f)"
  by (induction fs and k v rule: object_rules_member_rules.induct) auto

lemma rule_text_as_chunk: "rule_text h p r = Mi (as_chunk r) h p"
  by (cases r) simp_all

lemma source_rule_text:
  assumes "\<forall>r \<in> set rs. \<exists>s. r = Piece s"
  shows "jconcat (map (rule_text h p) rs) = Inr (concat (map (source_rule h) rs))"
  using assms by (induction rs) auto

lemma prepare_js_text:
  "no_member_functions v \<Longrightarrow>
     jconcat (map (rule_text h p) (prepare_js v)) = flatten_js h p v"
proof (induction v rule: prepare_js.induct)
  case (1 fs)
  then have "\<forall>r \<in> set (object_rules fs). \<exists>s. r = Piece s"
    using object_rules_pieces(1) [of fs] by (auto split: rule.splits)
  then show ?case by (simp add: source_rule_text)
next
  case (2 vs)
  then have "\<And>v. v \<in> set vs \<Longrightarrow>
      jconcat (map (rule_text h p) (prepare_js v)) = flatten_js h p v"
    by (simp add: list_all_iff)
  then have "map (\<lambda>v. jconcat (map (rule_text h p) (prepare_js v))) vs = map (flatten_js h p) vs"
    by simp
  then show ?case by (simp add: map_concat jconcat_concat comp_def cong: map_cong)
qed auto

lemma prepare_text:
  "literal_chunk c \<Longrightarrow> jconcat (map (rule_text h p) (prepare c)) = Mi c h p"
proof (induction c)
  case (Chunks cs)
  then have "map (\<lambda>c. jconcat (map (rule_text h p) (prepare c))) cs = map (\<lambda>c. Mi c h p) cs"
    by (simp add: list_all_iff)
  then show ?case by (simp add: map_concat jconcat_concat comp_def cong: map_cong)
qed (simp_all add: prepare_js_text)

lemma component_text_Fi:
  "list_all literal_chunk cs \<Longrightarrow> component_text h p (Fi cs) = Mi (Chunks cs) h p"
  using prepare_text [of "Chunks cs" h p] by (simp add: component_text_def Fi_def list_all_iff)

lemma Mi_pa: "list_all literal_chunk cs \<Longrightarrow> Mi (pa cs) h p = Mi (Chunks cs) h p"
  using component_text_Fi [of cs h p]
  by (simp add: component_text_def rule_text_as_chunk [abs_def] comp_def)

lemma literal_as_chunk [simp]: "literal_chunk (as_chunk r)"
  by (cases r) simp_all

lemma literal_rules [simp]: "list_all id (map (literal_chunk \<circ> as_chunk) rs)"
  by (simp add: list_all_iff)

end
