(* ===== verification/Polished.thy ===== *)
theory Polished
  imports Js_Style
begin

text \<open>
  The colour library of the documentation bundle (redoc.standalone.js, line 8): reading a colour
  (\<open>yr\<close>, \<open>vr\<close>), writing one (\<open>Er\<close>, \<open>Sr\<close>, \<open>Or\<close>, \<open>sr\<close>) and the operations on colours that the
  theme and the style sheets use.  \<open>Math.pow\<close> is a parameter of the luminance.
\<close>

section \<open>Colours\<close>

record rgb =
  red :: double
  green :: double
  blue :: double
  alpha :: "double option"

record hsl =
  hue :: double
  saturation :: double
  lightness :: double
  hsl_alpha :: "double option"

definition dec :: "int \<Rightarrow> nat \<Rightarrow> double" where
  "dec m k = round64 (of_int m / 10 ^ k)"

abbreviation dnat :: "nat \<Rightarrow> double" where
  "dnat n \<equiv> Fin (of_nat n)"

fun math_round :: "double \<Rightarrow> double" where
  "math_round (Fin r) = Fin (of_int \<lfloor>r + 1 / 2\<rfloor>)"
| "math_round d = d"

fun dabs :: "double \<Rightarrow> double" where
  "dabs (Fin r) = Fin \<bar>r\<bar>"
| "dabs NaN = NaN"
| "dabs _ = PInf"

definition dmax :: "double \<Rightarrow> double \<Rightarrow> double" where
  "dmax x y = (if x = NaN \<or> y = NaN then NaN else if dle x y then y else x)"

definition dmin :: "double \<Rightarrow> double \<Rightarrow> double" where
  "dmin x y = (if x = NaN \<or> y = NaN then NaN else if dle x y then x else y)"

text \<open>The remainder \<open>%\<close>: the sign of the dividend, no rounding.\<close>

fun drem :: "double \<Rightarrow> double \<Rightarrow> double" where
  "drem (Fin a) (Fin b) =
     (if b = 0 then NaN
      else let q = a / b; t = (if q < 0 then \<lceil>q\<rceil> else \<lfloor>q\<rfloor>) in Fin (a - b * of_int t))"
| "drem (Fin a) PInf = Fin a"
| "drem (Fin a) NInf = Fin a"
| "drem _ _ = NaN"

text \<open>\<open>$r\<close>\<close>

definition clamp :: "double \<Rightarrow> double \<Rightarrow> double \<Rightarrow> double" where
  "clamp lo hi v = dmax lo (dmin hi v)"

text \<open>\<open>lr\<close>\<close>

definition named_colours :: "(string \<times> string) list" where
  "named_colours =
    [(''aliceblue'', ''f0f8ff''), (''antiquewhite'', ''faebd7''), (''aqua'', ''00ffff''),
    (''aquamarine'', ''7fffd4''), (''azure'', ''f0ffff''), (''beige'', ''f5f5dc''),
    (''bisque'', ''ffe4c4''), (''black'', ''000''), (''blanchedalmond'', ''ffebcd''),
    (''blue'', ''0000ff''), (''blueviolet'', ''8a2be2''), (''brown'', ''a52a2a''),
    (''burlywood'', ''deb887''), (''cadetblue'', ''5f9ea0''), (''chartreuse'', ''7fff00''),
    (''chocolate'', ''d2691e''), (''coral'', ''ff7f50''), (''cornflowerblue'', ''6495ed''),
    (''cornsilk'', ''fff8dc''), (''crimson'', ''dc143c''), (''cyan'', ''00ffff''),
    (''darkblue'', ''00008b''), (''darkcyan'', ''008b8b''), (''darkgoldenrod'', ''b8860b''),
    (''darkgray'', ''a9a9a9''), (''darkgreen'', ''006400''), (''darkgrey'', ''a9a9a9''),
    (''darkkhaki'', ''bdb76b''), (''darkmagenta'', ''8b008b''),
    (''darkolivegreen'', ''556b2f''), (''darkorange'', ''ff8c00''),
    (''darkorchid'', ''9932cc''), (''darkred'', ''8b0000''), (''darksalmon'', ''e9967a''),
    (''darkseagreen'', ''8fbc8f''), (''darkslateblue'', ''483d8b''),
    (''darkslategray'', ''2f4f4f''), (''darkslategrey'', ''2f4f4f''),
    (''darkturquoise'', ''00ced1''), (''darkviolet'', ''9400d3''), (''deeppink'', ''ff1493''),
    (''deepskyblue'', ''00bfff''), (''dimgray'', ''696969''), (''dimgrey'', ''696969''),
    (''dodgerblue'', ''1e90ff''), (''firebrick'', ''b22222''), (''floralwhite'', ''fffaf0''),
    (''forestgreen'', ''228b22''), (''fuchsia'', ''ff00ff''), (''gainsboro'', ''dcdcdc''),
    (''ghostwhite'', ''f8f8ff''), (''gold'', ''ffd700''), (''goldenrod'', ''daa520''),
    (''gray'', ''808080''), (''green'', ''008000''), (''greenyellow'', ''adff2f''),
    (''grey'', ''808080''), (''honeydew'', ''f0fff0''), (''hotpink'', ''ff69b4''),
    (''indianred'', ''cd5c5c''), (''indigo'', ''4b0082''), (''ivory'', ''fffff0''),
    (''khaki'', ''f0e68c''), (''lavender'', ''e6e6fa''), (''lavenderblush'', ''fff0f5''),
    (''lawngreen'', ''7cfc00''), (''lemonchiffon'', ''fffacd''), (''lightblue'', ''add8e6''),
    (''lightcoral'', ''f08080''), (''lightcyan'', ''e0ffff''),
    (''lightgoldenrodyellow'', ''fafad2''), (''lightgray'', ''d3d3d3''),
    (''lightgreen'', ''90ee90''), (''lightgrey'', ''d3d3d3''), (''lightpink'', ''ffb6c1''),
    (''lightsalmon'', ''ffa07a''), (''lightseagreen'', ''20b2aa''),
    (''lightskyblue'', ''87cefa''), (''lightslategray'', ''789''),
    (''lightslategrey'', ''789''), (''lightsteelblue'', ''b0c4de''),
    (''lightyellow'', ''ffffe0''), (''lime'', ''0f0''), (''limegreen'', ''32cd32''),
    (''linen'', ''faf0e6''), (''magenta'', ''f0f''), (''maroon'', ''800000''),
    (''mediumaquamarine'', ''66cdaa''), (''mediumblue'', ''0000cd''),
    (''mediumorchid'', ''ba55d3''), (''mediumpurple'', ''9370db''),
    (''mediumseagreen'', ''3cb371''), (''mediumslateblue'', ''7b68ee''),
    (''mediumspringgreen'', ''00fa9a''), (''mediumturquoise'', ''48d1cc''),
    (''mediumvioletred'', ''c71585''), (''midnightblue'', ''191970''),
    (''mintcream'', ''f5fffa''), (''mistyrose'', ''ffe4e1''), (''moccasin'', ''ffe4b5''),
    (''navajowhite'', ''ffdead''), (''navy'', ''000080''), (''oldlace'', ''fdf5e6''),
    (''olive'', ''808000''), (''olivedrab'', ''6b8e23''), (''orange'', ''ffa500''),
    (''orangered'', ''ff4500''), (''orchid'', ''da70d6''), (''palegoldenrod'', ''eee8aa''),
    (''palegreen'', ''98fb98''), (''paleturquoise'', ''afeeee''),
    (''palevioletred'', ''db7093''), (''papayawhip'', ''ffefd5''), (''peachpuff'', ''ffdab9''),
    (''peru'', ''cd853f''), (''pink'', ''ffc0cb''), (''plum'', ''dda0dd''),
    (''powderblue'', ''b0e0e6''), (''purple'', ''800080''), (''rebeccapurple'', ''639''),
    (''red'', ''f00''), (''rosybrown'', ''bc8f8f''), (''royalblue'', ''4169e1''),
    (''saddlebrown'', ''8b4513''), (''salmon'', ''fa8072''), (''sandybrown'', ''f4a460''),
    (''seagreen'', ''2e8b57''), (''seashell'', ''fff5ee''), (''sienna'', ''a0522d''),
    (''silver'', ''c0c0c0''), (''skyblue'', ''87ceeb''), (''slateblue'', ''6a5acd''),
    (''slategray'', ''708090''), (''slategrey'', ''708090''), (''snow'', ''fffafa''),
    (''springgreen'', ''00ff7f''), (''steelblue'', ''4682b4''), (''tan'', ''d2b48c''),
    (''teal'', ''008080''), (''thistle'', ''d8bfd8''), (''tomato'', ''ff6347''),
    (''turquoise'', ''40e0d0''), (''violet'', ''ee82ee''), (''wheat'', ''f5deb3''),
    (''white'', ''fff''), (''whitesmoke'', ''f5f5f5''), (''yellow'', ''ff0''),
    (''yellowgreen'', ''9acd32'')]"

section \<open>Writing colours\<close>

definition hex_digit :: "nat \<Rightarrow> char" where
  "hex_digit d = ''0123456789abcdef'' ! d"

fun hex_nat :: "nat \<Rightarrow> string" where
  "hex_nat n = (if n < 16 then [hex_digit n] else hex_nat (n div 16) @ [hex_digit (n mod 16)])"

declare hex_nat.simps [simp del]

text \<open>\<open>toString(16)\<close> of an integer.\<close>

fun hex_text :: "double \<Rightarrow> string" where
  "hex_text (Fin r) =
     (if r < 0 then ''-'' @ hex_nat (nat \<lfloor>- r\<rfloor>) else hex_nat (nat \<lfloor>r\<rfloor>))"
| "hex_text d = number_text d"

definition wr :: "double \<Rightarrow> string" where
  "wr d = (let t = hex_text d in if length t = 1 then ''0'' @ t else t)"

definition ir :: "double \<Rightarrow> double" where
  "ir e = math_round (dmul (dnat 255) e)"

definition xr :: "double \<Rightarrow> string" where
  "xr e = wr (ir e)"

text \<open>\<open>br\<close>: six digits that come in pairs are written as three.\<close>

definition br :: "string \<Rightarrow> string" where
  "br e =
     (if length e = 7 \<and> e ! 1 = e ! 2 \<and> e ! 3 = e ! 4 \<and> e ! 5 = e ! 6
      then [CHR ''#'', e ! 1, e ! 3, e ! 5] else e)"

definition kr :: "double \<Rightarrow> double \<Rightarrow> double \<Rightarrow> string" where
  "kr e t n = br (''#'' @ xr e @ xr t @ xr n)"

definition ar :: "double \<Rightarrow> double \<Rightarrow> double \<Rightarrow> string" where
  "ar e t n =
     number_text (ir e) @ '','' @ number_text (ir t) @ '','' @ number_text (ir n)"

text \<open>\<open>sr\<close>: hue, saturation and lightness to three channels, given to a writer.\<close>

definition sr ::
    "double \<Rightarrow> double \<Rightarrow> double \<Rightarrow> (double \<Rightarrow> double \<Rightarrow> double \<Rightarrow> string) \<Rightarrow> string" where
  "sr e t n r =
     (if deq (Fin 0) t then r n n n
      else
        let o' = ddiv (drem (dadd (drem e (dnat 360)) (dnat 360)) (dnat 360)) (dnat 60);
            i = dmul (dsub (dnat 1) (dabs (dsub (dmul (dnat 2) n) (dnat 1)))) t;
            a = dmul i (dsub (dnat 1) (dabs (dsub (drem o' (dnat 2)) (dnat 1))));
            sector = (\<lambda>k. dle (dnat k) o' \<and> dlt o' (dnat (k + 1)));
            (s, l, c) =
              (if sector 0 then (i, a, Fin 0) else if sector 1 then (a, i, Fin 0)
               else if sector 2 then (Fin 0, i, a) else if sector 3 then (Fin 0, a, i)
               else if sector 4 then (a, Fin 0, i) else if sector 5 then (i, Fin 0, a)
               else (Fin 0, Fin 0, Fin 0));
            u = dsub n (ddiv i (dnat 2))
        in r (dadd s u) (dadd l u) (dadd c u))"

definition Or :: "rgb \<Rightarrow> string" where
  "Or c = br (''#'' @ wr (red c) @ wr (green c) @ wr (blue c))"

definition rgba_text :: "string \<Rightarrow> double \<Rightarrow> string" where
  "rgba_text channels a = ''rgba('' @ channels @ '','' @ number_text a @ '')''"

text \<open>\<open>Sr\<close> of an object with an alpha.\<close>

definition Sr :: "rgb \<Rightarrow> double \<Rightarrow> string" where
  "Sr c a =
     (if dle (dnat 1) a then Or c
      else rgba_text (number_text (red c) @ '','' @ number_text (green c) @ '','' @
             number_text (blue c)) a)"

text \<open>\<open>Er\<close> of a colour in hue, saturation and lightness.\<close>

definition Er :: "hsl \<Rightarrow> string" where
  "Er c =
     (let hex = sr (hue c) (saturation c) (lightness c) kr in
      case hsl_alpha c of
        Some a \<Rightarrow>
          if dle (dnat 1) a then hex
          else rgba_text (sr (hue c) (saturation c) (lightness c) ar) a
      | None \<Rightarrow> hex)"

section \<open>Reading colours\<close>

definition hex_value :: "char \<Rightarrow> nat option" where
  "hex_value c =
     (let n = of_char c in
      if 48 \<le> n \<and> n \<le> 57 then Some (n - 48)
      else if 97 \<le> n \<and> n \<le> 102 then Some (n - 87)
      else if 65 \<le> n \<and> n \<le> 70 then Some (n - 55) else None)"

definition hex_pair :: "nat \<Rightarrow> nat \<Rightarrow> double" where
  "hex_pair a b = dnat (16 * a + b)"

text \<open>The alpha of a colour with eight or four digits: two decimals.\<close>

definition hex_alpha :: "nat \<Rightarrow> nat \<Rightarrow> double" where
  "hex_alpha a b = parse_float (to_fixed 2 (ddiv (hex_pair a b) (dnat 255)))"

fun hex_values :: "string \<Rightarrow> nat list option" where
  "hex_values [] = Some []"
| "hex_values (c # cs) =
     (case (hex_value c, hex_values cs) of (Some d, Some ds) \<Rightarrow> Some (d # ds) | _ \<Rightarrow> None)"

text \<open>\<open>cr\<close>, \<open>ur\<close>, \<open>pr\<close>, \<open>dr\<close>: \<open>#\<close> and six, eight, three or four hexadecimal digits.\<close>

definition hex_colour :: "string \<Rightarrow> rgb option" where
  "hex_colour t =
     (case t of
        c # ds \<Rightarrow>
          if c \<noteq> CHR ''#'' then None
          else (case hex_values ds of
              Some [a, b, c, d, e, f] \<Rightarrow>
                Some \<lparr>red = hex_pair a b, green = hex_pair c d, blue = hex_pair e f, alpha = None\<rparr>
            | Some [a, b, c, d, e, f, g, h] \<Rightarrow>
                Some \<lparr>red = hex_pair a b, green = hex_pair c d, blue = hex_pair e f,
                      alpha = Some (hex_alpha g h)\<rparr>
            | Some [a, b, c] \<Rightarrow>
                Some \<lparr>red = hex_pair a a, green = hex_pair b b, blue = hex_pair c c, alpha = None\<rparr>
            | Some [a, b, c, d] \<Rightarrow>
                Some \<lparr>red = hex_pair a a, green = hex_pair b b, blue = hex_pair c c,
                      alpha = Some (hex_alpha d d)\<rparr>
            | _ \<Rightarrow> None)
      | [] \<Rightarrow> None)"

text \<open>
  \<open>fr\<close>, \<open>hr\<close>, \<open>mr\<close>, \<open>gr\<close>: a name, and between parentheses fields with blanks around them,
  separated by commas.
\<close>

fun split_fields :: "string \<Rightarrow> string list" where
  "split_fields [] = [[]]"
| "split_fields (c # cs) =
     (if c = CHR '','' then [] # split_fields cs
      else case split_fields cs of f # fs \<Rightarrow> (c # f) # fs | [] \<Rightarrow> [[c]])"

text \<open>The names are matched in either case.\<close>

definition lower :: "string \<Rightarrow> string" where
  "lower s = map lower_char s"

definition call_fields :: "string \<Rightarrow> string \<Rightarrow> string list option" where
  "call_fields name t =
     (let k = length name + 1 in
      if lower (take k t) = name @ ''('' \<and> k < length t \<and> last t = CHR '')''
      then Some (map trim_blanks (split_fields (butlast (drop k t)))) else None)"

definition all_digits :: "string \<Rightarrow> bool" where
  "all_digits s \<longleftrightarrow> list_all is_digit s"

definition channel_field :: "string \<Rightarrow> bool" where
  "channel_field f \<longleftrightarrow> all_digits f \<and> 1 \<le> length f \<and> length f \<le> 3"

definition hue_field :: "string \<Rightarrow> bool" where
  "hue_field f \<longleftrightarrow>
     (let (ds, rest) = span_digits f in
      if rest = [] then ds \<noteq> []
      else hd rest = CHR ''.'' \<and> length ds \<le> 3 \<and> all_digits (tl rest) \<and> tl rest \<noteq> [])"

definition percent_field :: "string \<Rightarrow> bool" where
  "percent_field f \<longleftrightarrow>
     f \<noteq> [] \<and> last f = CHR ''%'' \<and>
     (let (ds, rest) = span_digits (butlast f) in
      if rest = [] then 1 \<le> length ds \<and> length ds \<le> 4
      else hd rest = CHR ''.'' \<and> 1 \<le> length ds \<and> length ds \<le> 3 \<and>
           all_digits (tl rest) \<and> length (tl rest) \<le> 1)"

definition alpha_field :: "string \<Rightarrow> bool" where
  "alpha_field f \<longleftrightarrow>
     (let (_, u) = take_sign f; (ds, rest) = span_digits u in
      if rest = [] then ds \<noteq> []
      else hd rest = CHR ''.'' \<and> all_digits (tl rest) \<and> tl rest \<noteq> [])"

definition rgb_fields :: "string \<Rightarrow> rgb option" where
  "rgb_fields t =
     (case call_fields ''rgb'' t of
        Some [r, g, b] \<Rightarrow>
          if channel_field r \<and> channel_field g \<and> channel_field b
          then Some \<lparr>red = parse_int r, green = parse_int g, blue = parse_int b, alpha = None\<rparr>
          else None
      | _ \<Rightarrow> None)"

definition rgba_fields :: "string \<Rightarrow> rgb option" where
  "rgba_fields t =
     (case call_fields ''rgba'' t of
        Some [r, g, b, a] \<Rightarrow>
          if channel_field r \<and> channel_field g \<and> channel_field b \<and> alpha_field a
          then Some \<lparr>red = parse_int r, green = parse_int g, blue = parse_int b,
                     alpha = Some (parse_float a)\<rparr>
          else None
      | _ \<Rightarrow> None)"

definition hsl_channels :: "string \<Rightarrow> string \<Rightarrow> string \<Rightarrow> string" where
  "hsl_channels h s l =
     ''rgb('' @ sr (parse_int h) (ddiv (parse_int s) (dnat 100)) (ddiv (parse_int l) (dnat 100)) ar
       @ '')''"

text \<open>\<open>yr\<close>\<close>

definition read_hsl :: "string \<Rightarrow> (string \<times> string option) option" where
  "read_hsl t =
     (case call_fields ''hsl'' t of
        Some [h, s, l] \<Rightarrow>
          if hue_field h \<and> percent_field s \<and> percent_field l
          then Some (hsl_channels h s l, None) else None
      | _ \<Rightarrow>
        (case call_fields ''hsla'' (take 50 t) of
           Some [h, s, l, a] \<Rightarrow>
             if hue_field h \<and> percent_field s \<and> percent_field l \<and> alpha_field a
             then Some (hsl_channels h s l, Some a) else None
         | _ \<Rightarrow> None))"

definition resolve_name :: "string \<Rightarrow> string" where
  "resolve_name e =
     (let t = lower e in
      case map_of named_colours t of Some c \<Rightarrow> ''#'' @ c
      | None \<Rightarrow> e)"

definition yr :: "js \<Rightarrow> rgb jsr" where
  "yr v =
     (case v of
        Str e \<Rightarrow>
          (let t = resolve_name e in
           case hex_colour t of
             Some c \<Rightarrow> Inr c
           | None \<Rightarrow>
             (case rgb_fields t of
                Some c \<Rightarrow> Inr c
              | None \<Rightarrow>
                (case rgba_fields (take 50 t) of
                   Some c \<Rightarrow> Inr c
                 | None \<Rightarrow>
                   (case read_hsl t of
                      Some (u, a) \<Rightarrow>
                        (case rgb_fields u of
                           Some c \<Rightarrow> Inr (c\<lparr>alpha := map_option parse_float a\<rparr>)
                         | None \<Rightarrow> Inl (Polished 4))
                    | None \<Rightarrow> Inl (Polished 5)))))
      | _ \<Rightarrow> Inl (Polished 3))"

text \<open>\<open>vr\<close>\<close>

definition rgb_to_hsl :: "rgb \<Rightarrow> hsl" where
  "rgb_to_hsl e =
     (let n = ddiv (red e) (dnat 255);
          r = ddiv (green e) (dnat 255);
          o' = ddiv (blue e) (dnat 255);
          i = dmax n (dmax r o');
          a = dmin n (dmin r o');
          s = ddiv (dadd i a) (dnat 2)
      in if deq i a then \<lparr>hue = Fin 0, saturation = Fin 0, lightness = s, hsl_alpha = alpha e\<rparr>
         else
           let l = dsub i a;
               c = (if dlt (dec 5 1) s then ddiv l (dsub (dsub (dnat 2) i) a) else ddiv l (dadd i a));
               t = (if deq i n then dadd (ddiv (dsub r o') l) (if dlt r o' then dnat 6 else Fin 0)
                    else if deq i r then dadd (ddiv (dsub o' n) l) (dnat 2)
                    else dadd (ddiv (dsub n r) l) (dnat 4))
           in \<lparr>hue = dmul t (dnat 60), saturation = c, lightness = s, hsl_alpha = alpha e\<rparr>)"

definition vr :: "js \<Rightarrow> hsl jsr" where
  "vr v = jmap rgb_to_hsl (yr v)"

section \<open>Operations\<close>

text \<open>\<open>parseFloat\<close> of an amount goes through its text.\<close>

definition amount :: "js \<Rightarrow> double" where
  "amount e = parse_float (js_text e)"

definition unless_transparent :: "js \<Rightarrow> js jsr \<Rightarrow> js jsr" where
  "unless_transparent t r = (if t = Str ''transparent'' then Inr t else r)"

text \<open>\<open>Rr\<close>, darken\<close>

definition Rr :: "js \<Rightarrow> js \<Rightarrow> js jsr" where
  "Rr e t = unless_transparent t
     (jmap (\<lambda>n. Str (Er (n\<lparr>lightness := clamp (Fin 0) (Fin 1) (dsub (lightness n) (amount e))\<rparr>)))
        (vr t))"

text \<open>\<open>Dr\<close>, lighten\<close>

definition Dr :: "js \<Rightarrow> js \<Rightarrow> js jsr" where
  "Dr e t = unless_transparent t
     (jmap (\<lambda>n. Str (Er (n\<lparr>lightness := clamp (Fin 0) (Fin 1) (dadd (lightness n) (amount e))\<rparr>)))
        (vr t))"

text \<open>\<open>Tr\<close>, desaturate\<close>

definition Tr :: "js \<Rightarrow> js \<Rightarrow> js jsr" where
  "Tr e t = unless_transparent t
     (jmap (\<lambda>n. Str (Er (n\<lparr>saturation := clamp (Fin 0) (Fin 1) (dsub (saturation n) (amount e))\<rparr>)))
        (vr t))"

text \<open>\<open>Ur\<close>, transparentize\<close>

definition faded :: "js \<Rightarrow> double option \<Rightarrow> double" where
  "faded e a =
     clamp (Fin 0) (Fin 1)
       (ddiv (parse_float (to_fixed 2
          (dsub (dmul (dnat 100) (case a of Some v \<Rightarrow> v | None \<Rightarrow> dnat 1))
                (dmul (dnat 100) (amount e)))))
        (dnat 100))"

definition Ur :: "js \<Rightarrow> js \<Rightarrow> js jsr" where
  "Ur e t = unless_transparent t (jmap (\<lambda>n. Str (Sr n (faded e (alpha n)))) (yr t))"

text \<open>\<open>Ir\<close>, luminance\<close>

definition linear_channel :: "(double \<Rightarrow> double \<Rightarrow> double) \<Rightarrow> double \<Rightarrow> double" where
  "linear_channel pow v =
     (let n = ddiv v (dnat 255) in
      if dle n (dec 3928 5) then ddiv n (dec 1292 2)
      else pow (ddiv (dadd n (dec 55 3)) (dec 1055 3)) (dec 24 1))"

definition Ir :: "(double \<Rightarrow> double \<Rightarrow> double) \<Rightarrow> js \<Rightarrow> double jsr" where
  "Ir pow e =
     (if e = Str ''transparent'' then Inr (Fin 0)
      else jmap (\<lambda>t. parse_float (to_fixed 3
             (dadd (dadd (dmul (dec 2126 4) (linear_channel pow (red t)))
                         (dmul (dec 7152 4) (linear_channel pow (green t))))
                   (dmul (dec 722 4) (linear_channel pow (blue t))))))
           (yr e))"

text \<open>\<open>Fr\<close>, readable colour, with its default arguments\<close>

definition contrast :: "double \<Rightarrow> double \<Rightarrow> double" where
  "contrast i a =
     parse_float (to_fixed 2
       (if dlt a i then ddiv (dadd i (dec 5 2)) (dadd a (dec 5 2))
        else ddiv (dadd a (dec 5 2)) (dadd i (dec 5 2))))"

definition Fr :: "(double \<Rightarrow> double \<Rightarrow> double) \<Rightarrow> js \<Rightarrow> js jsr" where
  "Fr pow e =
     jbind (Ir pow e) (\<lambda>i.
       let s = dlt (dec 179 3) i; l = Str (if s then ''#000'' else ''#fff'')
       in jbind (Ir pow l) (\<lambda>a.
            if dle (dec 45 1) (contrast i a) then Inr l
            else Inr (Str (if s then ''#000'' else ''#fff''))))"

end
