(* ===== verification/Redoc_Theme.thy ===== *)
theory Redoc_Theme
  imports Polished
begin

text \<open>
  The theme of the documentation page (redoc.standalone.js, line 8): the default theme \<open>Vr\<close>,
  whose entries are values or functions of the theme, the deep merge \<open>Zr\<close> of the user's theme
  over it, and its resolution by memoising getters that give up after a thousand evaluations.
\<close>

section \<open>Themes\<close>

text \<open>
  A theme function reads entries of the theme by their paths and then returns a value or
  throws.
\<close>

datatype tfun = Ret js | Raise js_error | Read "string list" "js \<Rightarrow> tfun"

datatype theme = Leaf js | Node "(string \<times> theme) list" | Fn tfun

definition of_jsr :: "js jsr \<Rightarrow> tfun" where
  "of_jsr r = (case r of Inl e \<Rightarrow> Raise e | Inr v \<Rightarrow> Ret v)"

definition same_as :: "string list \<Rightarrow> theme" where
  "same_as ks = Fn (Read ks Ret)"

definition scaled :: "nat \<Rightarrow> string list \<Rightarrow> theme" where
  "scaled n ks = Fn (Read ks (\<lambda>v. Ret (Num (dmul (dnat n) (js_number v)))))"

text \<open>A colour operation whose amount is a constant, or an entry times a factor.\<close>

definition shaded :: "(js \<Rightarrow> js \<Rightarrow> js jsr) \<Rightarrow> double \<Rightarrow> string list \<Rightarrow> theme" where
  "shaded f e ks = Fn (Read ks (\<lambda>c. of_jsr (f (Num e) c)))"

definition toned :: "(js \<Rightarrow> js \<Rightarrow> js jsr) \<Rightarrow> string list \<Rightarrow> theme" where
  "toned f ks =
     Fn (Read [''colors'', ''tonalOffset''] (\<lambda>e. Read ks (\<lambda>c. of_jsr (f e c))))"

definition toned_twice :: "(js \<Rightarrow> js \<Rightarrow> js jsr) \<Rightarrow> string list \<Rightarrow> theme" where
  "toned_twice f ks =
     Fn (Read [''colors'', ''tonalOffset''] (\<lambda>e. Read ks (\<lambda>c.
       of_jsr (f (Num (dmul (dnat 2) (js_number e))) c))))"

definition readable :: "(double \<Rightarrow> double \<Rightarrow> double) \<Rightarrow> string list \<Rightarrow> theme" where
  "readable pow ks = Fn (Read ks (\<lambda>c. of_jsr (Fr pow c)))"

abbreviation leaf :: "string \<Rightarrow> theme" where
  "leaf s \<equiv> Leaf (Str s)"

section \<open>The default theme\<close>

definition Vr_colors :: "(double \<Rightarrow> double \<Rightarrow> double) \<Rightarrow> theme" where
  "Vr_colors pow = Node [
     (''tonalOffset'', Leaf (Num (dec 2 1))),
     (''primary'', Node [
        (''main'', leaf ''#32329f''),
        (''light'', toned Dr [''colors'', ''primary'', ''main'']),
        (''dark'', toned Rr [''colors'', ''primary'', ''main'']),
        (''contrastText'', readable pow [''colors'', ''primary'', ''main''])]),
     (''success'', Node [
        (''main'', leaf ''#1d8127''),
        (''light'', toned_twice Dr [''colors'', ''success'', ''main'']),
        (''dark'', toned Rr [''colors'', ''success'', ''main'']),
        (''contrastText'', readable pow [''colors'', ''success'', ''main''])]),
     (''warning'', Node [
        (''main'', leaf ''#ffa500''),
        (''light'', toned Dr [''colors'', ''warning'', ''main'']),
        (''dark'', toned Rr [''colors'', ''warning'', ''main'']),
        (''contrastText'', leaf ''#ffffff'')]),
     (''error'', Node [
        (''main'', leaf ''#d41f1c''),
        (''light'', toned Dr [''colors'', ''error'', ''main'']),
        (''dark'', toned Rr [''colors'', ''error'', ''main'']),
        (''contrastText'', readable pow [''colors'', ''error'', ''main''])]),
     (''gray'', Node [(''50'', leaf ''#FAFAFA''), (''100'', leaf ''#F5F5F5'')]),
     (''text'', Node [
        (''primary'', leaf ''#333333''),
        (''secondary'', toned Dr [''colors'', ''text'', ''primary''])]),
     (''border'', Node [(''dark'', leaf ''rgba(0,0,0, 0.1)''), (''light'', leaf ''#ffffff'')]),
     (''responses'', Node [
        (''success'', Node [
           (''color'', same_as [''colors'', ''success'', ''main'']),
           (''backgroundColor'', shaded Ur (dec 93 2) [''colors'', ''success'', ''main'']),
           (''tabTextColor'', same_as [''colors'', ''responses'', ''success'', ''color''])]),
        (''error'', Node [
           (''color'', same_as [''colors'', ''error'', ''main'']),
           (''backgroundColor'', shaded Ur (dec 93 2) [''colors'', ''error'', ''main'']),
           (''tabTextColor'', same_as [''colors'', ''responses'', ''error'', ''color''])]),
        (''redirect'', Node [
           (''color'', same_as [''colors'', ''warning'', ''main'']),
           (''backgroundColor'',
              shaded Ur (dec 9 1) [''colors'', ''responses'', ''redirect'', ''color'']),
           (''tabTextColor'', same_as [''colors'', ''responses'', ''redirect'', ''color''])]),
        (''info'', Node [
           (''color'', leaf ''#87ceeb''),
           (''backgroundColor'',
              shaded Ur (dec 9 1) [''colors'', ''responses'', ''info'', ''color'']),
           (''tabTextColor'', same_as [''colors'', ''responses'', ''info'', ''color''])])]),
     (''http'', Node [
        (''get'', leaf ''#2F8132''), (''post'', leaf ''#186FAF''), (''put'', leaf ''#95507c''),
        (''options'', leaf ''#947014''), (''patch'', leaf ''#bf581d''),
        (''delete'', leaf ''#cc3333''), (''basic'', leaf ''#707070''),
        (''link'', leaf ''#07818F''), (''head'', leaf ''#A23DAD'')])]"

text \<open>\<open>linesColor\<close> lightens what desaturating gives, by the same amount.\<close>

definition Vr_schema :: theme where
  "Vr_schema = Node [
     (''linesColor'',
        Fn (Read [''colors'', ''tonalOffset''] (\<lambda>e.
            Read [''colors'', ''primary'', ''main''] (\<lambda>c.
              of_jsr (jbind (Tr e c) (Dr e)))))),
     (''defaultDetailsWidth'', leaf ''75%''),
     (''typeNameColor'', same_as [''colors'', ''text'', ''secondary'']),
     (''typeTitleColor'', same_as [''schema'', ''typeNameColor'']),
     (''requireLabelColor'', same_as [''colors'', ''error'', ''main'']),
     (''labelsTextSize'', leaf ''0.9em''),
     (''nestingSpacing'', leaf ''1em''),
     (''nestedBackground'', leaf ''#fafafa''),
     (''arrow'', Node [
        (''size'', leaf ''1.1em''),
        (''color'', same_as [''colors'', ''text'', ''secondary''])])]"

definition Vr_typography :: theme where
  "Vr_typography = Node [
     (''fontSize'', leaf ''14px''),
     (''lineHeight'', leaf ''1.5em''),
     (''fontWeightRegular'', leaf ''400''),
     (''fontWeightBold'', leaf ''600''),
     (''fontWeightLight'', leaf ''300''),
     (''fontFamily'', leaf ''Roboto, sans-serif''),
     (''smoothing'', leaf ''antialiased''),
     (''optimizeSpeed'', Leaf (Bool True)),
     (''headings'', Node [
        (''fontFamily'', leaf ''Montserrat, sans-serif''),
        (''fontWeight'', leaf ''400''),
        (''lineHeight'', leaf ''1.6em'')]),
     (''code'', Node [
        (''fontSize'', leaf ''13px''),
        (''fontFamily'', leaf ''Courier, monospace''),
        (''lineHeight'', same_as [''typography'', ''lineHeight'']),
        (''fontWeight'', same_as [''typography'', ''fontWeightRegular'']),
        (''color'', leaf ''#e53935''),
        (''backgroundColor'', leaf ''rgba(38, 50, 56, 0.05)''),
        (''wrap'', Leaf (Bool False))]),
     (''links'', Node [
        (''color'', same_as [''colors'', ''primary'', ''main'']),
        (''visited'', same_as [''typography'', ''links'', ''color'']),
        (''hover'', shaded Dr (dec 2 1) [''typography'', ''links'', ''color'']),
        (''textDecoration'', leaf ''auto''),
        (''hoverTextDecoration'', leaf ''auto'')])]"

definition Vr_sidebar :: theme where
  "Vr_sidebar = Node [
     (''width'', leaf ''260px''),
     (''backgroundColor'', leaf ''#fafafa''),
     (''textColor'', leaf ''#333333''),
     (''activeTextColor'',
        Fn (Read [''sidebar'', ''textColor''] (\<lambda>c.
            if c \<noteq> Str ''#333333'' then Read [''sidebar'', ''textColor''] Ret
            else Read [''colors'', ''primary'', ''main''] Ret))),
     (''groupItems'', Node [
        (''activeBackgroundColor'', shaded Rr (dec 1 1) [''sidebar'', ''backgroundColor'']),
        (''activeTextColor'', same_as [''sidebar'', ''activeTextColor'']),
        (''textTransform'', leaf ''uppercase'')]),
     (''level1Items'', Node [
        (''activeBackgroundColor'', shaded Rr (dec 5 2) [''sidebar'', ''backgroundColor'']),
        (''activeTextColor'', same_as [''sidebar'', ''activeTextColor'']),
        (''textTransform'', leaf ''none'')]),
     (''arrow'', Node [
        (''size'', leaf ''1.5em''),
        (''color'', same_as [''sidebar'', ''textColor''])])]"

definition Vr :: "(double \<Rightarrow> double \<Rightarrow> double) \<Rightarrow> theme" where
  "Vr pow = Node [
     (''spacing'', Node [
        (''unit'', Leaf (Num (dnat 5))),
        (''sectionHorizontal'', scaled 8 [''spacing'', ''unit'']),
        (''sectionVertical'', scaled 8 [''spacing'', ''unit''])]),
     (''breakpoints'', Node [
        (''small'', leaf ''50rem''), (''medium'', leaf ''75rem''), (''large'', leaf ''105rem'')]),
     (''colors'', Vr_colors pow),
     (''schema'', Vr_schema),
     (''typography'', Vr_typography),
     (''sidebar'', Vr_sidebar),
     (''logo'', Node [
        (''maxHeight'', same_as [''sidebar'', ''width'']),
        (''maxWidth'', same_as [''sidebar'', ''width'']),
        (''gutter'', leaf ''2px'')]),
     (''rightPanel'', Node [
        (''backgroundColor'', leaf ''#263238''),
        (''width'', leaf ''40%''),
        (''textColor'', leaf ''#ffffff''),
        (''servers'', Node [
           (''overlay'', Node [
              (''backgroundColor'', leaf ''#fafafa''), (''textColor'', leaf ''#263238'')]),
           (''url'', Node [(''backgroundColor'', leaf ''#fff'')])])]),
     (''codeBlock'', Node [
        (''backgroundColor'', shaded Rr (dec 1 1) [''rightPanel'', ''backgroundColor''])]),
     (''fab'', Node [(''backgroundColor'', leaf ''#f2f2f2''), (''color'', leaf ''#0065FB'')])]"

section \<open>Merging\<close>

text \<open>
  \<open>Zr(e, n)\<close>.  Only objects are merged: where the first has something else that is truthy and
  the second an object, the first is kept.
\<close>

fun theme_truthy :: "theme \<Rightarrow> bool" where
  "theme_truthy (Leaf v) = truthy v"
| "theme_truthy _ = True"

definition existing :: "(string \<times> theme) list \<Rightarrow> string \<Rightarrow> theme" where
  "existing fs k =
     (case map_of fs k of
        Some t \<Rightarrow> if theme_truthy t then t else Node []
      | None \<Rightarrow> Node [])"

fun assign :: "string \<Rightarrow> theme \<Rightarrow> (string \<times> theme) list \<Rightarrow> (string \<times> theme) list" where
  "assign k v [] = [(k, v)]"
| "assign k v ((k', v') # fs) = (if k = k' then (k, v) # fs else (k', v') # assign k v fs)"

fun merge_fields :: "(string \<times> theme) list \<Rightarrow> (string \<times> theme) list \<Rightarrow> (string \<times> theme) list" and
    merge_value :: "theme \<Rightarrow> theme \<Rightarrow> theme" where
  "merge_fields a [] = a"
| "merge_fields a ((k, v) # b) = merge_fields (assign k (merge_value (existing a k) v) a) b"
| "merge_value e (Node b) = (case e of Node a \<Rightarrow> Node (merge_fields a b) | _ \<Rightarrow> e)"
| "merge_value e n = n"

text \<open>The call \<open>Zr({}, Br, theme)\<close>; each of the arguments after the first may be missing.\<close>

fun Zr :: "theme \<Rightarrow> theme option list \<Rightarrow> theme" where
  "Zr e [] = e"
| "Zr e (None # ts) = e"
| "Zr e (Some n # ts) =
     Zr (case (e, n) of (Node a, Node b) \<Rightarrow> Node (merge_fields a b) | _ \<Rightarrow> e) ts"

section \<open>Resolution\<close>

text \<open>The memo \<open>t\<close>, by dotted path, and the count \<open>n\<close> of getter evaluations.\<close>

record getters =
  g_memo :: "(string list \<times> js) list"
  g_count :: nat

primrec run :: "tfun \<Rightarrow> (string list \<Rightarrow> getters \<Rightarrow> (js \<times> getters) jsr) \<Rightarrow> getters \<Rightarrow>
    (js \<times> getters) jsr" where
  "run (Ret v) get s = Inr (v, s)"
| "run (Raise e) get s = Inl e"
| "run (Read ks k) get s = jbind (get ks s) (\<lambda>(v, s'). run (k v) get s')"

text \<open>
  What a path leads to: a value, a getter with the rest of the path, or a property of
  something that has none.  An object read as a whole shows its getters as functions.
\<close>

datatype target = At js | Getter "string list" tfun "string list"

fun theme_data :: "theme \<Rightarrow> js" where
  "theme_data (Leaf v) = v"
| "theme_data (Fn f) = Closure ''theme''"
| "theme_data (Node fs) = Obj (map (\<lambda>(k, t). (k, theme_data t)) fs)"

fun find_target :: "theme \<Rightarrow> string list \<Rightarrow> string list \<Rightarrow> target jsr" where
  "find_target (Leaf v) done ks = jmap At (js_path v ks)"
| "find_target (Fn f) done ks = Inr (Getter done f ks)"
| "find_target (Node fs) done [] = Inr (At (theme_data (Node fs)))"
| "find_target (Node fs) done (k # ks) =
     (case map_of fs k of
        Some t \<Rightarrow> find_target t (done @ [k]) ks
      | None \<Rightarrow> jmap At (js_path (inherited k) ks))"

definition circular :: "string list \<Rightarrow> js_error" where
  "circular ks = Js_Error (''Theme probably contains circular dependency at '' @ join ''.'' ks)"

text \<open>
  Reading a path through the getters.  The depth bounds the getters that are open at once;
  \<open>get_at_depth\<close> below shows that one more than the evaluations left is always enough.
\<close>

definition getter_limit :: nat where
  "getter_limit = 1000"

fun get_at :: "nat \<Rightarrow> theme \<Rightarrow> string list \<Rightarrow> getters \<Rightarrow> (js \<times> getters) jsr" where
  "get_at 0 T ks s = Inl (Js_Error ''depth'')"
| "get_at (Suc d) T ks s =
     jbind (find_target T [] ks) (\<lambda>tg.
       case tg of
         At v \<Rightarrow> Inr (v, s)
       | Getter p f rest \<Rightarrow>
           (let known = (case map_of (g_memo s) p of Some v \<Rightarrow> v | None \<Rightarrow> Undef) in
            if truthy known then jmap (\<lambda>w. (w, s)) (js_path known rest)
            else if getter_limit < g_count s + 1 then Inl (circular p)
            else jbind (run f (get_at d T) (s\<lparr>g_count := g_count s + 1\<rparr>)) (\<lambda>(v, s').
                   jmap (\<lambda>w. (w, s'\<lparr>g_memo := (p, v) # g_memo s'\<rparr>)) (js_path v rest))))"

definition get_entry :: "theme \<Rightarrow> string list \<Rightarrow> getters \<Rightarrow> (js \<times> getters) jsr" where
  "get_entry T = get_at (Suc (Suc getter_limit)) T"

text \<open>
  \<open>JSON.parse(JSON.stringify(theme))\<close>: every entry is read in turn; functions and
  \<open>undefined\<close> are left out, and numbers that are not finite become \<open>null\<close>.
\<close>

definition json_dropped :: "js \<Rightarrow> bool" where
  "json_dropped v \<longleftrightarrow> v = Undef \<or> (case v of Closure _ \<Rightarrow> True | _ \<Rightarrow> False)"

fun json_copy :: "js \<Rightarrow> js" where
  "json_copy (Obj fs) =
     Obj (map (\<lambda>(k, v). (k, json_copy v)) (filter (\<lambda>(k, v). \<not> json_dropped v) fs))"
| "json_copy (Arr vs) = Arr (map (\<lambda>v. if json_dropped v then Null else json_copy v) vs)"
| "json_copy (Num d) = (case d of Fin r \<Rightarrow> Num d | _ \<Rightarrow> Null)"
| "json_copy v = v"

fun resolve_tree :: "theme \<Rightarrow> string list \<Rightarrow> theme \<Rightarrow> getters \<Rightarrow> (js \<times> getters) jsr" and
    resolve_fields :: "theme \<Rightarrow> string list \<Rightarrow> (string \<times> theme) list \<Rightarrow> getters \<Rightarrow>
      ((string \<times> js) list \<times> getters) jsr" where
  "resolve_tree T p (Leaf v) s = Inr (v, s)"
| "resolve_tree T p (Fn f) s = get_entry T p s"
| "resolve_tree T p (Node fs) s = jmap (\<lambda>(gs, s'). (Obj gs, s')) (resolve_fields T p fs s)"
| "resolve_fields T p [] s = Inr ([], s)"
| "resolve_fields T p ((k, t) # fs) s =
     jbind (resolve_tree T (p @ [k]) t s) (\<lambda>(v, s').
       jmap (\<lambda>(gs, s''). ((k, v) # gs, s'')) (resolve_fields T p fs s'))"

text \<open>
  Installing the getters walks every object of the theme: a \<open>null\<close> entry counts as an object
  there, and has no keys to walk.
\<close>

fun has_null :: "theme \<Rightarrow> bool" where
  "has_null (Leaf v) = (v = Null)"
| "has_null (Fn f) = False"
| "has_null (Node fs) = list_ex (\<lambda>(k, t). has_null t) fs"

definition resolve_theme :: "theme \<Rightarrow> js jsr" where
  "resolve_theme T =
     (if has_null T then Inl (Type_error ''Cannot convert undefined or null to object'')
      else jmap (\<lambda>(v, s). json_copy v) (resolve_tree T [] T \<lparr>g_memo = [], g_count = 0\<rparr>))"

text \<open>The theme of the options: the user's theme, without its hook, over the default one.\<close>

definition option_theme :: "(double \<Rightarrow> double \<Rightarrow> double) \<Rightarrow> theme \<Rightarrow> js jsr" where
  "option_theme pow user = resolve_theme (Zr (Node []) [Some (Vr pow), Some user])"

end
