(* ===== verification/Redoc_Css_Base.thy ===== *)
theory Redoc_Css_Base
  imports Redoc_Theme
begin

text \<open>
  The vocabulary of the style sheets of redoc.standalone.js: the expressions that stand in
  interpolations, the pieces of a template, the helpers \<open>ma\<close> (media queries), \<open>ya\<close> (the
  extension hook), \<open>ky\<close> (menu colours), and the rule sets shared by several components.
\<close>

section \<open>Interpolated expressions\<close>

definition apostrophe :: char where
  "apostrophe = CHR 0x27"

definition quotation :: char where
  "quotation = CHR 0x22"

definition backslash :: char where
  "backslash = CHR 0x5C"

text \<open>
  The expressions over the properties \<open>e\<close> of a component: \<open>E_at ks\<close> is \<open>e.k1.k2\<close>, \<open>E_text\<close> a
  template literal or a chain of \<open>+\<close> that starts with a text, \<open>E_among\<close> is \<open>includes\<close>, \<open>E_angle\<close>
  the table \<open>Vu\<close>, \<open>E_ky\<close> a call of \<open>ky\<close>; the last two are the function bodies of \<open>zb\<close> and \<open>Vb\<close>.
\<close>

datatype colour_op = Darken | Lighten | Fade

datatype jexp =
    E_str string
  | E_num double
  | E_at "string list"
  | E_member jexp string
  | E_index jexp jexp
  | E_or jexp jexp
  | E_and jexp jexp
  | E_not jexp
  | E_cond jexp jexp jexp
  | E_same jexp jexp
  | E_above jexp jexp
  | E_times jexp jexp
  | E_text "jexp list"
  | E_among jexp "string list"
  | E_colour colour_op jexp jexp
  | E_ky jexp string
  | E_angle jexp
  | E_panel_width
  | E_search_border

text \<open>\<open>===\<close> between values that are not objects.\<close>

fun js_same :: "js \<Rightarrow> js \<Rightarrow> bool" where
  "js_same (Num a) (Num b) = deq a b"
| "js_same a b = (a = b)"

text \<open>\<open>ky\<close>: the colours of a menu item by its depth.\<close>

definition ky :: "js \<Rightarrow> js \<Rightarrow> string \<Rightarrow> js jsr" where
  "ky e p n =
     jbind (js_get p ''theme'') (\<lambda>t.
       if dlt (dnat 1) (js_number e) then js_path t [''sidebar'', ''level1Items'', n]
       else if js_same (Num (dnat 1)) e then js_path t [''sidebar'', ''groupItems'', n]
       else Inr (Str []))"

text \<open>\<open>Vu\<close>: the angle of an arrow.\<close>

definition Vu :: "(string \<times> js) list" where
  "Vu = [(''left'', Str ''90deg''), (''right'', Str ''-90deg''), (''up'', Str ''-180deg''),
         (''down'', Str ''0'')]"

text \<open>
  The width of the right panel: a percentage is taken of what the sidebar leaves.  A width
  that is not a text has no \<open>endsWith\<close>.
\<close>

definition panel_width :: "js \<Rightarrow> js jsr" where
  "panel_width p =
     jbind (js_path p [''theme'', ''rightPanel'', ''width'']) (\<lambda>w.
       case w of
         Str s \<Rightarrow>
           if s \<noteq> [] \<and> last s = CHR ''%'' then
             jmap (\<lambda>side. Str (''calc((100% - '' @ js_text side @ '') * '' @
                 number_text (ddiv (parse_int s) (dnat 100)) @ '')''))
               (js_path p [''theme'', ''sidebar'', ''width''])
           else Inr w
       | Undef \<Rightarrow> js_get Undef ''endsWith''
       | Null \<Rightarrow> js_get Null ''endsWith''
       | _ \<Rightarrow> Inl (Type_error ''e.rightPanel.width.endsWith is not a function''))"

text \<open>The line below the search field: darker on a light sidebar, lighter on a dark one.\<close>

definition search_border :: "(double \<Rightarrow> double \<Rightarrow> double) \<Rightarrow> js \<Rightarrow> js jsr" where
  "search_border pow p =
     jbind (js_path p [''theme'', ''sidebar'', ''backgroundColor'']) (\<lambda>c.
       jbind (Ir pow c) (\<lambda>i.
         (if dlt (dec 5 1) i then Rr else Dr) (Num (dec 1 1)) c))"

fun colour_fun :: "colour_op \<Rightarrow> js \<Rightarrow> js \<Rightarrow> js jsr" where
  "colour_fun Darken = Rr"
| "colour_fun Lighten = Dr"
| "colour_fun Fade = Ur"

text \<open>The value of an expression; an index is converted to a text.\<close>

fun eval :: "host \<Rightarrow> jexp \<Rightarrow> js \<Rightarrow> js jsr" and
    eval_text :: "host \<Rightarrow> jexp list \<Rightarrow> js \<Rightarrow> string jsr" where
  "eval h (E_str s) p = Inr (Str s)"
| "eval h (E_num d) p = Inr (Num d)"
| "eval h (E_at ks) p = js_path p ks"
| "eval h (E_member e k) p = jbind (eval h e p) (\<lambda>v. js_get v k)"
| "eval h (E_index e i) p =
     jbind (eval h e p) (\<lambda>v. jbind (eval h i p) (\<lambda>k. js_get v (js_text k)))"
| "eval h (E_or a b) p = jbind (eval h a p) (\<lambda>v. if truthy v then Inr v else eval h b p)"
| "eval h (E_and a b) p = jbind (eval h a p) (\<lambda>v. if truthy v then eval h b p else Inr v)"
| "eval h (E_not a) p = jmap (\<lambda>v. Bool (\<not> truthy v)) (eval h a p)"
| "eval h (E_cond c a b) p =
     jbind (eval h c p) (\<lambda>v. if truthy v then eval h a p else eval h b p)"
| "eval h (E_same a b) p =
     jbind (eval h a p) (\<lambda>v. jmap (\<lambda>w. Bool (js_same v w)) (eval h b p))"
| "eval h (E_above a b) p =
     jbind (eval h a p) (\<lambda>v. jmap (\<lambda>w. Bool (dlt (js_number w) (js_number v))) (eval h b p))"
| "eval h (E_times a b) p =
     jbind (eval h a p) (\<lambda>v. jmap (\<lambda>w. Num (dmul (js_number v) (js_number w))) (eval h b p))"
| "eval h (E_text es) p = jmap Str (eval_text h es p)"
| "eval h (E_among e ks) p = jmap (\<lambda>v. Bool (v \<in> Str ` set ks)) (eval h e p)"
| "eval h (E_colour f a c) p =
     jbind (eval h a p) (\<lambda>v. jbind (eval h c p) (\<lambda>w. colour_fun f v w))"
| "eval h (E_ky d n) p = jbind (eval h d p) (\<lambda>v. ky v p n)"
| "eval h (E_angle d) p = jbind (eval h d p) (\<lambda>v. js_get (Obj Vu) (js_text v))"
| "eval h E_panel_width p = panel_width p"
| "eval h E_search_border p = search_border (h_pow h) p"
| "eval_text h [] p = Inr []"
| "eval_text h (e # es) p =
     jbind (eval h e p) (\<lambda>v. jmap (\<lambda>t. js_text v @ t) (eval_text h es p))"

section \<open>Templates\<close>

text \<open>
  The pieces of a template: its texts, constants, functions of the properties, references to
  other components and keyframes, nested rule sets, media queries and the hook.  \<open>Media_with\<close> is
  a function that returns a media query around a value it has computed; \<open>Css_if\<close> one that
  returns a rule set or, when the test is falsy, a value; \<open>Css_case\<close> one that looks a rule set
  up in a table.
\<close>

datatype piece =
    Lit string
  | Const js
  | Dyn jexp
  | Ref string
  | Anim string
  | Css "piece list"
  | Media string bool string "piece list"
  | Media_with string bool string string jexp string
  | Hook string
  | Css_if jexp "piece list" js
  | Css_case jexp "(string \<times> piece list) list"

text \<open>\<open>ya\<close>: the user's hook, if the theme has one.\<close>

definition ya :: "string \<Rightarrow> chunk" where
  "ya name = Style_fun (\<lambda>h t.
     jbind (js_path t [''theme'', ''extensionsHook'']) (\<lambda>hook.
       if truthy hook then
         (case hook of
            Closure f \<Rightarrow> jmap Js (h_invoke h f [Str name, t])
          | _ \<Rightarrow> Inl (Type_error ''t.theme.extensionsHook is not a function''))
       else Inr (Js Undef)))"

text \<open>A function of the properties.\<close>

definition dyn :: "jexp \<Rightarrow> chunk" where
  "dyn e = Style_fun (\<lambda>h p. jmap Js (eval h e p))"

text \<open>\<open>ma\<close>: rules below a breakpoint of the theme.\<close>

definition ma :: "string \<Rightarrow> bool \<Rightarrow> string \<Rightarrow> chunk list \<Rightarrow> chunk" where
  "ma e t n r = pa [lit ''
      @media '',
     lit (if t then ''print, '' else []),
     lit '' screen and (max-width: '',
     dyn (E_at [''theme'', ''breakpoints'', e]),
     lit '') '',
     lit n,
     lit '' {
        '',
     pa r,
     lit '';
      }
    '']"

fun chunk_of :: "piece \<Rightarrow> chunk" where
  "chunk_of (Lit s) = lit s"
| "chunk_of (Const v) = Js v"
| "chunk_of (Dyn e) = dyn e"
| "chunk_of (Ref c) = Styled_ref c"
| "chunk_of (Anim k) = Keyframes_ref k"
| "chunk_of (Css ps) = pa (map chunk_of ps)"
| "chunk_of (Media e t n ps) = ma e t n (map chunk_of ps)"
| "chunk_of (Media_with e t n pre x post) =
     Style_fun (\<lambda>h p. jmap (\<lambda>v. ma e t n [lit pre, Js v, lit post]) (eval h x p))"
| "chunk_of (Hook name) = ya name"
| "chunk_of (Css_if e ps v) =
     Style_fun (\<lambda>h p.
       jmap (\<lambda>w. if truthy w then pa (map chunk_of ps) else Js v) (eval h e p))"
| "chunk_of (Css_case e table) =
     Style_fun (\<lambda>h p. jmap (\<lambda>w.
       case map_of (map (\<lambda>(k, ps). (k, pa (map chunk_of ps))) table) (js_text w) of
         Some c \<Rightarrow> c | None \<Rightarrow> Js (inherited (js_text w))) (eval h e p))"

text \<open>The text of a component with this style sheet for its properties.\<close>

definition sheet_text :: "piece list \<Rightarrow> host \<Rightarrow> js \<Rightarrow> string jsr" where
  "sheet_text ps h p = component_text h p (Fi (map chunk_of ps))"

section \<open>Shared rule sets\<close>

text \<open>\<open>$u\<close> and \<open>Cu\<close>: the font of a heading of a level.\<close>

definition dollar_u :: "nat \<Rightarrow> js" where
  "dollar_u e =
     (if e = 1 then Str ''1.85714em'' else if e = 2 then Str ''1.57143em''
      else if e = 3 then Str ''1.27em'' else Undef)"

definition Cu :: "nat \<Rightarrow> piece list" where
  "Cu e = [Lit ''
  font-family: '',
     Dyn (E_at [''theme'', ''typography'', ''headings'', ''fontFamily'']),
     Lit '';
  font-weight: '',
     Dyn (E_at [''theme'', ''typography'', ''headings'', ''fontWeight'']),
     Lit '';
  font-size: '',
     Const (dollar_u e),
     Lit '';
  line-height: '',
     Dyn (E_at [''theme'', ''typography'', ''headings'', ''lineHeight'']),
     Lit '';
'']"

text \<open>\<open>Fu\<close>: the link that appears beside a heading.\<close>

definition Fu :: "string \<Rightarrow> piece list" where
  "Fu e = [Lit ''
  '',
     Lit e,
     Lit '' {
    cursor: pointer;
    margin-left: -20px;
    padding: 0;
    line-height: 1;
    width: 20px;
    display: inline-block;
    outline: 0;
  }
  '',
     Lit e,
     Lit ('':before {
    content: '' @ replicate 2 apostrophe @ '';
    width: 15px;
    height: 15px;
    background-size: contain;
    background-image: url('data:image/svg+xml;base64,PHN2ZyB4bWxucz0iaHR0cDovL3d3dy53My5vcmcvMjAwMC9zdmciIHZlcnNpb249IjEuMSIgeD0iMCIgeT0iMCIgd2lkdGg9IjUxMiIgaGVpZ2h0PSI1MTIiIHZpZXdCb3g9IjAgMCA1MTIgNTEyIiBlbmFibGUtYmFja2dyb3VuZD0ibmV3IDAgMCA1MTIgNTEyIiB4bWw6c3BhY2U9InByZXNlcnZlIj48cGF0aCBmaWxsPSIjMDEwMTAxIiBkPSJNNDU5LjcgMjMzLjRsLTkwLjUgOTAuNWMtNTAgNTAtMTMxIDUwLTE4MSAwIC03LjktNy44LTE0LTE2LjctMTkuNC0yNS44bDQyLjEtNDIuMWMyLTIgNC41LTMuMiA2LjgtNC41IDIuOSA5LjkgOCAxOS4zIDE1LjggMjcuMiAyNSAyNSA2NS42IDI0LjkgOTAuNSAwbDkwLjUtOTAuNWMyNS0yNSAyNS02NS42IDAtOTAuNSAtMjQuOS0yNS02NS41LTI1LTkwLjUgMGwtMzIuMiAzMi4yYy0yNi4xLTEwLjItNTQuMi0xMi45LTgxLjYtOC45bDY4LjYtNjguNmM1MC01MCAxMzEtNTAgMTgxIDBDNTA5LjYgMTAyLjMgNTA5LjYgMTgzLjQgNDU5LjcgMjMzLjR6TTIyMC4zIDM4Mi4ybC0zMi4yIDMyLjJjLTI1IDI0LjktNjUuNiAyNC45LTkwLjUgMCAtMjUtMjUtMjUtNjUuNiAwLTkwLjVsOTAuNS05MC41YzI1LTI1IDY1LjUtMjUgOTAuNSAwIDcuOCA3LjggMTIuOSAxNy4yIDE1LjggMjcuMSAyLjQtMS40IDQuOC0yLjUgNi44LTQuNWw0Mi4xLTQyYy01LjQtOS4yLTExLjYtMTgtMTkuNC0yNS44IC01MC01MC0xMzEtNTAtMTgxIDBsLTkwLjUgOTAuNWMtNTAgNTAtNTAgMTMxIDAgMTgxIDUwIDUwIDEzMSA1MCAxODEgMGw2OC42LTY4LjZDMjc0LjYgMzk1LjEgMjQ2LjQgMzkyLjMgMjIwLjMgMzgyLjJ6Ii8+PC9zdmc+Cg==');
'' @ ''    opacity: 0.5;
    visibility: hidden;
    display: inline-block;
    vertical-align: middle;
  }

  h1:hover > ''),
     Lit e,
     Lit ''::before, h2:hover > '',
     Lit e,
     Lit ''::before, '',
     Lit e,
     Lit '':hover::before {
    visibility: visible;
  }
'']"

text \<open>\<open>Wu\<close> (deprecated), \<open>Cf\<close> (links), \<open>nh\<close> (the JSON viewer).\<close>

definition Wu_css :: "piece list" where
  "Wu_css = [Lit ''
  text-decoration: line-through;
  color: #707070;
'']"

definition Cf_css :: "piece list" where
  "Cf_css = [Lit ''
  a {
    text-decoration: '',
     Dyn (E_at [''theme'', ''typography'', ''links'', ''textDecoration'']),
     Lit '';
    color: '',
     Dyn (E_at [''theme'', ''typography'', ''links'', ''color'']),
     Lit '';

    &:visited {
      color: '',
     Dyn (E_at [''theme'', ''typography'', ''links'', ''visited'']),
     Lit '';
    }

    &:hover {
      color: '',
     Dyn (E_at [''theme'', ''typography'', ''links'', ''hover'']),
     Lit '';
      text-decoration: '',
     Dyn (E_at [''theme'', ''typography'', ''links'', ''hoverTextDecoration'']),
     Lit '';
    }
  }
'']"

definition nh_css :: "piece list" where
  "nh_css = [Lit ''
  .redoc-json code > .collapser {
    display: none;
    pointer-events: none;
  }

  font-family: '',
     Dyn (E_at [''theme'', ''typography'', ''code'', ''fontFamily'']),
     Lit '';
  font-size: '',
     Dyn (E_at [''theme'', ''typography'', ''code'', ''fontSize'']),
     Lit '';

  white-space: '',
     Dyn (E_cond (E_at [''theme'', ''typography'', ''code'', ''wrap'']) (E_str ''pre-wrap'')
       (E_str ''pre'')),
     Lit ('';
  contain: content;
  overflow-x: auto;

  .callback-function {
    color: gray;
  }

  .collapser:after {
    content: '-';
    cursor: pointer;
  }

  .collapsed > .collapser:after {
    content: '+';
    cursor: pointer;
  }

  .ellipsis:after {
    content: ' '' @ [CHR 0xE2, CHR 0x80, CHR 0xA6] @ '' ';
  }

  .collapsible {
    margin-left: 2em;
  }

  .hoverable {
    padding-top: 1px;
    padding-bottom: 1px;
    padding-left: 2px;
    padding-right: 2px;
    border-radius: 2px;
  }

  .hovered {
    background-color: rgba(235, 238, 249, 1);
  }

  .collapser {
    background-color: transparent;
    border: 0;
    color: #fff;
    font-family: ''),
     Dyn (E_at [''theme'', ''typography'', ''code'', ''fontFamily'']),
     Lit '';
    font-size: '',
     Dyn (E_at [''theme'', ''typography'', ''code'', ''fontSize'']),
     Lit ('';
    padding-right: 6px;
    padding-left: 6px;
    padding-top: 0;
    padding-bottom: 0;
    display: flex;
    align-items: center;
    justify-content: center;
    width: 15px;
    height: 15px;
    position: absolute;
    top: 4px;
    left: -1.5em;
    cursor: default;
    user-select: none;
    -webkit-user-select: none;
    padding: 2px;
    &:focus {
      outline-color: #fff;
      outline-style: dotted;
'' @ ''      outline-width: 1px;
    }
  }

  ul {
    list-style-type: none;
    padding: 0px;
    margin: 0px 0px 0px 26px;
  }

  li {
    position: relative;
    display: block;
  }

  .hoverable {
    display: inline-block;
  }

  .selected {
    outline-style: solid;
    outline-width: 1px;
    outline-style: dotted;
  }

  .collapsed > .collapsible {
    display: none;
  }

  .ellipsis {
    display: none;
  }

  .collapsed > .ellipsis {
    display: inherit;
  }
'')]"

end
