(* ===== verification/Css_Braces.thy ===== *)
theory Css_Braces
  imports Redoc_Css_Base
begin

text \<open>
  Block structure of the rendered style sheets.  The depth of braces a text leads to is a run of
  a counter that fails below zero; a check on the pieces of a template computes the depth that
  its text has for every theme and all properties whose texts contain no brace.
\<close>

section \<open>Depth of a text\<close>

fun depth_run :: "nat \<Rightarrow> string \<Rightarrow> nat option" where
  "depth_run d [] = Some d"
| "depth_run d (c # cs) =
     (if c = CHR ''{'' then depth_run (Suc d) cs
      else if c = CHR ''}'' then (case d of 0 \<Rightarrow> None | Suc d' \<Rightarrow> depth_run d' cs)
      else depth_run d cs)"

definition balanced :: "string \<Rightarrow> bool" where
  "balanced s \<longleftrightarrow> depth_run 0 s = Some 0"

definition brace_free :: "string \<Rightarrow> bool" where
  "brace_free s \<longleftrightarrow> CHR ''{'' \<notin> set s \<and> CHR ''}'' \<notin> set s"

definition neutral :: "string \<Rightarrow> bool" where
  "neutral s \<longleftrightarrow> (\<forall>d. depth_run d s = Some d)"

lemma depth_run_append:
  "depth_run d (a @ b) = Option.bind (depth_run d a) (\<lambda>e. depth_run e b)"
  by (induction d a rule: depth_run.induct) (auto split: nat.splits)

lemma brace_free_simps [simp]:
  "brace_free []"
  "brace_free (c # s) \<longleftrightarrow> c \<noteq> CHR ''{'' \<and> c \<noteq> CHR ''}'' \<and> brace_free s"
  "brace_free (s @ t) \<longleftrightarrow> brace_free s \<and> brace_free t"
  "brace_free (concat ss) \<longleftrightarrow> (\<forall>s \<in> set ss. brace_free s)"
  by (auto simp: brace_free_def)

lemma brace_free_replicate [simp]:
  "c \<noteq> CHR ''{'' \<Longrightarrow> c \<noteq> CHR ''}'' \<Longrightarrow> brace_free (replicate n c)"
  by (auto simp: brace_free_def)

lemma brace_free_subset: "brace_free s \<Longrightarrow> set t \<subseteq> set s \<Longrightarrow> brace_free t"
  by (auto simp: brace_free_def)

lemma brace_free_neutral: "brace_free s \<Longrightarrow> neutral s"
proof (induction s)
  case (Cons c s)
  then show ?case by (auto simp: neutral_def)
qed (simp add: neutral_def)

lemma neutral_append: "neutral a \<Longrightarrow> neutral b \<Longrightarrow> neutral (a @ b)"
  by (simp add: neutral_def depth_run_append)

lemma neutral_concat: "\<forall>s \<in> set ss. neutral s \<Longrightarrow> neutral (concat ss)"
  by (induction ss) (simp_all add: neutral_append, simp add: neutral_def)

lemma neutral_block: "brace_free k \<Longrightarrow> neutral s \<Longrightarrow> neutral (k @ '' {'' @ s @ ''}'')"
  using brace_free_neutral [of k]
  by (simp add: neutral_def depth_run_append)

section \<open>Texts of values contain no brace\<close>

fun clean :: "js \<Rightarrow> bool" where
  "clean (Str s) = brace_free s"
| "clean (Closure f) = brace_free f"
| "clean (Arr vs) = list_all clean vs"
| "clean (Obj fs) = list_all (\<lambda>(k, v). brace_free k \<and> clean v) fs"
| "clean _ = True"

lemma brace_free_digits: "\<forall>c \<in> set s. is_digit c \<Longrightarrow> brace_free s"
  by (force simp: brace_free_def is_digit_def Let_def)

lemma brace_free_nat_to_string [simp]: "brace_free (nat_to_string n)"
  by (rule brace_free_digits [OF nat_to_string_digits])

lemma brace_free_take [simp]: "brace_free s \<Longrightarrow> brace_free (take n s)"
  by (erule brace_free_subset) (rule set_take_subset)

lemma brace_free_drop [simp]: "brace_free s \<Longrightarrow> brace_free (drop n s)"
  by (erule brace_free_subset) (rule set_drop_subset)

lemma brace_free_layout: "brace_free ds \<Longrightarrow> brace_free (layout_digits ds n)"
  by (cases ds) (auto simp: layout_digits_def Let_def)

lemma brace_free_number_text [simp]: "brace_free (number_text d)"
  by (cases d)
    (auto simp: number_text.simps(4) positive_text_def Let_def brace_free_layout
      split: prod.splits)

lemma brace_free_join: "brace_free sep \<Longrightarrow> \<forall>s \<in> set ss. brace_free s \<Longrightarrow> brace_free (join sep ss)"
  by (cases ss) (auto simp: join_def)

lemma clean_text: "clean v \<Longrightarrow> brace_free (js_text v)"
  by (induction v rule: js_text.induct)
    (auto simp: list_all_iff intro!: brace_free_join)

lemma clean_inherited [simp]: "clean (inherited k)"
  by (auto simp: inherited_def object_members_def)

lemma clean_get: "js_get v k = Inr w \<Longrightarrow> clean v \<Longrightarrow> clean w"
  by (cases v) (auto simp: list_all_iff num_of_nat_def split: option.splits if_splits
      dest: map_of_SomeD)

lemma clean_path: "js_path v ks = Inr w \<Longrightarrow> clean v \<Longrightarrow> clean w"
  by (induction ks arbitrary: v) (auto simp: js_path.simps jbind_Inr_iff dest: clean_get)

section \<open>So do the colours\<close>

lemma brace_free_hex_nat [simp]: "brace_free (hex_nat n)"
proof (induction n rule: hex_nat.induct)
  case (1 n)
  have "brace_free [hex_digit m]" if "m < 16" for m
  proof -
    have "set ''0123456789abcdef'' \<subseteq> - {CHR ''{'', CHR ''}''}" by simp
    moreover have "hex_digit m \<in> set ''0123456789abcdef''"
      unfolding hex_digit_def by (rule nth_mem) (use that in simp)
    ultimately have "hex_digit m \<in> - {CHR ''{'', CHR ''}''}" by (rule subsetD)
    then show ?thesis by simp
  qed
  then show ?case
    using 1 by (cases "n < 16") (simp_all add: hex_nat.simps [of n])
qed

lemma brace_free_wr [simp]: "brace_free (wr d)"
  by (cases d) (auto simp: wr_def Let_def)

lemma brace_free_br: "brace_free s \<Longrightarrow> brace_free (br s)"
  by (auto simp: br_def brace_free_def dest!: nth_mem)

lemma brace_free_writers [simp]:
  "brace_free (kr a b c)" "brace_free (ar a b c)" "brace_free (Or x)"
  "brace_free s \<Longrightarrow> brace_free (rgba_text s a)"
  by (simp_all add: kr_def xr_def ar_def Or_def rgba_text_def brace_free_br)

lemma brace_free_sr: "(\<And>a b c. brace_free (w a b c)) \<Longrightarrow> brace_free (sr e t n w)"
  by (simp add: sr_def Let_def)

lemma clean_colour:
  "colour_fun f e c = Inr v \<Longrightarrow> clean c \<Longrightarrow> clean v"
  by (cases f)
    (auto simp: Rr_def Dr_def Ur_def unless_transparent_def jmap_Inr_iff Er_def Sr_def Let_def
      brace_free_sr split: if_splits option.splits)

lemma clean_ky: "ky e p n = Inr v \<Longrightarrow> clean p \<Longrightarrow> clean v"
  by (auto simp: ky_def jbind_Inr_iff split: if_splits dest: clean_get clean_path)

lemma clean_panel_width: "panel_width p = Inr v \<Longrightarrow> clean p \<Longrightarrow> clean v"
proof -
  assume p: "clean p" and v: "panel_width p = Inr v"
  from v obtain w where w: "js_path p [''theme'', ''rightPanel'', ''width''] = Inr w"
    by (auto simp only: panel_width_def jbind_Inr_iff)
  then have "clean w" using clean_path p by blast
  then show "clean v"
    using v w p clean_text clean_path
    by (cases w) (auto simp: panel_width_def jbind_Inr_iff jmap_Inr_iff split: if_splits)
qed

lemma clean_search_border: "search_border pow p = Inr v \<Longrightarrow> clean p \<Longrightarrow> clean v"
  by (auto simp: search_border_def jbind_Inr_iff split: if_splits dest: clean_path
      dest!: clean_colour [of Darken, simplified] clean_colour [of Lighten, simplified])

section \<open>Expressions\<close>

fun clean_exp :: "jexp \<Rightarrow> bool" where
  "clean_exp (E_str s) = brace_free s"
| "clean_exp (E_member e k) = clean_exp e"
| "clean_exp (E_index e i) = clean_exp e"
| "clean_exp (E_or a b) = (clean_exp a \<and> clean_exp b)"
| "clean_exp (E_and a b) = (clean_exp a \<and> clean_exp b)"
| "clean_exp (E_cond c a b) = (clean_exp a \<and> clean_exp b)"
| "clean_exp (E_text es) = list_all clean_exp es"
| "clean_exp (E_colour f a c) = clean_exp c"
| "clean_exp _ = True"

lemma clean_eval:
  "clean p \<Longrightarrow> clean_exp e \<Longrightarrow> eval h e p = Inr v \<Longrightarrow> clean v"
  "clean p \<Longrightarrow> list_all clean_exp es \<Longrightarrow> eval_text h es p = Inr s \<Longrightarrow> brace_free s"
proof (induction h e p and h es p arbitrary: v and s rule: eval_eval_text.induct)
  case (9 h c a b p)
  then obtain x where x: "eval h c p = Inr x" by (auto simp: jbind_Inr_iff)
  show ?case using 9 x by (cases "truthy x") auto
next
  case (17 h d p)
  then show ?case
    by (auto simp: jbind_Inr_iff Vu_def split: if_splits option.splits)
qed (auto simp: jbind_Inr_iff jmap_Inr_iff split: if_splits
    dest: clean_path clean_get clean_text clean_colour clean_ky clean_panel_width
      clean_search_border)

text \<open>The depth after the text of an expression, when it is the same for all its values.\<close>

fun text_depth :: "nat \<Rightarrow> jexp list \<Rightarrow> nat option" where
  "text_depth d [] = Some d"
| "text_depth d (e # es) =
     (if clean_exp e then text_depth d es
      else (case e of E_str s \<Rightarrow> Option.bind (depth_run d s) (\<lambda>d'. text_depth d' es) | _ \<Rightarrow> None))"

fun exp_depth :: "nat \<Rightarrow> jexp \<Rightarrow> nat option" where
  "exp_depth d (E_str s) = depth_run d s"
| "exp_depth d (E_text es) = text_depth d es"
| "exp_depth d (E_cond c a b) = (if exp_depth d a = exp_depth d b then exp_depth d a else None)"
| "exp_depth d (E_and a b) = (if clean_exp a \<and> exp_depth d b = Some d then Some d else None)"
| "exp_depth d (E_or a b) =
     (if exp_depth d a = Some d \<and> exp_depth d b = Some d then Some d else None)"
| "exp_depth d e = (if clean_exp e then Some d else None)"

text \<open>
  What functions from outside give keeps the depth too: the text of their results, their
  source, and the generated identifiers.
\<close>

definition tidy :: "host \<Rightarrow> bool" where
  "tidy h \<longleftrightarrow>
     (\<forall>f p s. h_style h f p = Inr s \<longrightarrow> neutral s) \<and> (\<forall>f. neutral (h_source h f)) \<and>
     (\<forall>c. neutral (h_class h c)) \<and> (\<forall>k. neutral (h_frames h k)) \<and>
     (\<forall>f vs v p s. h_invoke h f vs = Inr v \<longrightarrow> flatten_js h p v = Inr s \<longrightarrow> neutral s)"

lemma jconcat_Inr_iff: "jconcat rs = Inr s \<longleftrightarrow> (\<exists>ss. rs = map Inr ss \<and> s = concat ss)"
proof (induction rs arbitrary: s)
  case (Cons r rs)
  show ?case
  proof
    assume "jconcat (r # rs) = Inr s"
    then obtain x y where "r = Inr x" "jconcat rs = Inr y" "s = x @ y"
      by (auto simp: jcat_Inr_iff)
    moreover from this Cons.IH obtain ss where "rs = map Inr ss" "y = concat ss" by blast
    ultimately have "r # rs = map Inr (x # ss) \<and> s = concat (x # ss)" by simp
    then show "\<exists>ss. r # rs = map Inr ss \<and> s = concat ss" by (intro exI)
  next
    assume "\<exists>ss. r # rs = map Inr ss \<and> s = concat ss"
    then obtain ss where "r # rs = map Inr ss" "s = concat ss" by (elim exE conjE)
    then show "jconcat (r # rs) = Inr s" by (cases ss) (auto simp: jconcat_Inr)
  qed
qed auto

lemma brace_free_hyphenate: "brace_free k \<Longrightarrow> brace_free (hyphenate k)"
proof -
  assume k: "brace_free k"
  have lower: "lower_char c \<noteq> CHR ''{'' \<and> lower_char c \<noteq> CHR ''}''" if "is_upper c" for c
  proof -
    have "(of_char (lower_char c) :: nat) = of_char c + 32 \<and> (of_char c :: nat) \<le> 90"
      using that by (auto simp: lower_char_def is_upper_def Let_def)
    then have "(of_char (lower_char c) :: nat) \<le> 122" by simp
    then show ?thesis by auto
  qed
  note lower' = lower [THEN conjunct1, THEN not_sym] lower [THEN conjunct2, THEN not_sym]
  show ?thesis
    using k lower lower' by (auto simp: hyphenate_def Let_def brace_free_def)
qed

lemma brace_free_trim: "brace_free s \<Longrightarrow> brace_free (trim_blanks s)"
  by (erule brace_free_subset) (auto simp: trim_blanks_def dest!: set_dropWhileD)

lemma brace_free_style_value: "clean v \<Longrightarrow> brace_free (style_value k v)"
  using clean_text [of v] by (cases v) (auto simp: brace_free_trim)

lemma object_rules_neutral:
  assumes "tidy h"
  shows "list_all (\<lambda>(k, v). brace_free k \<and> clean v) fs \<Longrightarrow>
      neutral (concat (map (source_rule h) (object_rules fs)))"
    and "brace_free k \<Longrightarrow> clean v \<Longrightarrow>
      neutral (concat (map (source_rule h) (member_rules k v)))"
  using assms
proof (induction fs and k v rule: object_rules_member_rules.induct)
  case (3 k gs)
  then have "neutral (concat (map (source_rule h) (object_rules gs)))" by simp
  then show ?case using neutral_block [of k] 3 by simp
next
  case (4 k f)
  have "neutral (hyphenate k @ '':'')" and "neutral '';''"
    using 4 by (auto intro!: brace_free_neutral brace_free_hyphenate)
  moreover have "neutral (h_source h f)" using 4 by (simp add: tidy_def)
  ultimately show ?case
    using neutral_append [of "hyphenate k @ '':''" "h_source h f @ '';''"] neutral_append
    by simp
qed (auto simp: neutral_append simp del: style_value.simps
    intro!: brace_free_neutral brace_free_hyphenate brace_free_style_value)

lemma clean_flatten:
  "tidy h \<Longrightarrow> clean v \<Longrightarrow> flatten_js h p v = Inr s \<Longrightarrow> neutral s"
proof (induction h p v arbitrary: s rule: flatten_js.induct)
  case (2 h p vs)
  from 2(4) obtain ss where ss: "map (flatten_js h p) vs = map Inr ss" "s = concat ss"
    by (auto simp: jconcat_Inr_iff)
  have "neutral t" if "t \<in> set ss" for t
  proof -
    have "Inr t \<in> set (map Inr ss :: string jsr list)" using that by simp
    then have "Inr t \<in> set (map (flatten_js h p) vs)" using ss(1) by simp
    then obtain v where "v \<in> set vs" "flatten_js h p v = Inr t" by auto
    then show ?thesis using 2(1) [of v t] 2(2,3) by (auto simp: list_all_iff)
  qed
  then show ?case unfolding ss(2) by (intro neutral_concat) blast
qed (auto simp: tidy_def intro: object_rules_neutral brace_free_neutral)

lemma text_depth_run:
  "clean p \<Longrightarrow> text_depth d es = Some d' \<Longrightarrow> eval_text h es p = Inr s \<Longrightarrow> depth_run d s = Some d'"
proof (induction d es arbitrary: s rule: text_depth.induct)
  case (2 d e es)
  from 2(5) obtain v t where v: "eval h e p = Inr v" "eval_text h es p = Inr t" "s = js_text v @ t"
    by (auto simp: jbind_Inr_iff jmap_Inr_iff)
  show ?case
  proof (cases "clean_exp e")
    case True
    then have "neutral (js_text v)"
      using clean_eval(1) [OF 2(3) True v(1)] clean_text brace_free_neutral by blast
    then show ?thesis
      using 2(1) [OF True 2(3) _ v(2)] 2(4) True v(3) by (simp add: depth_run_append neutral_def)
  next
    case False
    then obtain u d1 where "e = E_str u" "depth_run d u = Some d1" "text_depth d1 es = Some d'"
      using 2(4) by (auto split: jexp.splits simp: bind_eq_Some_conv)
    moreover from this v(1) have "js_text v = u" by auto
    ultimately show ?thesis
      using 2(2) [OF False _ _ 2(3) _ v(2)] v(3) by (simp add: depth_run_append)
  qed
qed simp

lemma clean_exp_depth:
  assumes "tidy h" and "clean p"
  shows "(if clean_exp e then Some d else None) = Some d' \<Longrightarrow> eval h e p = Inr v \<Longrightarrow>
    flatten_js h p v = Inr s \<Longrightarrow> depth_run d s = Some d'"
  using clean_flatten [OF assms(1) clean_eval(1) [OF assms(2)]]
  by (force simp: neutral_def split: if_splits)

lemma exp_depth_run:
  assumes "tidy h" and "clean p"
  shows "exp_depth d e = Some d' \<Longrightarrow> eval h e p = Inr v \<Longrightarrow> flatten_js h p v = Inr s \<Longrightarrow>
    depth_run d s = Some d'"
proof (induction d e arbitrary: d' v s rule: exp_depth.induct)
  case (1 d u)
  then show ?case by (auto split: if_splits)
next
  case (2 d es)
  then show ?case
    using text_depth_run [OF assms(2) _, of d es d' h]
    by (fastforce simp: jmap_Inr_iff split: if_splits)
next
  case (3 d c a b)
  then obtain w where w: "eval h c p = Inr w" by (auto simp: jbind_Inr_iff)
  have "exp_depth d a = Some d'" "exp_depth d b = Some d'"
    using 3(4) by (auto split: if_splits)
  then show ?case using 3(1-3,5,6) w by (cases "truthy w") simp_all
next
  case (4 d a b)
  then obtain w where w: "eval h a p = Inr w" by (auto simp: jbind_Inr_iff)
  show ?case
  proof (cases "truthy w")
    case False
    then have "clean v" using 4 w clean_eval(1) [OF assms(2)] by (auto split: if_splits)
    then show ?thesis
      using 4 clean_flatten [OF assms(1)] by (auto simp: neutral_def split: if_splits)
  qed (use 4 w in \<open>auto split: if_splits\<close>)
next
  case (5 d a b)
  then obtain w where w: "eval h a p = Inr w" by (auto simp: jbind_Inr_iff)
  show ?case using 5 w by (cases "truthy w") (auto split: if_splits)
qed (rule clean_exp_depth [OF assms]; simp only: exp_depth.simps)+

section \<open>Templates\<close>

fun piece_depth :: "nat \<Rightarrow> piece \<Rightarrow> nat option" and
    pieces_depth :: "nat \<Rightarrow> piece list \<Rightarrow> nat option" where
  "piece_depth d (Lit s) = depth_run d s"
| "piece_depth d (Const v) = (if clean v then Some d else None)"
| "piece_depth d (Dyn e) = exp_depth d e"
| "piece_depth d (Ref c) = Some d"
| "piece_depth d (Anim k) = Some d"
| "piece_depth d (Css ps) = pieces_depth d ps"
| "piece_depth d (Media e t n ps) =
     (if brace_free n \<and> pieces_depth (Suc d) ps = Some (Suc d) then Some d else None)"
| "piece_depth d (Media_with e t n pre x post) =
     (if brace_free n \<and> brace_free pre \<and> brace_free post \<and> clean_exp x then Some d else None)"
| "piece_depth d (Hook n) = Some d"
| "piece_depth d (Css_if e ps v) =
     (if clean v \<and> pieces_depth d ps = Some d then Some d else None)"
| "piece_depth d (Css_case e table) =
     (if list_all (\<lambda>(k, ps). pieces_depth d ps = Some d) table then Some d else None)"
| "pieces_depth d [] = Some d"
| "pieces_depth d (x # xs) = Option.bind (piece_depth d x) (\<lambda>d'. pieces_depth d' xs)"

text \<open>No constant of a template is an object with functions in it.\<close>

fun plain_piece :: "piece \<Rightarrow> bool" where
  "plain_piece (Const v) = (is_object v = False)"
| "plain_piece _ = True"

lemma literal_chunk_of: "plain_piece x \<Longrightarrow> literal_chunk (chunk_of x)"
proof (cases x)
  case (Const v)
  then show "plain_piece x \<Longrightarrow> literal_chunk (chunk_of x)" by (cases v) simp_all
qed (simp_all add: ma_def dyn_def ya_def)

lemma Mi_dyn: "Mi (dyn e) h p = jbind (eval h e p) (flatten_js h p)"
  by (simp add: dyn_def jmap_def jbind_assoc)

text \<open>The text of a media query around a rule set.\<close>

definition media_text :: "string \<Rightarrow> bool \<Rightarrow> string \<Rightarrow> string jsr \<Rightarrow> host \<Rightarrow> js \<Rightarrow> string jsr" where
  "media_text e t n r h p =
     jconcat [Inr ''
      @media '', Inr (if t then ''print, '' else []), Inr '' screen and (max-width: '',
       Mi (dyn (E_at [''theme'', ''breakpoints'', e])) h p, Inr '') '', Inr n, Inr '' {
        '', r, Inr '';
      }
    '']"

lemma Mi_ma:
  "list_all literal_chunk r \<Longrightarrow> Mi (ma e t n r) h p = media_text e t n (Mi (Chunks r) h p) h p"
proof -
  assume r: "list_all literal_chunk r"
  have lits: "flatten_js h p (Str s) = Inr s" for s by (cases s) simp_all
  show ?thesis
    unfolding ma_def
    using Mi_pa [OF r, of h p]
    by (subst Mi_pa) (simp_all add: r media_text_def lits dyn_def del: flatten_js.simps)
qed

lemma Mi_pieces_Cons: "Mi (Chunks (chunk_of x # cs)) h p = jcat (Mi (chunk_of x) h p) (Mi (Chunks cs) h p)"
  by simp

lemma media_depth:
  assumes "tidy h" and "clean p" and "brace_free n"
    and r: "\<And>s. r = Inr s \<Longrightarrow> depth_run (Suc d) s = Some (Suc d)"
    and "media_text e t n r h p = Inr s"
  shows "depth_run d s = Some d"
proof -
  from assms(5) obtain b u where b: "Mi (dyn (E_at [''theme'', ''breakpoints'', e])) h p = Inr b"
    and u: "r = Inr u"
    and s: "s = ''
      @media '' @ (if t then ''print, '' else []) @ '' screen and (max-width: '' @ b @ '') '' @ n
      @ '' {
        '' @ u @ '';
      }
    ''"
    unfolding media_text_def jconcat_simps jcat_Inr_iff by (elim exE conjE) simp
  have "neutral b"
    using b assms(1,2) clean_flatten [OF assms(1)]
    by (auto simp: Mi_dyn jbind_Inr_iff simp del: js_path.simps dest: clean_path)
  moreover have "neutral n" using assms(3) by (rule brace_free_neutral)
  ultimately show ?thesis
    using r [OF u] unfolding s by (simp add: depth_run_append neutral_def)
qed


lemma plain_pieces_literal:
  "list_all plain_piece ps \<Longrightarrow> list_all literal_chunk (map chunk_of ps)"
  by (auto simp: list_all_iff literal_chunk_of)

text \<open>Every constant of a template, at any depth, is plain.\<close>

fun plain_deep :: "piece \<Rightarrow> bool" and plain_all :: "piece list \<Rightarrow> bool" where
  "plain_deep (Css ps) = plain_all ps"
| "plain_deep (Media e t n ps) = plain_all ps"
| "plain_deep (Css_if e ps v) = (plain_all ps \<and> is_object v = False)"
| "plain_deep (Css_case e table) = list_all (\<lambda>(k, ps). plain_all ps) table"
| "plain_deep (Media_with e t n pre x post) = (case x of E_text _ \<Rightarrow> True | _ \<Rightarrow> False)"
| "plain_deep x = plain_piece x"
| "plain_all [] = True"
| "plain_all (x # xs) = (plain_deep x \<and> plain_all xs)"

lemma plain_deep_piece: "plain_deep x \<Longrightarrow> plain_piece x"
  by (cases x) simp_all

lemma plain_all_pieces: "plain_all ps \<Longrightarrow> list_all plain_piece ps"
  by (induction ps) (simp_all add: plain_deep_piece)

lemmas plain_all_literal = plain_pieces_literal [OF plain_all_pieces]

lemma piece_depth_run:
  assumes "tidy h" and "clean p"
  shows "piece_depth d x = Some d' \<Longrightarrow> plain_deep x \<Longrightarrow> Mi (chunk_of x) h p = Inr s \<Longrightarrow>
      depth_run d s = Some d'"
    and "pieces_depth d xs = Some d' \<Longrightarrow> plain_all xs \<Longrightarrow>
      Mi (Chunks (map chunk_of xs)) h p = Inr s \<Longrightarrow> depth_run d s = Some d'"
proof (induction d x and d xs arbitrary: d' s and d' s rule: piece_depth_pieces_depth.induct)
  case (1 d u)
  then show ?case by (cases u) auto
next
  case (2 d v)
  then show ?case
    using clean_flatten [OF assms(1), of v p s] by (auto simp: neutral_def split: if_splits)
next
  case (3 d e)
  then show ?case using exp_depth_run [OF assms] by (auto simp: Mi_dyn jbind_Inr_iff)
next
  case (6 d ps)
  then show ?case using Mi_pa [OF plain_all_literal, of ps h p] by simp
next
  case (7 d e t n ps)
  then show ?case
    using media_depth [OF assms, of n "Mi (Chunks (map chunk_of ps)) h p" d e t]
    by (auto simp: Mi_ma [OF plain_all_literal] simp del: Mi_Chunks split: if_splits)
next
  case (8 d e t n pre x post)
  then have n: "brace_free n" "brace_free pre" "brace_free post" "clean_exp x" "d' = d"
    by (auto split: if_splits)
  from 8(2) obtain es where x: "x = E_text es" by (auto split: jexp.splits)
  from 8(3) obtain u where v: "eval h x p = Inr (Str u)"
    and s: "Mi (ma e t n [lit pre, lit u, lit post]) h p = Inr s"
    by (auto simp: x jbind_Inr_iff jmap_Inr_iff)
  have "brace_free u" using clean_eval(1) [OF assms(2) n(4) v] by simp
  then have "neutral w" if "Mi (Chunks [lit pre, lit u, lit post]) h p = Inr w" for w
    using that n by (cases pre; cases u; cases post) (auto intro!: brace_free_neutral)
  then show ?case
    using media_depth [OF assms n(1), of "Mi (Chunks [lit pre, lit u, lit post]) h p" d e t]
      Mi_ma [of "[lit pre, lit u, lit post]" e t n h p] s n(5)
    by (auto simp: neutral_def simp del: Mi_Chunks)
next
  case (9 d n)
  then show ?case
    using assms(1)
    by (auto simp: ya_def jbind_Inr_iff jmap_Inr_iff tidy_def neutral_def
        split: if_splits js.splits)
next
  case (10 d e ps v)
  then obtain w where "eval h e p = Inr w" by (auto simp: jbind_Inr_iff jmap_Inr_iff)
  then show ?case
    using 10 Mi_pa [OF plain_all_literal, of ps h p] clean_flatten [OF assms(1), of v p s]
    by (cases "truthy w") (auto simp: neutral_def split: if_splits)
next
  case (11 d e table)
  define css where "css = map (\<lambda>(k, ps). (k, pa (map chunk_of ps))) table"
  obtain w c where c: "(case map_of css (js_text w) of Some c \<Rightarrow> c
      | None \<Rightarrow> Js (inherited (js_text w))) = c" "Mi c h p = Inr s"
    using 11(4) by (auto simp: css_def jbind_Inr_iff jmap_Inr_iff)
  show ?case
  proof (cases "map_of css (js_text w)")
    case None
    then show ?thesis
      using 11(2) c clean_flatten [OF assms(1), of "inherited (js_text w)" p s]
      by (auto simp: neutral_def split: if_splits)
  next
    case (Some c')
    then have "(js_text w, c') \<in> set css" by (rule map_of_SomeD)
    then obtain ps where ps: "(js_text w, ps) \<in> set table" "c' = pa (map chunk_of ps)"
      by (auto simp: css_def)
    then have "plain_all ps" "pieces_depth d ps = Some d" "d' = d"
      using 11(2,3) by (auto simp: list_all_iff split: if_splits)
    moreover have "Mi (pa (map chunk_of ps)) h p = Inr s" using c Some ps(2) by simp
    ultimately show ?thesis
      using 11(1) [OF ps(1) refl, of d s] Mi_pa [OF plain_all_literal, of ps h p] by simp
  qed
next
  case (13 d x xs)
  then show ?case by (auto simp: bind_eq_Some_conv jcat_Inr_iff depth_run_append)
qed (use assms in \<open>auto simp: tidy_def neutral_def depth_run_append\<close>)

end
