(* ===== verification/Css_Safety.thy ===== *)
theory Css_Safety
  imports Css_Braces
begin

text \<open>
  Rendering without exceptions.  A shape says which entries of the properties are objects,
  colours or texts; a check on the pieces of a template finds the property accesses and colour
  operations that a shape makes safe, taking the tests around them into account.
\<close>

section \<open>Shapes\<close>

datatype shape = Object "(string \<times> shape) list" | Colour | Text

definition is_colour :: "js \<Rightarrow> bool" where
  "is_colour v \<longleftrightarrow> v = Str ''transparent'' \<or> (case yr v of Inr _ \<Rightarrow> True | Inl _ \<Rightarrow> False)"

fun fits :: "shape \<Rightarrow> js \<Rightarrow> bool" where
  "fits (Object cs) v \<longleftrightarrow>
     v \<noteq> Undef \<and> v \<noteq> Null \<and>
     list_all (\<lambda>(k, s). case js_get v k of Inr w \<Rightarrow> fits s w | Inl _ \<Rightarrow> False) cs"
| "fits Colour v \<longleftrightarrow> is_colour v"
| "fits Text v \<longleftrightarrow> is_string v"

fun shape_at :: "shape \<Rightarrow> string list \<Rightarrow> shape option" where
  "shape_at s [] = Some s"
| "shape_at (Object cs) (k # ks) =
     (case map_of cs k of Some s \<Rightarrow> shape_at s ks | None \<Rightarrow> None)"
| "shape_at s (k # ks) = None"

lemma shape_at_path:
  "fits s v \<Longrightarrow> shape_at s ks = Some t \<Longrightarrow> \<exists>w. js_path v ks = Inr w \<and> fits t w"
proof (induction s ks arbitrary: v rule: shape_at.induct)
  case (2 cs k ks)
  then obtain s where s: "map_of cs k = Some s" "shape_at s ks = Some t"
    by (auto split: option.splits)
  have "(k, s) \<in> set cs" using s(1) by (rule map_of_SomeD)
  then have "case js_get v k of Inr w \<Rightarrow> fits s w | Inl _ \<Rightarrow> False"
    using 2(2) by (auto simp: list_all_iff)
  then obtain w where "js_get v k = Inr w" "fits s w" by (auto split: sum.splits)
  then show ?case using 2(1) [OF s(1)] s(2) by (simp add: js_path.simps)
qed simp_all

definition at_object :: "shape \<Rightarrow> string list \<Rightarrow> bool" where
  "at_object s ks \<longleftrightarrow> (case shape_at s ks of Some (Object _) \<Rightarrow> True | _ \<Rightarrow> False)"

lemma at_object_path:
  assumes "fits s v" and "at_object s ks"
  shows "\<exists>w. js_path v ks = Inr w \<and> w \<noteq> Undef \<and> w \<noteq> Null"
proof -
  from assms(2) obtain cs where "shape_at s ks = Some (Object cs)"
    by (auto simp: at_object_def split: option.splits shape.splits)
  from shape_at_path [OF assms(1) this] show ?thesis by auto
qed

text \<open>A path whose parent is an object has a value.\<close>

definition readable_at :: "shape \<Rightarrow> string list \<Rightarrow> bool" where
  "readable_at s ks \<longleftrightarrow> ks = [] \<or> at_object s (butlast ks)"

lemma readable_at_path:
  assumes "fits s v" and "readable_at s ks"
  shows "\<exists>w. js_path v ks = Inr w"
proof (cases ks rule: rev_cases)
  case (snoc ms k)
  then obtain w where "js_path v ms = Inr w" "w \<noteq> Undef" "w \<noteq> Null"
    using at_object_path [OF assms(1)] assms(2) by (auto simp: readable_at_def)
  then show ?thesis
    using js_get_defined [of w k] by (auto simp: snoc js_path_append js_path.simps)
qed simp

definition colour_at :: "shape \<Rightarrow> string list \<Rightarrow> bool" where
  "colour_at s ks \<longleftrightarrow> (case shape_at s ks of Some Colour \<Rightarrow> True | _ \<Rightarrow> False)"

lemma colour_at_path:
  "fits s v \<Longrightarrow> colour_at s ks \<Longrightarrow> \<exists>w. js_path v ks = Inr w \<and> is_colour w"
  using shape_at_path [of s v ks Colour]
  by (auto simp: colour_at_def split: option.splits shape.splits)

section \<open>Colour operations on colours\<close>

lemma colour_fun_ok:
  assumes "is_colour c"
  shows "\<exists>v. colour_fun f e c = Inr v"
proof (cases "c = Str ''transparent''")
  case False
  then obtain x where "yr c = Inr x" using assms by (auto simp: is_colour_def split: sum.splits)
  then show ?thesis
    by (cases f) (simp_all add: Rr_def Dr_def Ur_def vr_def unless_transparent_def False)
qed (cases f; simp add: Rr_def Dr_def Ur_def unless_transparent_def)

lemma Ir_ok: "is_colour c \<Longrightarrow> \<exists>v. Ir pow c = Inr v"
  by (auto simp: is_colour_def Ir_def split: sum.splits)

lemma search_border_ok:
  assumes "js_path p [''theme'', ''sidebar'', ''backgroundColor''] = Inr c" and "is_colour c"
  shows "\<exists>v. search_border pow p = Inr v"
proof -
  obtain i where "Ir pow c = Inr i" using Ir_ok [OF assms(2)] by blast
  then show ?thesis
    using assms colour_fun_ok [of c Darken] colour_fun_ok [of c Lighten]
    by (simp add: search_border_def)
qed

section \<open>Expressions\<close>

text \<open>What holds when an expression is truthy.\<close>

fun guards :: "jexp \<Rightarrow> jexp list" where
  "guards (E_and a b) = guards a @ guards b"
| "guards e = [e]"

definition holds :: "host \<Rightarrow> js \<Rightarrow> jexp \<Rightarrow> bool" where
  "holds h p e \<longleftrightarrow> (\<exists>v. eval h e p = Inr v \<and> truthy v)"

lemma guards_hold:
  "eval h e p = Inr v \<Longrightarrow> truthy v \<Longrightarrow> list_all (holds h p) (guards e)"
  by (induction e arbitrary: v rule: guards.induct)
    (auto simp: holds_def jbind_Inr_iff list_all_append split: if_splits)

fun safe :: "shape \<Rightarrow> jexp list \<Rightarrow> jexp \<Rightarrow> bool" where
  "safe s F (E_at ks) \<longleftrightarrow> readable_at s ks"
| "safe s F (E_member e k) \<longleftrightarrow> e \<in> set F"
| "safe s F (E_index e i) \<longleftrightarrow>
     (case e of E_at ks \<Rightarrow> at_object s ks | _ \<Rightarrow> False) \<and> safe s F i"
| "safe s F (E_or a b) \<longleftrightarrow> safe s F a \<and> safe s F b"
| "safe s F (E_and a b) \<longleftrightarrow> safe s F a \<and> safe s (guards a @ F) b"
| "safe s F (E_not a) \<longleftrightarrow> safe s F a"
| "safe s F (E_cond c a b) \<longleftrightarrow> safe s F c \<and> safe s (guards c @ F) a \<and> safe s F b"
| "safe s F (E_same a b) \<longleftrightarrow> safe s F a \<and> safe s F b"
| "safe s F (E_above a b) \<longleftrightarrow> safe s F a \<and> safe s F b"
| "safe s F (E_times a b) \<longleftrightarrow> safe s F a \<and> safe s F b"
| "safe s F (E_text es) \<longleftrightarrow> list_all (safe s F) es"
| "safe s F (E_among e ks) \<longleftrightarrow> safe s F e"
| "safe s F (E_colour f a c) \<longleftrightarrow>
     safe s F a \<and> (case c of E_at ks \<Rightarrow> colour_at s ks | _ \<Rightarrow> False)"
| "safe s F (E_ky d n) \<longleftrightarrow>
     safe s F d \<and> at_object s [''theme''] \<and>
     at_object s [''theme'', ''sidebar'', ''level1Items''] \<and>
     at_object s [''theme'', ''sidebar'', ''groupItems'']"
| "safe s F (E_angle d) \<longleftrightarrow> safe s F d"
| "safe s F E_panel_width \<longleftrightarrow>
     shape_at s [''theme'', ''rightPanel'', ''width''] = Some Text \<and>
     at_object s [''theme'', ''sidebar'']"
| "safe s F E_search_border \<longleftrightarrow> colour_at s [''theme'', ''sidebar'', ''backgroundColor'']"
| "safe s F e \<longleftrightarrow> True"

lemma truthy_get: "truthy v \<Longrightarrow> \<exists>w. js_get v k = Inr w"
  by (rule js_get_defined) auto

lemma js_path_theme:
  "js_path p (''theme'' # ks) = Inr w \<Longrightarrow> js_get p ''theme'' = Inr t \<Longrightarrow> js_path t ks = Inr w"
  by (simp add: js_path.simps)

lemma ky_ok:
  assumes "fits s p" and "at_object s [''theme'']"
    and "at_object s [''theme'', ''sidebar'', ''level1Items'']"
    and "at_object s [''theme'', ''sidebar'', ''groupItems'']"
  shows "\<exists>v. ky d p n = Inr v"
proof -
  obtain t where t: "js_get p ''theme'' = Inr t"
    using at_object_path [OF assms(1,2)] by (auto simp: js_path.simps jbind_Inr_iff)
  have "\<exists>v. js_path t [''sidebar'', x, n] = Inr v"
    if "at_object s [''theme'', ''sidebar'', x]" for x
    using readable_at_path [OF assms(1), of "[''theme'', ''sidebar'', x, n]"] that t
    by (auto simp: readable_at_def dest: js_path_theme)
  then show ?thesis using assms(3,4) t by (auto simp: ky_def)
qed

lemma panel_width_ok:
  assumes "fits s p" and "shape_at s [''theme'', ''rightPanel'', ''width''] = Some Text"
    and "at_object s [''theme'', ''sidebar'']"
  shows "\<exists>v. panel_width p = Inr v"
proof -
  obtain u where "js_path p [''theme'', ''rightPanel'', ''width''] = Inr (Str u)"
    using shape_at_path [OF assms(1,2)] by (auto elim: is_string.elims)
  moreover obtain w where "js_path p [''theme'', ''sidebar'', ''width''] = Inr w"
    using readable_at_path [OF assms(1), of "[''theme'', ''sidebar'', ''width'']"] assms(3)
    by (auto simp: readable_at_def)
  ultimately show ?thesis by (simp add: panel_width_def)
qed

lemma eval_text_ok:
  "\<forall>e \<in> set es. \<exists>v. eval h e p = Inr v \<Longrightarrow> \<exists>t. eval_text h es p = Inr t"
  by (induction es) auto

lemma safe_eval:
  "safe s F e \<Longrightarrow> fits s p \<Longrightarrow> list_all (holds h p) F \<Longrightarrow> \<exists>v. eval h e p = Inr v"
proof (induction s F e rule: safe.induct)
  case (1 s F ks)
  then show ?case using readable_at_path by auto
next
  case (2 s F e k)
  then obtain v where "eval h e p = Inr v" "truthy v" by (auto simp: list_all_iff holds_def)
  then show ?case using truthy_get [of v k] by simp
next
  case (3 s F e i)
  then obtain ks where ks: "e = E_at ks" "at_object s ks" by (auto split: jexp.splits)
  obtain w where "js_path p ks = Inr w" "w \<noteq> Undef" "w \<noteq> Null"
    using at_object_path [OF 3(3) ks(2)] by blast
  moreover obtain x where "eval h i p = Inr x" using 3 by auto
  ultimately show ?case using js_get_defined [of w "js_text x"] by (simp add: ks)
next
  case (4 s F a b)
  then show ?case by fastforce
next
  case (5 s F a b)
  then obtain v where v: "eval h a p = Inr v" by auto
  then have "truthy v \<Longrightarrow> list_all (holds h p) (guards a @ F)"
    using guards_hold [OF v] 5(5) by (simp add: list_all_append)
  then show ?case using 5 v by (cases "truthy v") auto
next
  case (7 s F c a b)
  then obtain v where v: "eval h c p = Inr v" by auto
  then have "truthy v \<Longrightarrow> list_all (holds h p) (guards c @ F)"
    using guards_hold [OF v] 7(6) by (simp add: list_all_append)
  then show ?case using 7 v by (cases "truthy v") auto
next
  case (11 s F es)
  then have "\<forall>e \<in> set es. \<exists>v. eval h e p = Inr v" by (auto simp: list_all_iff)
  then show ?case using eval_text_ok by fastforce
next
  case (13 s F f a c)
  then obtain ks where ks: "c = E_at ks" "colour_at s ks" by (auto split: jexp.splits)
  obtain w where "js_path p ks = Inr w" "is_colour w"
    using colour_at_path [OF 13(3) ks(2)] by blast
  moreover obtain x where "eval h a p = Inr x" using 13 by auto
  ultimately show ?case using colour_fun_ok by (simp add: ks)
next
  case (14 s F d n)
  then show ?case using ky_ok [OF 14(3)] by fastforce
next
  case (15 s F d)
  then obtain v where "eval h d p = Inr v" by auto
  then show ?case by simp
next
  case (16 s F)
  then show ?case using panel_width_ok by simp
next
  case (17 s F)
  then show ?case using colour_at_path search_border_ok by fastforce
qed fastforce+

section \<open>Templates\<close>

fun piece_safe :: "shape \<Rightarrow> jexp list \<Rightarrow> piece \<Rightarrow> bool" and
    pieces_safe :: "shape \<Rightarrow> jexp list \<Rightarrow> piece list \<Rightarrow> bool" where
  "piece_safe s F (Dyn e) \<longleftrightarrow> safe s F e"
| "piece_safe s F (Css ps) \<longleftrightarrow> pieces_safe s F ps"
| "piece_safe s F (Media e t n ps) \<longleftrightarrow>
     at_object s [''theme'', ''breakpoints''] \<and> pieces_safe s F ps"
| "piece_safe s F (Media_with e t n pre x post) \<longleftrightarrow>
     at_object s [''theme'', ''breakpoints''] \<and> safe s F x"
| "piece_safe s F (Hook n) \<longleftrightarrow> at_object s [''theme'']"
| "piece_safe s F (Css_if e ps v) \<longleftrightarrow> safe s F e \<and> pieces_safe s F ps"
| "piece_safe s F (Css_case e table) \<longleftrightarrow>
     safe s F e \<and> list_all (\<lambda>(k, ps). pieces_safe s F ps) table"
| "piece_safe s F x \<longleftrightarrow> True"
| "pieces_safe s F [] \<longleftrightarrow> True"
| "pieces_safe s F (x # xs) \<longleftrightarrow> piece_safe s F x \<and> pieces_safe s F xs"

text \<open>Functions from outside return, and the hook of the theme, if there is one, is a function.\<close>

definition returns :: "host \<Rightarrow> bool" where
  "returns h \<longleftrightarrow>
     (\<forall>f p. \<exists>s. h_style h f p = Inr s) \<and> (\<forall>f vs. \<exists>v. h_invoke h f vs = Inr v)"

definition good_hook :: "js \<Rightarrow> bool" where
  "good_hook p \<longleftrightarrow>
     (case js_path p [''theme'', ''extensionsHook''] of
        Inr v \<Rightarrow> truthy v \<longrightarrow> (case v of Closure _ \<Rightarrow> True | _ \<Rightarrow> False)
      | Inl _ \<Rightarrow> True)"

lemma jcat_ok: "\<lbrakk>\<exists>x. a = Inr x; \<exists>y. b = Inr y\<rbrakk> \<Longrightarrow> \<exists>s. jcat a b = Inr s"
  by auto

lemma jconcat_ok: "\<forall>r \<in> set rs. \<exists>x. r = Inr x \<Longrightarrow> \<exists>s. jconcat rs = Inr s"
  by (induction rs) (auto intro!: jcat_ok)

lemma flatten_ok: "returns h \<Longrightarrow> \<exists>s. flatten_js h p v = Inr s"
  by (induction h p v rule: flatten_js.induct) (auto simp: returns_def intro!: jconcat_ok)

lemma media_ok:
  assumes "fits s p" and "returns h" and "at_object s [''theme'', ''breakpoints'']"
    and "\<exists>u. r = Inr u"
  shows "\<exists>u. media_text e t n r h p = Inr u"
proof -
  obtain b where "Mi (dyn (E_at [''theme'', ''breakpoints'', e])) h p = Inr b"
    using readable_at_path [OF assms(1), of "[''theme'', ''breakpoints'', e]"] assms(3)
      flatten_ok [OF assms(2)]
    by (fastforce simp: Mi_dyn readable_at_def)
  then show ?thesis using assms(4) by (auto simp: media_text_def)
qed

lemma piece_safe_ok:
  assumes "fits s p" and "returns h" and "good_hook p" and "list_all (holds h p) F"
  shows "piece_safe s F x \<Longrightarrow> plain_deep x \<Longrightarrow> \<exists>u. Mi (chunk_of x) h p = Inr u"
    and "pieces_safe s F xs \<Longrightarrow> plain_all xs \<Longrightarrow> \<exists>u. Mi (Chunks (map chunk_of xs)) h p = Inr u"
  using assms
proof (induction s F x and s F xs rule: piece_safe_pieces_safe.induct)
  case (1 s F e)
  then show ?case using safe_eval [of s F e p h] flatten_ok [of h p] by (auto simp: Mi_dyn)
next
  case (2 s F ps)
  then show ?case using Mi_pa [OF plain_all_literal, of ps h p] by simp
next
  case (3 s F e t n ps)
  then show ?case
    using media_ok [of s p h "Mi (Chunks (map chunk_of ps)) h p" e t n]
    by (simp add: Mi_ma [OF plain_all_literal] del: Mi_Chunks)
next
  case (4 s F e t n pre x post)
  then obtain es where x: "x = E_text es" by (auto split: jexp.splits)
  obtain v where "eval h x p = Inr v" using 4 safe_eval [of s F x p h] by auto
  then obtain w where w: "eval h x p = Inr (Str w)" by (auto simp: x jmap_Inr_iff)
  have "\<exists>u. Mi (Chunks [lit pre, lit w, lit post]) h p = Inr u"
    by (cases pre; cases w; cases post) simp_all
  then show ?case
    using media_ok [of s p h "Mi (Chunks [lit pre, lit w, lit post]) h p" e t n] 4 w
      Mi_ma [of "[lit pre, lit w, lit post]" e t n h p]
    by (simp del: Mi_Chunks)
next
  case (5 s F n)
  then obtain v where v: "js_path p [''theme'', ''extensionsHook''] = Inr v"
    using readable_at_path [of s p "[''theme'', ''extensionsHook'']"] by (auto simp: readable_at_def)
  show ?case
  proof (cases "truthy v")
    case True
    then obtain f where f: "v = Closure f"
      using 5(5) v by (auto simp: good_hook_def split: js.splits)
    obtain w where "h_invoke h f [Str n, p] = Inr w" using 5(4) unfolding returns_def by blast
    then show ?thesis
      using v f True flatten_ok [OF 5(4), of p w] by (simp add: ya_def)
  qed (simp add: ya_def v)
next
  case (6 s F e ps v)
  then obtain w where "eval h e p = Inr w" using safe_eval [of s F e p h] by auto
  then show ?case
    using 6 Mi_pa [OF plain_all_literal, of ps h p] flatten_ok [of h p v]
    by (cases "truthy w") simp_all
next
  case (7 s F e table)
  define css where "css = map (\<lambda>(k, ps). (k, pa (map chunk_of ps))) table"
  obtain w where w: "eval h e p = Inr w" using 7 safe_eval [of s F e p h] by auto
  show ?case
  proof (cases "map_of css (js_text w)")
    case None
    then show ?thesis using w flatten_ok [OF 7(5), of p] by (simp add: css_def)
  next
    case (Some c)
    then have "(js_text w, c) \<in> set css" by (rule map_of_SomeD)
    then obtain ps where ps: "(js_text w, ps) \<in> set table" "c = pa (map chunk_of ps)"
      by (auto simp: css_def)
    then have "plain_all ps" "pieces_safe s F ps" using 7(2,3) by (auto simp: list_all_iff)
    then have "\<exists>u. Mi (pa (map chunk_of ps)) h p = Inr u"
      using 7(1) [OF ps(1) refl] 7(4-) Mi_pa [OF plain_all_literal, of ps h p] by simp
    then show ?thesis using Some w ps(2) by (simp add: css_def [symmetric])
  qed
next
  case (10 s F x xs)
  then show ?case by (auto intro!: jcat_ok)
qed (simp_all add: flatten_ok)

end
