(* ===== verification/Redoc_Css_Page.thy ===== *)
theory Redoc_Css_Page
  imports Redoc_Css_Base
begin

text \<open>
  Style sheets of redoc.standalone.js, each under the name of its component: the page layout, the headings, the tables of properties and the buttons.
\<close>

definition va_css :: "piece list" where
  "va_css = [Lit ''
  padding: 20px;
  color: red;
'']"

definition wa_css :: "piece list" where
  "wa_css = [Lit ''
  0% {
    transform: rotate(0deg); }
  100% {
    transform: rotate(360deg);
  }
'']"

definition xa_css :: "piece list" where
  "xa_css = [Lit ''
  animation: 2s '',
     Anim ''wa'',
     Lit ('' linear infinite;
  width: 50px;
  height: 50px;
  content: '' @ replicate 2 apostrophe @ '';
  display: inline-block;
  margin-left: -25px;

  path {
    fill: ''),
     Dyn (E_at [''color'']),
     Lit '';
  }
'']"

definition ka_css :: "piece list" where
  "ka_css = [Lit ''
  font-family: helvetica, sans;
  width: 100%;
  text-align: center;
  font-size: 25px;
  margin: 30px 0 20px 0;
  color: '',
     Dyn (E_at [''color'']),
     Lit '';
'']"

definition Ou_css :: "piece list" where
  "Ou_css = [Lit ''
  width: calc(100% - '',
     Dyn (E_at [''theme'', ''rightPanel'', ''width'']),
     Lit '');
  padding: 0 '',
     Dyn (E_at [''theme'', ''spacing'', ''sectionHorizontal'']),
     Lit ''px;

  '',
     Media_with ''medium'' True [] ''
    width: 100%;
    padding: ''
       (E_text [E_cond (E_at [''compact'']) (E_num (dnat 0)) (E_at [''theme'', ''spacing'',
       ''sectionVertical'']), E_str ''px '', E_at [''theme'', ''spacing'', ''sectionHorizontal''],
       E_str ''px''])
       '';
  '',
     Lit '';
'']"

definition Su_css :: "piece list" where
  "Su_css = [Lit ''
  padding: '',
     Dyn (E_at [''theme'', ''spacing'', ''sectionVertical'']),
     Lit ''px 0;

  &:last-child {
    min-height: calc(100vh + 1px);
  }

  & > &:last-child {
    min-height: initial;
  }

  '',
     Media ''medium'' True [] [Lit ''
    padding: 0;
  ''],
     Lit ''
  '',
     Dyn (E_cond (E_at [''underlined'']) (E_str (''
    position: relative;

    &:not(:last-of-type):after {
      position: absolute;
      bottom: 0;
      width: 100%;
      display: block;
      content: '' @ replicate 2 apostrophe @ '';
      border-bottom: 1px solid rgba(0, 0, 0, 0.2);
    }
  '')) (E_str [])),
     Lit ''
'']"

definition Eu_css :: "piece list" where
  "Eu_css = [Lit ''
  width: '',
     Dyn (E_at [''theme'', ''rightPanel'', ''width'']),
     Lit '';
  color: '',
     Dyn (E_at [''theme'', ''rightPanel'', ''textColor'']),
     Lit '';
  background-color: '',
     Dyn (E_at [''theme'', ''rightPanel'', ''backgroundColor'']),
     Lit '';
  padding: 0 '',
     Dyn (E_at [''theme'', ''spacing'', ''sectionHorizontal'']),
     Lit ''px;

  '',
     Media ''medium'' True [] [Lit ''
    width: 100%;
    padding: '',
     Dyn (E_text [E_at [''theme'', ''spacing'', ''sectionVertical''], E_str ''px '', E_at
       [''theme'', ''spacing'', ''sectionHorizontal''], E_str ''px'']),
     Lit '';
  ''],
     Lit '';
'']"

definition Pu_css :: "piece list" where
  "Pu_css = [Lit ''
  background-color: '',
     Dyn (E_at [''theme'', ''rightPanel'', ''backgroundColor'']),
     Lit '';
'']"

definition Au_css :: "piece list" where
  "Au_css = [Lit ''
  display: flex;
  width: 100%;
  padding: 0;

  '',
     Media ''medium'' True [] [Lit ''
    flex-direction: column;
  ''],
     Lit '';
'']"

definition Ru_css :: "piece list" where
  "Ru_css = [Lit ''
  '',
     Css (Cu 1),
     Lit '';
  color: '',
     Dyn (E_at [''theme'', ''colors'', ''text'', ''primary'']),
     Lit '';

  '',
     Hook ''H1'',
     Lit '';
'']"

definition ju_css :: "piece list" where
  "ju_css = [Lit ''
  '',
     Css (Cu 2),
     Lit '';
  color: '',
     Dyn (E_at [''theme'', ''colors'', ''text'', ''primary'']),
     Lit '';
  margin: 0 0 20px;

  '',
     Hook ''H2'',
     Lit '';
'']"

definition H2_css :: "piece list" where
  "H2_css = [Lit ''
  '',
     Css (Cu 3),
     Lit '';
  color: '',
     Dyn (E_at [''theme'', ''colors'', ''text'', ''primary'']),
     Lit '';

  '',
     Hook ''H3'',
     Lit '';
'']"

definition Tu_css :: "piece list" where
  "Tu_css = [Lit ''
  color: '',
     Dyn (E_at [''theme'', ''rightPanel'', ''textColor'']),
     Lit '';

  '',
     Hook ''RightPanelHeader'',
     Lit '';
'']"

definition Iu_css :: "piece list" where
  "Iu_css = [Lit ''
  border-bottom: 1px solid rgba(38, 50, 56, 0.3);
  margin: 1em 0 1em 0;
  color: rgba(38, 50, 56, 0.5);
  font-weight: normal;
  text-transform: uppercase;
  font-size: 0.929em;
  line-height: 20px;

  '',
     Hook ''UnderlinedHeader'',
     Lit '';
'']"

definition zu_css :: "piece list" where
  "zu_css = [Lit ''
  '',
     Css (Fu ''&''),
     Lit '';
'']"

definition Bu_css :: "piece list" where
  "Bu_css = [Lit ''
  height: '',
     Dyn (E_or (E_at [''size'']) (E_str ''18px'')),
     Lit '';
  width: '',
     Dyn (E_or (E_at [''size'']) (E_str ''18px'')),
     Lit '';
  min-width: '',
     Dyn (E_or (E_at [''size'']) (E_str ''18px'')),
     Lit '';
  vertical-align: middle;
  float: '',
     Dyn (E_or (E_at [''float'']) (E_str [])),
     Lit '';
  transition: transform 0.2s ease-out;
  transform: rotateZ('',
     Dyn (E_angle (E_or (E_at [''direction'']) (E_str ''down''))),
     Lit '');

  polygon {
    fill: '',
     Dyn (E_or (E_and (E_and (E_at [''color'']) (E_index (E_at [''theme'', ''colors'',
       ''responses'']) (E_at [''color'']))) (E_member (E_index (E_at [''theme'', ''colors'',
       ''responses'']) (E_at [''color''])) ''color'')) (E_at [''color''])),
     Lit '';
  }
'']"

definition qu_css :: "piece list" where
  "qu_css = [Lit ''
  display: inline-block;
  padding: 2px 8px;
  margin: 0;
  background-color: '',
     Dyn (E_member (E_index (E_at [''theme'', ''colors'']) (E_at [''type''])) ''main''),
     Lit '';
  color: '',
     Dyn (E_member (E_index (E_at [''theme'', ''colors'']) (E_at [''type''])) ''contrastText''),
     Lit '';
  font-size: '',
     Dyn (E_at [''theme'', ''typography'', ''code'', ''fontSize'']),
     Lit '';
  vertical-align: middle;
  line-height: 1.6;
  border-radius: 4px;
  font-weight: '',
     Dyn (E_at [''theme'', ''typography'', ''fontWeightBold'']),
     Lit '';
  font-size: 12px;
  + span[type] {
    margin-left: 4px;
  }
'']"

definition Hu_css :: "piece list" where
  "Hu_css = [Lit ''
  text-align: right;
  font-size: 0.9em;
  font-weight: normal;
  color: '',
     Dyn (E_at [''theme'', ''colors'', ''text'', ''secondary'']),
     Lit '';
'']"

definition Yu_css :: "piece list" where
  "Yu_css = [Lit ''
  border-left: 1px solid '',
     Dyn (E_at [''theme'', ''schema'', ''linesColor'']),
     Lit '';
  box-sizing: border-box;
  position: relative;
  padding: 10px 10px 10px 0;

  '',
     Media ''small'' False [] [Lit ''
    display: block;
    overflow: hidden;
  ''],
     Lit ''

  tr:first-of-type > &,
  tr.last > & {
    border-left-width: 0;
    background-position: top left;
    background-repeat: no-repeat;
    background-size: 1px 100%;
  }

  tr:first-of-type > & {
    background-image: linear-gradient(
      to bottom,
      transparent 0%,
      transparent 22px,
      '',
     Dyn (E_at [''theme'', ''schema'', ''linesColor'']),
     Lit '' 22px,
      '',
     Dyn (E_at [''theme'', ''schema'', ''linesColor'']),
     Lit '' 100%
    );
  }

  tr.last > & {
    background-image: linear-gradient(
      to bottom,
      '',
     Dyn (E_at [''theme'', ''schema'', ''linesColor'']),
     Lit '' 0%,
      '',
     Dyn (E_at [''theme'', ''schema'', ''linesColor'']),
     Lit '' 22px,
      transparent 22px,
      transparent 100%
    );
  }

  tr.last + tr > & {
    border-left-color: transparent;
  }

  tr.last:first-child > & {
    background: none;
    border-left-color: transparent;
  }
'']"

definition Ku_css :: "piece list" where
  "Ku_css = [Lit ''
  padding: 0;
'']"

definition Gu_css :: "piece list" where
  "Gu_css = [Lit ''
  vertical-align: top;
  line-height: 20px;
  white-space: nowrap;
  font-size: 13px;
  font-family: '',
     Dyn (E_at [''theme'', ''typography'', ''code'', ''fontFamily'']),
     Lit '';

  &.deprecated {
    '',
     Css Wu_css,
     Lit '';
  }

  '',
     Css_if (E_same (E_str ''patternProperties'') (E_at [''kind''])) [Lit ''
      > span.property-name {
        display: inline-table;
        white-space: break-spaces;
        margin-right: 20px;

        ::before,
        ::after {
          content: '/';
          filter: opacity(0.2);
        }
      }
    ''] (Bool False),
     Lit ''

  '',
     Dyn (E_cond (E_among (E_at [''kind'']) [''field'', ''additionalProperties'',
       ''patternProperties'']) (E_str []) (E_str ''font-style: italic'')),
     Lit '';

  '',
     Hook ''PropertyNameCell'',
     Lit '';
'']"

definition Qu_css :: "piece list" where
  "Qu_css = [Lit ''
  border-bottom: 1px solid #9fb4be;
  padding: 10px 0;
  width: '',
     Dyn (E_at [''theme'', ''schema'', ''defaultDetailsWidth'']),
     Lit '';
  box-sizing: border-box;

  tr.expanded & {
    border-bottom: none;
  }

  '',
     Media ''small'' False [] [Lit ''
    padding: 0 20px;
    border-bottom: none;
    border-left: 1px solid '',
     Dyn (E_at [''theme'', ''schema'', ''linesColor'']),
     Lit '';

    tr.last > & {
      border-left: none;
    }
  ''],
     Lit ''

  '',
     Hook ''PropertyDetailsCell'',
     Lit '';
'']"

definition Xu_css :: "piece list" where
  "Xu_css = [Lit ''
  color: '',
     Dyn (E_at [''theme'', ''schema'', ''linesColor'']),
     Lit '';
  font-family: '',
     Dyn (E_at [''theme'', ''typography'', ''code'', ''fontFamily'']),
     Lit ('';
  margin-right: 10px;

  &::before {
    content: '' @ replicate 2 apostrophe @ '';
    display: inline-block;
    vertical-align: middle;
    width: 10px;
    height: 1px;
    background: ''),
     Dyn (E_at [''theme'', ''schema'', ''linesColor'']),
     Lit ('';
  }

  &::after {
    content: '' @ replicate 2 apostrophe @ '';
    display: inline-block;
    vertical-align: middle;
    width: 1px;
    background: ''),
     Dyn (E_at [''theme'', ''schema'', ''linesColor'']),
     Lit '';
    height: 7px;
  }
'']"

definition Ju_css :: "piece list" where
  "Ju_css = [Lit ''
  padding: '',
     Dyn (E_at [''theme'', ''schema'', ''nestingSpacing'']),
     Lit '';
'']"

definition Zu_css :: "piece list" where
  "Zu_css = [Lit ''
  border-collapse: separate;
  border-radius: 3px;
  font-size: '',
     Dyn (E_at [''theme'', ''typography'', ''fontSize'']),
     Lit '';

  border-spacing: 0;
  width: 100%;

  > tr {
    vertical-align: middle;
  }

  '',
     Media ''small'' False [] [Lit ''
    display: block;
    > tr, > tbody > tr {
      display: block;
    }
  ''],
     Lit ''

  '',
     Media ''small'' False '' and (-ms-high-contrast:none)'' [Lit ''
    td {
      float: left;
      width: 100%;
    }
  ''],
     Lit ''

  &
    '',
     Ref ''Ju'',
     Lit '',
    &
    '',
     Ref ''Ju'',
     Lit ''
    '',
     Ref ''Ju'',
     Lit ''
    '',
     Ref ''Ju'',
     Lit '',
    &
    '',
     Ref ''Ju'',
     Lit ''
    '',
     Ref ''Ju'',
     Lit ''
    '',
     Ref ''Ju'',
     Lit ''
    '',
     Ref ''Ju'',
     Lit ''
    '',
     Ref ''Ju'',
     Lit '' {
    margin: '',
     Dyn (E_at [''theme'', ''schema'', ''nestingSpacing'']),
     Lit '';
    margin-right: 0;
    background: '',
     Dyn (E_at [''theme'', ''schema'', ''nestedBackground'']),
     Lit '';
  }

  &
    '',
     Ref ''Ju'',
     Lit ''
    '',
     Ref ''Ju'',
     Lit '',
    &
    '',
     Ref ''Ju'',
     Lit ''
    '',
     Ref ''Ju'',
     Lit ''
    '',
     Ref ''Ju'',
     Lit ''
    '',
     Ref ''Ju'',
     Lit '',
    &
    '',
     Ref ''Ju'',
     Lit ''
    '',
     Ref ''Ju'',
     Lit ''
    '',
     Ref ''Ju'',
     Lit ''
    '',
     Ref ''Ju'',
     Lit ''
    '',
     Ref ''Ju'',
     Lit ''
    '',
     Ref ''Ju'',
     Lit '' {
    background: #ffffff;
  }
'']"

definition ep_css :: "piece list" where
  "ep_css = [Lit ''
  margin: 0 0 3px 0;
  display: inline-block;
'']"

definition tp_css :: "piece list" where
  "tp_css = [Lit ''
  font-size: 0.9em;
  margin-right: 10px;
  color: '',
     Dyn (E_at [''theme'', ''colors'', ''primary'', ''main'']),
     Lit '';
  font-family: '',
     Dyn (E_at [''theme'', ''typography'', ''headings'', ''fontFamily'']),
     Lit '';
}
'']"

definition np_css :: "piece list" where
  "np_css = [Lit ''
  display: inline-block;
  margin-right: 10px;
  margin-bottom: 5px;
  font-size: 0.8em;
  cursor: pointer;
  border: 1px solid '',
     Dyn (E_at [''theme'', ''colors'', ''primary'', ''main'']),
     Lit '';
  padding: 2px 10px;
  line-height: 1.5em;
  outline: none;
  &:focus {
    box-shadow: 0 0 0 1px '',
     Dyn (E_at [''theme'', ''colors'', ''primary'', ''main'']),
     Lit '';
  }

  '',
     Css_if (E_at [''deprecated'']) Wu_css (Str []),
     Lit '';

  '',
     Dyn (E_cond (E_at [''active'']) (E_text [E_str ''
      color: white;
      background-color: '', E_at [''theme'', ''colors'', ''primary'', ''main''], E_str '';
      &:focus {
        box-shadow: none;
        background-color: '', E_colour Darken (E_num (dec 15 2)) (E_at [''theme'', ''colors'',
       ''primary'', ''main'']), E_str '';
      }
      '']) (E_text [E_str ''
        color: '', E_at [''theme'', ''colors'', ''primary'', ''main''], E_str '';
        background-color: white;
      ''])),
     Lit ''
'']"

definition rp_css :: "piece list" where
  "rp_css = [Lit ''
  font-size: 0.9em;
  font-family: '',
     Dyn (E_at [''theme'', ''typography'', ''code'', ''fontFamily'']),
     Lit '';
  &::after {
    content: ' [';
  }
'']"

definition op_css :: "piece list" where
  "op_css = [Lit ''
  font-size: 0.9em;
  font-family: '',
     Dyn (E_at [''theme'', ''typography'', ''code'', ''fontFamily'']),
     Lit '';
  &::after {
    content: ']';
  }
'']"

end
