(* ===== verification/Redoc_Css_Code.thy ===== *)
theory Redoc_Css_Code
  imports Redoc_Css_Page
begin

text \<open>
  Style sheets of redoc.standalone.js, each under the name of its component: tabs, code samples, dropdowns, Markdown text and tooltips.
\<close>

definition Dp_css :: "piece list" where
  "Dp_css = [Lit ''
  > ul {
    list-style: none;
    padding: 0;
    margin: 0;
    margin: 0 -5px;

    > li {
      padding: 5px 10px;
      display: inline-block;

      background-color: '',
     Dyn (E_at [''theme'', ''codeBlock'', ''backgroundColor'']),
     Lit '';
      border-bottom: 1px solid rgba(0, 0, 0, 0.5);
      cursor: pointer;
      text-align: center;
      outline: none;
      color: '',
     Dyn (E_colour Darken (E_at [''theme'', ''colors'', ''tonalOffset'']) (E_at [''theme'',
       ''rightPanel'', ''textColor''])),
     Lit '';
      margin: 0
        '',
     Dyn (E_text [E_at [''theme'', ''spacing'', ''unit''], E_str ''px '', E_at [''theme'',
       ''spacing'', ''unit''], E_str ''px '', E_at [''theme'', ''spacing'', ''unit''], E_str
       ''px'']),
     Lit '';
      border: 1px solid '',
     Dyn (E_colour Darken (E_num (dec 5 2)) (E_at [''theme'', ''codeBlock'',
       ''backgroundColor''])),
     Lit '';
      border-radius: 5px;
      min-width: 60px;
      font-size: 0.9em;
      font-weight: bold;

      &.react-tabs__tab--selected {
        color: '',
     Dyn (E_at [''theme'', ''colors'', ''text'', ''primary'']),
     Lit '';
        background: '',
     Dyn (E_at [''theme'', ''rightPanel'', ''textColor'']),
     Lit '';
        &:focus {
          outline: auto;
        }
      }

      &:only-child {
        flex: none;
        min-width: 100px;
      }

      &.tab-success {
        color: '',
     Dyn (E_at [''theme'', ''colors'', ''responses'', ''success'', ''tabTextColor'']),
     Lit '';
      }

      &.tab-redirect {
        color: '',
     Dyn (E_at [''theme'', ''colors'', ''responses'', ''redirect'', ''tabTextColor'']),
     Lit '';
      }

      &.tab-info {
        color: '',
     Dyn (E_at [''theme'', ''colors'', ''responses'', ''info'', ''tabTextColor'']),
     Lit '';
      }

      &.tab-error {
        color: '',
     Dyn (E_at [''theme'', ''colors'', ''responses'', ''error'', ''tabTextColor'']),
     Lit '';
      }
    }
  }
  > .react-tabs__tab-panel {
    background: '',
     Dyn (E_at [''theme'', ''codeBlock'', ''backgroundColor'']),
     Lit '';
    & > div,
    & > pre {
      padding: '',
     Dyn (E_times (E_num (dnat 4)) (E_at [''theme'', ''spacing'', ''unit''])),
     Lit ''px;
      margin: 0;
    }

    & > div > pre {
      padding: 0;
    }
  }
'']"

definition small_tabs_css :: "piece list" where
  "small_tabs_css = [Lit ''
  > ul {
    display: block;
    > li {
      padding: 2px 5px;
      min-width: auto;
      margin: 0 15px 0 0;
      font-size: 13px;
      font-weight: normal;
      border-bottom: 1px dashed;
      color: '',
     Dyn (E_colour Darken (E_at [''theme'', ''colors'', ''tonalOffset'']) (E_at [''theme'',
       ''rightPanel'', ''textColor''])),
     Lit '';
      border-radius: 0;
      background: none;

      &:last-child {
        margin-right: 0;
      }

      &.react-tabs__tab--selected {
        color: '',
     Dyn (E_at [''theme'', ''rightPanel'', ''textColor'']),
     Lit '';
        background: none;
      }
    }
  }
  > .react-tabs__tab-panel {
    & > div,
    & > pre {
      padding: '',
     Dyn (E_times (E_num (dnat 2)) (E_at [''theme'', ''spacing'', ''unit''])),
     Lit ''px 0;
    }
  }
'']"

definition Lp_css :: "piece list" where
  "Lp_css = [Lit (''
  /**
  * Based on prism-dark.css
  */

  code[class*='language-'],
  pre[class*='language-'] {
    /* color: white;
    background: none; */
    text-shadow: 0 -0.1em 0.2em black;
    text-align: left;
    white-space: pre;
    word-spacing: normal;
    word-break: normal;
    word-wrap: normal;
    line-height: 1.5;

    -moz-tab-size: 4;
    -o-tab-size: 4;
    tab-size: 4;

    -webkit-hyphens: none;
'' @ ''    -moz-hyphens: none;
    -ms-hyphens: none;
    hyphens: none;
  }

  @media print {
    code[class*='language-'],
    pre[class*='language-'] {
      text-shadow: none;
    }
  }

  /* Code blocks */
  pre[class*='language-'] {
    padding: 1em;
    margin: 0.5em 0;
    overflow: auto;
  }

  .token.comment,
  .token.prolog,
  .token.doctype,
  .token.cdata {
    color: hsl(30, 20%, 50%);
  }

'' @ ''  .token.punctuation {
    opacity: 0.7;
  }

  .namespace {
    opacity: 0.7;
  }

  .token.property,
  .token.tag,
  .token.number,
  .token.constant,
  .token.symbol {
    color: #4a8bb3;
  }

  .token.boolean {
    color: #e64441;
  }

  .token.selector,
  .token.attr-name,
  .token.string,
  .token.char,
  .token.builtin,
  .token.inserted {
    color: #a0fbaa;
    & + a,
    & + a:visited {
      color: #4ed2ba;
'' @ ''      text-decoration: underline;
    }
  }

  .token.property.string {
    color: white;
  }

  .token.operator,
  .token.entity,
  .token.url,
  .token.variable {
    color: hsl(40, 90%, 60%);
  }

  .token.atrule,
  .token.attr-value,
  .token.keyword {
    color: hsl(350, 40%, 70%);
  }

  .token.regex,
  .token.important {
    color: #e90;
  }

  .token.important,
  .token.bold {
    font-weight: bold;
'' @ ''  }
  .token.italic {
    font-style: italic;
  }

  .token.entity {
    cursor: help;
  }

  .token.deleted {
    color: red;
  }

  ''),
     Hook ''Prism'',
     Lit '';
'']"

definition Mp_css :: "piece list" where
  "Mp_css = [Lit ''
  opacity: 0.7;
  transition: opacity 0.3s ease;
  text-align: right;
  &:focus-within {
    opacity: 1;
  }
  > button {
    background-color: transparent;
    border: 0;
    color: inherit;
    padding: 2px 10px;
    font-family: '',
     Dyn (E_at [''theme'', ''typography'', ''fontFamily'']),
     Lit '';
    font-size: '',
     Dyn (E_at [''theme'', ''typography'', ''fontSize'']),
     Lit '';
    line-height: '',
     Dyn (E_at [''theme'', ''typography'', ''lineHeight'']),
     Lit '';
    cursor: pointer;
    outline: 0;

    :hover,
    :focus {
      background: rgba(255, 255, 255, 0.1);
    }
  }
'']"

definition Fp_css :: "piece list" where
  "Fp_css = [Lit ''
  &:hover '',
     Ref ''Mp'',
     Lit '' {
    opacity: 1;
  }
'']"

definition zp_css :: "piece list" where
  "zp_css = [Lit ''
  font-family: '',
     Dyn (E_at [''theme'', ''typography'', ''code'', ''fontFamily'']),
     Lit '';
  font-size: '',
     Dyn (E_at [''theme'', ''typography'', ''code'', ''fontSize'']),
     Lit '';
  overflow-x: auto;
  margin: 0;

  white-space: '',
     Dyn (E_cond (E_at [''theme'', ''typography'', ''code'', ''wrap'']) (E_str ''pre-wrap'')
       (E_str ''pre'')),
     Lit '';
'']"

definition Sd_css :: "piece list" where
  "Sd_css = [Lit ''
  position: relative;
'']"

definition Ad_css :: "piece list" where
  "Ad_css = [Lit ''
  position: absolute;
  pointer-events: none;
  z-index: 1;
  top: 50%;
  -webkit-transform: translateY(-50%);
  -ms-transform: translateY(-50%);
  transform: translateY(-50%);
  right: 8px;
  margin: auto;
  text-align: center;
  polyline {
    color: '',
     Dyn (E_and (E_same (E_str ''dark'') (E_at [''variant''])) (E_str ''white'')),
     Lit '';
  }
'']"

definition Cd_css :: "piece list" where
  "Cd_css = [Lit ''
  label {
    box-sizing: border-box;
    min-width: 100px;
    outline: none;
    display: inline-block;
    font-family: '',
     Dyn (E_at [''theme'', ''typography'', ''headings'', ''fontFamily'']),
     Lit '';
    color: '',
     Dyn (E_at [''theme'', ''colors'', ''text'', ''primary'']),
     Lit '';
    vertical-align: bottom;
    width: '',
     Dyn (E_cond (E_at [''fullWidth'']) (E_str ''100%'') (E_str ''auto'')),
     Lit '';
    text-transform: none;
    padding: 0 22px 0 4px;

    font-size: 0.929em;
    line-height: 1.5em;
    font-family: inherit;
    text-overflow: ellipsis;
    overflow: hidden;
    white-space: nowrap;
  }
  .dropdown-select {
    position: absolute;
    top: 0;
    left: 0;
    width: 100%;
    height: 100%;
    opacity: 0;
    border: none;
    appearance: none;
    cursor: pointer;

    color: '',
     Dyn (E_at [''theme'', ''colors'', ''text'', ''primary'']),
     Lit '';
    line-height: inherit;
    font-family: inherit;
  }
  box-sizing: border-box;
  min-width: 100px;
  outline: none;
  display: inline-block;
  border-radius: 2px;
  border: 1px solid rgba(38, 50, 56, 0.5);
  vertical-align: bottom;
  padding: 2px 0px 2px 6px;
  position: relative;
  width: auto;
  background: white;
  color: #263238;
  font-family: '',
     Dyn (E_at [''theme'', ''typography'', ''headings'', ''fontFamily'']),
     Lit '';
  font-size: 0.929em;
  line-height: 1.5em;
  cursor: pointer;
  transition: border 0.25s ease, color 0.25s ease, box-shadow 0.25s ease;

  &:hover,
  &:focus-within {
    border: 1px solid '',
     Dyn (E_at [''theme'', ''colors'', ''primary'', ''main'']),
     Lit '';
    color: '',
     Dyn (E_at [''theme'', ''colors'', ''primary'', ''main'']),
     Lit '';
    box-shadow: 0px 0px 0px 1px '',
     Dyn (E_at [''theme'', ''colors'', ''primary'', ''main'']),
     Lit '';
  }
'']"

definition Rd_css :: "piece list" where
  "Rd_css = [Lit ''
  margin-left: 10px;
  text-transform: none;
  font-size: 0.969em;

  font-size: 1em;
  border: none;
  padding: 0 1.2em 0 0;
  background: transparent;

  &:hover,
  &:focus-within {
    border: none;
    box-shadow: none;
    label {
      color: '',
     Dyn (E_at [''theme'', ''colors'', ''primary'', ''main'']),
     Lit '';
      text-shadow: 0px 0px 0px '',
     Dyn (E_at [''theme'', ''colors'', ''primary'', ''main'']),
     Lit '';
    }
  }
'']"

definition jd_css :: "piece list" where
  "jd_css = [Lit ''
  margin-left: 10px;
  text-transform: none;
  font-size: 0.929em;
  color: black;
'']"

definition Rf_css :: "piece list" where
  "Rf_css = [Lit ''
  font-family: '',
     Dyn (E_at [''theme'', ''typography'', ''fontFamily'']),
     Lit '';
  font-weight: '',
     Dyn (E_at [''theme'', ''typography'', ''fontWeightRegular'']),
     Lit '';
  line-height: '',
     Dyn (E_at [''theme'', ''typography'', ''lineHeight'']),
     Lit '';

  p {
    &:last-child {
      margin-bottom: 0;
    }
  }

  '',
     Dyn (E_and (E_at [''compact'']) (E_str ''
    p:first-child {
      margin-top: 0;
    }
    p:last-child {
      margin-bottom: 0;
    }
  '')),
     Lit ''

  '',
     Dyn (E_and (E_at [''inline'']) (E_str '' p {
    display: inline-block;
  }'')),
     Lit ''

  h1 {
    '',
     Css (Cu 1),
     Lit '';
    color: '',
     Dyn (E_at [''theme'', ''colors'', ''primary'', ''main'']),
     Lit '';
    margin-top: 0;
  }

  h2 {
    '',
     Css (Cu 2),
     Lit '';
    color: '',
     Dyn (E_at [''theme'', ''colors'', ''text'', ''primary'']),
     Lit '';
  }

  code {
    color: '',
     Dyn (E_at [''theme'', ''typography'', ''code'', ''color'']),
     Lit '';
    background-color: '',
     Dyn (E_at [''theme'', ''typography'', ''code'', ''backgroundColor'']),
     Lit '';

    font-family: '',
     Dyn (E_at [''theme'', ''typography'', ''code'', ''fontFamily'']),
     Lit '';
    border-radius: 2px;
    border: 1px solid rgba(38, 50, 56, 0.1);
    padding: 0 '',
     Dyn (E_at [''theme'', ''spacing'', ''unit'']),
     Lit ''px;
    font-size: '',
     Dyn (E_at [''theme'', ''typography'', ''code'', ''fontSize'']),
     Lit '';
    font-weight: '',
     Dyn (E_at [''theme'', ''typography'', ''code'', ''fontWeight'']),
     Lit '';

    word-break: break-word;
  }

  pre {
    font-family: '',
     Dyn (E_at [''theme'', ''typography'', ''code'', ''fontFamily'']),
     Lit '';
    white-space: '',
     Dyn (E_cond (E_at [''theme'', ''typography'', ''code'', ''wrap'']) (E_str ''pre-wrap'')
       (E_str ''pre'')),
     Lit '';
    background-color: '',
     Dyn (E_at [''theme'', ''codeBlock'', ''backgroundColor'']),
     Lit '';
    color: white;
    padding: '',
     Dyn (E_times (E_num (dnat 4)) (E_at [''theme'', ''spacing'', ''unit''])),
     Lit (''px;
    overflow-x: auto;
    line-height: normal;
    border-radius: 0px;
    border: 1px solid rgba(38, 50, 56, 0.1);

    code {
      background-color: transparent;
      color: white;
      padding: 0;

      &:before,
      &:after {
        content: none;
      }
    }
  }

  blockquote {
    margin: 0;
    margin-bottom: 1em;
    padding: 0 15px;
    color: #777;
    border-left: 4px solid #ddd;
'' @ ''  }

  img {
    max-width: 100%;
    box-sizing: content-box;
  }

  ul,
  ol {
    padding-left: 2em;
    margin: 0;
    margin-bottom: 1em;

    ul,
    ol {
      margin-bottom: 0;
      margin-top: 0;
    }
  }

  table {
    display: block;
    width: 100%;
    overflow: auto;
    word-break: normal;
    word-break: keep-all;
    border-collapse: collapse;
    border-spacing: 0;
    margin-top: 1.5em;
'' @ ''    margin-bottom: 1.5em;
  }

  table tr {
    background-color: #fff;
    border-top: 1px solid #ccc;

    &:nth-child(2n) {
      background-color: ''),
     Dyn (E_at [''theme'', ''schema'', ''nestedBackground'']),
     Lit '';
    }
  }

  table th,
  table td {
    padding: 6px 13px;
    border: 1px solid #ddd;
  }

  table th {
    text-align: left;
    font-weight: bold;
  }

  '',
     Css (Fu ''.share-link''),
     Lit '';

  '',
     Css Cf_css,
     Lit ''

  '',
     Hook ''Markdown'',
     Lit '';
'']"

definition zf_css :: "piece list" where
  "zf_css = [Lit ''
  position: relative;
'']"

definition Uf_css :: "piece list" where
  "Uf_css = [Lit ''
  position: absolute;
  min-width: 80px;
  max-width: 500px;
  background: #fff;
  bottom: 100%;
  left: 50%;
  margin-bottom: 10px;
  transform: translateX(-50%);

  border-radius: 4px;
  padding: 0.3em 0.6em;
  text-align: center;
  box-shadow: 0px 0px 5px 0px rgba(204, 204, 204, 1);
'']"

definition Vf_css :: "piece list" where
  "Vf_css = [Lit ''
  background: #fff;
  color: #000;
  display: inline;
  font-size: 0.85em;
  white-space: nowrap;
'']"

definition Bf_css :: "piece list" where
  "Bf_css = [Lit ''
  position: absolute;
  width: 0;
  height: 0;
  bottom: -5px;
  left: 50%;
  margin-left: -5px;
  border-left: solid transparent 5px;
  border-right: solid transparent 5px;
  border-top: solid #fff 5px;
'']"

definition qf_css :: "piece list" where
  "qf_css = [Lit ''
  position: absolute;
  width: 100%;
  height: 20px;
  bottom: -20px;
'']"

definition rh_css :: "piece list" where
  "rh_css = [Lit ''
  &:hover > '',
     Ref ''Mp'',
     Lit '' {
    opacity: 1;
  }
'']"

definition oh_css :: "piece list" where
  "oh_css = [Lit ''
  '',
     Css nh_css,
     Lit '';
'']"

definition uh_css :: "piece list" where
  "uh_css = [Lit ''
  padding: 0.9em;
  background-color: '',
     Dyn (E_colour Fade (E_num (dec 6 1)) (E_at [''theme'', ''rightPanel'',
       ''backgroundColor''])),
     Lit '';
  margin: 0 0 10px 0;
  display: block;
  font-family: '',
     Dyn (E_at [''theme'', ''typography'', ''headings'', ''fontFamily'']),
     Lit '';
  font-size: 0.929em;
  line-height: 1.5em;
'']"

definition ph_css :: "piece list" where
  "ph_css = [Lit ''
  font-family: '',
     Dyn (E_at [''theme'', ''typography'', ''headings'', ''fontFamily'']),
     Lit '';
  font-size: 12px;
  position: absolute;
  z-index: 1;
  top: -11px;
  left: 12px;
  font-weight: '',
     Dyn (E_at [''theme'', ''typography'', ''fontWeightBold'']),
     Lit '';
  color: '',
     Dyn (E_colour Fade (E_num (dec 3 1)) (E_at [''theme'', ''rightPanel'', ''textColor''])),
     Lit '';
'']"

definition dh_css :: "piece list" where
  "dh_css = [Lit ''
  position: relative;
'']"

end
