(* ===== verification/Redoc_Css_Schema.thy ===== *)
theory Redoc_Css_Schema
  imports Redoc_Css_Code
begin

text \<open>
  Style sheets of redoc.standalone.js, each under the name of its component: the fields of schemas, security requirements and the page header.
\<close>

definition fh_css :: "piece list" where
  "fh_css = [Lit ''
  label {
    color: '',
     Dyn (E_at [''theme'', ''rightPanel'', ''textColor'']),
     Lit '';
    text-overflow: ellipsis;
    white-space: nowrap;
    overflow: hidden;
    font-size: 1em;
    text-transform: none;
    border: none;
  }
  margin: 0 0 10px 0;
  display: block;
  background-color: '',
     Dyn (E_colour Fade (E_num (dec 6 1)) (E_at [''theme'', ''rightPanel'',
       ''backgroundColor''])),
     Lit '';
  border: none;
  padding: 0.9em 1.6em 0.9em 0.9em;
  box-shadow: none;
  &:hover,
  &:focus-within {
    border: none;
    box-shadow: none;
    background-color: '',
     Dyn (E_colour Fade (E_num (dec 3 1)) (E_at [''theme'', ''rightPanel'',
       ''backgroundColor''])),
     Lit '';
  }
'']"

definition hh_css :: "piece list" where
  "hh_css = [Lit ''
  font-family: '',
     Dyn (E_at [''theme'', ''typography'', ''code'', ''fontFamily'']),
     Lit '';
  font-size: 12px;
  color: #ee807f;
'']"

definition gh_css :: "piece list" where
  "gh_css = [Lit ''
  margin-top: 15px;
'']"

definition am_css :: "piece list" where
  "am_css = [Lit ''
  button {
    background-color: transparent;
    border: 0;
    outline: 0;
    font-size: 13px;
    font-family: '',
     Dyn (E_at [''theme'', ''typography'', ''code'', ''fontFamily'']),
     Lit '';
    cursor: pointer;
    padding: 0;
    color: '',
     Dyn (E_at [''theme'', ''colors'', ''text'', ''primary'']),
     Lit '';
    &:focus {
      font-weight: '',
     Dyn (E_at [''theme'', ''typography'', ''fontWeightBold'']),
     Lit '';
    }
    '',
     Css_if (E_same (E_str ''patternProperties'') (E_at [''kind''])) [Lit ''
        display: inline-flex;
        margin-right: 20px;

        > span.property-name {
          white-space: break-spaces;
          text-align: left;

          ::before,
          ::after {
            content: '/';
            filter: opacity(0.2);
          }
        }

        > svg {
          align-self: center;
        }
      ''] (Bool False),
     Lit ''
  }
  '',
     Ref ''Bu'',
     Lit '' {
    height: '',
     Dyn (E_at [''theme'', ''schema'', ''arrow'', ''size'']),
     Lit '';
    width: '',
     Dyn (E_at [''theme'', ''schema'', ''arrow'', ''size'']),
     Lit '';
    polygon {
      fill: '',
     Dyn (E_at [''theme'', ''schema'', ''arrow'', ''color'']),
     Lit '';
    }
  }
'']"

definition sm_css :: "piece list" where
  "sm_css = [Lit ''
  vertical-align: middle;
  font-size: '',
     Dyn (E_at [''theme'', ''typography'', ''code'', ''fontSize'']),
     Lit '';
  line-height: 20px;
'']"

definition lm_css :: "piece list" where
  "lm_css = [Lit ''
  color: '',
     Dyn (E_colour Fade (E_num (dec 1 1)) (E_at [''theme'', ''schema'', ''typeNameColor''])),
     Lit '';
'']"

definition cm_css :: "piece list" where
  "cm_css = [Lit ''
  color: '',
     Dyn (E_at [''theme'', ''schema'', ''typeNameColor'']),
     Lit '';
'']"

definition um_css :: "piece list" where
  "um_css = [Lit ''
  color: '',
     Dyn (E_at [''theme'', ''schema'', ''typeTitleColor'']),
     Lit '';
  word-break: break-word;
'']"

definition dm_css :: "piece list" where
  "dm_css = [Lit ''
  color: '',
     Dyn (E_at [''theme'', ''schema'', ''requireLabelColor'']),
     Lit '';
  font-size: '',
     Dyn (E_at [''theme'', ''schema'', ''labelsTextSize'']),
     Lit '';
  font-weight: normal;
  margin-left: 20px;
  line-height: 1;
'']"

definition fm_css :: "piece list" where
  "fm_css = [Lit ''
  color: '',
     Dyn (E_at [''theme'', ''colors'', ''primary'', ''light'']),
     Lit '';
'']"

definition hm_css :: "piece list" where
  "hm_css = [Lit ''
  color: '',
     Dyn (E_at [''theme'', ''colors'', ''warning'', ''main'']),
     Lit '';
  font-size: 13px;
'']"

definition mm_css :: "piece list" where
  "mm_css = [Lit ''
  color: #0e7c86;
  &::before,
  &::after {
    font-weight: bold;
  }
'']"

definition gm_css :: "piece list" where
  "gm_css = [Lit ''
  border-radius: 2px;
  word-break: break-word;
  '',
     Dyn (E_text [E_str ''
    background-color: '', E_colour Fade (E_num (dec 95 2)) (E_at [''theme'', ''colors'', ''text'',
       ''primary'']), E_str '';
    color: '', E_colour Fade (E_num (dec 1 1)) (E_at [''theme'', ''colors'', ''text'',
       ''primary'']), E_str '';

    padding: 0 '', E_at [''theme'', ''spacing'', ''unit''], E_str ''px;
    border: 1px solid '', E_colour Fade (E_num (dec 9 1)) (E_at [''theme'', ''colors'', ''text'',
       ''primary'']), E_str '';
    font-family: '', E_at [''theme'', ''typography'', ''code'', ''fontFamily''], E_str '';
}'']),
     Lit '';
  & + & {
    margin-left: 0;
  }
  '',
     Hook ''ExampleValue'',
     Lit '';
'']"

definition vm_css :: "piece list" where
  "vm_css = [Lit ''
  border-radius: 2px;
  '',
     Dyn (E_text [E_str ''
    background-color: '', E_colour Fade (E_num (dec 95 2)) (E_at [''theme'', ''colors'',
       ''primary'', ''light'']), E_str '';
    color: '', E_colour Fade (E_num (dec 1 1)) (E_at [''theme'', ''colors'', ''primary'',
       ''main'']), E_str '';

    margin: 0 '', E_at [''theme'', ''spacing'', ''unit''], E_str ''px;
    padding: 0 '', E_at [''theme'', ''spacing'', ''unit''], E_str ''px;
    border: 1px solid '', E_colour Fade (E_num (dec 9 1)) (E_at [''theme'', ''colors'',
       ''primary'', ''main'']), E_str '';
}'']),
     Lit '';
  & + & {
    margin-left: 0;
  }
  '',
     Hook ''ConstraintItem'',
     Lit '';
'']"

definition bm_css :: "piece list" where
  "bm_css = [Lit ''
  background-color: transparent;
  border: 0;
  color: '',
     Dyn (E_at [''theme'', ''colors'', ''text'', ''secondary'']),
     Lit '';
  margin-left: '',
     Dyn (E_at [''theme'', ''spacing'', ''unit'']),
     Lit ''px;
  border-radius: 2px;
  cursor: pointer;
  outline-color: '',
     Dyn (E_at [''theme'', ''colors'', ''text'', ''secondary'']),
     Lit '';
  font-size: 12px;
'']"

definition wm_css :: "piece list" where
  "wm_css = [Lit ''
  '',
     Css Cf_css,
     Lit '';
  '',
     Dyn (E_cond (E_at [''compact'']) (E_str []) (E_str ''margin: 1em 0'')),
     Lit ''
'']"

definition underscore_m_css :: "piece list" where
  "underscore_m_css = [Lit ''
  color: '',
     Dyn (E_at [''theme'', ''colors'', ''primary'', ''main'']),
     Lit '';
  vertical-align: middle;
  font-size: 13px;
  line-height: 20px;
  padding: 0 5px;
  cursor: pointer;
'']"

definition Om_css :: "piece list" where
  "Om_css = [Lit ''
  margin: 2px 0;
'']"

definition Pm_css :: "piece list" where
  "Pm_css = [Lit ''
  margin-top: 1em;
  list-style-position: outside;
'']"

definition jm_css :: "piece list" where
  "jm_css = [Lit ''
  margin: 0 5px;
  vertical-align: text-top;
'']"

definition og_css :: "piece list" where
  "og_css = [Lit ''
  padding-left: '',
     Dyn (E_times (E_num (dnat 2)) (E_at [''theme'', ''spacing'', ''unit''])),
     Lit ''px;
'']"

definition Dg_css :: "piece list" where
  "Dg_css = [Lit ''
  background: '',
     Dyn (E_at [''theme'', ''codeBlock'', ''backgroundColor'']),
     Lit '';
  & > div,
  & > pre {
    padding: '',
     Dyn (E_times (E_num (dnat 4)) (E_at [''theme'', ''spacing'', ''unit''])),
     Lit ''px;
    margin: 0;
  }

  & > div > pre {
    padding: 0;
  }
'']"

definition Lg_div_css :: "piece list" where
  "Lg_div_css = [Lit ''
  background-color: #e4e7eb;
'']"

definition Lg_ul_css :: "piece list" where
  "Lg_ul_css = [Lit ''
  display: inline;
  list-style: none;
  padding: 0;

  li {
    display: inherit;

    &:after {
      content: ',';
    }
    &:last-child:after {
      content: none;
    }
  }
'']"

definition Lg_css :: "piece list" where
  "Lg_css = [Lit ''
  font-size: '',
     Dyn (E_at [''theme'', ''typography'', ''code'', ''fontSize'']),
     Lit '';
  font-family: '',
     Dyn (E_at [''theme'', ''typography'', ''code'', ''fontFamily'']),
     Lit '';
  margin: 0 3px;
  padding: 0.2em;
  display: inline-block;
  line-height: 1;

  &:after {
    content: ',';
    font-weight: normal;
  }

  &:last-child:after {
    content: none;
  }
'']"

definition Mg_css :: "piece list" where
  "Mg_css = [Lit ''
  &:after {
    content: ' and ';
    font-weight: normal;
  }

  &:last-child:after {
    content: none;
  }

  '',
     Css Cf_css,
     Lit '';
'']"

definition Fg_css :: "piece list" where
  "Fg_css = [Lit ''
  '',
     Dyn (E_and (E_not (E_at [''expanded''])) (E_str ''white-space: nowrap;'')),
     Lit ''
  &:after {
    content: ' or ';
    '',
     Dyn (E_and (E_at [''expanded'']) (E_str (''content: ' or '' @ [backslash] @ ''a';''))),
     Lit ''
    white-space: pre;
  }

  &:last-child:after,
  &:only-child:after {
    content: none;
  }

  '',
     Css Cf_css,
     Lit '';
'']"

definition zg_css :: "piece list" where
  "zg_css = [Lit ''
  flex: 1 1 auto;
  cursor: pointer;
'']"

definition Ug_css :: "piece list" where
  "Ug_css = [Lit ''
  width: '',
     Dyn (E_at [''theme'', ''schema'', ''defaultDetailsWidth'']),
     Lit '';
  text-overflow: ellipsis;
  border-radius: 4px;
  overflow: hidden;
  '',
     Dyn (E_and (E_at [''expanded'']) (E_text [E_str ''background: '', E_at [''theme'',
       ''colors'', ''gray'', ''100''], E_str '';
     padding: 8px 9.6px;
     margin: 20px 0;
     width: 100%;
    ''])),
     Lit '';
  '',
     Media ''small'' False [] [Lit ''
    margin-top: 10px;
  ''],
     Lit ''
'']"

definition Vg_css :: "piece list" where
  "Vg_css = [Lit ''
  display: inline-block;
  margin: 0;
'']"

definition Bg_css :: "piece list" where
  "Bg_css = [Lit ''
  width: 100%;
  display: flex;
  margin: 1em 0;
  flex-direction: '',
     Dyn (E_cond (E_at [''expanded'']) (E_str ''column'') (E_str ''row'')),
     Lit '';
  '',
     Media ''small'' False [] [Lit ''
    flex-direction: column;
  ''],
     Lit ''
'']"

definition qg_css :: "piece list" where
  "qg_css = [Lit ''
  margin: 0.5em 0;
'']"

definition Wg_css :: "piece list" where
  "Wg_css = [Lit ''
  border-bottom: 1px solid '',
     Dyn (E_at [''theme'', ''colors'', ''border'', ''dark'']),
     Lit '';
  margin-bottom: 1.5em;
  padding-bottom: 0.7em;

  h5 {
    line-height: 1em;
    margin: 0 0 0.6em;
    font-size: '',
     Dyn (E_at [''theme'', ''typography'', ''fontSize'']),
     Lit '';
  }

  .redoc-markdown p:first-child {
    display: inline;
  }
'']"

definition Yg_css :: "piece list" where
  "Yg_css = [Lit ''
  overflow-y: hidden;
'']"

definition Kg_css :: "piece list" where
  "Kg_css = [Lit ''
  text-align: center;
  line-height: 1.5em;
  '',
     Dyn (E_and (E_at [''dimmed'']) (E_str
       ''background-image: linear-gradient(to bottom, transparent,rgb(255 255 255));
     position: relative;
     top: -0.5em;
     padding-top: 0.5em;
     background-position-y: -1em;
    '')),
     Lit ''
'']"

definition Gg_css :: "piece list" where
  "Gg_css = [Lit ''
  cursor: pointer;
'']"

definition ny_css :: "piece list" where
  "ny_css = [Lit ''
  margin-top: 0;
  margin-bottom: 0.5em;

  '',
     Hook ''ApiHeader'',
     Lit '';
'']"

definition ry_css :: "piece list" where
  "ry_css = [Lit ''
  border: 1px solid '',
     Dyn (E_at [''theme'', ''colors'', ''primary'', ''main'']),
     Lit '';
  color: '',
     Dyn (E_at [''theme'', ''colors'', ''primary'', ''main'']),
     Lit '';
  font-weight: normal;
  margin-left: 0.5em;
  padding: 4px 8px 4px;
  display: inline-block;
  text-decoration: none;
  cursor: pointer;

  '',
     Hook ''DownloadButton'',
     Lit '';
'']"

definition oy_css :: "piece list" where
  "oy_css = [Lit ''
  &::before {
    content: '|';
    display: inline-block;
    opacity: 0.5;
    width: '',
     Const (Num (dnat 15)),
     Lit ''px;
    text-align: center;
  }

  &:last-child::after {
    display: none;
  }
'']"

definition iy_css :: "piece list" where
  "iy_css = [Lit ''
  overflow: hidden;
'']"

definition ay_css :: "piece list" where
  "ay_css = [Lit ''
  display: flex;
  flex-wrap: wrap;
  // hide separator on new lines: idea from https://stackoverflow.com/a/31732902/1749888
  margin-left: -'',
     Const (Num (dnat 15)),
     Lit ''px;
'']"

end
