(* ===== verification/Redoc_Css_Menu.thy ===== *)
theory Redoc_Css_Menu
  imports Redoc_Css_Schema
begin

text \<open>
  Style sheets of redoc.standalone.js, each under the name of its component: the logo, the side menu, the endpoints and the servers.
\<close>

definition ly_css :: "piece list" where
  "ly_css = [Lit ''
  max-height: '',
     Dyn (E_at [''theme'', ''logo'', ''maxHeight'']),
     Lit '';
  max-width: '',
     Dyn (E_at [''theme'', ''logo'', ''maxWidth'']),
     Lit '';
  padding: '',
     Dyn (E_at [''theme'', ''logo'', ''gutter'']),
     Lit '';
  width: 100%;
  display: block;
'']"

definition cy_css :: "piece list" where
  "cy_css = [Lit ''
  text-align: center;
'']"

definition uy_css :: "piece list" where
  "uy_css = [Lit ''
  display: inline-block;
'']"

definition xy_css :: "piece list" where
  "xy_css = [Lit ''
  width: 9ex;
  display: inline-block;
  height: '',
     Dyn (E_at [''theme'', ''typography'', ''code'', ''fontSize'']),
     Lit '';
  line-height: '',
     Dyn (E_at [''theme'', ''typography'', ''code'', ''fontSize'']),
     Lit '';
  background-color: #333;
  border-radius: 3px;
  background-repeat: no-repeat;
  background-position: 6px 4px;
  font-size: 7px;
  font-family: Verdana, sans-serif; // web-safe
  color: white;
  text-transform: uppercase;
  text-align: center;
  font-weight: bold;
  vertical-align: middle;
  margin-right: 6px;
  margin-top: 2px;

  &.get {
    background-color: '',
     Dyn (E_at [''theme'', ''colors'', ''http'', ''get'']),
     Lit '';
  }

  &.post {
    background-color: '',
     Dyn (E_at [''theme'', ''colors'', ''http'', ''post'']),
     Lit '';
  }

  &.put {
    background-color: '',
     Dyn (E_at [''theme'', ''colors'', ''http'', ''put'']),
     Lit '';
  }

  &.options {
    background-color: '',
     Dyn (E_at [''theme'', ''colors'', ''http'', ''options'']),
     Lit '';
  }

  &.patch {
    background-color: '',
     Dyn (E_at [''theme'', ''colors'', ''http'', ''patch'']),
     Lit '';
  }

  &.delete {
    background-color: '',
     Dyn (E_at [''theme'', ''colors'', ''http'', ''delete'']),
     Lit '';
  }

  &.basic {
    background-color: '',
     Dyn (E_at [''theme'', ''colors'', ''http'', ''basic'']),
     Lit '';
  }

  &.link {
    background-color: '',
     Dyn (E_at [''theme'', ''colors'', ''http'', ''link'']),
     Lit '';
  }

  &.head {
    background-color: '',
     Dyn (E_at [''theme'', ''colors'', ''http'', ''head'']),
     Lit '';
  }

  &.hook {
    background-color: '',
     Dyn (E_at [''theme'', ''colors'', ''primary'', ''main'']),
     Lit '';
  }
'']"

definition underscore_y_css :: "piece list" where
  "underscore_y_css = [Lit ''
  margin: 0;
  padding: 0;

  & & {
    font-size: 0.929em;
  }

  '',
     Dyn (E_cond (E_at [''expanded'']) (E_str []) (E_str ''display: none;'')),
     Lit '';
'']"

definition Oy_css :: "piece list" where
  "Oy_css = [Lit ''
  list-style: none inside none;
  overflow: hidden;
  text-overflow: ellipsis;
  padding: 0;
  '',
     Dyn (E_cond (E_same (E_num (dnat 0)) (E_at [''depth''])) (E_str ''margin-top: 15px'') (E_str
       [])),
     Lit '';
'']"

definition Sy :: "(string \<times> piece list) list" where
  "Sy = [(''0'', [Lit ''
    opacity: 0.7;
    text-transform: '',
     Dyn (E_at [''theme'', ''sidebar'', ''groupItems'', ''textTransform'']),
     Lit '';
    font-size: 0.8em;
    padding-bottom: 0;
    cursor: default;
  '']),
    (''1'', [Lit ''
    font-size: 0.929em;
    text-transform: '',
     Dyn (E_at [''theme'', ''sidebar'', ''level1Items'', ''textTransform'']),
     Lit '';
  ''])]"

definition Ey_css :: "piece list" where
  "Ey_css = [Lit ''
  cursor: pointer;
  color: '',
     Dyn (E_cond (E_at [''active'']) (E_ky (E_at [''depth'']) ''activeTextColor'') (E_at
       [''theme'', ''sidebar'', ''textColor''])),
     Lit '';
  margin: 0;
  padding: 12.5px '',
     Dyn (E_times (E_num (dnat 4)) (E_at [''theme'', ''spacing'', ''unit''])),
     Lit ''px;
  '',
     Dyn (E_or (E_and (E_and (E_same (E_str ''section'') (E_at [''type''])) (E_above (E_at
       [''depth'']) (E_num (dnat 1)))) (E_text [(E_str ''padding-left: ''), (E_times (E_num (dnat
       8)) (E_at [''theme'', ''spacing'', ''unit''])), (E_str ''px;'')])) (E_str [])),
     Lit ''
  display: flex;
  justify-content: space-between;
  font-family: '',
     Dyn (E_at [''theme'', ''typography'', ''headings'', ''fontFamily'']),
     Lit '';
  '',
     Css_case (E_at [''depth'']) Sy,
     Lit '';
  background-color: '',
     Dyn (E_cond (E_at [''active'']) (E_ky (E_at [''depth'']) ''activeBackgroundColor'') (E_at
       [''theme'', ''sidebar'', ''backgroundColor''])),
     Lit '';

  '',
     Css_if (E_at [''deprecated'']) Wu_css (Str []),
     Lit '';

  &:hover {
    color: '',
     Dyn (E_ky (E_at [''depth'']) ''activeTextColor''),
     Lit '';
    background-color: '',
     Dyn (E_ky (E_at [''depth'']) ''activeBackgroundColor''),
     Lit '';
  }

  '',
     Ref ''Bu'',
     Lit '' {
    height: '',
     Dyn (E_at [''theme'', ''sidebar'', ''arrow'', ''size'']),
     Lit '';
    width: '',
     Dyn (E_at [''theme'', ''sidebar'', ''arrow'', ''size'']),
     Lit '';
    polygon {
      fill: '',
     Dyn (E_at [''theme'', ''sidebar'', ''arrow'', ''color'']),
     Lit '';
    }
  }
'']"

definition Py_css :: "piece list" where
  "Py_css = [Lit ''
  display: inline-block;
  vertical-align: middle;
  width: '',
     Dyn (E_cond (E_at [''width'']) (E_at [''width'']) (E_str ''auto'')),
     Lit '';
  overflow: hidden;
  text-overflow: ellipsis;
'']"

definition Ay_css :: "piece list" where
  "Ay_css = [Lit ''
  '',
     Dyn (E_text [E_str ''
  font-size: 0.8em;
  margin-top: '', E_times (E_num (dnat 2)) (E_at [''theme'', ''spacing'', ''unit'']), E_str ''px;
  text-align: center;
  position: fixed;
  width: '', E_at [''theme'', ''sidebar'', ''width''], E_str '';
  bottom: 0px;
  background: '', E_at [''theme'', ''sidebar'', ''backgroundColor''], E_str '';
 
  a,
  a:visited,
  a:hover {
    color: '', E_at [''theme'', ''sidebar'', ''textColor''], E_str '' !important;
    padding: '', E_at [''theme'', ''spacing'', ''unit''], E_str ''px 0;
    border-top: 1px solid '', E_colour Darken (E_num (dec 1 1)) (E_at [''theme'', ''sidebar'',
       ''backgroundColor'']), E_str '';
    text-decoration: none;
    display: flex;
    align-items: center;
    justify-content: center;
  }
'']),
     Lit '';
  img {
    width: 15px;
    margin-right: 5px;
  }

  '',
     Media ''small'' False [] [Lit ''
    width: 100%;
  ''],
     Lit '';
'']"

definition dollar_y_css :: "piece list" where
  "dollar_y_css = [Lit ''
  border: 0;
  width: 100%;
  text-align: left;
  & > * {
    vertical-align: middle;
  }

  '',
     Ref ''Bu'',
     Lit '' {
    polygon {
      fill: '',
     Dyn (E_colour Darken (E_at [''theme'', ''colors'', ''tonalOffset'']) (E_at [''theme'',
       ''colors'', ''gray'', ''100''])),
     Lit '';
    }
  }
'']"

definition Cy_css :: "piece list" where
  "Cy_css = [Lit ''
  text-decoration: '',
     Dyn (E_cond (E_at [''deprecated'']) (E_str ''line-through'') (E_str ''none'')),
     Lit '';
  margin-right: 8px;
'']"

definition Ry_css :: "piece list" where
  "Ry_css = [Lit ''
  margin: 0 5px 0 0;
'']"

definition jy_css :: "piece list" where
  "jy_css = [Lit ''
  padding: 10px;
  border-radius: 2px;
  margin-bottom: 4px;
  line-height: 1.5em;
  background-color: '',
     Dyn (E_at [''theme'', ''colors'', ''gray'', ''100'']),
     Lit '';
  cursor: pointer;
  outline-color: '',
     Dyn (E_colour Darken (E_at [''theme'', ''colors'', ''tonalOffset'']) (E_at [''theme'',
       ''colors'', ''gray'', ''100''])),
     Lit '';
'']"

definition Ty_css :: "piece list" where
  "Ty_css = [Lit ''
  padding: 10px 25px;
  background-color: '',
     Dyn (E_at [''theme'', ''colors'', ''gray'', ''50'']),
     Lit '';
  margin-bottom: 5px;
  margin-top: 5px;
'']"

definition Ny_css :: "piece list" where
  "Ny_css = [Lit ''
  cursor: pointer;
  position: relative;
  margin-bottom: 5px;
'']"

definition Dy_css :: "piece list" where
  "Dy_css = [Lit ''
  font-family: '',
     Dyn (E_at [''theme'', ''typography'', ''code'', ''fontFamily'']),
     Lit '';
  margin-left: 10px;
  flex: 1;
  overflow-x: hidden;
  text-overflow: ellipsis;
'']"

definition Ly_css :: "piece list" where
  "Ly_css = [Lit ''
  outline: 0;
  color: inherit;
  width: 100%;
  text-align: left;
  cursor: pointer;
  padding: 10px 30px 10px '',
     Dyn (E_cond (E_at [''inverted'']) (E_str ''10px'') (E_str ''20px'')),
     Lit '';
  border-radius: '',
     Dyn (E_cond (E_at [''inverted'']) (E_str ''0'') (E_str ''4px 4px 0 0'')),
     Lit '';
  background-color: '',
     Dyn (E_cond (E_at [''inverted'']) (E_str ''transparent'') (E_at [''theme'', ''codeBlock'',
       ''backgroundColor''])),
     Lit '';
  display: flex;
  white-space: nowrap;
  align-items: center;
  border: '',
     Dyn (E_cond (E_at [''inverted'']) (E_str ''0'') (E_str ''1px solid transparent'')),
     Lit '';
  border-bottom: '',
     Dyn (E_cond (E_at [''inverted'']) (E_str ''1px solid #ccc'') (E_str ''0'')),
     Lit '';
  transition: border-color 0.25s ease;

  '',
     Dyn (E_or (E_and (E_and (E_at [''expanded'']) (E_not (E_at [''inverted'']))) (E_text [E_str
       ''border-color: '', E_at [''theme'', ''colors'', ''border'', ''dark''], E_str '';'']))
       (E_str [])),
     Lit ''

  .'',
     Ref ''Dy'',
     Lit '' {
    color: '',
     Dyn (E_cond (E_at [''inverted'']) (E_at [''theme'', ''colors'', ''text'', ''primary''])
       (E_str ''#ffffff'')),
     Lit '';
  }
  &:focus {
    box-shadow: inset 0 2px 2px rgba(0, 0, 0, 0.45), 0 2px 0 rgba(128, 128, 128, 0.25);
  }
'']"

definition My_css :: "piece list" where
  "My_css = [Lit ''
  font-size: '',
     Dyn (E_cond (E_at [''compact'']) (E_str ''0.8em'') (E_str ''0.929em'')),
     Lit '';
  line-height: '',
     Dyn (E_cond (E_at [''compact'']) (E_str ''18px'') (E_str ''20px'')),
     Lit '';
  background-color: '',
     Dyn (E_or (E_index (E_at [''theme'', ''colors'', ''http'']) (E_at [''type''])) (E_str
       ''#999999'')),
     Lit '';
  color: #ffffff;
  padding: '',
     Dyn (E_cond (E_at [''compact'']) (E_str ''2px 8px'') (E_str ''3px 10px'')),
     Lit '';
  text-transform: uppercase;
  font-family: '',
     Dyn (E_at [''theme'', ''typography'', ''headings'', ''fontFamily'']),
     Lit '';
  margin: 0;
'']"

definition Fy_css :: "piece list" where
  "Fy_css = [Lit ''
  position: absolute;
  width: 100%;
  z-index: 100;
  background: '',
     Dyn (E_at [''theme'', ''rightPanel'', ''servers'', ''overlay'', ''backgroundColor'']),
     Lit '';
  color: '',
     Dyn (E_at [''theme'', ''rightPanel'', ''servers'', ''overlay'', ''textColor'']),
     Lit '';
  box-sizing: border-box;
  box-shadow: 0px 0px 6px rgba(0, 0, 0, 0.33);
  overflow: hidden;
  border-bottom-left-radius: 4px;
  border-bottom-right-radius: 4px;
  transition: all 0.25s ease;
  visibility: hidden;
  '',
     Dyn (E_cond (E_at [''expanded'']) (E_str ''visibility: visible;'') (E_str
       ''transform: translateY(-50%) scaleY(0);'')),
     Lit ''
'']"

definition zy_css :: "piece list" where
  "zy_css = [Lit ''
  padding: 10px;
'']"

definition Uy_css :: "piece list" where
  "Uy_css = [Lit ''
  padding: 5px;
  border: 1px solid #ccc;
  background: '',
     Dyn (E_at [''theme'', ''rightPanel'', ''servers'', ''url'', ''backgroundColor'']),
     Lit '';
  word-break: break-all;
  color: '',
     Dyn (E_at [''theme'', ''colors'', ''primary'', ''main'']),
     Lit '';
  > span {
    color: '',
     Dyn (E_at [''theme'', ''colors'', ''text'', ''primary'']),
     Lit '';
  }
'']"

definition ev_css :: "piece list" where
  "ev_css = [Lit ''
  display: block;
  border: 0;
  width: 100%;
  text-align: left;
  padding: 10px;
  border-radius: 2px;
  margin-bottom: 4px;
  line-height: 1.5em;
  cursor: pointer;

  color: '',
     Dyn (E_member (E_index (E_at [''theme'', ''colors'', ''responses'']) (E_at [''type'']))
       ''color''),
     Lit '';
  background-color: '',
     Dyn (E_member (E_index (E_at [''theme'', ''colors'', ''responses'']) (E_at [''type'']))
       ''backgroundColor''),
     Lit '';
  &:focus {
    outline: auto '',
     Dyn (E_member (E_index (E_at [''theme'', ''colors'', ''responses'']) (E_at [''type'']))
       ''color''),
     Lit '';
  }
  '',
     Dyn (E_cond (E_at [''empty'']) (E_str (''
cursor: default;
&::before {
  content: '' @ [quotation] @ [CHR 0xE2, CHR 0x80, CHR 0x94] @ [quotation] @ '';
  font-weight: bold;
  width: 1.5em;
  text-align: center;
  display: inline-block;
  vertical-align: top;
}
&:focus {
  outline: 0;
}
'')) (E_str [])),
     Lit '';
'']"

end
