(* ===== verification/Redoc_Css_Layout.thy ===== *)
theory Redoc_Css_Layout
  imports Redoc_Css_Menu
begin

text \<open>
  Style sheets of redoc.standalone.js, each under the name of its component: responses, the sidebar, the application frame and the search box.
\<close>

definition tv_css :: "piece list" where
  "tv_css = [Lit ''
  padding: 10px;
'']"

definition nv_css :: "piece list" where
  "nv_css = [Lit ''
  text-align: left;
  margin-top: 1em;
  caption-side: top;
'']"

definition rv_css :: "piece list" where
  "rv_css = [Lit ''
  vertical-align: top;
'']"

definition dv_css :: "piece list" where
  "dv_css = [Lit ''
  font-size: 1.3em;
  padding: 0.2em 0;
  margin: 3em 0 1.1em;
  color: '',
     Dyn (E_at [''theme'', ''colors'', ''text'', ''primary'']),
     Lit '';
  font-weight: normal;
'']"

definition wv_css :: "piece list" where
  "wv_css = [Lit ''
  margin-bottom: '',
     Dyn (E_times (E_num (dnat 3)) (E_at [''theme'', ''spacing'', ''unit''])),
     Lit ''px;
'']"

definition underscore_v_css :: "piece list" where
  "underscore_v_css = [Lit ''
  font-size: 1.3em;
  padding: 0.2em 0;
  margin: 3em 0 1.1em;
  color: '',
     Dyn (E_at [''theme'', ''colors'', ''text'', ''primary'']),
     Lit '';
  font-weight: normal;
'']"

definition Iv_css :: "piece list" where
  "Iv_css = [Lit ''
  margin-top: 15px;
'']"

definition Bv_css :: "piece list" where
  "Bv_css = [Lit ''
  background: '',
     Dyn (E_at [''theme'', ''codeBlock'', ''backgroundColor'']),
     Lit '';
  padding: '',
     Dyn (E_times (E_num (dnat 4)) (E_at [''theme'', ''spacing'', ''unit''])),
     Lit ''px;
'']"

definition Zv_css :: "piece list" where
  "Zv_css = [Lit ''
  margin-bottom: '',
     Dyn (E_times (E_num (dnat 6)) (E_at [''theme'', ''spacing'', ''unit''])),
     Lit ''px;
'']"

definition jb_css :: "piece list" where
  "jb_css = [Lit ''
  user-select: none;
  width: 20px;
  height: 20px;
  align-self: center;
  display: flex;
  flex-direction: column;
  color: '',
     Dyn (E_at [''theme'', ''colors'', ''primary'', ''main'']),
     Lit '';
'']"

definition Nb_css :: "piece list" where
  "Nb_css = [Lit ''
  width: '',
     Dyn (E_at [''theme'', ''sidebar'', ''width'']),
     Lit '';
  background-color: '',
     Dyn (E_at [''theme'', ''sidebar'', ''backgroundColor'']),
     Lit '';
  overflow: hidden;
  display: flex;
  flex-direction: column;

  backface-visibility: hidden;
  /* contain: strict; TODO: breaks layout since Chrome 80*/

  height: 100vh;
  position: sticky;
  position: -webkit-sticky;
  top: 0;

  '',
     Media ''small'' False [] [Lit ''
    position: fixed;
    z-index: 20;
    width: 100%;
    background: '',
     Dyn (E_at [''theme'', ''sidebar'', ''backgroundColor'']),
     Lit '';
    display: '',
     Dyn (E_cond (E_at [''open'']) (E_str ''flex'') (E_str ''none'')),
     Lit '';
  ''],
     Lit '';

  @media print {
    display: none;
  }
'']"

definition Db_css :: "piece list" where
  "Db_css = [Lit ''
  outline: none;
  user-select: none;
  background-color: '',
     Dyn (E_at [''theme'', ''fab'', ''backgroundColor'']),
     Lit '';
  color: '',
     Dyn (E_at [''theme'', ''colors'', ''primary'', ''main'']),
     Lit '';
  display: none;
  cursor: pointer;
  position: fixed;
  right: 20px;
  z-index: 100;
  border-radius: 50%;
  box-shadow: 0 0 20px rgba(0, 0, 0, 0.3);
  '',
     Media ''small'' False [] [Lit ''
    display: flex;
  ''],
     Lit '';

  bottom: 44px;

  width: 60px;
  height: 60px;
  padding: 0 20px;
  svg {
    color: '',
     Dyn (E_at [''theme'', ''fab'', ''color'']),
     Lit '';
  }

  @media print {
    display: none;
  }
'']"

definition Mb_css :: "piece list" where
  "Mb_css = [Lit ''
  '',
     Dyn (E_text [E_str ''
  font-family: '', E_at [''theme'', ''typography'', ''fontFamily''], E_str '';
  font-size: '', E_at [''theme'', ''typography'', ''fontSize''], E_str '';
  font-weight: '', E_at [''theme'', ''typography'', ''fontWeightRegular''], E_str '';
  line-height: '', E_at [''theme'', ''typography'', ''lineHeight''], E_str '';
  color: '', E_at [''theme'', ''colors'', ''text'', ''primary''], E_str '';
  display: flex;
  position: relative;
  text-align: left;

  -webkit-font-smoothing: '', E_at [''theme'', ''typography'', ''smoothing''], E_str '';
  font-smoothing: '', E_at [''theme'', ''typography'', ''smoothing''], E_str '';
  '', E_cond (E_at [''theme'', ''typography'', ''optimizeSpeed'']) (E_str
       ''text-rendering: optimizeSpeed !important'') (E_str []), E_str '';

  tap-highlight-color: rgba(0, 0, 0, 0);
  text-size-adjust: 100%;

  * {
    box-sizing: border-box;
    -webkit-tap-highlight-color: rgba(255, 255, 255, 0);
  }
'']),
     Lit '';
'']"

definition Fb_css :: "piece list" where
  "Fb_css = [Lit ''
  z-index: 1;
  position: relative;
  overflow: hidden;
  width: calc(100% - '',
     Dyn (E_at [''theme'', ''sidebar'', ''width'']),
     Lit '');
  '',
     Media ''small'' True [] [Lit ''
    width: 100%;
  ''],
     Lit '';

  contain: layout;
'']"

definition zb_css :: "piece list" where
  "zb_css = [Lit ''
  background: '',
     Dyn (E_at [''theme'', ''rightPanel'', ''backgroundColor'']),
     Lit '';
  position: absolute;
  top: 0;
  bottom: 0;
  right: 0;
  width: '',
     Dyn E_panel_width,
     Lit '';
  '',
     Media ''medium'' True [] [Lit ''
    display: none;
  ''],
     Lit '';
'']"

definition Ub_css :: "piece list" where
  "Ub_css = [Lit ''
  padding: 5px 0;
'']"

definition Vb_css :: "piece list" where
  "Vb_css = [Lit ''
  width: calc(100% - '',
     Dyn (E_times (E_num (dnat 8)) (E_at [''theme'', ''spacing'', ''unit''])),
     Lit ''px);
  box-sizing: border-box;
  margin: 0 '',
     Dyn (E_times (E_num (dnat 4)) (E_at [''theme'', ''spacing'', ''unit''])),
     Lit ''px;
  padding: 5px '',
     Dyn (E_times (E_num (dnat 2)) (E_at [''theme'', ''spacing'', ''unit''])),
     Lit ''px 5px
    '',
     Dyn (E_times (E_num (dnat 4)) (E_at [''theme'', ''spacing'', ''unit''])),
     Lit ''px;
  border: 0;
  border-bottom: 1px solid
    '',
     Dyn E_search_border,
     Lit '';
  font-family: '',
     Dyn (E_at [''theme'', ''typography'', ''fontFamily'']),
     Lit '';
  font-weight: bold;
  font-size: 13px;
  color: '',
     Dyn (E_at [''theme'', ''sidebar'', ''textColor'']),
     Lit '';
  background-color: transparent;
  outline: none;
'']"

definition Bb_css :: "piece list" where
  "Bb_css = [Lit ''
  position: absolute;
  left: '',
     Dyn (E_times (E_num (dnat 4)) (E_at [''theme'', ''spacing'', ''unit''])),
     Lit ''px;
  height: 1.8em;
  width: 0.9em;

  path {
    fill: '',
     Dyn (E_at [''theme'', ''sidebar'', ''textColor'']),
     Lit '';
  }
'']"

definition qb_css :: "piece list" where
  "qb_css = [Lit ''
  padding: '',
     Dyn (E_at [''theme'', ''spacing'', ''unit'']),
     Lit ''px 0;
  background-color: '',
     Dyn (E_colour Darken (E_num (dec 5 2)) (E_at [''theme'', ''sidebar'', ''backgroundColor''])),
     Lit ''};
  color: '',
     Dyn (E_at [''theme'', ''sidebar'', ''textColor'']),
     Lit '';
  min-height: 150px;
  max-height: 250px;
  border-top: '',
     Dyn (E_colour Darken (E_num (dec 1 1)) (E_at [''theme'', ''sidebar'', ''backgroundColor''])),
     Lit ''};
  border-bottom: '',
     Dyn (E_colour Darken (E_num (dec 1 1)) (E_at [''theme'', ''sidebar'', ''backgroundColor''])),
     Lit ''};
  margin-top: 10px;
  line-height: 1.4;
  font-size: 0.9em;

  li {
    background-color: inherit;
  }

  '',
     Ref ''Ey'',
     Lit '' {
    padding-top: 6px;
    padding-bottom: 6px;

    &:hover,
    &.active {
      background-color: '',
     Dyn (E_colour Darken (E_num (dec 1 1)) (E_at [''theme'', ''sidebar'', ''backgroundColor''])),
     Lit '';
    }

    > svg {
      display: none;
    }
  }
'']"

definition Wb_css :: "piece list" where
  "Wb_css = [Lit ''
  position: absolute;
  display: inline-block;
  width: '',
     Dyn (E_times (E_num (dnat 2)) (E_at [''theme'', ''spacing'', ''unit''])),
     Lit ''px;
  text-align: center;
  right: '',
     Dyn (E_times (E_num (dnat 4)) (E_at [''theme'', ''spacing'', ''unit''])),
     Lit ''px;
  line-height: 2em;
  vertical-align: middle;
  margin-right: 2px;
  cursor: pointer;
  font-style: normal;
  color: '#666';
'']"

end
