(* ===== verification/Css_Checks.thy ===== *)
theory Css_Checks
  imports Css_Safety Redoc_Css_Layout
begin

text \<open>
  The style sheets of the bundle by the name of their component, and what the checks of
  \<open>Css_Braces\<close> and \<open>Css_Safety\<close> find on each of them.
\<close>

definition page_sheets :: "(string \<times> piece list) list" where
  "page_sheets =
    [(''va'', va_css), (''wa'', wa_css), (''xa'', xa_css), (''ka'', ka_css), (''Ou'', Ou_css),
    (''Su'', Su_css), (''Eu'', Eu_css), (''Pu'', Pu_css), (''Au'', Au_css), (''Ru'', Ru_css),
    (''ju'', ju_css), (''H2'', H2_css), (''Tu'', Tu_css), (''Iu'', Iu_css), (''zu'', zu_css),
    (''Bu'', Bu_css), (''qu'', qu_css), (''Hu'', Hu_css), (''Yu'', Yu_css), (''Ku'', Ku_css),
    (''Gu'', Gu_css), (''Qu'', Qu_css), (''Xu'', Xu_css), (''Ju'', Ju_css), (''Zu'', Zu_css),
    (''ep'', ep_css), (''tp'', tp_css), (''np'', np_css), (''rp'', rp_css), (''op'', op_css)]"

definition code_sheets :: "(string \<times> piece list) list" where
  "code_sheets =
    [(''Dp'', Dp_css), (''small_tabs'', small_tabs_css), (''Lp'', Lp_css), (''Mp'', Mp_css),
    (''Fp'', Fp_css), (''zp'', zp_css), (''Sd'', Sd_css), (''Ad'', Ad_css), (''Cd'', Cd_css),
    (''Rd'', Rd_css), (''jd'', jd_css), (''Rf'', Rf_css), (''zf'', zf_css), (''Uf'', Uf_css),
    (''Vf'', Vf_css), (''Bf'', Bf_css), (''qf'', qf_css), (''rh'', rh_css), (''oh'', oh_css),
    (''uh'', uh_css), (''ph'', ph_css), (''dh'', dh_css)]"

definition schema_sheets :: "(string \<times> piece list) list" where
  "schema_sheets =
    [(''fh'', fh_css), (''hh'', hh_css), (''gh'', gh_css), (''am'', am_css), (''sm'', sm_css),
    (''lm'', lm_css), (''cm'', cm_css), (''um'', um_css), (''dm'', dm_css), (''fm'', fm_css),
    (''hm'', hm_css), (''mm'', mm_css), (''gm'', gm_css), (''vm'', vm_css), (''bm'', bm_css),
    (''wm'', wm_css), (''_m'', underscore_m_css), (''Om'', Om_css), (''Pm'', Pm_css),
    (''jm'', jm_css), (''og'', og_css), (''Dg'', Dg_css), (''Lg_div'', Lg_div_css),
    (''Lg_ul'', Lg_ul_css), (''Lg'', Lg_css), (''Mg'', Mg_css), (''Fg'', Fg_css),
    (''zg'', zg_css), (''Ug'', Ug_css), (''Vg'', Vg_css), (''Bg'', Bg_css), (''qg'', qg_css),
    (''Wg'', Wg_css), (''Yg'', Yg_css), (''Kg'', Kg_css), (''Gg'', Gg_css), (''ny'', ny_css),
    (''ry'', ry_css), (''oy'', oy_css), (''iy'', iy_css), (''ay'', ay_css)]"

definition menu_sheets :: "(string \<times> piece list) list" where
  "menu_sheets =
    [(''ly'', ly_css), (''cy'', cy_css), (''uy'', uy_css), (''xy'', xy_css),
    (''_y'', underscore_y_css), (''Oy'', Oy_css), (''Ey'', Ey_css), (''Py'', Py_css),
    (''Ay'', Ay_css), (''dollar_y'', dollar_y_css), (''Cy'', Cy_css), (''Ry'', Ry_css),
    (''jy'', jy_css), (''Ty'', Ty_css), (''Ny'', Ny_css), (''Dy'', Dy_css), (''Ly'', Ly_css),
    (''My'', My_css), (''Fy'', Fy_css), (''zy'', zy_css), (''Uy'', Uy_css), (''ev'', ev_css)]"

definition layout_sheets :: "(string \<times> piece list) list" where
  "layout_sheets =
    [(''tv'', tv_css), (''nv'', nv_css), (''rv'', rv_css), (''dv'', dv_css), (''wv'', wv_css),
    (''_v'', underscore_v_css), (''Iv'', Iv_css), (''Bv'', Bv_css), (''Zv'', Zv_css),
    (''jb'', jb_css), (''Nb'', Nb_css), (''Db'', Db_css), (''Mb'', Mb_css), (''Fb'', Fb_css),
    (''zb'', zb_css), (''Ub'', Ub_css), (''Vb'', Vb_css), (''Bb'', Bb_css), (''qb'', qb_css),
    (''Wb'', Wb_css)]"
definition sheets :: "(string \<times> piece list) list" where
  "sheets = page_sheets @ code_sheets @ schema_sheets @ menu_sheets @ layout_sheets"

lemmas shared_defs = Fu_def Wu_css_def Cf_css_def nh_css_def Sy_def

lemmas page_defs =
  shared_defs page_sheets_def list.pred_inject prod.case
  va_css_def wa_css_def xa_css_def ka_css_def Ou_css_def Su_css_def Eu_css_def Pu_css_def
  Au_css_def Ru_css_def ju_css_def H2_css_def Tu_css_def Iu_css_def zu_css_def Bu_css_def
  qu_css_def Hu_css_def Yu_css_def Ku_css_def Gu_css_def Qu_css_def Xu_css_def Ju_css_def
  Zu_css_def ep_css_def tp_css_def np_css_def rp_css_def op_css_def

lemmas code_defs =
  shared_defs code_sheets_def list.pred_inject prod.case
  Dp_css_def small_tabs_css_def Lp_css_def Mp_css_def Fp_css_def zp_css_def Sd_css_def
  Ad_css_def Cd_css_def Rd_css_def jd_css_def Rf_css_def zf_css_def Uf_css_def Vf_css_def
  Bf_css_def qf_css_def rh_css_def oh_css_def uh_css_def ph_css_def dh_css_def

lemmas schema_defs =
  shared_defs schema_sheets_def list.pred_inject prod.case
  fh_css_def hh_css_def gh_css_def am_css_def sm_css_def lm_css_def cm_css_def um_css_def
  dm_css_def fm_css_def hm_css_def mm_css_def gm_css_def vm_css_def bm_css_def wm_css_def
  underscore_m_css_def Om_css_def Pm_css_def jm_css_def og_css_def Dg_css_def Lg_div_css_def
  Lg_ul_css_def Lg_css_def Mg_css_def Fg_css_def zg_css_def Ug_css_def Vg_css_def Bg_css_def
  qg_css_def Wg_css_def Yg_css_def Kg_css_def Gg_css_def ny_css_def ry_css_def oy_css_def
  iy_css_def ay_css_def

lemmas menu_defs =
  shared_defs menu_sheets_def list.pred_inject prod.case
  ly_css_def cy_css_def uy_css_def xy_css_def underscore_y_css_def Oy_css_def Ey_css_def
  Py_css_def Ay_css_def dollar_y_css_def Cy_css_def Ry_css_def jy_css_def Ty_css_def
  Ny_css_def Dy_css_def Ly_css_def My_css_def Fy_css_def zy_css_def Uy_css_def ev_css_def

lemmas layout_defs =
  shared_defs layout_sheets_def list.pred_inject prod.case
  tv_css_def nv_css_def rv_css_def dv_css_def wv_css_def underscore_v_css_def Iv_css_def
  Bv_css_def Zv_css_def jb_css_def Nb_css_def Db_css_def Mb_css_def Fb_css_def zb_css_def
  Ub_css_def Vb_css_def Bb_css_def qb_css_def Wb_css_def

text \<open>Style sheets with more closing than opening braces, and how many more.\<close>

definition surplus :: "string \<Rightarrow> nat" where
  "surplus n =
     (if n = ''qb'' then 3 else if n \<in> {''tp'', ''gm'', ''vm''} then 1 else 0)"

definition depth_checked :: "(string \<times> piece list) list \<Rightarrow> bool" where
  "depth_checked xs \<longleftrightarrow> list_all (\<lambda>(n, ps). pieces_depth (surplus n) ps = Some 0) xs"

definition plain_checked :: "(string \<times> piece list) list \<Rightarrow> bool" where
  "plain_checked xs \<longleftrightarrow> list_all (\<lambda>(n, ps). plain_all ps) xs"

text \<open>
  Characters that are not braces are skipped by a look at one or two of their bits; the bits
  are those of \<open>{\<close> (\<open>01111011\<close>) and \<open>}\<close> (\<open>01111101\<close>) from the last to the first.
\<close>

lemma depth_open: "depth_run d (CHR ''{'' # cs) = depth_run (Suc d) cs"
  by simp

lemma depth_close: "depth_run (Suc d) (CHR ''}'' # cs) = depth_run d cs"
  by simp

lemma depth_skip:
  "depth_run d (Char b0 b1 b2 b3 b4 b5 False b7 # cs) = depth_run d cs"
  "depth_run d (Char b0 b1 b2 b3 False b5 b6 b7 # cs) = depth_run d cs"
  "depth_run d (Char b0 b1 b2 False b4 b5 b6 b7 # cs) = depth_run d cs"
  "depth_run d (Char b0 b1 b2 b3 b4 False b6 b7 # cs) = depth_run d cs"
  "depth_run d (Char False b1 b2 b3 b4 b5 b6 b7 # cs) = depth_run d cs"
  "depth_run d (Char b0 False False b3 b4 b5 b6 b7 # cs) = depth_run d cs"
  "depth_run d (Char b0 True True b3 b4 b5 b6 b7 # cs) = depth_run d cs"
  by simp_all

lemma depth_marks:
  "depth_run d (apostrophe # cs) = depth_run d cs"
  "depth_run d (quotation # cs) = depth_run d cs"
  "depth_run d (backslash # cs) = depth_run d cs"
  "depth_run d (replicate n apostrophe) = Some d"
  by (induction n) (simp_all add: apostrophe_def quotation_def backslash_def)

lemma bind_first: "x = y \<Longrightarrow> Option.bind x f = Option.bind y f"
  by simp

lemma Cu_depth: "pieces_depth d (Cu n) = Some d"
  by (simp add: Cu_def dollar_u_def)

lemmas depth_rules =
  depth_open depth_close depth_skip depth_marks Cu_depth depth_run.simps(1) depth_run_append
  piece_depth.simps pieces_depth.simps text_depth.simps exp_depth.simps clean_exp.simps
  brace_free_simps Option.bind.simps option.inject if_True if_False simp_thms
  list.pred_inject prod.case surplus_def list.inject char.inject insert_iff empty_iff
  clean.simps jexp.case One_nat_def numeral_3_eq_3

lemma page_depth: "depth_checked page_sheets"
  by (simp only: depth_checked_def depth_rules page_defs cong: bind_first)

lemma code_depth: "depth_checked code_sheets"
  by (simp only: depth_checked_def depth_rules code_defs cong: bind_first)

lemma schema_depth: "depth_checked schema_sheets"
  by (simp only: depth_checked_def depth_rules schema_defs cong: bind_first)

lemma menu_depth: "depth_checked menu_sheets"
  by (simp only: depth_checked_def depth_rules menu_defs cong: bind_first)

lemma layout_depth: "depth_checked layout_sheets"
  by (simp only: depth_checked_def depth_rules layout_defs cong: bind_first)

lemma Cu_plain [simp]: "plain_all (Cu n)"
  by (simp add: Cu_def dollar_u_def)

lemma page_plain: "plain_checked page_sheets"
  by (simp add: plain_checked_def page_defs)

lemma code_plain: "plain_checked code_sheets"
  by (simp add: plain_checked_def code_defs)

lemma schema_plain: "plain_checked schema_sheets"
  by (simp add: plain_checked_def schema_defs)

lemma menu_plain: "plain_checked menu_sheets"
  by (simp add: plain_checked_def menu_defs)

lemma layout_plain: "plain_checked layout_sheets"
  by (simp add: plain_checked_def layout_defs)


section \<open>The shape of the properties\<close>

text \<open>
  What the style sheets need of the properties: a theme whose sections are objects, whose
  colours are colours that Polished reads, and whose panel width is a text.  Every theme that
  extends the default one without replacing a section by a plain value has it.
\<close>

definition theme_shape :: shape where
  "theme_shape = Object
     [(''codeBlock'', Object [(''backgroundColor'', Colour)]),
      (''colors'', Object
         [(''border'', Object []), (''gray'', Object [(''100'', Colour)]), (''http'', Object []),
          (''primary'', Object [(''light'', Colour), (''main'', Colour)]),
          (''responses'', Object
             [(''error'', Object []), (''info'', Object []), (''redirect'', Object []),
              (''success'', Object [])]),
          (''text'', Object [(''primary'', Colour)]), (''warning'', Object [])]),
      (''fab'', Object []), (''logo'', Object []),
      (''rightPanel'', Object
         [(''servers'', Object [(''overlay'', Object []), (''url'', Object [])]),
          (''backgroundColor'', Colour), (''textColor'', Colour), (''width'', Text)]),
      (''schema'', Object [(''arrow'', Object []), (''typeNameColor'', Colour)]),
      (''sidebar'', Object
         [(''arrow'', Object []), (''groupItems'', Object []), (''level1Items'', Object []),
          (''backgroundColor'', Colour)]),
      (''spacing'', Object []), (''breakpoints'', Object []),
      (''typography'', Object [(''code'', Object []), (''headings'', Object []), (''links'', Object [])])]"

definition page_shape :: shape where
  "page_shape = Object [(''theme'', theme_shape)]"

lemma page_objects [simp]:
  "at_object page_shape []"
  "at_object page_shape [''theme'']"
  "at_object page_shape [''theme'', ''codeBlock'']"
  "at_object page_shape [''theme'', ''colors'']"
  "at_object page_shape [''theme'', ''colors'', ''border'']"
  "at_object page_shape [''theme'', ''colors'', ''gray'']"
  "at_object page_shape [''theme'', ''colors'', ''http'']"
  "at_object page_shape [''theme'', ''colors'', ''primary'']"
  "at_object page_shape [''theme'', ''colors'', ''responses'']"
  "at_object page_shape [''theme'', ''colors'', ''responses'', ''error'']"
  "at_object page_shape [''theme'', ''colors'', ''responses'', ''info'']"
  "at_object page_shape [''theme'', ''colors'', ''responses'', ''redirect'']"
  "at_object page_shape [''theme'', ''colors'', ''responses'', ''success'']"
  "at_object page_shape [''theme'', ''colors'', ''text'']"
  "at_object page_shape [''theme'', ''colors'', ''warning'']"
  "at_object page_shape [''theme'', ''fab'']"
  "at_object page_shape [''theme'', ''logo'']"
  "at_object page_shape [''theme'', ''rightPanel'']"
  "at_object page_shape [''theme'', ''rightPanel'', ''servers'']"
  "at_object page_shape [''theme'', ''rightPanel'', ''servers'', ''overlay'']"
  "at_object page_shape [''theme'', ''rightPanel'', ''servers'', ''url'']"
  "at_object page_shape [''theme'', ''schema'']"
  "at_object page_shape [''theme'', ''schema'', ''arrow'']"
  "at_object page_shape [''theme'', ''sidebar'']"
  "at_object page_shape [''theme'', ''sidebar'', ''arrow'']"
  "at_object page_shape [''theme'', ''sidebar'', ''groupItems'']"
  "at_object page_shape [''theme'', ''sidebar'', ''level1Items'']"
  "at_object page_shape [''theme'', ''spacing'']"
  "at_object page_shape [''theme'', ''breakpoints'']"
  "at_object page_shape [''theme'', ''typography'']"
  "at_object page_shape [''theme'', ''typography'', ''code'']"
  "at_object page_shape [''theme'', ''typography'', ''headings'']"
  "at_object page_shape [''theme'', ''typography'', ''links'']"
  by (simp_all add: at_object_def page_shape_def theme_shape_def)

lemma page_colours [simp]:
  "colour_at page_shape [''theme'', ''codeBlock'', ''backgroundColor'']"
  "colour_at page_shape [''theme'', ''colors'', ''gray'', ''100'']"
  "colour_at page_shape [''theme'', ''colors'', ''primary'', ''light'']"
  "colour_at page_shape [''theme'', ''colors'', ''primary'', ''main'']"
  "colour_at page_shape [''theme'', ''colors'', ''text'', ''primary'']"
  "colour_at page_shape [''theme'', ''rightPanel'', ''backgroundColor'']"
  "colour_at page_shape [''theme'', ''rightPanel'', ''textColor'']"
  "colour_at page_shape [''theme'', ''schema'', ''typeNameColor'']"
  "colour_at page_shape [''theme'', ''sidebar'', ''backgroundColor'']"
  by (simp_all add: colour_at_def page_shape_def theme_shape_def)

lemma page_panel_width [simp]:
  "shape_at page_shape [''theme'', ''rightPanel'', ''width''] = Some Text"
  by (simp add: page_shape_def theme_shape_def)

text \<open>
  Two style sheets read a property of a colour that the \<open>type\<close> of the component chooses; they
  need that colour to exist.
\<close>

definition sheet_needs :: "string \<Rightarrow> jexp list" where
  "sheet_needs n =
     (if n = ''qu'' then [E_index (E_at [''theme'', ''colors'']) (E_at [''type''])]
      else if n = ''ev'' then
        [E_index (E_at [''theme'', ''colors'', ''responses'']) (E_at [''type''])]
      else [])"

definition safe_checked :: "(string \<times> piece list) list \<Rightarrow> bool" where
  "safe_checked xs \<longleftrightarrow>
     list_all (\<lambda>(n, ps). pieces_safe page_shape (sheet_needs n) ps) xs"

lemma Cu_safe [simp]: "pieces_safe page_shape F (Cu n)"
  by (simp add: Cu_def readable_at_def)

lemma page_safe: "safe_checked page_sheets"
  by (simp add: safe_checked_def sheet_needs_def readable_at_def page_defs)

lemma code_safe: "safe_checked code_sheets"
  by (simp add: safe_checked_def sheet_needs_def readable_at_def code_defs)

lemma schema_safe: "safe_checked schema_sheets"
  by (simp add: safe_checked_def sheet_needs_def readable_at_def schema_defs)

lemma menu_safe: "safe_checked menu_sheets"
  by (simp add: safe_checked_def sheet_needs_def readable_at_def menu_defs)

lemma layout_safe: "safe_checked layout_sheets"
  by (simp add: safe_checked_def sheet_needs_def readable_at_def layout_defs)

section \<open>What the checks say of the rendered texts\<close>

lemma checked_sheets: "depth_checked sheets" "plain_checked sheets" "safe_checked sheets"
  using page_depth code_depth schema_depth menu_depth layout_depth
    page_plain code_plain schema_plain menu_plain layout_plain
    page_safe code_safe schema_safe menu_safe layout_safe
  by (simp_all only: sheets_def depth_checked_def plain_checked_def safe_checked_def
      list_all_append simp_thms)

lemma sheet_checks:
  assumes "(n, ps) \<in> set sheets"
  shows "pieces_depth (surplus n) ps = Some 0" and "plain_all ps"
    and "pieces_safe page_shape (sheet_needs n) ps"
  using assms checked_sheets
  by (auto simp only: depth_checked_def plain_checked_def safe_checked_def list_all_iff prod.case
      dest!: bspec)

lemma sheet_text_Mi: "plain_all ps \<Longrightarrow> sheet_text ps h p = Mi (Chunks (map chunk_of ps)) h p"
  by (simp only: sheet_text_def component_text_Fi [OF plain_all_literal])

lemma depth_run_more: "depth_run d s = Some e \<Longrightarrow> depth_run (d + k) s = Some (e + k)"
proof (induction d s rule: depth_run.induct)
  case (2 d c cs)
  then show ?case by (cases d) (auto split: if_splits)
qed simp

lemma surplus_balanced: "depth_run k s = Some 0 \<Longrightarrow> balanced s \<longleftrightarrow> k = 0"
  using depth_run_more [of 0 s 0 k] by (auto simp: balanced_def)

lemma sheet_depth:
  assumes "(n, ps) \<in> set sheets" and "tidy h" and "clean p" and "sheet_text ps h p = Inr s"
  shows "depth_run (surplus n) s = Some 0"
  using piece_depth_run(2) [OF assms(2,3) sheet_checks(1,2) [OF assms(1)]]
    sheet_text_Mi [OF sheet_checks(2) [OF assms(1)]] assms(4) by simp

lemma sheet_safe:
  assumes "(n, ps) \<in> set sheets" and "fits page_shape p" and "returns h" and "good_hook p"
    and "list_all (holds h p) (sheet_needs n)"
  shows "\<exists>s. sheet_text ps h p = Inr s"
  using piece_safe_ok(2) [OF assms(2-5) sheet_checks(3,2) [OF assms(1)]]
    sheet_text_Mi [OF sheet_checks(2) [OF assms(1)]] assms by simp

end
