(* ===== verification/Theme_Facts.thy ===== *)
theory Theme_Facts
  imports Redoc_Theme
begin

text \<open>
  What the theme's merge and its getters promise: a merged theme has the user's entries over
  the default ones, merging twice is merging once, and reading an entry always ends, because
  the count of evaluations bounds the getters that are open at once.
\<close>

section \<open>Merging\<close>

lemma map_of_assign: "map_of (assign k v fs) j = (if j = k then Some v else map_of fs j)"
  by (induction k v fs rule: assign.induct) auto

lemma existing_assign: "j \<noteq> k \<Longrightarrow> existing (assign k v fs) j = existing fs j"
  by (simp add: existing_def map_of_assign)

lemma map_of_merge_fields:
  "distinct (map fst b) \<Longrightarrow>
     map_of (merge_fields a b) k =
       (case map_of b k of
          None \<Rightarrow> map_of a k
        | Some v \<Rightarrow> Some (merge_value (existing a k) v))"
proof (induction b arbitrary: a)
  case (Cons kv b)
  obtain j v where kv: "kv = (j, v)" by fastforce
  with Cons.prems have "map_of b j = None" by (auto simp: map_of_eq_None_iff)
  with Cons kv show ?case
    by (auto simp: map_of_assign existing_assign split: option.split)
qed simp

text \<open>The keys of every object of a theme are distinct.\<close>

fun proper :: "theme \<Rightarrow> bool" where
  "proper (Node fs) \<longleftrightarrow> distinct (map fst fs) \<and> list_all (\<lambda>(k, t). proper t) fs"
| "proper _ \<longleftrightarrow> True"

lemma assign_same: "map_of fs k = Some v \<Longrightarrow> assign k v fs = fs"
  by (induction k v fs rule: assign.induct) (auto split: if_splits)

lemma existing_known: "map_of fs k = Some t \<Longrightarrow> theme_truthy t \<Longrightarrow> existing fs k = t"
  by (simp add: existing_def)

lemma merge_fields_absorbed:
  "(\<And>k v. (k, v) \<in> set b \<Longrightarrow> map_of a k = Some (merge_value (existing a k) v)) \<Longrightarrow>
     merge_fields a b = a"
proof (induction b)
  case (Cons kv b)
  obtain k v where kv: "kv = (k, v)" by fastforce
  with Cons.prems [of k v] have "assign k (merge_value (existing a k) v) a = a"
    by (intro assign_same) simp
  with Cons kv show ?case by simp
qed simp

lemma theme_truthy_existing: "theme_truthy (existing fs k)"
  by (simp add: existing_def split: option.split)

lemma merge_value_again:
  "proper n \<Longrightarrow> theme_truthy e \<Longrightarrow> merge_value (existing [(j, merge_value e n)] j) n = merge_value e n"
proof (induction n arbitrary: e j rule: proper.induct)
  case (1 b)
  show ?case
  proof (cases e)
    case (Node a)
    have "merge_fields (merge_fields a b) b = merge_fields a b"
    proof (rule merge_fields_absorbed)
      fix k v
      assume kv: "(k, v) \<in> set b"
      with 1(2) have v: "map_of b k = Some v" "proper v" by (auto simp: list_all_iff)
      let ?m = "merge_value (existing a k) v"
      have "map_of (merge_fields a b) k = Some ?m" using 1(2) v by (simp add: map_of_merge_fields)
      moreover have "existing (merge_fields a b) k = existing [(k, ?m)] k"
        using calculation by (simp add: existing_def)
      moreover have "merge_value (existing [(k, ?m)] k) v = ?m"
        using 1(1) [OF kv refl] v(2) theme_truthy_existing by blast
      ultimately show
        "map_of (merge_fields a b) k = Some (merge_value (existing (merge_fields a b) k) v)"
        by simp
    qed
    then show ?thesis by (simp add: Node existing_def)
  next
    case (Leaf v)
    then show ?thesis using 1(3) by (simp add: existing_def)
  qed (simp add: existing_def)
qed (simp_all add: existing_def)

lemma merge_fields_again:
  assumes "proper (Node b)"
  shows "merge_fields (merge_fields a b) b = merge_fields a b"
  using merge_value_again [OF assms, of "Node a"] by (simp add: existing_def)

text \<open>The value at a path of objects.\<close>

fun theme_at :: "theme \<Rightarrow> string list \<Rightarrow> theme option" where
  "theme_at t [] = Some t"
| "theme_at (Node fs) (k # ks) = (case map_of fs k of Some t \<Rightarrow> theme_at t ks | None \<Rightarrow> None)"
| "theme_at _ (k # ks) = None"

fun is_leaf :: "theme \<Rightarrow> bool" where
  "is_leaf (Node fs) = False"
| "is_leaf _ = True"

text \<open>
  A path has room in a theme when every entry on the way is an object, or nothing that is
  truthy.
\<close>

fun has_room :: "theme \<Rightarrow> string list \<Rightarrow> bool" where
  "has_room (Node fs) (k # k' # ks) \<longleftrightarrow> has_room (existing fs k) (k' # ks)"
| "has_room (Node fs) ks \<longleftrightarrow> True"
| "has_room _ ks \<longleftrightarrow> ks = []"

lemma user_entry_wins:
  "proper n \<Longrightarrow> has_room e ks \<Longrightarrow> theme_at n ks = Some t \<Longrightarrow> is_leaf t \<Longrightarrow>
     theme_at (merge_value e n) ks = Some t"
proof (induction n ks arbitrary: e rule: theme_at.induct)
  case (1 n)
  then show ?case by (cases n) auto
next
  case (2 fs k ks)
  then obtain v where v: "map_of fs k = Some v" "theme_at v ks = Some t"
    by (auto split: option.splits)
  from 2(3) obtain a where a: "e = Node a" by (cases e) auto
  have "proper v" using 2(2) map_of_SomeD [OF v(1)] by (auto simp: list_all_iff)
  moreover have "has_room (existing a k) ks"
  proof (cases ks)
    case Nil
    then show ?thesis by (cases "existing a k") simp_all
  next
    case (Cons k' ls)
    then show ?thesis using 2(3) a by simp
  qed
  ultimately have "theme_at (merge_value (existing a k) v) ks = Some t"
    using 2(1) [OF v(1)] v(2) 2(5) by blast
  then show ?case using 2(2) v(1) a by (simp add: map_of_merge_fields)
qed simp_all

text \<open>An entry the user's theme does not reach stays.\<close>

fun reaches :: "theme \<Rightarrow> string list \<Rightarrow> bool" where
  "reaches (Node fs) (k # ks) \<longleftrightarrow>
     (case map_of fs k of None \<Rightarrow> False | Some t \<Rightarrow> reaches t ks)"
| "reaches _ ks \<longleftrightarrow> True"

lemma default_entry_stays:
  "proper n \<Longrightarrow> \<not> reaches n ks \<Longrightarrow> theme_at e ks = Some t \<Longrightarrow> theme_at (merge_value e n) ks = Some t"
proof (induction n ks arbitrary: e rule: reaches.induct)
  case (1 fs k ks)
  then obtain a u where a: "e = Node a" "map_of a k = Some u" "theme_at u ks = Some t"
    by (cases e) (auto split: option.splits)
  show ?case
  proof (cases "map_of fs k")
    case None
    then show ?thesis using 1 a by (simp add: map_of_merge_fields)
  next
    case (Some v)
    then have v: "proper v" "\<not> reaches v ks"
      using 1(2,3) map_of_SomeD [OF Some] by (auto simp: list_all_iff)
    then obtain vs k' ls where n: "v = Node vs" "ks = k' # ls" by (cases v; cases ks) auto
    then have "theme_truthy u" using a(3) by (cases u) auto
    then have "existing a k = u" using a(2) by (simp add: existing_def)
    then show ?thesis
      using 1(1) [OF Some v] a Some 1(2) by (simp add: map_of_merge_fields)
  qed
qed simp_all

section \<open>Reading an entry ends\<close>

lemma run_mono:
  assumes "\<And>ks s v s'. get ks s = Inr (v, s') \<Longrightarrow> P s \<Longrightarrow> P s'"
  shows "run f get s = Inr (v, s') \<Longrightarrow> P s \<Longrightarrow> P s'"
proof (induction f arbitrary: s)
  case (Read ks k)
  from Read.prems obtain w u where "get ks s = Inr (w, u)" "run (k w) get u = Inr (v, s')"
    by (auto simp: jbind_Inr_iff)
  then show ?case using Read.IH [OF rangeI] assms Read.prems(2) by blast
qed simp_all

lemma run_same:
  assumes "\<And>ks s v s'. get ks s = Inr (v, s') \<Longrightarrow> P s \<Longrightarrow> P s'"
    and "\<And>ks s. P s \<Longrightarrow> get ks s = get' ks s"
  shows "P s \<Longrightarrow> run f get s = run f get' s"
proof (induction f arbitrary: s)
  case (Read ks k)
  have "get' ks s = get ks s" using assms(2) Read(2) by simp
  moreover have "run (k v) get s' = run (k v) get' s'" if "get ks s = Inr (v, s')" for v s'
    using Read(1) [OF rangeI, of s' v] assms(1) [OF that Read(2)] by blast
  ultimately show ?case by (cases "get ks s") auto
qed simp_all

text \<open>The count only grows, and never passes the limit.\<close>

lemma get_at_count:
  "get_at d T ks s = Inr (v, s') \<Longrightarrow> n \<le> g_count s \<and> g_count s \<le> getter_limit \<Longrightarrow>
     n \<le> g_count s' \<and> g_count s' \<le> getter_limit"
proof (induction d arbitrary: ks s v s')
  case (Suc d)
  have "n \<le> g_count u' \<and> g_count u' \<le> getter_limit"
    if "run f (get_at d T) u = Inr (w, u')" "n \<le> g_count u \<and> g_count u \<le> getter_limit"
    for f u w u'
    by (rule run_mono [where P = "\<lambda>s. n \<le> g_count s \<and> g_count s \<le> getter_limit",
          OF Suc.IH that])
  note step = this
  from Suc.prems(1) obtain tg where "find_target T [] ks = Inr tg" by (auto simp: jbind_Inr_iff)
  with Suc.prems step show ?case
    by (cases tg) (force simp: jbind_Inr_iff jmap_Inr_iff Let_def split: if_splits)+
qed simp

theorem get_at_depth:
  "g_count s \<le> getter_limit \<Longrightarrow> getter_limit < d + g_count s \<Longrightarrow>
     get_at d T ks s = get_at (d + k) T ks s"
proof (induction d arbitrary: ks s)
  case (Suc d)
  have same: "run f (get_at d T) u = run f (get_at (d + k) T) u"
    if "g_count s + 1 \<le> g_count u \<and> g_count u \<le> getter_limit" for f u
    by (rule run_same [where P = "\<lambda>u. g_count s + 1 \<le> g_count u \<and> g_count u \<le> getter_limit"])
      (use get_at_count Suc that in auto)
  show ?case
    using same [of "s\<lparr>g_count := g_count s + 1\<rparr>"]
    by (cases "find_target T [] ks") (auto simp: Let_def split: target.split)
qed simp

text \<open>So the depth of \<open>get_entry\<close> is enough, however far the evaluations have come.\<close>

lemma get_entry_enough:
  assumes "g_count s \<le> getter_limit" and "getter_limit < d + g_count s"
  shows "get_at d T ks s = get_entry T ks s"
proof (cases "d \<le> Suc (Suc getter_limit)")
  case True
  then show ?thesis
    using get_at_depth [OF assms, of T ks "Suc (Suc getter_limit) - d"]
    by (simp add: get_entry_def del: get_at.simps)
next
  case False
  then have d: "Suc (Suc getter_limit) + (d - Suc (Suc getter_limit)) = d" by simp
  have "getter_limit < Suc (Suc getter_limit) + g_count s" by simp
  from get_at_depth [OF assms(1) this, of T ks "d - Suc (Suc getter_limit)"]
  show ?thesis unfolding get_entry_def d by (rule sym)
qed

text \<open>An entry whose function starts by reading that entry is reported.\<close>

lemma circular_entry:
  assumes "find_target T [] p = Inr (Getter p (Read p f) [])"
  shows "map_of (g_memo s) p = None \<Longrightarrow> g_count s \<le> getter_limit \<Longrightarrow>
    getter_limit < d + g_count s \<Longrightarrow> get_at d T p s = Inl (circular p)"
proof (induction d arbitrary: s)
  case (Suc d)
  show ?case
  proof (cases "getter_limit < g_count s + 1")
    case False
    then have "get_at d T p (s\<lparr>g_count := g_count s + 1\<rparr>) = Inl (circular p)"
      using Suc by simp
    with False Suc.prems show ?thesis by (simp add: assms)
  qed (use Suc.prems in \<open>simp add: assms\<close>)
qed simp

text \<open>Two entries that read each other.\<close>

lemma circular_pair:
  assumes "find_target T [] p = Inr (Getter p (Read q f) [])"
    and "find_target T [] q = Inr (Getter q (Read p g) [])"
  shows "map_of (g_memo s) p = None \<Longrightarrow> map_of (g_memo s) q = None \<Longrightarrow>
    g_count s \<le> getter_limit \<Longrightarrow> getter_limit < d + g_count s \<Longrightarrow>
    \<exists>e \<in> {p, q}. get_at d T p s = Inl (circular e) \<and>
      (\<exists>e \<in> {p, q}. get_at d T q s = Inl (circular e))"
proof (induction d arbitrary: s)
  case (Suc d)
  show ?case
  proof (cases "getter_limit < g_count s + 1")
    case False
    then obtain a b where "a \<in> {p, q}" "b \<in> {p, q}"
      "get_at d T p (s\<lparr>g_count := g_count s + 1\<rparr>) = Inl (circular a)"
      "get_at d T q (s\<lparr>g_count := g_count s + 1\<rparr>) = Inl (circular b)"
      using Suc.IH [of "s\<lparr>g_count := g_count s + 1\<rparr>"] Suc.prems by auto
    with False Suc.prems show ?thesis by (auto simp: assms)
  qed (use Suc.prems in \<open>simp add: assms\<close>)
qed simp

text \<open>A \<open>null\<close> entry anywhere stops the resolution.\<close>

lemma null_entry:
  "has_null T \<Longrightarrow> resolve_theme T = Inl (Type_error ''Cannot convert undefined or null to object'')"
  by (simp add: resolve_theme_def)

lemma null_at: "theme_at t ks = Some (Leaf Null) \<Longrightarrow> has_null t"
proof (induction t ks rule: theme_at.induct)
  case (2 fs k ks)
  then show ?case by (force split: option.splits simp: list_ex_iff dest: map_of_SomeD)
qed simp_all

lemma resolved_plain: "resolve_theme T = Inr v \<Longrightarrow> \<not> has_null T"
  by (auto simp: resolve_theme_def)

end
