(* ===== verification/Colour_Facts.thy ===== *)
theory Colour_Facts
  imports Polished
begin

text \<open>
  Facts about the colour library: a colour of three bytes is read back from its hexadecimal
  text, short or long, and the amounts the operations compute stay between 0 and 1.
\<close>

section \<open>Hexadecimal texts\<close>

lemma hex_value_digit:
  assumes "d < 16"
  shows "hex_value (hex_digit d) = Some d"
proof -
  from assms have "d = 0 \<or> d = 1 \<or> d = 2 \<or> d = 3 \<or> d = 4 \<or> d = 5 \<or> d = 6 \<or> d = 7 \<or>
    d = 8 \<or> d = 9 \<or> d = 10 \<or> d = 11 \<or> d = 12 \<or> d = 13 \<or> d = 14 \<or> d = 15"
    by presburger
  then show ?thesis
    by (elim disjE) (simp_all add: hex_digit_def hex_value_def Let_def nth_Cons')
qed

lemma hex_digit_inject: "a < 16 \<Longrightarrow> b < 16 \<Longrightarrow> hex_digit a = hex_digit b \<longleftrightarrow> a = b"
  by (metis hex_value_digit option.inject)

definition hex_byte :: "nat \<Rightarrow> string" where
  "hex_byte n = [hex_digit (n div 16), hex_digit (n mod 16)]"

lemma wr_byte:
  assumes "n < 256"
  shows "wr (dnat n) = hex_byte n"
proof (cases "n < 16")
  case True
  then have "hex_nat n = [hex_digit n]" by (simp add: hex_nat.simps)
  with True show ?thesis by (simp add: wr_def hex_byte_def hex_digit_def [of 0])
next
  case False
  then have "hex_nat n = hex_byte n"
    using assms by (simp add: hex_nat.simps [of n] hex_nat.simps [of "n div 16"] hex_byte_def)
  then show ?thesis by (simp add: wr_def hex_byte_def)
qed

lemma rat_div_mod: "16 * rat_of_nat (n div 16) + rat_of_nat (n mod 16) = rat_of_nat n"
  by (metis mult_div_mod_eq of_nat_add of_nat_mult of_nat_numeral)

lemma hex_colour_six:
  assumes "a < 256" "b < 256" "c < 256"
  shows "hex_colour (''#'' @ hex_byte a @ hex_byte b @ hex_byte c) =
    Some \<lparr>red = dnat a, green = dnat b, blue = dnat c, alpha = None\<rparr>"
proof -
  have "k div 16 < 16" if "k < 256" for k :: nat using that by auto
  with assms show ?thesis
    by (simp add: hex_colour_def hex_byte_def hex_value_digit hex_pair_def rat_div_mod)
qed

lemma hex_colour_three:
  assumes "a < 16" "b < 16" "c < 16"
  shows "hex_colour [CHR ''#'', hex_digit a, hex_digit b, hex_digit c] =
    Some \<lparr>red = hex_pair a a, green = hex_pair b b, blue = hex_pair c c, alpha = None\<rparr>"
  using assms by (simp add: hex_colour_def hex_value_digit)

lemma hex_colour_br:
  assumes "a < 256" "b < 256" "c < 256"
  shows "hex_colour (br (''#'' @ hex_byte a @ hex_byte b @ hex_byte c)) =
    Some \<lparr>red = dnat a, green = dnat b, blue = dnat c, alpha = None\<rparr>"
proof -
  have 16: "k div 16 < 16" if "k < 256" for k :: nat using that by auto
  show ?thesis
  proof (cases "a div 16 = a mod 16 \<and> b div 16 = b mod 16 \<and> c div 16 = c mod 16")
    case True
    then have "br (''#'' @ hex_byte a @ hex_byte b @ hex_byte c) =
        [CHR ''#'', hex_digit (a mod 16), hex_digit (b mod 16), hex_digit (c mod 16)]"
      by (simp add: br_def hex_byte_def)
    moreover have "hex_pair (k mod 16) (k mod 16) = dnat k" if "k div 16 = k mod 16" for k
      using that rat_div_mod [of k] by (simp add: hex_pair_def)
    ultimately show ?thesis using True by (simp add: hex_colour_three)
  next
    case False
    then have "br (''#'' @ hex_byte a @ hex_byte b @ hex_byte c) =
        ''#'' @ hex_byte a @ hex_byte b @ hex_byte c"
      by (simp add: br_def hex_byte_def hex_digit_inject 16 assms)
    then show ?thesis using hex_colour_six [OF assms] by simp
  qed
qed

lemma no_name_with_hash: "map_of named_colours (CHR ''#'' # s) = None"
proof -
  have "list_all (\<lambda>(k, c). k \<noteq> [] \<and> hd k \<noteq> CHR ''#'') named_colours"
    by code_simp
  then have "CHR ''#'' # s \<notin> fst ` set named_colours" by (force simp: list_all_iff)
  then show ?thesis by (simp add: map_of_eq_None_iff)
qed

lemma resolve_hash: "resolve_name (CHR ''#'' # s) = CHR ''#'' # s"
  by (simp add: resolve_name_def lower_def lower_char_def is_upper_def no_name_with_hash)

lemma br_hash: "\<exists>t. br (''#'' @ s) = CHR ''#'' # t"
  by (simp add: br_def)

lemma read_written:
  assumes "r < 256" "g < 256" "b < 256"
  shows "yr (Str (Or \<lparr>red = dnat r, green = dnat g, blue = dnat b, alpha = None\<rparr>)) =
    Inr \<lparr>red = dnat r, green = dnat g, blue = dnat b, alpha = None\<rparr>"
proof -
  let ?t = "br (''#'' @ hex_byte r @ hex_byte g @ hex_byte b)"
  obtain u where "?t = CHR ''#'' # u" using br_hash by blast
  then have "resolve_name ?t = ?t" by (simp add: resolve_hash)
  then show ?thesis using hex_colour_br [OF assms] assms by (simp add: yr_def Or_def wr_byte)
qed

section \<open>Amounts\<close>

lemma clamp_bounds:
  assumes "dle lo hi"
  shows "clamp lo hi v = NaN \<or> dle lo (clamp lo hi v) \<and> dle (clamp lo hi v) hi"
proof -
  have "lo \<noteq> NaN" "hi \<noteq> NaN" using assms by (cases lo; cases hi; simp)+
  have refl: "x \<noteq> NaN \<Longrightarrow> dle x x" for x by (cases x) simp_all
  show ?thesis
    using assms \<open>lo \<noteq> NaN\<close> \<open>hi \<noteq> NaN\<close> refl not_NaN_total [of hi v] not_NaN_total [of lo v]
    by (auto simp: clamp_def dmax_def dmin_def dlt_def)
qed

lemma faded_bounds: "faded e a = NaN \<or> dle (Fin 0) (faded e a) \<and> dle (faded e a) (Fin 1)"
  unfolding faded_def by (rule clamp_bounds) simp

text \<open>Fading writes the channels it has read, and only the alpha changes.\<close>

lemma faded_text:
  "yr t = Inr c \<Longrightarrow> t \<noteq> Str ''transparent'' \<Longrightarrow> Ur e t = Inr (Str (Sr c (faded e (alpha c))))"
  by (simp add: Ur_def unless_transparent_def)

end
