(* ===== verification/Style_Sheet.thy ===== *)
theory Style_Sheet
  imports Js_Style
begin

text \<open>
  Where the rules of the components go (redoc.standalone.js, line 8): the tags \<open>li\<close>, \<open>si\<close> and
  \<open>ai\<close> that hold rules by position, the grouped tag \<open>Yo\<close> that keeps the rules of a component
  together, the allocation of group numbers (\<open>Xo\<close>, \<open>Jo\<close>, \<open>Zo\<close>), and the style sheet \<open>pi\<close> with
  the names it knows.
\<close>

section \<open>Tags\<close>

text \<open>
  A tag inserts a text at a position and says whether it did, deletes a position, and reads
  one.
\<close>

record 't tag =
  t_insert :: "nat \<Rightarrow> string \<Rightarrow> 't \<Rightarrow> bool \<times> 't"
  t_delete :: "nat \<Rightarrow> 't \<Rightarrow> 't"
  t_get :: "nat \<Rightarrow> 't \<Rightarrow> string"

definition insert_at :: "nat \<Rightarrow> 'a \<Rightarrow> 'a list \<Rightarrow> 'a list" where
  "insert_at i x xs = take i xs @ x # drop i xs"

definition delete_at :: "nat \<Rightarrow> 'a list \<Rightarrow> 'a list" where
  "delete_at i xs = take i xs @ drop (Suc i) xs"

text \<open>\<open>li\<close>: an array of texts; its length is counted separately.\<close>

record virtual_tag =
  v_rules :: "string list"
  v_length :: int

definition li_new :: virtual_tag where
  "li_new = \<lparr>v_rules = [], v_length = 0\<rparr>"

definition li :: "virtual_tag tag" where
  "li = \<lparr>
     t_insert = (\<lambda>e t s.
       if int e \<le> v_length s
       then (True, \<lparr>v_rules = insert_at e t (v_rules s), v_length = v_length s + 1\<rparr>)
       else (False, s)),
     t_delete = (\<lambda>e s. \<lparr>v_rules = delete_at e (v_rules s), v_length = v_length s - 1\<rparr>),
     t_get = (\<lambda>e s. if int e < v_length s then v_rules s ! e else [])\<rparr>"

text \<open>\<open>si\<close>: the text nodes of a style element.\<close>

definition si :: "virtual_tag tag" where
  "si = \<lparr>
     t_insert = (\<lambda>e t s.
       if int e \<le> v_length s \<and> 0 \<le> int e
       then (True, \<lparr>v_rules = insert_at e t (v_rules s), v_length = v_length s + 1\<rparr>)
       else (False, s)),
     t_delete = (\<lambda>e s. \<lparr>v_rules = delete_at e (v_rules s), v_length = v_length s - 1\<rparr>),
     t_get = (\<lambda>e s. if int e < v_length s then v_rules s ! e else [])\<rparr>"

text \<open>
  \<open>ai\<close>: the sheet of a style element of the browser.  Whether the browser takes a rule, and
  how it writes one, are parameters; a rule it does not take is an exception that is caught.
\<close>

record browser =
  b_takes :: "string \<Rightarrow> bool"
  b_writes :: "string \<Rightarrow> string"

definition ai :: "browser \<Rightarrow> virtual_tag tag" where
  "ai b = \<lparr>
     t_insert = (\<lambda>e t s.
       if b_takes b t \<and> e \<le> length (v_rules s)
       then (True, \<lparr>v_rules = insert_at e (b_writes b t) (v_rules s), v_length = v_length s + 1\<rparr>)
       else (False, s)),
     t_delete = (\<lambda>e s. \<lparr>v_rules = delete_at e (v_rules s), v_length = v_length s - 1\<rparr>),
     t_get = (\<lambda>e s. if e < length (v_rules s) then v_rules s ! e else [])\<rparr>"

section \<open>The grouped tag\<close>

text \<open>\<open>Yo\<close>: the number of rules of each group, an \<open>Uint32Array\<close>, over a tag.\<close>

record 't grouped =
  g_sizes :: "nat list"
  g_tag :: 't

definition Yo_new :: "'t \<Rightarrow> 't grouped" where
  "Yo_new t = \<lparr>g_sizes = replicate 512 0, g_tag = t\<rparr>"

definition index_of_group :: "nat list \<Rightarrow> nat \<Rightarrow> nat" where
  "index_of_group sizes e = sum_list (take e sizes)"

text \<open>
  Doubling the array until it has the group, with a shift of 32 bits.  It is never empty; the
  loop would not end on an empty one.
\<close>

function grow :: "nat \<Rightarrow> nat \<Rightarrow> nat jsr" where
  "grow e n =
     (if e < n then Inr n
      else if n = 0 then Inl (Js_Error ''no end'')
      else if 2 ^ 31 \<le> 2 * n then Inl (Styled 16)
      else grow e (2 * n))"
  by pat_completeness auto
termination by (relation "measure (\<lambda>(e, n). 2 ^ 31 - n)") auto

declare grow.simps [simp del]

text \<open>Counting wraps in the array, and not in the position.\<close>

fun insert_loop :: "'t tag \<Rightarrow> nat \<Rightarrow> nat \<Rightarrow> string list \<Rightarrow> 't grouped \<Rightarrow> 't grouped" where
  "insert_loop T e a [] g = g"
| "insert_loop T e a (r # rs) g =
     (let (b, t) = t_insert T a r (g_tag g)
      in if b
         then insert_loop T e (Suc a) rs
           \<lparr>g_sizes = (g_sizes g)[e := Suc (g_sizes g ! e) mod 2 ^ 32], g_tag = t\<rparr>
         else insert_loop T e a rs (g\<lparr>g_tag := t\<rparr>))"

definition insert_rules ::
    "'t tag \<Rightarrow> nat \<Rightarrow> string list \<Rightarrow> 't grouped \<Rightarrow> 't grouped jsr" where
  "insert_rules T e rs g =
     jmap (\<lambda>n.
       let sizes = g_sizes g @ replicate (n - length (g_sizes g)) 0
       in insert_loop T e (index_of_group sizes (Suc e)) rs (g\<lparr>g_sizes := sizes\<rparr>))
     (grow e (length (g_sizes g)))"

fun delete_loop :: "'t tag \<Rightarrow> nat \<Rightarrow> nat \<Rightarrow> 't \<Rightarrow> 't" where
  "delete_loop T n 0 t = t"
| "delete_loop T n (Suc k) t = delete_loop T n k (t_delete T n t)"

definition clear_group :: "'t tag \<Rightarrow> nat \<Rightarrow> 't grouped \<Rightarrow> 't grouped" where
  "clear_group T e g =
     (if e < length (g_sizes g)
      then \<lparr>g_sizes = (g_sizes g)[e := 0],
            g_tag = delete_loop T (index_of_group (g_sizes g) e) (g_sizes g ! e) (g_tag g)\<rparr>
      else g)"

definition rule_mark :: string where
  "rule_mark = ''/*!sc*/\<newline>''"

definition group_rules :: "'t tag \<Rightarrow> nat \<Rightarrow> 't grouped \<Rightarrow> string list" where
  "group_rules T e g =
     (if length (g_sizes g) \<le> e then []
      else let n = index_of_group (g_sizes g) e
           in map (\<lambda>i. t_get T i (g_tag g)) [n ..< n + g_sizes g ! e])"

definition get_group :: "'t tag \<Rightarrow> nat \<Rightarrow> 't grouped \<Rightarrow> string" where
  "get_group T e g = concat (map (\<lambda>r. r @ rule_mark) (group_rules T e g))"

lemma grow_greater: "grow e n = Inr m \<Longrightarrow> e < m \<and> n \<le> m"
proof (induction e n rule: grow.induct)
  case (1 e n)
  then show ?case by (subst (asm) (2) grow.simps) (auto split: if_splits)
qed

lemma grow_enough: "e < 2 ^ 30 \<Longrightarrow> 0 < n \<Longrightarrow> \<exists>m. grow e n = Inr m \<and> e < m"
proof (induction e n rule: grow.induct)
  case (1 e n)
  then show ?case by (subst grow.simps) auto
qed

lemma grow_too_far: "2 ^ 31 \<le> e \<Longrightarrow> 0 < n \<Longrightarrow> n < 2 ^ 31 \<Longrightarrow> grow e n = Inl (Styled 16)"
proof (induction e n rule: grow.induct)
  case (1 e n)
  then show ?case by (subst grow.simps) auto
qed

section \<open>Lists in blocks\<close>

fun split_by :: "nat list \<Rightarrow> 'a list \<Rightarrow> 'a list list" where
  "split_by [] xs = []"
| "split_by (n # ns) xs = take n xs # split_by ns (drop n xs)"

lemma split_by:
  "sum_list ns = length xs \<Longrightarrow> map length (split_by ns xs) = ns"
  "sum_list ns = length xs \<Longrightarrow> concat (split_by ns xs) = xs"
  by (induction ns xs rule: split_by.induct) auto

lemma split_by_Nil [simp]: "split_by ns xs = [] \<longleftrightarrow> ns = []"
  by (cases ns) simp_all

lemma index_of_group_blocks:
  "index_of_group (map length bs) e = length (concat (take e bs))"
  by (simp add: index_of_group_def take_map length_concat)

lemma concat_block:
  "e < length bs \<Longrightarrow> concat bs = concat (take e bs) @ bs ! e @ concat (drop (Suc e) bs)"
  using arg_cong [OF id_take_nth_drop [of e bs], of concat] by simp

lemma block_start_le: "length (concat (take e bs)) \<le> length (concat bs)"
  using arg_cong [OF append_take_drop_id [of e bs], of "length \<circ> concat"]
  by (simp del: append_take_drop_id)

lemma block_length_le: "e < length bs \<Longrightarrow> length (bs ! e) \<le> length (concat bs)"
  by (simp add: concat_block)

lemma insert_at_end: "insert_at (length (a @ b)) x (a @ b @ c) = a @ (b @ [x]) @ c"
  by (simp add: insert_at_def)

lemma concat_update:
  "e < length bs \<Longrightarrow> concat (bs[e := b]) = concat (take e bs) @ b @ concat (drop (Suc e) bs)"
  by (simp add: upd_conv_take_nth_drop)

lemma concat_take_Suc: "e < length bs \<Longrightarrow> concat (take (Suc e) bs) = concat (take e bs) @ bs ! e"
  by (simp add: take_Suc_conv_app_nth)

lemma insert_in_block:
  "e < length bs \<Longrightarrow>
     insert_at (length (concat (take (Suc e) bs))) x (concat bs) = concat (bs[e := bs ! e @ [x]])"
  by (simp only: concat_block [of e bs] concat_update concat_take_Suc insert_at_end)

lemma clear_middle: "take (length a) (a @ b @ c) @ drop (length a + length b) (a @ b @ c) = a @ c"
  by simp

lemma clear_block:
  "e < length bs \<Longrightarrow>
     take (length (concat (take e bs))) (concat bs) @
       drop (length (concat (take e bs)) + length (bs ! e)) (concat bs) = concat (bs[e := []])"
  by (simp only: concat_block [of e bs] concat_update clear_middle append_Nil)

lemma map_nth_middle: "map ((!) (a @ b @ c)) [length a ..< length (a @ b)] = b"
  by (rule nth_equalityI) (simp_all add: nth_append)

lemma map_nth_block:
  "e < length bs \<Longrightarrow>
     map ((!) (concat bs)) [length (concat (take e bs)) ..< length (concat (take (Suc e) bs))]
       = bs ! e"
  by (simp only: concat_block [of e bs] concat_take_Suc map_nth_middle)

lemma sum_list_blocks: "sum_list (map length bs) = length (concat bs)"
  by (simp add: length_concat)

section \<open>What the grouped tag promises\<close>

text \<open>
  The laws of a tag: its rules are a list, of which it inserts what it shows of a text, or
  nothing.
\<close>

locale tag_laws =
  fixes T :: "'t tag"
    and rules :: "'t \<Rightarrow> string list"
    and takes :: "string \<Rightarrow> bool"
    and shows_as :: "string \<Rightarrow> string"
    and ok :: "'t \<Rightarrow> bool"
  assumes insert_ok:
      "ok t \<Longrightarrow> i \<le> length (rules t) \<Longrightarrow> t_insert T i r t = (b, t') \<Longrightarrow>
        ok t' \<and> b = takes r \<and>
        rules t' = (if b then insert_at i (shows_as r) (rules t) else rules t)"
    and delete_ok:
      "ok t \<Longrightarrow> i < length (rules t) \<Longrightarrow>
        ok (t_delete T i t) \<and> rules (t_delete T i t) = delete_at i (rules t)"
    and get_ok: "ok t \<Longrightarrow> i < length (rules t) \<Longrightarrow> t_get T i t = rules t ! i"
begin

text \<open>
  The rules as one list for each group, and what a group holds.
\<close>

definition repr :: "'t grouped \<Rightarrow> string list list \<Rightarrow> bool" where
  "repr g bs \<longleftrightarrow>
     ok (g_tag g) \<and> bs \<noteq> [] \<and> map length bs = g_sizes g \<and> concat bs = rules (g_tag g)"

definition wf :: "'t grouped \<Rightarrow> bool" where
  "wf g \<longleftrightarrow> ok (g_tag g) \<and> g_sizes g \<noteq> [] \<and> sum_list (g_sizes g) = length (rules (g_tag g))"

definition content :: "'t grouped \<Rightarrow> nat \<Rightarrow> string list" where
  "content g e = map (\<lambda>i. rules (g_tag g) ! i)
     (if e < length (g_sizes g)
      then [index_of_group (g_sizes g) e ..< index_of_group (g_sizes g) (Suc e)] else [])"

lemma wf_repr: "wf g \<longleftrightarrow> (\<exists>bs. repr g bs)"
proof
  assume "wf g"
  then have "repr g (split_by (g_sizes g) (rules (g_tag g)))"
    by (simp add: wf_def repr_def split_by)
  then show "\<exists>bs. repr g bs" ..
next
  assume "\<exists>bs. repr g bs"
  then obtain bs where bs: "repr g bs" ..
  then show "wf g" using sum_list_blocks [of bs] by (auto simp: wf_def repr_def)
qed

lemma start_repr:
  "repr g bs \<Longrightarrow> index_of_group (g_sizes g) e = length (concat (take e bs))"
  using index_of_group_blocks [of bs e] by (simp add: repr_def)

lemma repr_length: "repr g bs \<Longrightarrow> length (g_sizes g) = length bs"
  by (auto simp: repr_def dest!: arg_cong [of _ _ length])

lemma repr_size: "repr g bs \<Longrightarrow> e < length bs \<Longrightarrow> g_sizes g ! e = length (bs ! e)"
  unfolding repr_def by (metis nth_map)

lemma content_repr: "repr g bs \<Longrightarrow> content g e = (if e < length bs then bs ! e else [])"
  using map_nth_block [of e bs]
  by (simp add: content_def start_repr repr_length) (simp add: repr_def)

lemma insert_loop_repr:
  assumes "repr g bs" and "e < length bs"
    and "length (concat bs) + length rs < 2 ^ 32"
  shows "repr (insert_loop T e (index_of_group (g_sizes g) (Suc e)) rs g)
    (bs[e := bs ! e @ map shows_as (filter takes rs)])"
  using assms
proof (induction rs arbitrary: g bs)
  case (Cons r rs)
  let ?a = "index_of_group (g_sizes g) (Suc e)"
  obtain b t where bt: "t_insert T ?a r (g_tag g) = (b, t)" by fastforce
  have pos: "?a = length (concat (take (Suc e) bs))"
    using Cons.prems(1) by (rule start_repr)
  then have "?a \<le> length (rules (g_tag g))"
    using Cons.prems(1) block_start_le [of "Suc e" bs] by (simp add: repr_def)
  with insert_ok [OF _ this bt] Cons.prems(1)
  have t: "ok t" "b = takes r"
    "rules t = (if b then insert_at ?a (shows_as r) (rules (g_tag g)) else rules (g_tag g))"
    by (auto simp: repr_def)
  show ?case
  proof (cases b)
    case False
    then have "repr (g\<lparr>g_tag := t\<rparr>) bs" using Cons.prems(1) t by (simp add: repr_def)
    from Cons.IH [OF this] show ?thesis using Cons.prems bt t False by simp
  next
    case True
    let ?g = "\<lparr>g_sizes = (g_sizes g)[e := Suc (g_sizes g ! e) mod 2 ^ 32], g_tag = t\<rparr>"
    let ?bs = "bs[e := bs ! e @ [shows_as r]]"
    have "length (bs ! e) \<le> length (concat bs)"
      using Cons.prems(2) by (rule block_length_le)
    then have "Suc (g_sizes g ! e) mod 2 ^ 32 = Suc (length (bs ! e))"
      using Cons.prems repr_size [OF Cons.prems(1,2)] by simp
    then have "repr ?g ?bs"
      using Cons.prems(1,2) t True pos insert_in_block [OF Cons.prems(2), of "shows_as r"]
      by (simp add: repr_def map_update)
    moreover have "index_of_group (g_sizes ?g) (Suc e) = Suc ?a"
      using start_repr [OF calculation, of "Suc e"] start_repr [OF Cons.prems(1), of "Suc e"]
        Cons.prems(2)
      by (simp add: concat_take_Suc)
    moreover have "length (concat ?bs) + length rs < 2 ^ 32"
      using Cons.prems(2,3) insert_in_block [of e bs "shows_as r"]
      by (simp add: concat_update concat_block [of e bs])
    ultimately show ?thesis
      using Cons.IH [of ?g ?bs] Cons.prems(2) bt t True by simp
  qed
qed simp

lemma repr_pad:
  "repr g bs \<Longrightarrow>
     repr (g\<lparr>g_sizes := g_sizes g @ replicate n 0\<rparr>) (bs @ replicate n [])"
  by (simp add: repr_def)

theorem insert_rules_content:
  assumes "wf g" and "e < 2 ^ 30" and "length (rules (g_tag g)) + length rs < 2 ^ 32"
  shows "\<exists>g'. insert_rules T e rs g = Inr g' \<and> wf g' \<and>
    content g' = (content g)(e := content g e @ map shows_as (filter takes rs))"
proof -
  obtain bs where bs: "repr g bs" using assms(1) wf_repr by blast
  obtain n where n: "grow e (length (g_sizes g)) = Inr n" "e < n"
    using grow_enough [OF assms(2)] bs repr_length [OF bs] by (force simp: repr_def)
  define cs where "cs = bs @ replicate (n - length bs) []"
  let ?g = "g\<lparr>g_sizes := g_sizes g @ replicate (n - length bs) 0\<rparr>"
  have cs: "repr ?g cs" "e < length cs" "concat cs = concat bs"
    using repr_pad [OF bs] n(2) by (simp_all add: cs_def)
  let ?cs = "cs[e := cs ! e @ map shows_as (filter takes rs)]"
  have r: "repr (insert_loop T e (index_of_group (g_sizes ?g) (Suc e)) rs ?g) ?cs"
    using insert_loop_repr [OF cs(1,2), of rs] assms(3) bs cs(3) by (simp add: repr_def)
  let ?g' = "insert_loop T e (index_of_group (g_sizes ?g) (Suc e)) rs ?g"
  have "content ?g' = (content g)(e := content g e @ map shows_as (filter takes rs))"
  proof
    fix x
    show "content ?g' x = ((content g)(e := content g e @ map shows_as (filter takes rs))) x"
      using cs(2) unfolding content_repr [OF r] fun_upd_apply content_repr [OF bs]
      by (simp add: cs_def nth_append)
  qed
  then show ?thesis
    using r n(1) wf_repr by (auto simp: insert_rules_def Let_def repr_length [OF bs])
qed

lemma delete_loop_ok:
  "ok t \<Longrightarrow> n + k \<le> length (rules t) \<Longrightarrow>
     ok (delete_loop T n k t) \<and>
     rules (delete_loop T n k t) = take n (rules t) @ drop (n + k) (rules t)"
proof (induction k arbitrary: t)
  case (Suc k)
  then have "ok (t_delete T n t)" "rules (t_delete T n t) = delete_at n (rules t)"
    using delete_ok [of t n] by simp_all
  with Suc show ?case by (simp add: delete_at_def add.commute [of n])
qed simp

theorem clear_group_content:
  assumes "wf g"
  shows "wf (clear_group T e g) \<and> content (clear_group T e g) = (content g)(e := [])"
proof -
  obtain bs where bs: "repr g bs" using assms wf_repr by blast
  show ?thesis
  proof (cases "e < length bs")
    case True
    have "length (concat (take e bs)) + length (bs ! e) \<le> length (rules (g_tag g))"
      using bs concat_block [OF True] by (auto simp: repr_def dest!: arg_cong [of _ _ length])
    then have "repr (clear_group T e g) (bs[e := []])"
      using bs True delete_loop_ok [of "g_tag g" "length (concat (take e bs))" "length (bs ! e)"]
        clear_block [OF True]
      by (simp add: clear_group_def start_repr repr_length repr_size)
        (simp add: repr_def map_update)
    then show ?thesis
      using wf_repr content_repr [OF bs] content_repr [of _ "bs[e := []]"] True
      by (auto simp: fun_eq_iff)
  next
    case False
    then show ?thesis
      using assms by (auto simp: clear_group_def repr_length [OF bs] content_repr [OF bs])
  qed
qed

theorem group_rules_content:
  assumes "wf g"
  shows "group_rules T e g = content g e"
proof -
  obtain bs where bs: "repr g bs" using assms wf_repr by blast
  show ?thesis
  proof (cases "e < length bs")
    case True
    let ?n = "length (concat (take e bs))"
    have "length (concat (take (Suc e) bs)) \<le> length (rules (g_tag g))"
      using block_start_le [of "Suc e" bs] bs by (simp add: repr_def)
    moreover have "length (concat (take (Suc e) bs)) = ?n + length (bs ! e)"
      using concat_take_Suc [OF True] by simp
    ultimately show ?thesis
      using bs True get_ok [of "g_tag g"]
      by (simp add: group_rules_def content_def start_repr repr_length repr_size Let_def)
        (simp add: repr_def)
  next
    case False
    then show ?thesis by (simp add: group_rules_def content_def repr_length [OF bs])
  qed
qed

end

section \<open>The three tags\<close>

definition counted :: "virtual_tag \<Rightarrow> bool" where
  "counted s \<longleftrightarrow> v_length s = int (length (v_rules s))"

lemma length_insert_at [simp]: "length (insert_at i x xs) = Suc (length xs)"
  by (simp add: insert_at_def)

lemma length_delete_at: "i < length xs \<Longrightarrow> length (delete_at i xs) = length xs - 1"
  by (simp add: delete_at_def)

interpretation virtual_laws: tag_laws li v_rules "\<lambda>_. True" "\<lambda>r. r" counted
  by unfold_locales
    (auto simp: li_def counted_def length_delete_at of_nat_diff split: if_splits)

interpretation node_laws: tag_laws si v_rules "\<lambda>_. True" "\<lambda>r. r" counted
  by unfold_locales
    (auto simp: si_def counted_def length_delete_at of_nat_diff split: if_splits)

interpretation sheet_laws: tag_laws "ai b" v_rules "b_takes b" "b_writes b" "\<lambda>_. True" for b
  by unfold_locales (auto simp: ai_def split: if_splits)

text \<open>A new grouped tag holds nothing.\<close>

lemma new_content: "virtual_laws.wf (Yo_new li_new)" "virtual_laws.content (Yo_new li_new) e = []"
  by (simp_all add: virtual_laws.wf_def virtual_laws.content_def Yo_new_def li_new_def counted_def
      index_of_group_def)

end
