(* ===== verification/Class_Names.thy ===== *)
theory Class_Names
  imports Js_Values "HOL-Library.Word"
begin

text \<open>
  How a class name is made (redoc.standalone.js, line 8): the hash \<open>mi\<close> of a text, which keeps
  32 bits, and its writing \<open>hi\<close> in letters, which keeps the letters \<open>a\<close> and \<open>d\<close> apart.
\<close>

unbundle bit_operations_syntax

section \<open>The hash\<close>

text \<open>From the last character to the first; \<open>^\<close> keeps the low 32 bits of the product.\<close>

definition mi :: "32 word \<Rightarrow> string \<Rightarrow> 32 word" where
  "mi e t = fold (\<lambda>c e. (33 * e) XOR word_of_nat (of_char c)) (rev t) e"

text \<open>Hashing a number: it has no \<open>length\<close>, so the loop does not start.\<close>

definition mi_number :: "32 word \<Rightarrow> nat \<Rightarrow> 32 word" where
  "mi_number e n = e"

definition gi :: "string \<Rightarrow> 32 word" where
  "gi = mi 5381"

definition vi :: "32 word" where
  "vi = gi ''5.3.0''"

lemma mi_append: "mi e (s @ t) = mi (mi e t) s"
  by (simp add: mi_def)

section \<open>The letters\<close>

definition fi :: "nat \<Rightarrow> char" where
  "fi e = char_of (e + (if 25 < e then 39 else 97))"

function base52 :: "nat \<Rightarrow> string \<Rightarrow> string" where
  "base52 t n = (if 52 < t then base52 (t div 52) (fi (t mod 52) # n) else fi (t mod 52) # n)"
  by pat_completeness auto
termination by (relation "measure fst") auto

declare base52.simps [simp del]

definition is_a :: "char \<Rightarrow> bool" where
  "is_a c \<longleftrightarrow> c = CHR ''a'' \<or> c = CHR ''A''"

definition is_d :: "char \<Rightarrow> bool" where
  "is_d c \<longleftrightarrow> c = CHR ''d'' \<or> c = CHR ''D''"

text \<open>\<open>replace(/(a)(d)/gi, "$1-$2")\<close>.\<close>

fun dash :: "string \<Rightarrow> string" where
  "dash (x # y # s) =
     (if is_a x \<and> is_d y then x # CHR ''-'' # y # dash s else x # dash (y # s))"
| "dash s = s"

definition hi :: "32 word \<Rightarrow> string" where
  "hi e = dash (base52 (unat e) [])"

section \<open>A name has no \<open>ad\<close>\<close>

fun has_ad :: "string \<Rightarrow> bool" where
  "has_ad (x # y # s) \<longleftrightarrow> is_a x \<and> is_d y \<or> has_ad (y # s)"
| "has_ad s \<longleftrightarrow> False"

lemma dash_hd: "\<exists>t. dash (x # s) = x # t"
  by (cases s) simp_all

lemma has_ad_Cons: "has_ad (x # s) \<longleftrightarrow> is_a x \<and> (\<exists>y t. s = y # t \<and> is_d y) \<or> has_ad s"
  by (cases s) auto

lemma not_a_and_d: "is_a c \<Longrightarrow> \<not> is_d c" "is_d c \<Longrightarrow> \<not> is_a c" "\<not> is_a CHR ''-''" "\<not> is_d CHR ''-''"
  by (auto simp: is_a_def is_d_def)

lemma dash_has_no_ad: "\<not> has_ad (dash s)"
proof (induction s rule: dash.induct)
  case (1 x y s)
  then show ?case
    using dash_hd [of y s]
    by (auto simp: has_ad_Cons not_a_and_d)
qed simp_all

section \<open>Different hashes, different names\<close>

definition letter :: "char \<Rightarrow> nat" where
  "letter c = (let n = of_char c in if n < 97 then n - 39 else n - 97)"

lemma letter_fi [simp]: "e < 52 \<Longrightarrow> letter (fi e) = e"
  by (auto simp: letter_def fi_def Let_def)

lemma of_char_fi: "e < 52 \<Longrightarrow> of_char (fi e) = e + (if 25 < e then 39 else 97)"
  by (simp add: fi_def)

lemma fi_no_dash [simp]: "e < 52 \<Longrightarrow> fi e \<noteq> CHR ''-''"
  using of_char_fi [of e] by (auto split: if_splits)

lemma base52_append: "base52 t n = base52 t [] @ n"
proof (induction t arbitrary: n rule: less_induct)
  case (less t)
  show ?case
  proof (cases "52 < t")
    case True
    then have "t div 52 < t" by simp
    from less [OF this, of "fi (t mod 52) # n"] less [OF this, of "[fi (t mod 52)]"] True
    show ?thesis by (simp add: base52.simps [of t])
  qed (simp add: base52.simps [of t])
qed

lemma base52_step: "52 < t \<Longrightarrow> base52 t [] = base52 (t div 52) [] @ [fi (t mod 52)]"
  using base52_append [of "t div 52" "[fi (t mod 52)]"] by (simp add: base52.simps [of t])

lemma base52_last: "t \<le> 52 \<Longrightarrow> base52 t [] = [fi (t mod 52)]"
  by (simp add: base52.simps)

text \<open>Reading a name back: a leading \<open>a\<close> that is not alone stands for 52.\<close>

definition unletters :: "string \<Rightarrow> nat" where
  "unletters s =
     foldl (\<lambda>n c. 52 * n + letter c)
       (if letter (hd s) = 0 \<and> tl s \<noteq> [] then 52 else letter (hd s)) (tl s)"

lemma unletters_snoc:
  "s \<noteq> [] \<Longrightarrow>
     unletters (s @ [c]) = 52 * (if s = [fi 0] then 52 else unletters s) + letter c"
  if "\<forall>c \<in> set s. \<exists>e < 52. c = fi e"
  using that by (cases s) (auto simp: unletters_def)

lemma base52_letters: "\<forall>c \<in> set (base52 t []). \<exists>e < 52. c = fi e"
proof (induction t rule: less_induct)
  case (less t)
  show ?case
  proof (cases "52 < t")
    case True
    then have "t div 52 < t" by simp
    from less [OF this] True show ?thesis
      by (auto simp: base52_step intro: exI [of _ "t mod 52"])
  qed (auto simp: base52_last intro!: exI [of _ "t mod 52"])
qed

lemma base52_nonempty [simp]: "base52 t [] \<noteq> []"
  by (cases "52 < t") (simp_all add: base52_step base52_last)

lemma unletters_base52: "t \<noteq> 52 \<Longrightarrow> unletters (base52 t []) = t"
proof (induction t rule: less_induct)
  case (less t)
  show ?case
  proof (cases "52 < t")
    case True
    let ?u = "t div 52"
    have u: "0 < ?u" "?u < t" using True by (simp_all add: div_greater_zero_iff)
    have "(if base52 ?u [] = [fi 0] then 52 else unletters (base52 ?u [])) = ?u"
    proof (cases "?u = 52")
      case True
      then show ?thesis by (simp add: base52_last)
    next
      case False
      then have "unletters (base52 ?u []) = ?u" using less u by blast
      moreover have "base52 ?u [] \<noteq> [fi 0]"
        using calculation u(1) by (auto simp: unletters_def)
      ultimately show ?thesis by simp
    qed
    then show ?thesis
      using True unletters_snoc [OF base52_letters, of ?u "fi (t mod 52)"]
      by (simp add: base52_step)
  next
    case False
    with less.prems show ?thesis by (simp add: base52_last unletters_def)
  qed
qed

lemma undash: "CHR ''-'' \<notin> set s \<Longrightarrow> filter (\<lambda>c. c \<noteq> CHR ''-'') (dash s) = s"
  by (induction s rule: dash.induct) auto

lemma undash_base52: "filter (\<lambda>c. c \<noteq> CHR ''-'') (dash (base52 t [])) = base52 t []"
  using base52_letters [of t] by (intro undash) (metis fi_no_dash)

lemma hi_unletters: "unat e \<noteq> 52 \<Longrightarrow> unletters (filter (\<lambda>c. c \<noteq> CHR ''-'') (hi e)) = unat e"
  by (simp add: hi_def undash_base52 unletters_base52)

lemma hi_same_52: "hi 52 = hi 0"
  by (simp add: hi_def base52_last)

lemma hi_of_52:
  fixes u :: "32 word"
  assumes "hi u = hi 52"
  shows "u = 0 \<or> u = 52"
proof (cases "unat u = 52")
  case True
  then have "u = 52" by (simp add: word_unat_eq_iff)
  then show ?thesis ..
next
  case False
  have "unat u = unletters (filter (\<lambda>c. c \<noteq> CHR ''-'') (hi u))"
    using hi_unletters [OF False] by (rule sym)
  also have "\<dots> = unletters (filter (\<lambda>c. c \<noteq> CHR ''-'') (hi 0))"
    by (simp only: assms hi_same_52)
  also have "\<dots> = 0" using hi_unletters [of 0] by simp
  finally show ?thesis by (simp add: unat_eq_zero)
qed

lemma hi_injective:
  assumes "hi v = hi w"
  shows "v = w \<or> {v, w} = {0, 52}"
proof (cases "v = 52 \<or> w = 52")
  case True
  then show ?thesis using assms hi_of_52 [of v] hi_of_52 [of w] by auto
next
  case False
  then have "unat v \<noteq> 52" "unat w \<noteq> 52" by (simp_all add: word_unat_eq_iff)
  then have "unat v = unat w" using hi_unletters [of v] hi_unletters [of w] assms by simp
  then show ?thesis by (simp add: word_unat_eq_iff)
qed

lemma hi_nonempty [simp]: "hi e \<noteq> []"
proof
  assume "hi e = []"
  then have "filter (\<lambda>c. c \<noteq> CHR ''-'') (dash (base52 (unat e) [])) = []" by (simp add: hi_def)
  then show False by (simp add: undash_base52)
qed

end
