(* ===== verification/Style_Component.thy ===== *)
theory Style_Component
  imports Style_Sheet Class_Names
begin

text \<open>
  The components' style sheets (redoc.standalone.js, line 8): the numbers of the groups
  (\<open>Xo\<close>, \<open>Jo\<close>, \<open>Zo\<close> over the maps \<open>Ko\<close> and \<open>Go\<close>), the sheet \<open>pi\<close> with the names it has
  rules for, and \<open>bi\<close>, which renders the rules of a component, names the result by its hash
  and inserts it once.
\<close>

section \<open>Group numbers\<close>

text \<open>The maps \<open>Ko\<close> and \<open>Go\<close> and the counter \<open>Qo\<close>.\<close>

record ids =
  Ko :: "string \<rightharpoonup> nat"
  Go :: "(nat \<times> string) list"
  Qo :: nat

definition ids_new :: ids where
  "ids_new = \<lparr>Ko = Map.empty, Go = [], Qo = 1\<rparr>"

definition keys_from :: "nat \<Rightarrow> (nat \<times> string) list \<Rightarrow> nat set" where
  "keys_from q go = {k \<in> fst ` set go. q \<le> k}"

lemma keys_from_Suc:
  "map_of go q \<noteq> None \<Longrightarrow> card (keys_from (Suc q) go) < card (keys_from q go)"
proof (rule psubset_card_mono)
  assume "map_of go q \<noteq> None"
  then have "q \<in> keys_from q go" "q \<notin> keys_from (Suc q) go"
    by (auto simp: keys_from_def map_of_eq_None_iff)
  moreover have "keys_from (Suc q) go \<subseteq> keys_from q go" by (auto simp: keys_from_def)
  ultimately show "keys_from (Suc q) go \<subset> keys_from q go" by blast
qed (simp add: keys_from_def)

function next_free :: "(nat \<times> string) list \<Rightarrow> nat \<Rightarrow> nat" where
  "next_free go q = (if map_of go q \<noteq> None then next_free go (Suc q) else q)"
  by pat_completeness auto
termination
  by (relation "measure (\<lambda>(go, q). card (keys_from q go))") (auto simp: keys_from_Suc)

declare next_free.simps [simp del]

definition Xo :: "string \<Rightarrow> ids \<Rightarrow> nat \<times> ids" where
  "Xo e s =
     (case Ko s e of
        Some t \<Rightarrow> (t, s)
      | None \<Rightarrow>
          (let t = next_free (Go s) (Qo s)
           in (t, \<lparr>Ko = (Ko s)(e \<mapsto> t), Go = (t, e) # Go s, Qo = Suc t\<rparr>)))"

definition Jo :: "nat \<Rightarrow> ids \<Rightarrow> string option" where
  "Jo t s = map_of (Go s) t"

definition Zo :: "string \<Rightarrow> nat \<Rightarrow> ids \<Rightarrow> ids" where
  "Zo e t s = s\<lparr>Ko := (Ko s)(e \<mapsto> t), Go := (t, e) # Go s\<rparr>"

text \<open>The two maps are inverse to each other.\<close>

definition ids_ok :: "ids \<Rightarrow> bool" where
  "ids_ok s \<longleftrightarrow> (\<forall>e t. Ko s e = Some t \<longleftrightarrow> map_of (Go s) t = Some e)"

lemma next_free_fresh: "map_of go (next_free go q) = None"
proof (induction go q rule: next_free.induct)
  case (1 go q)
  then show ?case by (subst next_free.simps) auto
qed

lemma ids_ok_new: "ids_ok ids_new"
  by (simp add: ids_ok_def ids_new_def)

lemma ids_ok_extend:
  assumes "ids_ok s" and "Ko s e = None" and "map_of (Go s) t = None"
  shows "ids_ok \<lparr>Ko = (Ko s)(e \<mapsto> t), Go = (t, e) # Go s, Qo = q\<rparr>"
  using assms unfolding ids_ok_def by (auto dest: spec [of _ e])

lemma Xo_ok: "ids_ok s \<Longrightarrow> ids_ok (snd (Xo e s))"
  using ids_ok_extend [of s e "next_free (Go s) (Qo s)"] next_free_fresh [of "Go s" "Qo s"]
  by (simp add: Xo_def Let_def split: option.split)

lemma Xo_number: "Ko (snd (Xo e s)) e = Some (fst (Xo e s))"
  by (simp add: Xo_def Let_def split: option.split)

lemma Xo_again: "Xo e (snd (Xo e s)) = (fst (Xo e s), snd (Xo e s))"
  using Xo_number [of e s] by (simp add: Xo_def [of e "snd (Xo e s)"])

lemma Xo_keeps: "Ko s k = Some t \<Longrightarrow> Ko (snd (Xo e s)) k = Some t"
  by (auto simp: Xo_def Let_def split: option.split)

lemma Xo_distinct:
  assumes "ids_ok s" and "fst (Xo a s) = fst (Xo b (snd (Xo a s)))"
  shows "a = b"
proof -
  let ?s = "snd (Xo b (snd (Xo a s)))"
  have "ids_ok ?s" using assms(1) by (intro Xo_ok)
  moreover have "Ko ?s b = Some (fst (Xo b (snd (Xo a s))))" by (rule Xo_number)
  moreover have "Ko ?s a = Some (fst (Xo a s))" by (rule Xo_keeps [OF Xo_number])
  ultimately show ?thesis using assms(2) unfolding ids_ok_def by (metis option.inject)
qed

lemma Zo_ok: "ids_ok s \<Longrightarrow> Ko s e = None \<Longrightarrow> map_of (Go s) t = None \<Longrightarrow> ids_ok (Zo e t s)"
  using ids_ok_extend [of s e t] by (auto simp: ids_ok_def Zo_def)

section \<open>The sheet\<close>

text \<open>
  \<open>pi\<close>: the names that have rules, by component, in the order of their insertion; the grouped
  tag, made when it is first needed; and the numbers of the instances of global styles.  The
  maps of the group numbers belong to the module and are kept with it.
\<close>

record 't sheet =
  s_ids :: ids
  s_names :: "string \<rightharpoonup> string list"
  s_tag :: "'t grouped option"
  s_gs :: "string \<rightharpoonup> nat"

definition sheet_new :: "'t sheet" where
  "sheet_new = \<lparr>s_ids = ids_new, s_names = Map.empty, s_tag = None, s_gs = Map.empty\<rparr>"

text \<open>What \<open>getTag\<close> makes is a parameter: which of the tags, and an empty one.\<close>

record 't target =
  tag_of :: "'t tag"
  empty_tag :: 't

definition register_id :: "string \<Rightarrow> 't sheet \<Rightarrow> nat \<times> 't sheet" where
  "register_id e s = (let (t, i) = Xo e (s_ids s) in (t, s\<lparr>s_ids := i\<rparr>))"

definition allocate_instance :: "string \<Rightarrow> 't sheet \<Rightarrow> nat \<times> 't sheet" where
  "allocate_instance e s =
     (let n = (case s_gs s e of Some k \<Rightarrow> k | None \<Rightarrow> 0) + 1
      in (n, s\<lparr>s_gs := (s_gs s)(e \<mapsto> n)\<rparr>))"

definition get_tag :: "'t target \<Rightarrow> 't sheet \<Rightarrow> 't grouped \<times> 't sheet" where
  "get_tag T s =
     (case s_tag s of
        Some g \<Rightarrow> (g, s)
      | None \<Rightarrow> (let g = Yo_new (empty_tag T) in (g, s\<lparr>s_tag := Some g\<rparr>)))"

definition has_name :: "string \<Rightarrow> string \<Rightarrow> 't sheet \<Rightarrow> bool" where
  "has_name e t s = (case s_names s e of Some ns \<Rightarrow> t \<in> set ns | None \<Rightarrow> False)"

definition register_name :: "string \<Rightarrow> string \<Rightarrow> 't sheet \<Rightarrow> 't sheet" where
  "register_name e t s0 =
     (let s = snd (register_id e s0)
      in case s_names s e of
           Some ns \<Rightarrow> s\<lparr>s_names := (s_names s)(e \<mapsto> List.insert t ns)\<rparr>
         | None \<Rightarrow> s\<lparr>s_names := (s_names s)(e \<mapsto> [t])\<rparr>)"

definition sheet_insert ::
    "'t target \<Rightarrow> string \<Rightarrow> string \<Rightarrow> string list \<Rightarrow> 't sheet \<Rightarrow> 't sheet jsr" where
  "sheet_insert T e t rs s0 =
     (let s1 = register_name e t s0;
          (g, s2) = get_tag T s1;
          (n, s3) = register_id e s2
      in jmap (\<lambda>g'. s3\<lparr>s_tag := Some g'\<rparr>) (insert_rules (tag_of T) n rs g))"

definition clear_names :: "string \<Rightarrow> 't sheet \<Rightarrow> 't sheet" where
  "clear_names e s =
     (case s_names s e of Some ns \<Rightarrow> s\<lparr>s_names := (s_names s)(e \<mapsto> [])\<rparr> | None \<Rightarrow> s)"

definition clear_rules :: "'t target \<Rightarrow> string \<Rightarrow> 't sheet \<Rightarrow> 't sheet" where
  "clear_rules T e s0 =
     (let (g, s1) = get_tag T s0;
          (n, s2) = register_id e s1
      in clear_names e (s2\<lparr>s_tag := Some (clear_group (tag_of T) n g)\<rparr>))"

definition clear_tag :: "'t sheet \<Rightarrow> 't sheet" where
  "clear_tag s = s\<lparr>s_tag := None\<rparr>"

text \<open>\<open>toString\<close>, the text a server sends: each group with the names it has rules for.\<close>

definition quote :: string where
  "quote = [CHR 0x22]"

definition group_text :: "'t target \<Rightarrow> 't sheet \<Rightarrow> 't grouped \<Rightarrow> nat \<Rightarrow> string" where
  "group_text T s g k =
     (case Jo k (s_ids s) of
        None \<Rightarrow> []
      | Some i \<Rightarrow>
          (case s_names s i of
             None \<Rightarrow> []
           | Some ns \<Rightarrow>
               (let t = get_group (tag_of T) k g
                in if t = [] then []
                   else t @ ''data-styled.g'' @ nat_to_string k @ ''[id='' @ quote @ i @ quote @
                     '']{content:'' @ quote @
                     concat (map (\<lambda>n. if n = [] then [] else n @ '','') ns) @
                     quote @ ''}'' @ rule_mark)))"

definition sheet_string :: "'t target \<Rightarrow> 't sheet \<Rightarrow> string \<times> 't sheet" where
  "sheet_string T s0 =
     (let (g, s) = get_tag T s0
      in (concat (map (group_text T s g) [0 ..< length (g_sizes g)]), s))"

lemma register_id_names [simp]: "s_names (snd (register_id e s)) = s_names s"
  by (simp add: register_id_def split: prod.split)

lemma get_tag_names [simp]: "s_names (snd (get_tag T s)) = s_names s"
  by (simp add: get_tag_def Let_def split: option.split)

lemma register_name_has:
  "has_name k u (register_name e t s) \<longleftrightarrow> (k = e \<and> u = t) \<or> has_name k u s"
  by (auto simp: register_name_def has_name_def Let_def split: option.split)

lemma sheet_insert_names:
  "sheet_insert T e t rs s = Inr s' \<Longrightarrow> s_names s' = s_names (register_name e t s)"
  by (auto simp: sheet_insert_def jmap_Inr_iff Let_def split: prod.splits
      dest!: arg_cong [of "get_tag _ _" _ snd] arg_cong [of "register_id _ _" _ snd]
        arg_cong [of _ _ s_names])

lemma sheet_insert_has:
  "sheet_insert T e t rs s = Inr s' \<Longrightarrow>
     has_name k u s' \<longleftrightarrow> (k = e \<and> u = t) \<or> has_name k u s"
  using sheet_insert_names [of T e t rs s s'] register_name_has [of k u e t s]
  by (simp add: has_name_def)

section \<open>The sheet as a table of rules\<close>

text \<open>
  What a sheet promises: the rules of each component, which no other component's operations
  touch.  A group without a component is empty.
\<close>

locale target_laws = tag_laws T rules takes shows_as ok
  for T :: "'t tag" and rules takes shows_as ok +
  fixes E :: 't
  assumes empty_ok: "ok E" and empty_rules: "rules E = []"
begin

definition target :: "'t target" where
  "target = \<lparr>tag_of = T, empty_tag = E\<rparr>"

definition all_rules :: "'t sheet \<Rightarrow> string list" where
  "all_rules s = (case s_tag s of None \<Rightarrow> [] | Some g \<Rightarrow> rules (g_tag g))"

definition in_group :: "'t sheet \<Rightarrow> nat \<Rightarrow> string list" where
  "in_group s t = (case s_tag s of None \<Rightarrow> [] | Some g \<Rightarrow> content g t)"

definition rules_of :: "'t sheet \<Rightarrow> string \<Rightarrow> string list" where
  "rules_of s e = (case Ko (s_ids s) e of None \<Rightarrow> [] | Some t \<Rightarrow> in_group s t)"

definition sheet_ok :: "'t sheet \<Rightarrow> bool" where
  "sheet_ok s \<longleftrightarrow>
     ids_ok (s_ids s) \<and> (\<forall>g. s_tag s = Some g \<longrightarrow> wf g) \<and>
     (\<forall>t. map_of (Go (s_ids s)) t = None \<longrightarrow> in_group s t = [])"

lemma new_wf: "wf (Yo_new E)" and new_empty: "content (Yo_new E) t = []"
  by (simp_all add: wf_def content_def Yo_new_def empty_ok empty_rules index_of_group_def)

lemma sheet_ok_new: "sheet_ok sheet_new"
  by (simp add: sheet_ok_def sheet_new_def in_group_def ids_ok_new)

lemma in_group_cong: "s_tag s' = s_tag s \<Longrightarrow> in_group s' = in_group s"
  by (simp add: in_group_def fun_eq_iff)

lemma rules_of_cong:
  "s_ids s' = s_ids s \<Longrightarrow> in_group s' = in_group s \<Longrightarrow> rules_of s' = rules_of s"
  by (rule ext) (simp add: rules_of_def split: option.split)

lemma sheet_ok_names [simp]:
  "sheet_ok (s\<lparr>s_names := n\<rparr>) = sheet_ok s" "rules_of (s\<lparr>s_names := n\<rparr>) = rules_of s"
  "all_rules (s\<lparr>s_names := n\<rparr>) = all_rules s"
proof -
  have "in_group (s\<lparr>s_names := n\<rparr>) = in_group s" by (rule in_group_cong) simp
  then show "sheet_ok (s\<lparr>s_names := n\<rparr>) = sheet_ok s"
    "rules_of (s\<lparr>s_names := n\<rparr>) = rules_of s" "all_rules (s\<lparr>s_names := n\<rparr>) = all_rules s"
    using rules_of_cong [of "s\<lparr>s_names := n\<rparr>" s] by (simp_all add: sheet_ok_def all_rules_def)
qed

lemma register_id_ok:
  assumes "sheet_ok s"
  shows "sheet_ok (snd (register_id e s))"
    and "rules_of (snd (register_id e s)) = rules_of s"
    and "all_rules (snd (register_id e s)) = all_rules s"
    and "Ko (s_ids (snd (register_id e s))) e = Some (fst (register_id e s))"
proof -
  let ?t = "next_free (Go (s_ids s)) (Qo (s_ids s))"
  have free: "in_group s ?t = []" using assms next_free_fresh by (simp add: sheet_ok_def)
  show "sheet_ok (snd (register_id e s))"
    using assms Xo_ok [of "s_ids s" e]
    by (auto simp: sheet_ok_def register_id_def Xo_def Let_def in_group_def split: option.splits)
  show "rules_of (snd (register_id e s)) = rules_of s"
    using free
    by (auto simp: rules_of_def register_id_def Xo_def Let_def in_group_def fun_eq_iff
        split: option.splits)
  show "all_rules (snd (register_id e s)) = all_rules s"
    by (simp add: all_rules_def register_id_def Xo_def Let_def split: option.split)
  show "Ko (s_ids (snd (register_id e s))) e = Some (fst (register_id e s))"
    using Xo_number [of e "s_ids s"] by (simp add: register_id_def case_prod_unfold Let_def)
qed

lemma register_name_ok:
  assumes "sheet_ok s"
  shows "sheet_ok (register_name e t s)" "rules_of (register_name e t s) = rules_of s"
    "all_rules (register_name e t s) = all_rules s"
  using register_id_ok [OF assms, of e]
  by (simp_all add: register_name_def Let_def split: option.split)

lemma get_tag_ok:
  assumes "sheet_ok s"
  shows "sheet_ok (snd (get_tag target s)) \<and> rules_of (snd (get_tag target s)) = rules_of s \<and>
    all_rules (snd (get_tag target s)) = all_rules s \<and>
    s_tag (snd (get_tag target s)) = Some (fst (get_tag target s))"
proof (cases "s_tag s")
  case None
  let ?u = "s\<lparr>s_tag := Some (Yo_new E)\<rparr>"
  have u: "get_tag target s = (Yo_new E, ?u)" by (simp add: get_tag_def None target_def Let_def)
  have "in_group ?u = in_group s" by (simp add: in_group_def None new_empty fun_eq_iff)
  then show ?thesis
    using assms new_wf rules_of_cong [of ?u s]
    by (simp_all add: u sheet_ok_def all_rules_def None) (simp add: Yo_new_def empty_rules)
qed (simp_all add: assms get_tag_def)

text \<open>Replacing what a group holds replaces the rules of its component.\<close>

lemma set_tag:
  assumes "sheet_ok s" and "s_tag s = Some g" and "Ko (s_ids s) e = Some n"
    and "wf g'" and "content g' = (content g)(n := xs)"
  shows "sheet_ok (s\<lparr>s_tag := Some g'\<rparr>)"
    and "rules_of (s\<lparr>s_tag := Some g'\<rparr>) = (rules_of s)(e := xs)"
proof -
  have only: "Ko (s_ids s) k = Some n \<Longrightarrow> k = e" for k
    using assms(1,3) by (auto simp: sheet_ok_def ids_ok_def)
  let ?s = "s\<lparr>s_tag := Some g'\<rparr>"
  have group: "in_group ?s = (in_group s)(n := xs)"
    using assms(2,5) by (intro ext) (simp add: in_group_def)
  have "map_of (Go (s_ids s)) n = Some e" using assms(1,3) by (simp add: sheet_ok_def ids_ok_def)
  then show "sheet_ok ?s" using assms(1,4) by (auto simp: sheet_ok_def group)
  show "rules_of ?s = (rules_of s)(e := xs)"
  proof
    fix k
    show "rules_of ?s k = ((rules_of s)(e := xs)) k"
      using assms(3) only [of k]
      by (cases "Ko (s_ids s) k"; cases "Ko (s_ids s) k = Some n") (auto simp: rules_of_def group)
  qed
qed

lemma register_id_known:
  "Ko (s_ids s) e = Some n \<Longrightarrow> register_id e s = (n, s)"
  by (simp add: register_id_def Xo_def)

lemma register_id_again:
  "register_id e (snd (register_id e s)) = (fst (register_id e s), snd (register_id e s))"
  using Xo_again [of e "s_ids s"]
  by (simp add: register_id_def case_prod_unfold Let_def)

theorem sheet_insert_rules:
  assumes "sheet_ok s" and "fst (register_id e s) < 2 ^ 30"
    and "length (all_rules s) + length rs < 2 ^ 32"
  shows "\<exists>s'. sheet_insert target e t rs s = Inr s' \<and> sheet_ok s' \<and> has_name e t s' \<and>
    rules_of s' = (rules_of s)(e := rules_of s e @ map shows_as (filter takes rs))"
proof -
  define s1 where "s1 = register_name e t s"
  define s2 where "s2 = snd (get_tag target s1)"
  define g where "g = fst (get_tag target s1)"
  define n where "n = fst (register_id e s)"
  have s1: "sheet_ok s1" "rules_of s1 = rules_of s" "all_rules s1 = all_rules s"
    unfolding s1_def by (rule register_name_ok [OF assms(1)])+
  have s2: "sheet_ok s2" "rules_of s2 = rules_of s" "all_rules s2 = all_rules s"
    "s_tag s2 = Some g"
    unfolding s2_def g_def using get_tag_ok [OF s1(1)] s1 by simp_all
  have "s_ids s2 = s_ids (snd (register_id e s))"
    by (simp add: s2_def s1_def get_tag_def register_name_def Let_def split: option.split)
  then have e: "Ko (s_ids s2) e = Some n" unfolding n_def using register_id_ok(4) [OF assms(1), of e] by simp
  then have n: "register_id e s2 = (n, s2)" by (rule register_id_known)
  have g: "wf g" "content g n = rules_of s e" "rules (g_tag g) = all_rules s"
    using s2 e by (auto simp: sheet_ok_def all_rules_def rules_of_def in_group_def
        dest!: fun_cong [of _ _ e])
  obtain g' where g': "insert_rules T n rs g = Inr g'" "wf g'"
    "content g' = (content g)(n := rules_of s e @ map shows_as (filter takes rs))"
    using insert_rules_content [OF g(1), of n rs] assms(2,3) g(2,3) by (auto simp: n_def)
  let ?s = "s2\<lparr>s_tag := Some g'\<rparr>"
  have "sheet_insert target e t rs s = Inr ?s"
    using n(1) g'(1)
    by (simp add: sheet_insert_def Let_def case_prod_unfold target_def
        flip: s1_def s2_def [unfolded target_def] g_def [unfolded target_def])
  then show ?thesis
    using set_tag [OF s2(1,4) e g'(2,3)] s2(2) sheet_insert_has [of target e t rs s ?s e t] by auto
qed

theorem clear_rules_ok:
  assumes "sheet_ok s"
  shows "sheet_ok (clear_rules target e s) \<and>
    rules_of (clear_rules target e s) = (rules_of s)(e := [])"
proof -
  define s1 where "s1 = snd (get_tag target s)"
  define g where "g = fst (get_tag target s)"
  define s2 where "s2 = snd (register_id e s1)"
  define n where "n = fst (register_id e s1)"
  have s1: "sheet_ok s1" "rules_of s1 = rules_of s" "s_tag s1 = Some g"
    unfolding s1_def g_def using get_tag_ok [OF assms] by simp_all
  have s2: "sheet_ok s2" "rules_of s2 = rules_of s" "Ko (s_ids s2) e = Some n"
    unfolding s2_def n_def using register_id_ok [OF s1(1), of e] s1(2) by simp_all
  have tag: "s_tag s2 = Some g" using s1(3) by (simp add: s2_def register_id_def case_prod_unfold Let_def)
  then have g: "wf g" using s2(1) by (simp add: sheet_ok_def)
  have clear: "clear_names e s \<in> {s, s\<lparr>s_names := (s_names s)(e \<mapsto> [])\<rparr>}" for s :: "'t sheet"
    by (simp add: clear_names_def split: option.split)
  have "clear_rules target e s = clear_names e (s2\<lparr>s_tag := Some (clear_group T n g)\<rparr>)"
    by (simp add: clear_rules_def Let_def case_prod_unfold s2_def n_def s1_def g_def)
      (simp add: target_def)
  with set_tag [OF s2(1) tag s2(3), of "clear_group T n g" "[]"] clear_group_content [OF g, of n]
    clear [of "s2\<lparr>s_tag := Some (clear_group T n g)\<rparr>"] s2(2)
  show ?thesis by auto
qed

end

text \<open>The sheet of a server, of the text nodes of a document, and of a browser.\<close>

interpretation server: target_laws li v_rules "\<lambda>_. True" "\<lambda>r. r" counted li_new
  by unfold_locales (simp_all add: counted_def li_new_def)

interpretation nodes: target_laws si v_rules "\<lambda>_. True" "\<lambda>r. r" counted li_new
  by unfold_locales (simp_all add: counted_def li_new_def)

interpretation document: target_laws "ai b" v_rules "b_takes b" "b_writes b" "\<lambda>_. True" li_new for b
  by unfold_locales (simp_all add: li_new_def)

section \<open>Rendering a component\<close>

text \<open>
  \<open>bi\<close>: the rules of a component, whether they are static, its identifier, the hash of the
  identifier, the name of its static rules once they are inserted, and the component it
  extends.
\<close>

datatype bi =
  Bi (b_rules: "rule list") (b_static: bool) (b_id: string) (b_hash: "32 word")
    (b_static_name: string) (b_base: "bi option")

fun static_rule :: "rule \<Rightarrow> bool" where
  "static_rule (Later_host f) = False"
| "static_rule (Later f) = False"
| "static_rule _ = True"

definition yi :: "rule list \<Rightarrow> bool" where
  "yi rs \<longleftrightarrow> list_all static_rule rs"

definition bi_new :: "rule list \<Rightarrow> string \<Rightarrow> bi option \<Rightarrow> 't sheet \<Rightarrow> bi \<times> 't sheet" where
  "bi_new rs i base s =
     (Bi rs ((case base of None \<Rightarrow> True | Some b \<Rightarrow> b_static b) \<and> yi rs) i (mi vi i) [] base,
      snd (register_id i s))"

text \<open>
  The preprocessor is a parameter: the rules it makes of a text for a selector, and the hash
  of its plugins, empty when there are none.
\<close>

record stylis =
  st_rules :: "string \<Rightarrow> string \<Rightarrow> string \<Rightarrow> string list"
  st_hash :: string

definition insert_once ::
    "'t target \<Rightarrow> stylis \<Rightarrow> string \<Rightarrow> string \<Rightarrow> string \<Rightarrow> 't sheet \<Rightarrow> 't sheet jsr" where
  "insert_once T n r a text s =
     (if has_name r a s then Inr s
      else sheet_insert T r a (st_rules n text (CHR ''.'' # a) r) s)"

text \<open>
  The text \<open>u\<close> and the hash \<open>c\<close> of rules that depend on the properties; a rule that is a text
  does not enter the hash.
\<close>

fun dynamic_rules ::
    "host \<Rightarrow> js \<Rightarrow> nat \<Rightarrow> rule list \<Rightarrow> string \<times> 32 word \<Rightarrow> (string \<times> 32 word) jsr" where
  "dynamic_rules h p i [] uc = Inr uc"
| "dynamic_rules h p i (Piece d # rs) (u, c) = dynamic_rules h p (Suc i) rs (u @ d, c)"
| "dynamic_rules h p i (r # rs) (u, c) =
     jbind (rule_text h p r) (\<lambda>f.
       dynamic_rules h p (Suc i) rs (u @ f, mi c (f @ nat_to_string i)))"

text \<open>
  The component's own name, if it has one, with its new static name.  The length of the static
  text is given to the hash.
\<close>

definition own_name ::
    "'t target \<Rightarrow> host \<Rightarrow> js \<Rightarrow> stylis \<Rightarrow> bi \<Rightarrow> 't sheet \<Rightarrow>
      (string list \<times> string \<times> 't sheet) jsr" where
  "own_name T h p n b s =
     (if b_static b \<and> st_hash n = [] then
        if b_static_name b \<noteq> [] \<and> has_name (b_id b) (b_static_name b) s
        then Inr ([b_static_name b], b_static_name b, s)
        else jbind (component_text h p (b_rules b)) (\<lambda>i.
               let a = hi (mi_number (b_hash b) (length i))
               in jmap (\<lambda>s'. ([a], a, s')) (insert_once T n (b_id b) a i s))
      else jbind (dynamic_rules h p 0 (b_rules b) ([], mi (b_hash b) (st_hash n))) (\<lambda>(u, c).
             if u = [] then Inr ([], b_static_name b, s)
             else jmap (\<lambda>s'. ([hi c], b_static_name b, s'))
               (insert_once T n (b_id b) (hi c) u s)))"

fun generate ::
    "'t target \<Rightarrow> host \<Rightarrow> js \<Rightarrow> stylis \<Rightarrow> bi \<Rightarrow> 't sheet \<Rightarrow> (string \<times> bi \<times> 't sheet) jsr" where
  "generate T h p n (Bi rs st i w m base) s =
     jbind (case base of
              None \<Rightarrow> Inr ([], None, s)
            | Some b \<Rightarrow> jmap (\<lambda>(x, b', s'). ([x], Some b', s')) (generate T h p n b s))
       (\<lambda>(os, base', s1).
          jmap (\<lambda>(own, m', s2). (join '' '' (os @ own), Bi rs st i w m' base', s2))
            (own_name T h p n (Bi rs st i w m base) s1))"

section \<open>Rendering again changes nothing\<close>

definition knows_more :: "'t sheet \<Rightarrow> 't sheet \<Rightarrow> bool" where
  "knows_more s s' \<longleftrightarrow> (\<forall>e t. has_name e t s \<longrightarrow> has_name e t s')"

lemma knows_more_refl [simp]: "knows_more s s"
  by (simp add: knows_more_def)

lemma knows_more_trans: "knows_more s t \<Longrightarrow> knows_more t u \<Longrightarrow> knows_more s u"
  by (simp add: knows_more_def)

lemma insert_once_has:
  "insert_once T n r a text s = Inr s' \<Longrightarrow> knows_more s s' \<and> has_name r a s'"
  by (auto simp: insert_once_def knows_more_def sheet_insert_has split: if_splits)

lemmas insert_once_dest = insert_once_has [THEN conjunct1] insert_once_has [THEN conjunct2]

lemma insert_once_known: "has_name r a s \<Longrightarrow> insert_once T n r a text s = Inr s"
  by (simp add: insert_once_def)

lemma own_name_again:
  assumes "own_name T h p n (Bi rs st i w m base) s = Inr (os, m', s')"
  shows "knows_more s s'"
    and "knows_more s' u \<Longrightarrow> own_name T h p n (Bi rs st i w m' base') u = Inr (os, m', u)"
proof -
  show "knows_more s s'"
    using assms
    by (auto simp: own_name_def jbind_Inr_iff jmap_Inr_iff Let_def dest: insert_once_dest
        split: if_splits)
  assume "knows_more s' u"
  then show "own_name T h p n (Bi rs st i w m' base') u = Inr (os, m', u)"
    using assms
    by (auto simp: own_name_def jbind_Inr_iff jmap_Inr_iff Let_def knows_more_def
        insert_once_known dest!: insert_once_dest(2) split: if_splits)
qed

lemma generate_again:
  "generate T h p n b s = Inr (x, b', s') \<Longrightarrow>
     knows_more s s' \<and> (\<forall>u. knows_more s' u \<longrightarrow> generate T h p n b' u = Inr (x, b', u))"
proof (induction b arbitrary: s x b' s')
  case (Bi rs st i w m base)
  show ?case
  proof (cases base)
    case None
    then obtain os m' where own: "own_name T h p n (Bi rs st i w m base) s = Inr (os, m', s')"
      and x: "x = join '' '' os" "b' = Bi rs st i w m' None"
      using Bi.prems by (auto simp: jmap_Inr_iff)
    from own_name_again [OF own] x show ?thesis by auto
  next
    case (Some c)
    then obtain y c' s1 os m' where c: "generate T h p n c s = Inr (y, c', s1)"
      and own: "own_name T h p n (Bi rs st i w m base) s1 = Inr (os, m', s')"
      and x: "x = join '' '' (y # os)" "b' = Bi rs st i w m' (Some c')"
      using Bi.prems by (auto simp: jmap_Inr_iff jbind_Inr_iff)
    from Bi.IH [OF _ c] Some own_name_again [OF own] x show ?thesis
      by (auto intro: knows_more_trans)
  qed
qed

end
