(* ===== verification/Json_Lib.thy ===== *)
theory Json_Lib
  imports Floating
begin

text \<open>
  The two serialisation libraries the bridge links against, nlohmann/json and libcbor, are
  not part of the repository.  The model takes them as parameters: a record of the
  operations the sources call, over an abstract type \<open>'j\<close> of JSON values and \<open>'c\<close> of CBOR
  items.  Nothing is assumed of these operations in the definitions; a theorem that needs
  documented behaviour of the library names it as a hypothesis, one of the predicates below.
  An operation that may throw \<open>json::exception\<close> returns \<open>Inl\<close> of the \<open>what()\<close> text.
  \<open>jsub\<close> is \<open>j[key]\<close> on a constant value, which the library leaves undefined for a missing
  key; \<open>jset\<close> is \<open>j[key] = v\<close>; the \<open>jvalue\<close> operations are \<open>j.value(key, default)\<close>.
  Json_Instance gives a concrete library that satisfies the predicates.
\<close>

section \<open>The interface of the JSON library\<close>

record 'j json_lib =
  jnull :: 'j
  jstring :: "string \<Rightarrow> 'j"
  jbool :: "bool \<Rightarrow> 'j"
  juint :: "64 word \<Rightarrow> 'j"
  jint :: "64 word \<Rightarrow> 'j"
  jdouble :: "double \<Rightarrow> 'j"
  jbinary :: "8 word list \<Rightarrow> 'j"
  jarray :: "'j list \<Rightarrow> 'j"
  jobject :: "(string \<times> 'j) list \<Rightarrow> 'j"
  jis_string :: "'j \<Rightarrow> bool"
  jis_object :: "'j \<Rightarrow> bool"
  jis_array :: "'j \<Rightarrow> bool"
  jis_float :: "'j \<Rightarrow> bool"
  jis_integer :: "'j \<Rightarrow> bool"
  jempty :: "'j \<Rightarrow> bool"
  jcontains :: "'j \<Rightarrow> string \<Rightarrow> bool"
  jat :: "'j \<Rightarrow> string \<Rightarrow> string + 'j"
  jat_ix :: "'j \<Rightarrow> nat \<Rightarrow> string + 'j"
  jitems :: "'j \<Rightarrow> (string \<times> 'j) list"
  jelems :: "'j \<Rightarrow> 'j list"
  jsub :: "'j \<Rightarrow> string \<Rightarrow> 'j res"
  jvalue_string :: "'j \<Rightarrow> string \<Rightarrow> string \<Rightarrow> string + string"
  jvalue_bool :: "'j \<Rightarrow> string \<Rightarrow> bool \<Rightarrow> string + bool"
  jvalue_uint64 :: "'j \<Rightarrow> string \<Rightarrow> 64 word \<Rightarrow> string + 64 word"
  jvalue_int32 :: "'j \<Rightarrow> string \<Rightarrow> 32 word \<Rightarrow> string + 32 word"
  jset :: "'j \<Rightarrow> string \<Rightarrow> 'j \<Rightarrow> string + 'j"
  jerase :: "'j \<Rightarrow> string \<Rightarrow> string + 'j"
  jmerge_patch :: "'j \<Rightarrow> 'j \<Rightarrow> 'j"
  jget_string :: "'j \<Rightarrow> string + string"
  jget_bool :: "'j \<Rightarrow> string + bool"
  jget_double :: "'j \<Rightarrow> string + double"
  jget_int64 :: "'j \<Rightarrow> string + 64 word"
  jget_uint64 :: "'j \<Rightarrow> string + 64 word"
  jget_int32 :: "'j \<Rightarrow> string + 32 word"
  jget_uint32 :: "'j \<Rightarrow> string + 32 word"
  jget_uint16 :: "'j \<Rightarrow> string + 16 word"
  jget_uint8 :: "'j \<Rightarrow> string + 8 word"
  jdump :: "'j \<Rightarrow> string + string"
  jparse :: "string \<Rightarrow> string + 'j"
  jto_cbor :: "'j \<Rightarrow> string + string"

text \<open>\<open>j.at(key).get<T>()\<close>.\<close>

definition jat_get :: "'j json_lib \<Rightarrow> ('j \<Rightarrow> string + 'a) \<Rightarrow> 'j \<Rightarrow> string \<Rightarrow> 'a res" where
  "jat_get J get j k = bind_res (json_res (jat J j k)) (\<lambda>v. json_res (get v))"

text \<open>
  \<open>try \<open> x = j.at(key).get<T>() \<close> catch(json::exception) \<open> x = d \<close>\<close>, the idiom of the
  connector constructors.
\<close>

definition jat_or :: "'j json_lib \<Rightarrow> ('j \<Rightarrow> string + 'a) \<Rightarrow> 'j \<Rightarrow> string \<Rightarrow> 'a \<Rightarrow> 'a res" where
  "jat_or J get j k d = try_catch Json_exception (jat_get J get j k) (\<lambda>_. Inr d)"

text \<open>\<open>vector<string>(j.begin(), j.end())\<close>.\<close>

fun res_list :: "(string + 'a) list \<Rightarrow> 'a list res" where
  "res_list [] = Inr []"
| "res_list (r # rs) = bind_res (json_res r) (\<lambda>x. bind_res (res_list rs) (\<lambda>xs. Inr (x # xs)))"

definition jstrings :: "'j json_lib \<Rightarrow> 'j \<Rightarrow> string list res" where
  "jstrings J j = res_list (map (jget_string J) (jelems J j))"

lemma jat_or_total: "\<exists>x. jat_or J get j k d = Inr x"
proof (cases "jat J j k")
  case (Inr v)
  then show ?thesis
    by (cases "get v") (simp_all add: jat_or_def jat_get_def)
qed (simp add: jat_or_def jat_get_def)

lemma jat_or_missing: "jat J j k = Inl w \<Longrightarrow> jat_or J get j k d = Inr d"
  by (simp add: jat_or_def jat_get_def)

lemma jat_get_throws: "jat_get J get j k = Inl e \<Longrightarrow> \<exists>w. e = Exn Json_exception w"
  by (auto simp: jat_get_def bind_res_def split: sum.splits dest!: json_res_Inl)

section \<open>The interface of the CBOR library\<close>

record 'c cbor_lib =
  cload :: "string \<Rightarrow> 'c option"
  cisa_array :: "'c \<Rightarrow> bool"
  carray :: "'c \<Rightarrow> 'c list"
  cisa_map :: "'c \<Rightarrow> bool"
  cmap_pairs :: "'c \<Rightarrow> ('c \<times> 'c) list"
  cisa_string :: "'c \<Rightarrow> bool"
  cstring :: "'c \<Rightarrow> string"
  cisa_bytes :: "'c \<Rightarrow> bool"
  cbytes :: "'c \<Rightarrow> string"
  cis_int :: "'c \<Rightarrow> bool"
  cis_float :: "'c \<Rightarrow> bool"
  cis_bool :: "'c \<Rightarrow> bool"
  craw_uint :: "'c \<Rightarrow> 64 word"
  cfloat :: "'c \<Rightarrow> double"
  cbool :: "'c \<Rightarrow> bool"

section \<open>Documented behaviour the theorems rely on\<close>

text \<open>Member access on objects, read over the list of members.\<close>

definition json_members :: "'j json_lib \<Rightarrow> bool" where
  "json_members J \<longleftrightarrow>
     (\<forall>j k. jcontains J j k \<longleftrightarrow> jis_object J j \<and> k \<in> fst ` set (jitems J j)) \<and>
     (\<forall>j k. jcontains J j k \<longrightarrow> (\<exists>v. map_of (jitems J j) k = Some v \<and> jat J j k = Inr v)) \<and>
     (\<forall>j k. \<not> jcontains J j k \<longrightarrow> (\<exists>w. jat J j k = Inl w))"

text \<open>\<open>value()\<close>: the member, converted, when there is one, and the default when there is none.\<close>

definition json_values :: "'j json_lib \<Rightarrow> bool" where
  "json_values J \<longleftrightarrow>
     (\<forall>j k v d. jis_object J j \<longrightarrow> jat J j k = Inr v \<longrightarrow>
        jvalue_string J j k d = jget_string J v) \<and>
     (\<forall>j k w d. jis_object J j \<longrightarrow> jat J j k = Inl w \<longrightarrow> jvalue_string J j k d = Inr d) \<and>
     (\<forall>j k v b. jis_object J j \<longrightarrow> jat J j k = Inr v \<longrightarrow>
        jvalue_bool J j k b = jget_bool J v) \<and>
     (\<forall>j k w b. jis_object J j \<longrightarrow> jat J j k = Inl w \<longrightarrow> jvalue_bool J j k b = Inr b)"

text \<open>Erasing a member of an object; \<open>erase\<close> on anything else throws.\<close>

definition json_erases :: "'j json_lib \<Rightarrow> bool" where
  "json_erases J \<longleftrightarrow>
     (\<forall>j k. jis_object J j \<longrightarrow>
        (\<exists>j'. jerase J j k = Inr j' \<and> jis_object J j' \<and>
              jitems J j' = filter (\<lambda>m. fst m \<noteq> k) (jitems J j))) \<and>
     (\<forall>j k. \<not> jis_object J j \<longrightarrow> (\<exists>w. jerase J j k = Inl w))"

text \<open>
  Assigning a member of an object that keeps the order of its members (\<open>ordered_json\<close>): the
  value is replaced in place, or the member is added at the end.
\<close>

fun upd_items :: "string \<Rightarrow> 'v \<Rightarrow> (string \<times> 'v) list \<Rightarrow> (string \<times> 'v) list" where
  "upd_items k v [] = [(k, v)]"
| "upd_items k v ((k', v') # ms) =
     (if k' = k then (k, v) # ms else (k', v') # upd_items k v ms)"

definition json_assigns :: "'j json_lib \<Rightarrow> bool" where
  "json_assigns J \<longleftrightarrow>
     (\<forall>j k v. jis_object J j \<longrightarrow>
        (\<exists>j'. jset J j k v = Inr j' \<and> jis_object J j' \<and>
              jitems J j' = upd_items k v (jitems J j)))"

text \<open>What \<open>to_cbor\<close> or \<open>dump\<close> of a value the library built returns is a text.\<close>

definition json_serialises :: "'j json_lib \<Rightarrow> 'j \<Rightarrow> bool" where
  "json_serialises J j \<longleftrightarrow>
     (\<exists>s. jdump J j = Inr s) \<and> (\<exists>s. jto_cbor J j = Inr s)"

lemma json_membersD:
  assumes "json_members J"
  shows "jcontains J j k \<longleftrightarrow> jis_object J j \<and> k \<in> fst ` set (jitems J j)"
    and "jcontains J j k \<Longrightarrow> \<exists>v. map_of (jitems J j) k = Some v \<and> jat J j k = Inr v"
    and "\<not> jcontains J j k \<Longrightarrow> \<exists>w. jat J j k = Inl w"
  using assms unfolding json_members_def by blast+

lemma json_erasesD:
  assumes "json_erases J"
  shows "jis_object J j \<Longrightarrow> \<exists>j'. jerase J j k = Inr j' \<and> jis_object J j' \<and>
           jitems J j' = filter (\<lambda>m. fst m \<noteq> k) (jitems J j)"
    and "\<not> jis_object J j \<Longrightarrow> \<exists>w. jerase J j k = Inl w"
  using assms unfolding json_erases_def by blast+

lemma json_assignsD:
  assumes "json_assigns J" and "jis_object J j"
  shows "\<exists>j'. jset J j k v = Inr j' \<and> jis_object J j' \<and>
           jitems J j' = upd_items k v (jitems J j)"
  using assms unfolding json_assigns_def by blast

lemma fst_upd_items [simp]: "fst ` set (upd_items k v ms) = insert k (fst ` set ms)"
  by (induction ms rule: upd_items.induct) auto

lemma map_of_upd_items [simp]: "map_of (upd_items k v ms) = (map_of ms)(k \<mapsto> v)"
  by (induction ms rule: upd_items.induct) (auto simp: fun_eq_iff)

lemma map_of_filter_key [simp]:
  "map_of (filter (\<lambda>m. fst m \<noteq> k) ms) = (map_of ms)(k := None)"
  by (induction ms) (auto simp: fun_eq_iff)

end
