(* ===== verification/Message.thy ===== *)
theory Message
  imports Json_Lib
begin

text \<open>
  m2e_message/: a message and its two representations (the raw text and the decoded JSON
  value, of which \<open>m_serialized\<close> says which one is current), the extras attached to a message,
  and the wrapper that carries a message through the filtras of a pipeline.

  Messages are shared by pointer but written through one owner only: a wrapper copies the
  original before it writes, an internal queue's receivers copy what they pop.  Values
  model them.
\<close>

section \<open>Message formats\<close>

datatype msg_format = UNKN | RAW | JSON | CBOR

fun format_to_string :: "msg_format \<Rightarrow> string" where
  "format_to_string UNKN = ''unkn''"
| "format_to_string RAW = ''raw''"
| "format_to_string JSON = ''json''"
| "format_to_string CBOR = ''cbor''"

definition format_from_string :: "string \<Rightarrow> msg_format res" where
  "format_from_string str =
     (let s = str_lower str in
      if s = ''unkn'' then Inr UNKN
      else if s = ''raw'' then Inr RAW
      else if s = ''json'' then Inr JSON
      else if s = ''cbor'' then Inr CBOR
      else throw Invalid_argument (''Unknown format: '' @ s))"

section \<open>Messages\<close>

record ('j, 'c) message =
  m_valid :: bool
  m_bytes :: "8 word list"
  m_uchars :: "8 word list"
  m_raw :: string
  m_topic :: string
  m_json :: 'j
  m_cbor :: "'c option"
  m_serialized :: bool
  m_levels :: "string list"
  m_format :: msg_format
  m_attributes :: "string \<rightharpoonup> string"

definition message_default :: "'j json_lib \<Rightarrow> ('j, 'c) message" where
  "message_default J =
     \<lparr>m_valid = False, m_bytes = [], m_uchars = [], m_raw = [], m_topic = [],
      m_json = jnull J, m_cbor = None, m_serialized = False, m_levels = [],
      m_format = UNKN, m_attributes = Map.empty\<rparr>"

definition message_of_string ::
  "'j json_lib \<Rightarrow> string \<Rightarrow> msg_format \<Rightarrow> string \<Rightarrow> ('j, 'c) message" where
  "message_of_string J data f topic =
     (message_default J)\<lparr>m_serialized := True, m_raw := data, m_topic := topic,
                         m_format := f, m_valid := True\<rparr>"

definition message_of_bytes ::
  "'j json_lib \<Rightarrow> 8 word list \<Rightarrow> msg_format \<Rightarrow> string \<Rightarrow> ('j, 'c) message" where
  "message_of_bytes J data f topic =
     (message_default J)\<lparr>m_serialized := True, m_raw := string_of_bytes data, m_topic := topic,
                         m_format := f, m_valid := True\<rparr>"

definition message_of_json ::
  "'j json_lib \<Rightarrow> 'j \<Rightarrow> msg_format \<Rightarrow> string \<Rightarrow> ('j, 'c) message" where
  "message_of_json J j f topic =
     (message_default J)\<lparr>m_serialized := False, m_json := j, m_topic := topic,
                         m_format := f, m_valid := True\<rparr>"

text \<open>The constructor from a buffer and a length copies the first \<open>n\<close> characters.\<close>

definition message_of_chars ::
  "'j json_lib \<Rightarrow> string \<Rightarrow> nat \<Rightarrow> msg_format \<Rightarrow> ('j, 'c) message" where
  "message_of_chars J data n f =
     (message_default J)\<lparr>m_serialized := True, m_raw := take n data, m_format := f,
                         m_valid := True\<rparr>"

text \<open>Copying takes every field but the decoded CBOR item.\<close>

definition message_copy :: "('j, 'c) message \<Rightarrow> ('j, 'c) message" where
  "message_copy other =
     \<lparr>m_valid = m_valid other, m_bytes = m_bytes other, m_uchars = m_uchars other,
      m_raw = m_raw other, m_topic = m_topic other, m_json = m_json other, m_cbor = None,
      m_serialized = m_serialized other, m_levels = m_levels other,
      m_format = m_format other, m_attributes = m_attributes other\<rparr>"

definition message_assign ::
  "('j, 'c) message \<Rightarrow> ('j, 'c) message \<Rightarrow> ('j, 'c) message" where
  "message_assign this other = (message_copy other)\<lparr>m_cbor := m_cbor this\<rparr>"

definition set_attributes ::
  "('j, 'c) message \<Rightarrow> (string \<rightharpoonup> string) \<Rightarrow> ('j, 'c) message" where
  "set_attributes m attrs = m\<lparr>m_attributes := attrs\<rparr>"

definition get_raw :: "'j json_lib \<Rightarrow> ('j, 'c) message \<Rightarrow> (string \<times> ('j, 'c) message) res" where
  "get_raw J m =
     (if \<not> m_serialized m then
        bind_res
          (case m_format m of
             JSON \<Rightarrow> json_res (jdump J (m_json m))
           | CBOR \<Rightarrow> json_res (jto_cbor J (m_json m))
           | _ \<Rightarrow> throw Runtime_error ''Unknown message format'')
          (\<lambda>s. Inr (s, m\<lparr>m_raw := s, m_serialized := True\<rparr>))
      else Inr (m_raw m, m))"

definition get_json :: "'j json_lib \<Rightarrow> ('j, 'c) message \<Rightarrow> ('j \<times> ('j, 'c) message) res" where
  "get_json J m =
     (if m_serialized m then
        bind_res (json_res (jparse J (m_raw m)))
          (\<lambda>j. Inr (j, m\<lparr>m_json := j, m_serialized := False, m_format := JSON\<rparr>))
      else Inr (m_json m, m))"

definition get_cbor ::
  "'c cbor_lib \<Rightarrow> ('j, 'c) message \<Rightarrow> ('c option \<times> ('j, 'c) message) res" where
  "get_cbor C m =
     (if m_serialized m then
        (case cload C (m_raw m) of
           None \<Rightarrow> throw Runtime_error ''Can not deserialize CBOR payload!''
         | Some c \<Rightarrow> Inr (Some c, m\<lparr>m_cbor := Some c, m_serialized := False\<rparr>))
      else Inr (m_cbor m, m))"

text \<open>The two byte views are cached, and refreshed when their size differs from the raw text's.\<close>

definition get_payload_byte :: "('j, 'c) message \<Rightarrow> 8 word list \<times> ('j, 'c) message" where
  "get_payload_byte m =
     (let m' = (if length (m_bytes m) \<noteq> length (m_raw m)
                then m\<lparr>m_bytes := bytes_of (m_raw m)\<rparr> else m)
      in (m_bytes m', m'))"

definition get_payload_uchar :: "('j, 'c) message \<Rightarrow> 8 word list \<times> ('j, 'c) message" where
  "get_payload_uchar m =
     (let m' = (if length (m_uchars m) \<noteq> length (m_raw m)
                then m\<lparr>m_uchars := bytes_of (m_raw m)\<rparr> else m)
      in (m_uchars m', m'))"

text \<open>
  The token iterator of \<open>std::regex\<close> over the separator: the text between separators; the
  rest after the last separator is a token unless it is empty, and a text with no separator
  is one token.
\<close>

definition slash_tokens :: "string \<Rightarrow> string list" where
  "slash_tokens s =
     (let ts = split_on (CHR ''/'') s
      in if 1 < length ts \<and> last ts = [] then butlast ts else ts)"

definition get_topic_levels :: "('j, 'c) message \<Rightarrow> string list \<times> ('j, 'c) message" where
  "get_topic_levels m =
     (let m' = (if m_levels m = [] then m\<lparr>m_levels := slash_tokens (m_topic m)\<rparr> else m)
      in (m_levels m', m'))"

text \<open>The comparison converts the \<open>int\<close> to an unsigned size, so a negative level is out of range.\<close>

definition get_topic_level :: "('j, 'c) message \<Rightarrow> int \<Rightarrow> string \<times> ('j, 'c) message" where
  "get_topic_level m level =
     (let (levels, m') = get_topic_levels m
      in (if 0 \<le> level \<and> nat level < length levels then levels ! nat level else [], m'))"

lemmas message_defs =
  message_default_def message_of_string_def message_of_bytes_def message_of_json_def
  message_of_chars_def message_copy_def message_assign_def set_attributes_def

section \<open>Facts about messages\<close>

lemma message_of_simps [simp]:
  "m_valid (message_default J) = False"
  "m_raw (message_default J) = []"
  "m_valid (message_of_string J d f t)" "m_raw (message_of_string J d f t) = d"
  "m_topic (message_of_string J d f t) = t" "m_format (message_of_string J d f t) = f"
  "m_serialized (message_of_string J d f t)"
  "m_valid (message_of_json J j f t)" "m_json (message_of_json J j f t) = j"
  "m_topic (message_of_json J j f t) = t" "m_format (message_of_json J j f t) = f"
  "\<not> m_serialized (message_of_json J j f t)"
  "m_valid (message_of_bytes J b f t)" "m_raw (message_of_bytes J b f t) = string_of_bytes b"
  "m_serialized (message_of_bytes J b f t)"
  "m_valid (message_of_chars J d n f)" "m_raw (message_of_chars J d n f) = take n d"
  "m_serialized (message_of_chars J d n f)"
  by (simp_all add: message_defs)

lemma message_copy_simps [simp]:
  "m_valid (message_copy m) = m_valid m" "m_raw (message_copy m) = m_raw m"
  "m_topic (message_copy m) = m_topic m" "m_json (message_copy m) = m_json m"
  "m_serialized (message_copy m) = m_serialized m" "m_format (message_copy m) = m_format m"
  "m_cbor (message_copy m) = None" "m_attributes (message_copy m) = m_attributes m"
  "m_levels (message_copy m) = m_levels m" "m_bytes (message_copy m) = m_bytes m"
  "m_uchars (message_copy m) = m_uchars m"
  by (simp_all add: message_copy_def)

lemma message_copy_copy [simp]: "message_copy (message_copy m) = message_copy m"
  by (simp add: message_copy_def)

lemma get_raw_frame:
  "get_raw J m = Inr (s, m') \<Longrightarrow>
     m_valid m' = m_valid m \<and> m_topic m' = m_topic m \<and> m_json m' = m_json m \<and>
     m_format m' = m_format m \<and> m_raw m' = s \<and> m_serialized m'"
  by (auto simp: get_raw_def bind_res_Inr_iff split: if_splits)

lemma get_json_frame:
  "get_json J m = Inr (j, m') \<Longrightarrow>
     m_valid m' = m_valid m \<and> m_topic m' = m_topic m \<and> m_json m' = j \<and> \<not> m_serialized m'"
  by (auto simp: get_json_def bind_res_Inr_iff split: if_splits)

lemma get_raw_serialized: "m_serialized m \<Longrightarrow> get_raw J m = Inr (m_raw m, m)"
  by (simp add: get_raw_def)

lemma get_json_decoded: "\<not> m_serialized m \<Longrightarrow> get_json J m = Inr (m_json m, m)"
  by (simp add: get_json_def)

lemma slash_tokens_nonempty [simp]: "slash_tokens s \<noteq> []"
proof -
  have "butlast ts \<noteq> []" if "1 < length ts" for ts :: "string list"
    using that by (cases ts) auto
  then show ?thesis by (simp add: slash_tokens_def Let_def)
qed

lemma slash_tokens_no_slash: "t \<in> set (slash_tokens s) \<Longrightarrow> CHR ''/'' \<notin> set t"
  by (auto simp: slash_tokens_def Let_def split: if_splits dest: in_set_butlastD split_on_no_sep)

text \<open>
  The tokens, joined again, are the topic, but for one slash at its end.
\<close>

lemma join_butlast:
  "1 < length ts \<Longrightarrow> join_with c ts = join_with c (butlast ts) @ c # last ts"
  by (induction c ts rule: join_with.induct) auto

lemma join_slash_tokens:
  "join_with (CHR ''/'') (slash_tokens s) = s \<or>
   join_with (CHR ''/'') (slash_tokens s) @ ''/'' = s"
proof (cases "1 < length (split_on (CHR ''/'') s) \<and> last (split_on (CHR ''/'') s) = []")
  case True
  then have "s = join_with (CHR ''/'') (butlast (split_on (CHR ''/'') s)) @ ''/''"
    using join_butlast [of "split_on (CHR ''/'') s" "CHR ''/''"] by simp
  with True show ?thesis by (simp add: slash_tokens_def)
next
  case False
  then show ?thesis by (auto simp: slash_tokens_def Let_def)
qed

section \<open>Extras\<close>

datatype extra_val = EBytes "8 word list" | EUchars "8 word list" | EString string

record message_extra =
  x_key :: string
  x_extras :: "string \<rightharpoonup> extra_val"

definition extra_empty :: message_extra where
  "extra_empty = \<lparr>x_key = [], x_extras = Map.empty\<rparr>"

definition add_extra :: "message_extra \<Rightarrow> string \<Rightarrow> extra_val \<Rightarrow> message_extra res" where
  "add_extra x key data =
     (case x_extras x key of
        None \<Rightarrow> Inr (x\<lparr>x_extras := (x_extras x)(key \<mapsto> data)\<rparr>)
      | Some _ \<Rightarrow> throw Logic_error ''Extra already exist!'')"

definition set_key :: "message_extra \<Rightarrow> string \<Rightarrow> message_extra" where
  "set_key x key = x\<lparr>x_key := key\<rparr>"

text \<open>
  The pointer returned is to the bytes of the extra.  \<open>front()\<close> of an empty vector is
  undefined; of an empty string it is its terminator.
\<close>

definition get_extra :: "message_extra \<Rightarrow> 8 word list res" where
  "get_extra x =
     (case x_extras x (x_key x) of
        None \<Rightarrow> throw Out_of_range ''map::at''
      | Some (EBytes b) \<Rightarrow> if b = [] then Inl (Undefined ''front() of an empty vector'') else Inr b
      | Some (EUchars b) \<Rightarrow> if b = [] then Inl (Undefined ''front() of an empty vector'') else Inr b
      | Some (EString s) \<Rightarrow> Inr (bytes_of s))"

definition get_extra_size :: "message_extra \<Rightarrow> nat res" where
  "get_extra_size x =
     (case x_extras x (x_key x) of
        None \<Rightarrow> throw Out_of_range ''map::at''
      | Some (EBytes b) \<Rightarrow> Inr (length b)
      | Some (EUchars b) \<Rightarrow> Inr (length b)
      | Some (EString s) \<Rightarrow> Inr (length s))"

lemma get_extra_size_ok: "get_extra x = Inr b \<Longrightarrow> get_extra_size x = Inr (length b)"
  by (auto simp: get_extra_def get_extra_size_def
      split: option.splits extra_val.splits if_splits)

section \<open>The message wrapper\<close>

record ('j, 'c) wrapper =
  w_orig :: "('j, 'c) message"
  w_alt :: "('j, 'c) message"
  w_initialized :: bool
  w_passed :: bool
  w_destinations :: "string set"
  w_metadata :: 'j
  w_extra :: message_extra

definition wrapper_of :: "'j json_lib \<Rightarrow> ('j, 'c) message \<Rightarrow> ('j, 'c) wrapper" where
  "wrapper_of J m =
     \<lparr>w_orig = m, w_alt = message_default J, w_initialized = True, w_passed = True,
      w_destinations = {}, w_metadata = jnull J, w_extra = extra_empty\<rparr>"

text \<open>\<open>msg()\<close>: the working copy, made from the original at the first access.\<close>

definition wr_touch :: "('j, 'c) wrapper \<Rightarrow> ('j, 'c) wrapper" where
  "wr_touch w = (if \<not> m_valid (w_alt w) then w\<lparr>w_alt := message_copy (w_orig w)\<rparr> else w)"

definition wr_msg :: "('j, 'c) wrapper \<Rightarrow> ('j, 'c) message" where
  "wr_msg w = w_alt (wr_touch w)"

definition wr_set_message :: "('j, 'c) wrapper \<Rightarrow> ('j, 'c) message \<Rightarrow> ('j, 'c) wrapper" where
  "wr_set_message w m = w\<lparr>w_alt := message_copy m\<rparr>"

definition wr_msg_ptr :: "('j, 'c) wrapper \<Rightarrow> ('j, 'c) message" where
  "wr_msg_ptr w = w_alt w"

definition wr_pass :: "('j, 'c) wrapper \<Rightarrow> ('j, 'c) wrapper" where
  "wr_pass w = w\<lparr>w_passed := True\<rparr>"

definition wr_reject :: "('j, 'c) wrapper \<Rightarrow> ('j, 'c) wrapper" where
  "wr_reject w = w\<lparr>w_passed := False\<rparr>"

definition wr_pass_if :: "bool \<Rightarrow> ('j, 'c) wrapper \<Rightarrow> ('j, 'c) wrapper" where
  "wr_pass_if b w = w\<lparr>w_passed := b\<rparr>"

definition wr_add_destinations :: "string list \<Rightarrow> ('j, 'c) wrapper \<Rightarrow> ('j, 'c) wrapper" where
  "wr_add_destinations qs w = w\<lparr>w_destinations := w_destinations w \<union> set qs\<rparr>"

definition wr_clear_destinations :: "('j, 'c) wrapper \<Rightarrow> ('j, 'c) wrapper" where
  "wr_clear_destinations w = w\<lparr>w_destinations := {}\<rparr>"

definition wr_add_metadata :: "'j json_lib \<Rightarrow> 'j \<Rightarrow> ('j, 'c) wrapper \<Rightarrow> ('j, 'c) wrapper" where
  "wr_add_metadata J md w = w\<lparr>w_metadata := jmerge_patch J (w_metadata w) md\<rparr>"

text \<open>A message operation run on the working copy, as \<open>msg_w.msg().get_raw()\<close>.\<close>

definition wr_raw :: "'j json_lib \<Rightarrow> ('j, 'c) wrapper \<Rightarrow> (string \<times> ('j, 'c) wrapper) res" where
  "wr_raw J w =
     bind_res (get_raw J (wr_msg w)) (\<lambda>(s, m). Inr (s, (wr_touch w)\<lparr>w_alt := m\<rparr>))"

definition wr_json :: "'j json_lib \<Rightarrow> ('j, 'c) wrapper \<Rightarrow> ('j \<times> ('j, 'c) wrapper) res" where
  "wr_json J w =
     bind_res (get_json J (wr_msg w)) (\<lambda>(j, m). Inr (j, (wr_touch w)\<lparr>w_alt := m\<rparr>))"

lemma wr_touch_simps [simp]:
  "w_orig (wr_touch w) = w_orig w" "w_passed (wr_touch w) = w_passed w"
  "w_metadata (wr_touch w) = w_metadata w" "w_extra (wr_touch w) = w_extra w"
  "w_destinations (wr_touch w) = w_destinations w"
  "w_initialized (wr_touch w) = w_initialized w"
  by (simp_all add: wr_touch_def)

lemma wr_touch_idem [simp]: "wr_touch (wr_touch w) = wr_touch w"
  by (simp add: wr_touch_def)

lemma wr_msg_touch [simp]: "wr_msg (wr_touch w) = wr_msg w"
  by (simp add: wr_msg_def)

lemma wr_flag_simps [simp]:
  "w_passed (wr_pass w)" "w_passed (wr_reject w) = False" "w_passed (wr_pass_if b w) = b"
  "w_orig (wr_pass w) = w_orig w" "w_orig (wr_reject w) = w_orig w"
  "w_orig (wr_pass_if b w) = w_orig w" "w_alt (wr_pass w) = w_alt w"
  "w_alt (wr_reject w) = w_alt w" "w_alt (wr_pass_if b w) = w_alt w"
  "w_orig (wr_add_metadata J md w) = w_orig w" "w_alt (wr_add_metadata J md w) = w_alt w"
  "w_passed (wr_add_metadata J md w) = w_passed w"
  "w_orig (wr_set_message w m) = w_orig w" "w_passed (wr_set_message w m) = w_passed w"
  "w_extra (wr_pass w) = w_extra w" "w_extra (wr_reject w) = w_extra w"
  "w_extra (wr_add_metadata J md w) = w_extra w"
  by (simp_all add: wr_pass_def wr_reject_def wr_pass_if_def wr_add_metadata_def
      wr_set_message_def)

lemma wr_msg_flag [simp]:
  "wr_msg (wr_pass w) = wr_msg w" "wr_msg (wr_reject w) = wr_msg w"
  "wr_msg (wr_pass_if b w) = wr_msg w" "wr_msg (wr_add_metadata J md w) = wr_msg w"
  by (simp_all add: wr_msg_def wr_touch_def wr_pass_def wr_reject_def wr_pass_if_def
      wr_add_metadata_def)

lemma wr_msg_of [simp]: "wr_msg (wrapper_of J m) = message_copy m"
  by (simp add: wr_msg_def wr_touch_def wrapper_of_def)

lemma wrapper_of_simps [simp]:
  "w_orig (wrapper_of J m) = m" "w_passed (wrapper_of J m)"
  "w_metadata (wrapper_of J m) = jnull J" "w_extra (wrapper_of J m) = extra_empty"
  "w_alt (wrapper_of J m) = message_default J"
  by (simp_all add: wrapper_of_def)

lemma wr_raw_frame:
  "wr_raw J w = Inr (s, w') \<Longrightarrow>
     w_orig w' = w_orig w \<and> w_passed w' = w_passed w \<and> w_metadata w' = w_metadata w \<and>
     w_extra w' = w_extra w \<and> m_topic (w_alt w') = m_topic (wr_msg w) \<and>
     m_valid (w_alt w') = m_valid (wr_msg w)"
  by (auto simp: wr_raw_def bind_res_Inr_iff dest!: get_raw_frame split: prod.splits)

lemma wr_json_frame:
  "wr_json J w = Inr (j, w') \<Longrightarrow>
     w_orig w' = w_orig w \<and> w_passed w' = w_passed w \<and> w_metadata w' = w_metadata w \<and>
     w_extra w' = w_extra w \<and> m_topic (w_alt w') = m_topic (wr_msg w) \<and>
     m_valid (w_alt w') = m_valid (wr_msg w)"
  by (auto simp: wr_json_def bind_res_Inr_iff dest!: get_json_frame split: prod.splits)

end
