(* ===== verification/Subs.thy ===== *)
theory Subs
  imports Message
begin

text \<open>
  substitutions/: templates with expressions in double braces.  An expression is parsed by
  the grammar of subs.cpp (its PEGTL combinators written out: sequence, greedy repetition,
  ordered choice), each matched part calling an action on the evaluation state; the proxies
  walk from the message, its metadata, attributes or extras to a value.  modifiers/: the
  modifier applied to a byte value.  The image library is a parameter.
\<close>

section \<open>Modifiers\<close>

text \<open>
  OpenCV: \<open>img_decode\<close> gives the columns and rows of the decoded image, \<open>img_encode\<close> scales it
  to a width and height and encodes it as JPEG of quality 90.  Either may throw.
\<close>

record image_lib =
  img_enabled :: bool
  img_decode :: "8 word list \<Rightarrow> string + int \<times> int"
  img_encode :: "8 word list \<Rightarrow> int \<Rightarrow> int \<Rightarrow> string + 8 word list"

definition cv_res :: "string + 'a \<Rightarrow> 'a res" where
  "cv_res r = (case r of Inl w \<Rightarrow> throw Std_exception w | Inr x \<Rightarrow> Inr x)"

datatype modifier_type = Mod_unkn | Mod_resize

fun modifier_type_to_string :: "modifier_type \<Rightarrow> string" where
  "modifier_type_to_string Mod_unkn = ''unkn''"
| "modifier_type_to_string Mod_resize = ''resize''"

definition modifier_type_from_string :: "string \<Rightarrow> modifier_type res" where
  "modifier_type_from_string str =
     (let s = str_lower str in
      if s = ''unkn'' then Inr Mod_unkn
      else if s = ''resize'' then Inr Mod_resize
      else throw Invalid_argument (''Unknown modifier: '' @ s))"

definition parse_notation :: "string \<Rightarrow> (modifier_type \<times> string) res" where
  "parse_notation notation =
     (case str_find '','' notation of
        Some i \<Rightarrow> bind_res (modifier_type_from_string (take i notation))
                    (\<lambda>t. Inr (t, drop (i + 1) notation))
      | None \<Rightarrow> bind_res (modifier_type_from_string notation) (\<lambda>t. Inr (t, [])))"

text \<open>A modifier is the width of a resize, or the null pointer when no case made one.\<close>

definition modifier_new :: "image_lib \<Rightarrow> string \<Rightarrow> int option res" where
  "modifier_new I notation =
     bind_res (parse_notation notation) (\<lambda>(t, params).
       if t = Mod_resize \<and> img_enabled I then bind_res (stoi params) (\<lambda>w. Inr (Some w))
       else Inr None)"

definition resize_modify :: "image_lib \<Rightarrow> int \<Rightarrow> 8 word list \<Rightarrow> 8 word list res" where
  "resize_modify I width data =
     bind_res (cv_res (img_decode I data)) (\<lambda>(cols, rows).
       let ratio = ddiv (round64 (of_int width)) (round64 (of_int cols))
       in bind_res (int_of_double (dmul (round64 (of_int rows)) ratio)) (\<lambda>height.
            cv_res (img_encode I data width height)))"

definition modifier_modify :: "image_lib \<Rightarrow> int option \<Rightarrow> 8 word list \<Rightarrow> 8 word list res" where
  "modifier_modify I m data =
     (case m of
        None \<Rightarrow> Inl (Undefined ''null modifier pointer'')
      | Some width \<Rightarrow> resize_modify I width data)"

section \<open>The grammar of expressions\<close>

definition identifier_first :: "char \<Rightarrow> bool" where
  "identifier_first c \<longleftrightarrow>
     (let n = (of_char c :: nat) in
      (65 \<le> n \<and> n \<le> 90) \<or> (97 \<le> n \<and> n \<le> 122) \<or> n = 95)"

definition identifier_other :: "char \<Rightarrow> bool" where
  "identifier_other c \<longleftrightarrow> identifier_first c \<or> is_digit c"

datatype subs_action = Start string | Next_key string | Next_index string | Modify string

definition match_identifier :: "string \<Rightarrow> (string \<times> string) option" where
  "match_identifier s =
     (case s of
        [] \<Rightarrow> None
      | c # t \<Rightarrow>
          if identifier_first c
          then Some (c # takeWhile identifier_other t, dropWhile identifier_other t)
          else None)"

definition match_property :: "string \<Rightarrow> (subs_action \<times> string) option" where
  "match_property s =
     (case s of
        [] \<Rightarrow> None
      | c # t \<Rightarrow> if c = CHR ''.''
                then map_option (\<lambda>(i, r). (Next_key i, r)) (match_identifier t) else None)"

definition match_index :: "string \<Rightarrow> (subs_action \<times> string) option" where
  "match_index s =
     (case s of
        [] \<Rightarrow> None
      | c # t \<Rightarrow>
          if c = CHR ''['' \<and> takeWhile is_digit t \<noteq> []
          then (case dropWhile is_digit t of
                  d # r \<Rightarrow> if d = CHR '']'' then Some (Next_index (takeWhile is_digit t), r) else None
                | [] \<Rightarrow> None)
          else None)"

definition match_modifier :: "string \<Rightarrow> (subs_action \<times> string) option" where
  "match_modifier s =
     (case s of
        [] \<Rightarrow> None
      | c # t \<Rightarrow>
          if c = CHR ''|''
          then (case match_identifier t of
                  None \<Rightarrow> None
                | Some (i, r) \<Rightarrow>
                    (case r of
                       [] \<Rightarrow> Some (Modify i, r)
                     | d # u \<Rightarrow>
                         if d = CHR '','' \<and> takeWhile is_digit u \<noteq> []
                         then Some (Modify (i @ '','' @ takeWhile is_digit u), dropWhile is_digit u)
                         else Some (Modify i, r)))
          else None)"

definition match_step :: "string \<Rightarrow> (subs_action \<times> string) option" where
  "match_step s = (case match_property s of Some x \<Rightarrow> Some x | None \<Rightarrow> match_index s)"

lemma match_identifier_shorter: "match_identifier s = Some (i, r) \<Longrightarrow> length r < length s"
  using length_dropWhile_le [of identifier_other "tl s"]
  by (auto simp: match_identifier_def split: list.splits if_splits)

lemma match_step_shorter: "match_step s = Some (a, r) \<Longrightarrow> length r < length s"
proof (cases s)
  case (Cons c t)
  assume m: "match_step s = Some (a, r)"
  have "length r < length t" if "match_identifier t = Some (i, r)" for i
    using that by (rule match_identifier_shorter)
  moreover have "length r < length t" if "dropWhile is_digit t = d # r" for d
    using that length_dropWhile_le [of is_digit t] by simp
  ultimately show ?thesis
    using m Cons
    by (force simp: match_step_def match_property_def match_index_def
        split: option.splits if_splits list.splits)
qed (simp add: match_step_def match_property_def match_index_def)

function parse_steps :: "string \<Rightarrow> subs_action list \<times> string" where
  "parse_steps s =
     (case match_step s of
        None \<Rightarrow> ([], s)
      | Some (a, r) \<Rightarrow> let (as, r') = parse_steps r in (a # as, r'))"
  by auto
termination
  by (relation "measure length") (auto simp: match_step_shorter)

declare parse_steps.simps [simp del]

text \<open>
  The actions run by a parse of \<open>expression\<close>, in order.  Actions run as the parts match, so
  those of the parts before a failure have run; what follows the longest match is ignored.
\<close>

definition parse_expression :: "string \<Rightarrow> subs_action list" where
  "parse_expression s =
     (case match_identifier s of
        None \<Rightarrow> []
      | Some (name, r) \<Rightarrow>
          let (steps, r') = parse_steps r
          in Start name # steps @
             (if steps = [] then []
              else case match_modifier r' of None \<Rightarrow> [] | Some (m, _) \<Rightarrow> [m]))"

section \<open>Proxies\<close>

datatype 'j subs_attr = Attr_json 'j | Attr_map "string \<rightharpoonup> string"

record ('j, 'c) subs_env =
  se_msg :: "('j, 'c) message"
  se_meta :: 'j
  se_attr :: "'j subs_attr"
  se_extra :: "message_extra option"
  se_shared :: 'j

datatype ('j, 'c) proxy =
    P_null | P_msg | P_json 'j | P_levels "string list" | P_string string
  | P_map "string \<rightharpoonup> string" | P_cbor "'c option" | P_extra

datatype 'j subs_value =
    V_bool bool | V_double double | V_long "64 word" | V_string string | V_json 'j
  | V_span "8 word list" | V_uchars "8 word list"

record ('j, 'c) libs =
  l_json :: "'j json_lib"
  l_cbor :: "'c cbor_lib"
  l_image :: image_lib

definition no_key :: "string \<Rightarrow> 'a res" where
  "no_key key = throw Out_of_range (''Can not find key: '' @ key @ ''!'')"

fun find_pair :: "'c cbor_lib \<Rightarrow> string \<Rightarrow> ('c \<times> 'c) list \<Rightarrow> 'c option" where
  "find_pair C key [] = None"
| "find_pair C key ((k, v) # ps) = (if cstring C k = key then Some v else find_pair C key ps)"

fun proxy_next_key ::
  "('j, 'c) libs \<Rightarrow> string \<Rightarrow> ('j, 'c) proxy \<Rightarrow> ('j, 'c) subs_env \<Rightarrow>
     (('j, 'c) proxy \<times> ('j, 'c) subs_env) res" where
  "proxy_next_key L key P_msg env =
     (if key = ''PAYLOAD'' then
        (case m_format (se_msg env) of
           JSON \<Rightarrow> bind_res (get_json (l_json L) (se_msg env))
                    (\<lambda>(j, m). Inr (P_json j, env\<lparr>se_msg := m\<rparr>))
         | CBOR \<Rightarrow> bind_res (get_cbor (l_cbor L) (se_msg env))
                    (\<lambda>(c, m). Inr (P_cbor c, env\<lparr>se_msg := m\<rparr>))
         | _ \<Rightarrow> no_key key)
      else if key = ''TOPIC_LEVELS'' then
        (let (ls, m) = get_topic_levels (se_msg env) in Inr (P_levels ls, env\<lparr>se_msg := m\<rparr>))
      else if key = ''TOPIC'' then Inr (P_string (m_topic (se_msg env)), env)
      else no_key key)"
| "proxy_next_key L key (P_json j) env =
     bind_res (json_res (jat (l_json L) j key)) (\<lambda>v. Inr (P_json v, env))"
| "proxy_next_key L key (P_map m) env =
     (case m key of None \<Rightarrow> throw Out_of_range ''map::at'' | Some s \<Rightarrow> Inr (P_string s, env))"
| "proxy_next_key L key (P_cbor (Some c)) env =
     (if cisa_map (l_cbor L) c then
        (case find_pair (l_cbor L) key (cmap_pairs (l_cbor L) c) of
           Some v \<Rightarrow> Inr (P_cbor (Some v), env)
         | None \<Rightarrow> no_key key)
      else Inl (Undefined ''cbor_map_handle of another item''))"
| "proxy_next_key L key (P_cbor None) env = Inl (Undefined ''null CBOR item'')"
| "proxy_next_key L key P_extra env =
     Inr (P_extra, env\<lparr>se_extra := map_option (\<lambda>x. set_key x key) (se_extra env)\<rparr>)"
| "proxy_next_key L key P_null env = Inl (Undefined ''null message pointer'')"
| "proxy_next_key L key (P_levels _) env = no_key key"
| "proxy_next_key L key (P_string _) env = no_key key"

fun proxy_next_index ::
  "('j, 'c) libs \<Rightarrow> nat \<Rightarrow> ('j, 'c) proxy \<Rightarrow> ('j, 'c) proxy res" where
  "proxy_next_index L ix (P_levels ls) =
     (if ix < length ls then Inr (P_string (ls ! ix)) else throw Out_of_range ''vector::at'')"
| "proxy_next_index L ix (P_json j) =
     bind_res (json_res (jat_ix (l_json L) j ix)) (\<lambda>v. Inr (P_json v))"
| "proxy_next_index L ix _ = throw Invalid_argument ''Index access is not available!''"

text \<open>
  An integer of a JSON value is printed as \<open>get<unsigned>\<close> returns it; one of a CBOR item is
  read as the unsigned argument whatever its sign.
\<close>

definition json_value :: "'j json_lib \<Rightarrow> 'j \<Rightarrow> 'j subs_value res" where
  "json_value J j =
     (if jis_string J j then bind_res (json_res (jget_string J j)) (\<lambda>s. Inr (V_string s))
      else if jis_integer J j
      then bind_res (json_res (jget_uint32 J j)) (\<lambda>w. Inr (V_string (nat_to_string (unat w))))
      else Inr (V_json j))"

definition not_substitutable :: "'a res" where
  "not_substitutable = throw Runtime_error ''Value is not substitutable!''"

definition cbor_value :: "'c cbor_lib \<Rightarrow> 'c \<Rightarrow> 'j subs_value res" where
  "cbor_value C c =
     (if cis_int C c then Inr (V_long (craw_uint C c))
      else if cis_float C c then Inr (V_double (cfloat C c))
      else if cis_bool C c then Inr (V_bool (cbool C c))
      else if cisa_bytes C c then Inr (V_span (bytes_of (cbytes C c)))
      else if cisa_string C c then Inr (V_string (cstring C c))
      else not_substitutable)"

fun proxy_value ::
  "('j, 'c) libs \<Rightarrow> ('j, 'c) proxy \<Rightarrow> ('j, 'c) subs_env \<Rightarrow> 'j subs_value res" where
  "proxy_value L (P_string s) env = Inr (V_string s)"
| "proxy_value L (P_json j) env = json_value (l_json L) j"
| "proxy_value L (P_cbor (Some c)) env = cbor_value (l_cbor L) c"
| "proxy_value L (P_cbor None) env = Inl (Undefined ''null CBOR item'')"
| "proxy_value L P_extra env =
     (case se_extra env of
        None \<Rightarrow> Inl (Undefined ''null extra pointer'')
      | Some x \<Rightarrow> bind_res (get_extra x) (\<lambda>b. bind_res (get_extra_size x) (\<lambda>n.
                    Inr (V_span (take n b)))))"
| "proxy_value L P_null env = not_substitutable"
| "proxy_value L P_msg env = not_substitutable"
| "proxy_value L (P_levels _) env = not_substitutable"
| "proxy_value L (P_map _) env = not_substitutable"

section \<open>Evaluation\<close>

text \<open>The evaluation state: the proxy, the modified bytes, and the environment.\<close>

type_synonym ('j, 'c) eval_state = "('j, 'c) proxy \<times> 8 word list \<times> ('j, 'c) subs_env"

definition eval_start ::
  "string \<Rightarrow> ('j, 'c) eval_state \<Rightarrow> ('j, 'c) eval_state res" where
  "eval_start name st =
     (case st of (_, v, env) \<Rightarrow>
        if name = ''MSG'' then Inr (P_msg, v, env)
        else if name = ''META'' then Inr (P_json (se_meta env), v, env)
        else if name = ''ATTR'' then
          Inr (case se_attr env of Attr_json j \<Rightarrow> P_json j | Attr_map m \<Rightarrow> P_map m, v, env)
        else if name = ''EXTRA'' \<and> se_extra env \<noteq> None then Inr (P_extra, v, env)
        else if name = ''SHARED'' then Inr (P_json (se_shared env), v, env)
        else throw Out_of_range ''map::at'')"

definition eval_modify ::
  "('j, 'c) libs \<Rightarrow> string \<Rightarrow> ('j, 'c) eval_state \<Rightarrow> ('j, 'c) eval_state res" where
  "eval_modify L def st =
     (case st of (obj, v, env) \<Rightarrow>
        bind_res (proxy_value L obj env) (\<lambda>substituted.
          case substituted of
            V_span data \<Rightarrow>
              bind_res (modifier_new (l_image L) def) (\<lambda>m.
                bind_res (try_catch Std_exception (modifier_modify (l_image L) m data) (\<lambda>_. Inr v))
                  (\<lambda>v'. Inr (obj, v', env)))
          | _ \<Rightarrow> throw Bad_variant_access ''std::get: wrong index for variant''))"

fun eval_action ::
  "('j, 'c) libs \<Rightarrow> subs_action \<Rightarrow> ('j, 'c) eval_state \<Rightarrow> ('j, 'c) eval_state res" where
  "eval_action L (Start name) st = eval_start name st"
| "eval_action L (Next_key key) (obj, v, env) =
     bind_res (proxy_next_key L key obj env) (\<lambda>(obj', env'). Inr (obj', v, env'))"
| "eval_action L (Next_index digits) (obj, v, env) =
     bind_res (stoi digits) (\<lambda>i. bind_res (proxy_next_index L (nat i) obj)
       (\<lambda>obj'. Inr (obj', v, env)))"
| "eval_action L (Modify def) st = eval_modify L def st"

fun eval_actions ::
  "('j, 'c) libs \<Rightarrow> subs_action list \<Rightarrow> ('j, 'c) eval_state \<Rightarrow> ('j, 'c) eval_state res" where
  "eval_actions L [] st = Inr st"
| "eval_actions L (a # as) st = bind_res (eval_action L a st) (eval_actions L as)"

definition eval_get_value :: "('j, 'c) libs \<Rightarrow> ('j, 'c) eval_state \<Rightarrow> 'j subs_value res" where
  "eval_get_value L st =
     (case st of (obj, v, env) \<Rightarrow> if v \<noteq> [] then Inr (V_uchars v) else proxy_value L obj env)"

definition evaluate ::
  "('j, 'c) libs \<Rightarrow> ('j, 'c) subs_env \<Rightarrow> string \<Rightarrow> ('j subs_value \<times> ('j, 'c) subs_env) res" where
  "evaluate L env expression =
     bind_res (eval_actions L (parse_expression expression) (P_null, [], env))
       (\<lambda>st. bind_res (eval_get_value L st) (\<lambda>v. Inr (v, snd (snd st))))"

section \<open>Substitution\<close>

text \<open>
  The first match of the pattern: two opening braces and, after as few characters as
  possible, none of them a line end, two closing ones.
\<close>

fun lazy_close :: "string \<Rightarrow> (string \<times> string) option" where
  "lazy_close [] = None"
| "lazy_close (c # s) =
     (if c = CHR ''}'' \<and> s \<noteq> [] \<and> hd s = CHR ''}'' then Some ([], tl s)
      else if c = CHR 0x0A \<or> c = CHR 0x0D then None
      else map_option (\<lambda>(e, r). (c # e, r)) (lazy_close s))"

fun find_expression :: "string \<Rightarrow> (string \<times> string \<times> string) option" where
  "find_expression [] = None"
| "find_expression (c # s) =
     (case (if c = CHR ''{'' \<and> s \<noteq> [] \<and> hd s = CHR ''{'' then lazy_close (tl s) else None) of
        Some (e, r) \<Rightarrow> Some ([], e, r)
      | None \<Rightarrow> map_option (\<lambda>(p, e, r). (c # p, e, r)) (find_expression s))"

definition braced :: "string \<Rightarrow> string" where
  "braced e = ''{{'' @ e @ ''}}''"

lemma lazy_close_Some: "lazy_close s = Some (e, r) \<Longrightarrow> s = e @ ''}}'' @ r"
proof (induction s arbitrary: e)
  case (Cons c s)
  then show ?case
    by (cases s) (auto split: if_splits)
qed simp

lemma find_expression_Some: "find_expression s = Some (p, e, r) \<Longrightarrow> s = p @ braced e @ r"
proof (induction s arbitrary: p)
  case (Cons c s)
  then show ?case
    by (cases s)
      (auto simp: braced_def split: if_splits option.splits dest!: lazy_close_Some)
qed simp

definition bad_get :: "'a res" where
  "bad_get = throw Bad_variant_access ''std::get: wrong index for variant''"

text \<open>The inner \<open>try\<close> block: the text of an expression.\<close>

definition eval_text ::
  "('j, 'c) libs \<Rightarrow> ('j, 'c) subs_env \<Rightarrow> string \<Rightarrow> (string \<times> ('j, 'c) subs_env) res" where
  "eval_text L env expr =
     try_catch Json_exception
       (bind_res (evaluate L env expr) (\<lambda>(v, env').
          case v of V_string s \<Rightarrow> Inr (s, env') | _ \<Rightarrow> bad_get))
       (\<lambda>_. throw Runtime_error (''Can not evaluate: '' @ expr @ ''!''))"

text \<open>
  The loop of \<open>substitute\<close>: \<open>done\<close> is the part of the result before the position the search
  goes on from, which is never searched again.
\<close>

function subst_loop ::
  "('j, 'c) libs \<Rightarrow> string \<Rightarrow> string \<Rightarrow> string \<Rightarrow> ('j, 'c) subs_env \<Rightarrow>
     ('j subs_value \<times> ('j, 'c) subs_env) res" where
  "subst_loop L template done rest env =
     (case find_expression rest of
        None \<Rightarrow> Inr (V_string (done @ rest), env)
      | Some (before, expr, after) \<Rightarrow>
          if braced expr = template then
            try_catch Json_exception (evaluate L env expr) (\<lambda>w. throw Runtime_error w)
          else
            (case eval_text L env expr of
               Inl e \<Rightarrow> Inl e
             | Inr (s, env') \<Rightarrow> subst_loop L template (done @ before @ s) after env'))"
  by pat_completeness auto
termination
  by (relation "measure (\<lambda>(_, _, _, rest, _). length rest)")
    (auto simp: braced_def dest!: find_expression_Some)

declare subst_loop.simps [simp del]

definition substitute ::
  "('j, 'c) libs \<Rightarrow> ('j, 'c) subs_env \<Rightarrow> string \<Rightarrow> ('j subs_value \<times> ('j, 'c) subs_env) res" where
  "substitute L env template = subst_loop L template [] template env"

text \<open>The three constructors of the engine; the shared objects are the process's.\<close>

definition engine_of_wrapper ::
  "('j, 'c) wrapper \<Rightarrow> 'j \<Rightarrow> ('j, 'c) subs_env" where
  "engine_of_wrapper w shared =
     \<lparr>se_msg = wr_msg w, se_meta = w_metadata w,
      se_attr = Attr_map (m_attributes (wr_msg w)), se_extra = Some (w_extra w),
      se_shared = shared\<rparr>"

definition engine_of_parts ::
  "('j, 'c) message \<Rightarrow> 'j \<Rightarrow> 'j subs_attr \<Rightarrow> 'j \<Rightarrow> ('j, 'c) subs_env" where
  "engine_of_parts msg meta attr shared =
     \<lparr>se_msg = msg, se_meta = meta, se_attr = attr, se_extra = None, se_shared = shared\<rparr>"

text \<open>The engine works on the wrapper's message and extras in place.\<close>

definition engine_writeback ::
  "('j, 'c) wrapper \<Rightarrow> ('j, 'c) subs_env \<Rightarrow> ('j, 'c) wrapper" where
  "engine_writeback w env =
     w\<lparr>w_alt := se_msg env,
       w_extra := (case se_extra env of None \<Rightarrow> w_extra w | Some x \<Rightarrow> x)\<rparr>"

section \<open>Facts about the grammar\<close>

text \<open>Paths as a configuration writes them, and the actions they stand for.\<close>

datatype path_step = Key string | Ix nat

definition valid_identifier :: "string \<Rightarrow> bool" where
  "valid_identifier k \<longleftrightarrow>
     k \<noteq> [] \<and> identifier_first (hd k) \<and> (\<forall>c \<in> set (tl k). identifier_other c)"

fun valid_step :: "path_step \<Rightarrow> bool" where
  "valid_step (Key k) = valid_identifier k"
| "valid_step (Ix n) = True"

fun render_step :: "path_step \<Rightarrow> string" where
  "render_step (Key k) = CHR ''.'' # k"
| "render_step (Ix n) = CHR ''['' # nat_to_string n @ '']''"

fun step_action :: "path_step \<Rightarrow> subs_action" where
  "step_action (Key k) = Next_key k"
| "step_action (Ix n) = Next_index (nat_to_string n)"

definition stops :: "string \<Rightarrow> bool" where
  "stops r \<longleftrightarrow> (r = [] \<or> \<not> identifier_other (hd r))"

lemma takeWhile_stop:
  assumes "\<forall>c \<in> set t. P c" and "r = [] \<or> \<not> P (hd r)"
  shows "takeWhile P (t @ r) = t \<and> dropWhile P (t @ r) = r"
  using assms by (cases r) (simp_all add: takeWhile_append dropWhile_append)

lemma match_identifier_valid:
  assumes "valid_identifier k" and "stops r"
  shows "match_identifier (k @ r) = Some (k, r)"
proof -
  obtain c t where k: "k = c # t" using assms(1) by (cases k) (auto simp: valid_identifier_def)
  show ?thesis
    using assms takeWhile_stop [of t identifier_other r]
    by (simp add: k match_identifier_def valid_identifier_def stops_def)
qed

lemma stops_path: "stops (concat (map render_step ps))"
proof (cases ps)
  case (Cons p qs)
  have "\<not> identifier_other (CHR ''.'')" "\<not> identifier_other (CHR ''['')"
    by (simp_all add: identifier_other_def identifier_first_def is_digit_def)
  then show ?thesis by (cases p) (simp_all add: Cons stops_def)
qed (simp add: stops_def)

lemma match_step_valid:
  assumes "valid_step p" and "stops r"
  shows "match_step (render_step p @ r) = Some (step_action p, r)"
proof (cases p)
  case (Key k)
  then show ?thesis
    using assms match_identifier_valid [of k r] by (simp add: match_step_def match_property_def)
next
  case (Ix n)
  have "\<not> is_digit (CHR '']'')" by (simp add: is_digit_def)
  then show ?thesis
    using Ix takeWhile_stop [of "nat_to_string n" is_digit "CHR '']'' # r"] nat_to_string_digits
    by (simp add: match_step_def match_property_def match_index_def)
qed

lemma parse_steps_valid:
  "\<forall>p \<in> set ps. valid_step p \<Longrightarrow>
     parse_steps (concat (map render_step ps)) = (map step_action ps, [])"
proof (induction ps)
  case Nil
  show ?case
    by (subst parse_steps.simps)
      (simp add: match_step_def match_property_def match_index_def)
next
  case (Cons p ps)
  then show ?case
    using match_step_valid [of p "concat (map render_step ps)"] stops_path [of ps]
    by (subst parse_steps.simps) simp
qed

lemma parse_expression_valid:
  assumes "valid_identifier name" and "\<forall>p \<in> set ps. valid_step p"
  shows "parse_expression (name @ concat (map render_step ps)) = Start name # map step_action ps"
  using match_identifier_valid [OF assms(1) stops_path [of ps]] parse_steps_valid [OF assms(2)]
  by (simp add: parse_expression_def match_modifier_def)

section \<open>Facts about substitution\<close>

text \<open>
  A template cut into literals and expressions, and what it should become: each expression
  replaced by the text it evaluates to, the literals untouched.
\<close>

function segments :: "string \<Rightarrow> (string \<times> string) list \<times> string" where
  "segments s =
     (case find_expression s of
        None \<Rightarrow> ([], s)
      | Some (p, e, r) \<Rightarrow> let (segs, t) = segments r in ((p, e) # segs, t))"
  by pat_completeness auto
termination
  by (relation "measure length") (auto simp: braced_def dest!: find_expression_Some)

declare segments.simps [simp del]

definition unsegment :: "(string \<times> string) list \<times> string \<Rightarrow> string" where
  "unsegment st = concat (map (\<lambda>(p, e). p @ braced e) (fst st)) @ snd st"

lemma unsegment_segments: "unsegment (segments s) = s"
proof (induction s rule: segments.induct)
  case (1 s)
  show ?case
  proof (cases "find_expression s")
    case None
    then show ?thesis by (simp add: segments.simps [of s] unsegment_def)
  next
    case (Some x)
    obtain p e r where x: "x = (p, e, r)" by (cases x)
    from Some x have s: "s = p @ braced e @ r" by (simp add: find_expression_Some)
    have "unsegment (segments r) = r" using 1 Some x by simp
    moreover have "unsegment (segments s) = p @ braced e @ unsegment (segments r)"
      using Some x by (simp add: segments.simps [of s] unsegment_def split: prod.splits)
    ultimately show ?thesis using s by simp
  qed
qed

fun fill ::
  "('j, 'c) libs \<Rightarrow> ('j, 'c) subs_env \<Rightarrow> (string \<times> string) list \<Rightarrow>
     (string \<times> ('j, 'c) subs_env) res" where
  "fill L env [] = Inr ([], env)"
| "fill L env ((p, e) # segs) =
     bind_res (eval_text L env e) (\<lambda>(s, env').
       bind_res (fill L env' segs) (\<lambda>(t, env''). Inr (p @ s @ t, env'')))"

definition subst_spec ::
  "('j, 'c) libs \<Rightarrow> ('j, 'c) subs_env \<Rightarrow> string \<Rightarrow> ('j subs_value \<times> ('j, 'c) subs_env) res" where
  "subst_spec L env template =
     (case segments template of
        ([([], e)], []) \<Rightarrow>
          try_catch Json_exception (evaluate L env e) (\<lambda>w. throw Runtime_error w)
      | (segs, t) \<Rightarrow>
          bind_res (fill L env segs) (\<lambda>(s, env'). Inr (V_string (s @ t), env')))"

lemma segments_length: "fst (segments s) = (p, e) # segs \<Longrightarrow> length (braced e) \<le> length s"
  using unsegment_segments [of s] by (auto simp: unsegment_def dest: arg_cong [where f = length])

lemma subst_loop_fill:
  "length rest < length template \<Longrightarrow>
     subst_loop L template done rest env =
       bind_res (fill L env (fst (segments rest)))
         (\<lambda>(s, env'). Inr (V_string (done @ s @ snd (segments rest)), env'))"
proof (induction rest arbitrary: "done" env rule: segments.induct)
  case (1 rest)
  show ?case
  proof (cases "find_expression rest")
    case None
    then show ?thesis by (simp add: subst_loop.simps [of L template] segments.simps [of rest])
  next
    case (Some x)
    obtain p e r where x: "x = (p, e, r)" by (cases x)
    from Some x have s: "rest = p @ braced e @ r" by (simp add: find_expression_Some)
    then have ne: "braced e \<noteq> template" using "1.prems" by auto
    have "length r < length template" using "1.prems" s by simp
    with 1 Some x have IH: "subst_loop L template d r env =
      bind_res (fill L env (fst (segments r)))
        (\<lambda>(s, env'). Inr (V_string (d @ s @ snd (segments r)), env'))" for d env
      by simp
    have seg: "segments rest = ((p, e) # fst (segments r), snd (segments r))"
      using Some x by (simp add: segments.simps [of rest] split: prod.splits)
    show ?thesis
      unfolding subst_loop.simps [of L template "done" rest]
      using Some x ne
      by (auto simp: x seg IH bind_res_def split: sum.splits)
  qed
qed

lemma substitute_spec: "substitute L env template = subst_spec L env template"
proof (cases "find_expression template")
  case None
  then show ?thesis
    by (simp add: substitute_def subst_spec_def subst_loop.simps [of L template]
        segments.simps [of template])
next
  case (Some x)
  obtain p e r where x: "x = (p, e, r)" by (cases x)
  from Some x have s: "template = p @ braced e @ r" by (simp add: find_expression_Some)
  have seg: "segments template = ((p, e) # fst (segments r), snd (segments r))"
    using Some x by (simp add: segments.simps [of template] split: prod.splits)
  show ?thesis
  proof (cases "braced e = template")
    case True
    have "length (braced e) = length p + length (braced e) + length r"
      using arg_cong [OF s, of length] True by simp
    then have "p = []" "r = []" by simp_all
    then show ?thesis
      using Some x True seg
      by (simp add: substitute_def subst_spec_def subst_loop.simps [of L template]
          segments.simps [of "[]"])
  next
    case False
    have "length r < length template" using s by (simp add: braced_def)
    note loop = subst_loop_fill [OF this]
    have nontriv: "\<not> (p = [] \<and> fst (segments r) = [] \<and> snd (segments r) = [])"
      using False s unsegment_segments [of r] by (auto simp: unsegment_def)
    have "subst_spec L env template =
      bind_res (fill L env ((p, e) # fst (segments r)))
        (\<lambda>(s, env'). Inr (V_string (s @ snd (segments r)), env'))"
      using nontriv
      by (cases p; cases "fst (segments r)"; cases "snd (segments r)")
        (simp_all add: subst_spec_def seg)
    then show ?thesis
      using Some x False
      by (auto simp: x substitute_def subst_loop.simps [of L template "[]"] loop
          bind_res_def split: sum.splits)
  qed
qed

end
