(* ===== verification/Filtras.thy ===== *)
theory Filtras
  imports Subs
begin

text \<open>
  filtras/ and factories/filtra_factory.h: the filtras a message goes through.  A filtra is
  the fields of the base class and its kind, with the state of that kind; a call of
  \<open>process\<close> gives the filtra afterwards and the hop with the message wrapper, or the fault.
  The clock, the Lua interpreter, the image library and the random number are parameters.
\<close>

section \<open>What filtras are built on\<close>

text \<open>
  \<open>b_lua_load\<close> is what running the code of a converter reports, \<open>b_lua_call\<close> what its
  \<open>convert\<close> returns, given the code and the inputs of the earlier calls: an error, a string,
  or a value that is not one.  \<open>b_depth\<close> bounds the nesting of a builder's template.
\<close>

record ('j, 'c) bridge =
  b_libs :: "('j, 'c) libs"
  b_shared :: 'j
  b_with_lua :: bool
  b_lua_load :: "string \<Rightarrow> string option"
  b_lua_call :: "string \<Rightarrow> string list \<Rightarrow> string \<Rightarrow> string + string option"
  b_converters :: "string \<Rightarrow> string option"
  b_depth :: nat

abbreviation b_json :: "('j, 'c) bridge \<Rightarrow> 'j json_lib" where
  "b_json B \<equiv> l_json (b_libs B)"

datatype comparator_operator = Op_unkn | Op_eq | Op_gt | Op_gte | Op_lt | Op_lte

datatype number = Long "64 word" | Double double

datatype search_operator = Search_unkn | Contain | Contained | Match

datatype image_operation = Image_unkn | Image_resize

text \<open>The interpreter of a Lua converter: none yet, open with its code and past inputs, or closed.\<close>

datatype lua_ref = Lua_null | Lua_open string "string list" | Lua_closed

text \<open>
  The wrapper a splitter points to lives in the frame of the pipeline's \<open>process\<close>; after
  that frame has returned the pointer dangles.
\<close>

datatype ('j, 'c) split_source = No_source | Source "('j, 'c) wrapper" | Dangling

record splitter_state =
  sp_chunk_size :: "64 word"
  sp_message_id :: "64 word"
  sp_counter :: "64 word"

record throttle_state =
  th_rate :: double
  th_delay_ms :: double
  th_last :: int

datatype ('j, 'c) filtra_kind =
    ComparatorFT comparator_operator string number
  | FinderFT search_operator string "string list" string
  | EraserFT "string list"
  | BuilderFT 'j 'j
  | SplitterFT splitter_state "('j, 'c) split_source"
  | LimiterFT "64 word"
  | NopFT
  | ThrottleFT throttle_state
  | LuaConverterFT string lua_ref
  | ImageFT image_operation string

record ('j, 'c) filtra =
  f_name :: string
  f_format :: msg_format
  f_negation :: bool
  f_queues :: "string list"
  f_metadata :: 'j
  f_hop_passed :: string
  f_hop_rejected :: string
  f_kind :: "('j, 'c) filtra_kind"

section \<open>Comparator\<close>

fun compare_int :: "comparator_operator \<Rightarrow> int \<Rightarrow> int \<Rightarrow> bool" where
  "compare_int Op_eq a b = (a = b)"
| "compare_int Op_gt a b = (b < a)"
| "compare_int Op_gte a b = (b \<le> a)"
| "compare_int Op_lt a b = (a < b)"
| "compare_int Op_lte a b = (a \<le> b)"
| "compare_int Op_unkn a b = False"

fun compare_double :: "comparator_operator \<Rightarrow> double \<Rightarrow> double \<Rightarrow> bool" where
  "compare_double Op_eq a b = deq a b"
| "compare_double Op_gt a b = dlt b a"
| "compare_double Op_gte a b = dle b a"
| "compare_double Op_lt a b = dlt a b"
| "compare_double Op_lte a b = dle a b"
| "compare_double Op_unkn a b = False"

text \<open>Two integers compare as integers; otherwise the integer is converted.\<close>

fun as_double :: "number \<Rightarrow> double" where
  "as_double (Long w) = double_of_int64 w"
| "as_double (Double x) = x"

fun compare_numbers :: "comparator_operator \<Rightarrow> number \<Rightarrow> number \<Rightarrow> bool" where
  "compare_numbers oper (Long a) (Long b) = compare_int oper (sint a) (sint b)"
| "compare_numbers oper x y = compare_double oper (as_double x) (as_double y)"

definition json_number :: "'j json_lib \<Rightarrow> 'j \<Rightarrow> number option res" where
  "json_number J j =
     (if jis_float J j then bind_res (json_res (jget_double J j)) (\<lambda>x. Inr (Some (Double x)))
      else if jis_integer J j then bind_res (json_res (jget_int64 J j)) (\<lambda>w. Inr (Some (Long w)))
      else Inr None)"

definition operator_from_string :: "string \<Rightarrow> comparator_operator" where
  "operator_from_string s =
     (if s = ''eq'' then Op_eq else if s = ''gt'' then Op_gt else if s = ''gte'' then Op_gte
      else if s = ''lt'' then Op_lt else if s = ''lte'' then Op_lte else Op_unkn)"

definition sub_string :: "'j json_lib \<Rightarrow> 'j \<Rightarrow> string \<Rightarrow> string res" where
  "sub_string J j k = bind_res (jsub J j k) (\<lambda>v. json_res (jget_string J v))"

definition comparator_new :: "'j json_lib \<Rightarrow> 'j \<Rightarrow> ('j, 'c) filtra_kind res" where
  "comparator_new J config =
     bind_res (sub_string J config ''operator'') (\<lambda>oper.
     bind_res (sub_string J config ''value_key'') (\<lambda>key.
     bind_res (json_res (jat J config ''comparand'')) (\<lambda>j_comparand.
     bind_res (json_number J j_comparand) (\<lambda>n.
       Inr (ComparatorFT (operator_from_string oper) key
              (case n of None \<Rightarrow> Long 0 | Some x \<Rightarrow> x))))))"

definition comparator_process ::
  "'j json_lib \<Rightarrow> bool \<Rightarrow> comparator_operator \<Rightarrow> string \<Rightarrow> number \<Rightarrow> ('j, 'c) wrapper \<Rightarrow>
     (string \<times> ('j, 'c) wrapper) res" where
  "comparator_process J negation oper key comparand w =
     bind_res (wr_json J w) (\<lambda>(payload, w').
       try_catch Json_exception
         (bind_res (json_res (jat J payload key)) (\<lambda>j_value.
          bind_res (json_number J j_value) (\<lambda>n.
            case n of
              None \<Rightarrow> throw Invalid_argument ''json''
            | Some x \<Rightarrow>
                (let r = compare_numbers oper x comparand;
                     r' = (if negation then \<not> r else r)
                 in Inr ([], if r' then wr_pass w' else wr_reject w')))))
         (\<lambda>_. throw Invalid_argument ''json''))"

section \<open>Finder\<close>

definition search_operator_from_string :: "string \<Rightarrow> search_operator" where
  "search_operator_from_string s =
     (if s = ''contain'' then Contain else if s = ''contained'' then Contained
      else if s = ''match'' then Match else Search_unkn)"

definition optional_string :: "'j json_lib \<Rightarrow> 'j \<Rightarrow> string \<Rightarrow> string res" where
  "optional_string J config k =
     (if jcontains J config k then sub_string J config k else Inr [])"

definition finder_new :: "'j json_lib \<Rightarrow> 'j \<Rightarrow> ('j, 'c) filtra_kind res" where
  "finder_new J config =
     bind_res (json_res (jvalue_string J config ''operator'' ''match'')) (\<lambda>oper.
     bind_res (optional_string J config ''text'') (\<lambda>txt.
     bind_res (if jcontains J config ''keys''
               then bind_res (jsub J config ''keys'') (jstrings J) else Inr []) (\<lambda>keys.
     bind_res (optional_string J config ''value_key'') (\<lambda>value_key.
       Inr (FinderFT (search_operator_from_string oper) txt keys value_key)))))"

fun find_in_string :: "search_operator \<Rightarrow> string \<Rightarrow> string \<Rightarrow> bool" where
  "find_in_string Contain txt msg = (str_find txt msg \<noteq> None)"
| "find_in_string Contained txt msg = (str_find msg txt \<noteq> None)"
| "find_in_string Match txt msg = (txt = msg)"
| "find_in_string Search_unkn txt msg = False"

definition find_in_keys ::
  "'j json_lib \<Rightarrow> msg_format \<Rightarrow> string list \<Rightarrow> ('j, 'c) wrapper \<Rightarrow> (bool \<times> ('j, 'c) wrapper) res" where
  "find_in_keys J fmt keys w =
     (if fmt = JSON then
        bind_res (wr_json J w) (\<lambda>(j_payload, w').
          Inr (list_all (\<lambda>key. jcontains J j_payload key) keys, w'))
      else Inr (False, w))"

definition find_in_value ::
  "'j json_lib \<Rightarrow> msg_format \<Rightarrow> search_operator \<Rightarrow> string \<Rightarrow> string \<Rightarrow> ('j, 'c) wrapper \<Rightarrow>
     (bool \<times> ('j, 'c) wrapper) res" where
  "find_in_value J fmt oper txt value_key w =
     (if fmt = JSON then
        bind_res (wr_json J w) (\<lambda>(j_payload, w').
          if jcontains J j_payload value_key then
            bind_res (sub_string J j_payload value_key) (\<lambda>s.
              Inr (find_in_string oper txt s, w'))
          else Inr (False, w'))
      else Inr (False, w))"

definition finder_process ::
  "'j json_lib \<Rightarrow> msg_format \<Rightarrow> bool \<Rightarrow> search_operator \<Rightarrow> string \<Rightarrow> string list \<Rightarrow> string \<Rightarrow>
     ('j, 'c) wrapper \<Rightarrow> (string \<times> ('j, 'c) wrapper) res" where
  "finder_process J fmt negation oper txt keys value_key w =
     bind_res
       (if txt \<noteq> [] then
          if value_key \<noteq> [] then find_in_value J fmt oper txt value_key w
          else bind_res (wr_raw J w) (\<lambda>(raw, w'). Inr (find_in_string oper txt raw, w'))
        else Inr (True, w))
       (\<lambda>(r1, w1).
          bind_res
            (if r1 \<and> keys \<noteq> [] then find_in_keys J fmt keys w1 else Inr (r1, w1))
            (\<lambda>(r2, w2).
               let checked = (txt \<noteq> [] \<or> (r1 \<and> keys \<noteq> []));
                   r = (checked \<and> r2);
                   r' = (if negation then \<not> r else r)
               in Inr ([], if r' then wr_pass w2 else wr_reject w2)))"

section \<open>Eraser\<close>

definition eraser_new :: "'j json_lib \<Rightarrow> 'j \<Rightarrow> ('j, 'c) filtra_kind res" where
  "eraser_new J config =
     bind_res (jsub J config ''keys'') (\<lambda>j_keys.
     bind_res (jstrings J j_keys) (\<lambda>keys. Inr (EraserFT keys)))"

fun erase_keys :: "'j json_lib \<Rightarrow> string list \<Rightarrow> 'j \<Rightarrow> 'j" where
  "erase_keys J [] j = j"
| "erase_keys J (k # ks) j =
     erase_keys J ks (case jerase J j k of Inr j' \<Rightarrow> j' | Inl _ \<Rightarrow> j)"

definition eraser_process ::
  "'j json_lib \<Rightarrow> msg_format \<Rightarrow> string list \<Rightarrow> ('j, 'c) wrapper \<Rightarrow>
     (string \<times> ('j, 'c) wrapper) res" where
  "eraser_process J fmt keys w =
     (if fmt = JSON then
        bind_res (wr_json J w) (\<lambda>(j_payload, w').
          Inr ([], w'\<lparr>w_alt := (w_alt w')\<lparr>m_json := erase_keys J keys j_payload\<rparr>\<rparr>))
      else Inr ([], w))"

section \<open>Limiter, nop and throttle\<close>

definition limiter_new :: "'j json_lib \<Rightarrow> 'j \<Rightarrow> ('j, 'c) filtra_kind res" where
  "limiter_new J config =
     bind_res (jat_get J (jget_uint64 J) config ''size'') (\<lambda>n. Inr (LimiterFT n))"

definition limiter_process ::
  "'j json_lib \<Rightarrow> 64 word \<Rightarrow> ('j, 'c) wrapper \<Rightarrow> (string \<times> ('j, 'c) wrapper) res" where
  "limiter_process J limit w =
     bind_res (wr_raw J w) (\<lambda>(data, w').
       Inr ([], wr_pass_if (length data \<le> unat limit) w'))"

definition nop_process :: "('j, 'c) wrapper \<Rightarrow> (string \<times> ('j, 'c) wrapper) res" where
  "nop_process w = Inr ([], wr_pass w)"

definition throttle_new :: "'j json_lib \<Rightarrow> 'j \<Rightarrow> ('j, 'c) filtra_kind res" where
  "throttle_new J config =
     bind_res (jsub J config ''rate'') (\<lambda>v.
     bind_res (json_res (jget_double J v)) (\<lambda>rate.
       Inr (ThrottleFT \<lparr>th_rate = rate, th_delay_ms = ddiv (round64 1000) rate, th_last = 0\<rparr>)))"

text \<open>The clock counts nanoseconds; the cast to milliseconds drops the rest.\<close>

definition elapsed_ms :: "int \<Rightarrow> int \<Rightarrow> int" where
  "elapsed_ms now prev =
     (if prev \<le> now then (now - prev) div 1000000 else - ((prev - now) div 1000000))"

definition throttle_process ::
  "int \<Rightarrow> throttle_state \<Rightarrow> ('j, 'c) wrapper \<Rightarrow> throttle_state \<times> ('j, 'c) wrapper" where
  "throttle_process now th w =
     (if dle (th_delay_ms th) (round64 (of_int (elapsed_ms now (th_last th))))
      then (th\<lparr>th_last := now\<rparr>, wr_pass w)
      else (th, wr_reject w))"

section \<open>Splitter\<close>

definition splitter_new :: "'j json_lib \<Rightarrow> nat \<Rightarrow> 'j \<Rightarrow> ('j, 'c) filtra_kind res" where
  "splitter_new J rnd config =
     bind_res (jat_get J (jget_uint64 J) config ''chunk_size'') (\<lambda>n.
       Inr (SplitterFT \<lparr>sp_chunk_size = n, sp_message_id = of_nat (rnd mod 65536),
                        sp_counter = - 1\<rparr> No_source))"

definition splitter_process ::
  "'j json_lib \<Rightarrow> splitter_state \<Rightarrow> ('j, 'c) split_source \<Rightarrow> ('j, 'c) wrapper \<Rightarrow>
     (splitter_state \<times> ('j, 'c) split_source \<times> string \<times> ('j, 'c) wrapper) res" where
  "splitter_process J sp src w =
     bind_res (wr_raw J w) (\<lambda>(data, w').
       if unat (sp_chunk_size sp) < length data
       then Inr (sp\<lparr>sp_counter := 0, sp_message_id := sp_message_id sp + 1\<rparr>, Source w',
                 ''self'', w')
       else Inr (sp, src, [], wr_pass w'))"

text \<open>
  \<open>generate_message\<close>.  The offset of a chunk is a product of 64-bit values, the rest a signed
  difference of addresses.
\<close>

definition splitter_generate ::
  "'j json_lib \<Rightarrow> splitter_state \<Rightarrow> ('j, 'c) split_source \<Rightarrow>
     (splitter_state \<times> ('j, 'c) split_source \<times> ('j, 'c) message) res" where
  "splitter_generate J sp src =
     (if sp_counter sp = - 1 then Inr (sp, src, message_default J)
      else case src of
        No_source \<Rightarrow> Inl (Undefined ''null wrapper pointer'')
      | Dangling \<Rightarrow> Inl (Undefined ''dangling wrapper pointer'')
      | Source w \<Rightarrow>
          bind_res (wr_raw J w) (\<lambda>(orig_data, w').
            let start = sp_chunk_size sp * sp_counter sp;
                rest = of_nat (length orig_data) - start
            in if rest <=s 0 then Inr (sp, Source w', message_default J)
               else if length orig_data < unat start
               then Inl (Undefined ''iterator out of range'')
               else
                 let n = (if sp_chunk_size sp < rest then sp_chunk_size sp else rest);
                     buffer = bytes_of (take (unat n) (drop (unat start) orig_data));
                     j_chunk = jarray J [jstring J ''____SPL'', juint J (sp_message_id sp),
                       juint J (of_nat (length orig_data)), jint J (sp_counter sp),
                       jbinary J buffer]
                 in Inr (sp\<lparr>sp_counter := sp_counter sp + 1\<rparr>, Source w',
                         message_of_json J j_chunk CBOR (m_topic (wr_msg w')))))"

section \<open>Builder\<close>

definition value_to_json :: "'j json_lib \<Rightarrow> 'j subs_value \<Rightarrow> 'j" where
  "value_to_json J v =
     (case v of
        V_string s \<Rightarrow> jstring J s
      | V_double x \<Rightarrow> jdouble J x
      | V_long w \<Rightarrow> jint J w
      | V_bool b \<Rightarrow> jbool J b
      | V_json j \<Rightarrow> j
      | V_span bs \<Rightarrow> jarray J (map (\<lambda>b. juint J (ucast b)) bs)
      | V_uchars bs \<Rightarrow> jarray J (map (\<lambda>b. juint J (ucast b)) bs))"

text \<open>A step of the walk over the members of an object or array, in order.\<close>

fun walk_members ::
  "('j \<Rightarrow> 'e \<Rightarrow> ('j \<times> 'e) res) \<Rightarrow> 'j list \<Rightarrow> 'e \<Rightarrow> ('j list \<times> 'e) res" where
  "walk_members f [] env = Inr ([], env)"
| "walk_members f (j # js) env =
     bind_res (f j env) (\<lambda>(j', env').
     bind_res (walk_members f js env') (\<lambda>(js', env''). Inr (j' # js', env'')))"

fun builder_substitute ::
  "('j, 'c) libs \<Rightarrow> nat \<Rightarrow> 'j \<Rightarrow> ('j, 'c) subs_env \<Rightarrow> ('j \<times> ('j, 'c) subs_env) res" where
  "builder_substitute L 0 j env = Inl (Undefined ''nesting deeper than the fuel'')"
| "builder_substitute L (Suc n) j env =
     (let J = l_json L;
          member = (\<lambda>v env.
            if jis_string J v then
              bind_res (json_res (jget_string J v)) (\<lambda>s.
              bind_res (substitute L env s) (\<lambda>(r, env'). Inr (value_to_json J r, env')))
            else if jis_object J v \<or> jis_array J v then builder_substitute L n v env
            else Inr (v, env))
      in if jis_object J j then
           bind_res (walk_members member (map snd (jitems J j)) env) (\<lambda>(vs, env').
             Inr (jobject J (zip (map fst (jitems J j)) vs), env'))
         else
           bind_res (walk_members member (jelems J j) env) (\<lambda>(vs, env'). Inr (jarray J vs, env')))"

definition builder_build ::
  "('j, 'c) libs \<Rightarrow> nat \<Rightarrow> 'j \<Rightarrow> ('j, 'c) subs_env \<Rightarrow> ('j \<times> ('j, 'c) subs_env) res" where
  "builder_build L depth output env =
     (if jis_object (l_json L) output then builder_substitute L depth output env
      else if jis_string (l_json L) output then
        bind_res (json_res (jget_string (l_json L) output)) (\<lambda>s.
        bind_res (substitute L env s) (\<lambda>(r, env').
          case r of
            V_string t \<Rightarrow> Inr (jstring (l_json L) t, env')
          | V_json j \<Rightarrow> Inr (j, env')
          | _ \<Rightarrow> bad_get))
      else throw Runtime_error ''Can not build!'')"

definition builder_new :: "'j json_lib \<Rightarrow> 'j \<Rightarrow> ('j, 'c) filtra_kind res" where
  "builder_new J config =
     bind_res (if jcontains J config ''payload''
               then json_res (jat J config ''payload'') else Inr (jnull J)) (\<lambda>payload.
     bind_res (if jcontains J config ''extra''
               then json_res (jat J config ''extra'') else Inr (jnull J)) (\<lambda>extra.
       Inr (BuilderFT payload extra)))"

text \<open>A build on the wrapper's own message and extras.\<close>

definition build_on ::
  "('j, 'c) bridge \<Rightarrow> 'j \<Rightarrow> ('j, 'c) wrapper \<Rightarrow> ('j \<times> ('j, 'c) wrapper) res" where
  "build_on B output w =
     (let w' = wr_touch w
      in bind_res (builder_build (b_libs B) (b_depth B) output (engine_of_wrapper w' (b_shared B)))
           (\<lambda>(j, env). Inr (j, engine_writeback w' env)))"

fun add_extras :: "'j json_lib \<Rightarrow> (string \<times> 'j) list \<Rightarrow> message_extra \<Rightarrow> message_extra res" where
  "add_extras J [] x = Inr x"
| "add_extras J ((k, v) # ms) x =
     bind_res (json_res (jdump J v)) (\<lambda>s. bind_res (add_extra x k (EString s)) (add_extras J ms))"

definition builder_process ::
  "('j, 'c) bridge \<Rightarrow> 'j \<Rightarrow> 'j \<Rightarrow> ('j, 'c) wrapper \<Rightarrow> (string \<times> ('j, 'c) wrapper) res" where
  "builder_process B payload extra w =
     bind_res
       (if \<not> jempty (b_json B) payload then
          bind_res (build_on B payload w) (\<lambda>(j, w').
            Inr (wr_set_message (wr_touch w')
                   (message_of_json (b_json B) j JSON (m_topic (wr_msg w')))))
        else Inr w)
       (\<lambda>w1.
          bind_res
            (if \<not> jempty (b_json B) extra then
               bind_res (build_on B extra w1) (\<lambda>(j, w').
               bind_res (add_extras (b_json B) (jitems (b_json B) j) (w_extra w')) (\<lambda>x.
                 Inr (w'\<lparr>w_extra := x\<rparr>)))
             else Inr w1)
            (\<lambda>w2. Inr ([], wr_pass w2)))"

section \<open>Lua converter and image\<close>

definition lua_new :: "'j json_lib \<Rightarrow> 'j \<Rightarrow> ('j, 'c) filtra_kind res" where
  "lua_new J config =
     bind_res (jat_get J (jget_string J) config ''converter_id'') (\<lambda>i.
       Inr (LuaConverterFT i Lua_null))"

text \<open>\<open>start\<close> closes the interpreter of an earlier start before it looks the code up.\<close>

definition lua_start ::
  "('j, 'c) bridge \<Rightarrow> string \<Rightarrow> lua_ref \<Rightarrow> lua_ref \<times> unit res" where
  "lua_start B converter_id l =
     (if l = Lua_closed then (l, Inl (Undefined ''lua_close of a closed state''))
      else case b_converters B converter_id of
             None \<Rightarrow> (if l = Lua_null then Lua_null else Lua_closed,
                      throw Runtime_error ''Not able to retreive converter code!'')
           | Some code \<Rightarrow>
               (Lua_open code [],
                case b_lua_load B code of
                  None \<Rightarrow> Inr ()
                | Some err \<Rightarrow> throw Runtime_error err))"

definition lua_process ::
  "('j, 'c) bridge \<Rightarrow> lua_ref \<Rightarrow> ('j, 'c) wrapper \<Rightarrow> lua_ref \<times> (string \<times> ('j, 'c) wrapper) res" where
  "lua_process B l w =
     (let w0 = wr_touch w in
      case get_raw (b_json B) (message_copy (wr_msg w0)) of
        Inl e \<Rightarrow> (l, Inl e)
      | Inr (raw, _) \<Rightarrow>
          (case l of
             Lua_open code hist \<Rightarrow>
               (Lua_open code (hist @ [raw]),
                case b_lua_call B code hist raw of
                  Inl err \<Rightarrow> throw Runtime_error err
                | Inr None \<Rightarrow> Inl (Undefined ''assignment from a null pointer'')
                | Inr (Some s) \<Rightarrow>
                    bind_res (wr_raw (b_json B) w0) (\<lambda>(_, w').
                      Inr ([], wr_pass (w'\<lparr>w_alt := (w_alt w')\<lparr>m_raw := c_string s\<rparr>\<rparr>))))
           | _ \<Rightarrow> (l, Inl (Undefined ''no Lua state''))))"

fun image_operation_to_string :: "image_operation \<Rightarrow> string" where
  "image_operation_to_string Image_unkn = ''unkn''"
| "image_operation_to_string Image_resize = ''resize''"

definition image_operation_from_string :: "string \<Rightarrow> image_operation res" where
  "image_operation_from_string str =
     (let s = str_lower str in
      if s = ''unkn'' then Inr Image_unkn
      else if s = ''resize'' then Inr Image_resize
      else throw Invalid_argument (''Unknown format: '' @ s))"

definition image_new :: "'j json_lib \<Rightarrow> 'j \<Rightarrow> ('j, 'c) filtra_kind res" where
  "image_new J config =
     bind_res (jat_get J (jget_string J) config ''operation'') (\<lambda>s.
     bind_res (image_operation_from_string s) (\<lambda>oper.
     bind_res (json_res (jvalue_string J config ''extra'' [])) (\<lambda>extra.
       Inr (ImageFT oper extra))))"

text \<open>
  The payload is copied into a local vector; the JPEG replaces that copy, or becomes the
  extra the configuration names.
\<close>

definition image_process ::
  "image_lib \<Rightarrow> string \<Rightarrow> ('j, 'c) wrapper \<Rightarrow> (string \<times> ('j, 'c) wrapper) res" where
  "image_process I extra w =
     (let w0 = wr_touch w;
          (payload, m) = get_payload_uchar (w_alt w0);
          w1 = w0\<lparr>w_alt := m\<rparr>
      in bind_res (cv_res (img_decode I payload)) (\<lambda>_.
         bind_res (cv_res (img_encode I payload 800 600)) (\<lambda>jpeg.
           if extra = [] then Inr ([], wr_pass w1)
           else bind_res (add_extra (w_extra w1) extra (EUchars jpeg)) (\<lambda>x.
                  Inr ([], wr_pass (w1\<lparr>w_extra := x\<rparr>))))))"

section \<open>The base class\<close>

definition format_of_config :: "string \<Rightarrow> msg_format" where
  "format_of_config s = (if s = ''json'' then JSON else if s = ''raw'' then RAW else UNKN)"

definition filtra_base_new ::
  "'j json_lib \<Rightarrow> 'j \<Rightarrow> ('j, 'c) filtra_kind \<Rightarrow> ('j, 'c) filtra res" where
  "filtra_base_new J config kind =
     bind_res (json_res (jvalue_string J config ''name'' [])) (\<lambda>name.
     bind_res (json_res (jvalue_string J config ''msg_format'' ''raw'')) (\<lambda>fmt.
     bind_res (json_res (jvalue_bool J config ''logical_negation'' False)) (\<lambda>negation.
     bind_res (if jcontains J config ''queues''
               then bind_res (json_res (jat J config ''queues'')) (jstrings J) else Inr []) (\<lambda>qs.
     bind_res (if jcontains J config ''metadata''
               then json_res (jat J config ''metadata'') else Inr (jnull J)) (\<lambda>md.
     bind_res (json_res (jvalue_string J config ''goto'' [])) (\<lambda>goto_hop.
     bind_res (json_res (jvalue_string J config ''goto_passed'' goto_hop)) (\<lambda>passed.
     bind_res (json_res (jvalue_string J config ''goto_rejected'' goto_hop)) (\<lambda>rejected.
       Inr \<lparr>f_name = name, f_format = format_of_config fmt, f_negation = negation,
            f_queues = qs, f_metadata = md, f_hop_passed = passed,
            f_hop_rejected = rejected, f_kind = kind\<rparr>))))))))"

definition filtra_process_message ::
  "('j, 'c) bridge \<Rightarrow> int \<Rightarrow> ('j, 'c) filtra \<Rightarrow> ('j, 'c) wrapper \<Rightarrow>
     ('j, 'c) filtra \<times> (string \<times> ('j, 'c) wrapper) res" where
  "filtra_process_message B now f w =
     (case f_kind f of
        ComparatorFT oper key n \<Rightarrow> (f, comparator_process (b_json B) (f_negation f) oper key n w)
      | FinderFT oper txt keys key \<Rightarrow>
          (f, finder_process (b_json B) (f_format f) (f_negation f) oper txt keys key w)
      | EraserFT keys \<Rightarrow> (f, eraser_process (b_json B) (f_format f) keys w)
      | BuilderFT payload extra \<Rightarrow> (f, builder_process B payload extra w)
      | SplitterFT sp src \<Rightarrow>
          (case splitter_process (b_json B) sp src w of
             Inl e \<Rightarrow> (f, Inl e)
           | Inr (sp', src', hop, w') \<Rightarrow> (f\<lparr>f_kind := SplitterFT sp' src'\<rparr>, Inr (hop, w')))
      | LimiterFT n \<Rightarrow> (f, limiter_process (b_json B) n w)
      | NopFT \<Rightarrow> (f, nop_process w)
      | ThrottleFT th \<Rightarrow>
          (let (th', w') = throttle_process now th w
           in (f\<lparr>f_kind := ThrottleFT th'\<rparr>, Inr ([], w')))
      | LuaConverterFT i l \<Rightarrow>
          (let (l', r) = lua_process B l w in (f\<lparr>f_kind := LuaConverterFT i l'\<rparr>, r))
      | ImageFT oper extra \<Rightarrow> (f, image_process (l_image (b_libs B)) extra w))"

definition filtra_process ::
  "('j, 'c) bridge \<Rightarrow> int \<Rightarrow> ('j, 'c) filtra \<Rightarrow> ('j, 'c) wrapper \<Rightarrow>
     ('j, 'c) filtra \<times> (string \<times> ('j, 'c) wrapper) res" where
  "filtra_process B now f w =
     filtra_process_message B now f (wr_add_metadata (b_json B) (f_metadata f) w)"

definition filtra_generate ::
  "('j, 'c) bridge \<Rightarrow> ('j, 'c) filtra \<Rightarrow> (('j, 'c) filtra \<times> ('j, 'c) message) res" where
  "filtra_generate B f =
     (case f_kind f of
        SplitterFT sp src \<Rightarrow>
          bind_res (splitter_generate (b_json B) sp src) (\<lambda>(sp', src', m).
            Inr (f\<lparr>f_kind := SplitterFT sp' src'\<rparr>, m))
      | _ \<Rightarrow> Inr (f, message_default (b_json B)))"

definition filtra_start :: "('j, 'c) bridge \<Rightarrow> ('j, 'c) filtra \<Rightarrow> ('j, 'c) filtra \<times> unit res" where
  "filtra_start B f =
     (case f_kind f of
        LuaConverterFT i l \<Rightarrow>
          (let (l', r) = lua_start B i l in (f\<lparr>f_kind := LuaConverterFT i l'\<rparr>, r))
      | _ \<Rightarrow> (f, Inr ()))"

section \<open>The factory\<close>

text \<open>\<open>j == "text"\<close>.\<close>

definition json_is :: "'j json_lib \<Rightarrow> 'j \<Rightarrow> string \<Rightarrow> bool" where
  "json_is J j s \<longleftrightarrow> jis_string J j \<and> jget_string J j = Inr s"

definition filtra_kind_new ::
  "('j, 'c) bridge \<Rightarrow> nat \<Rightarrow> 'j \<Rightarrow> 'j \<Rightarrow> ('j, 'c) filtra_kind res" where
  "filtra_kind_new B rnd t config =
     (let J = b_json B in
      if json_is J t ''comparator'' then comparator_new J config
      else if json_is J t ''finder'' then finder_new J config
      else if json_is J t ''eraser'' then eraser_new J config
      else if json_is J t ''builder'' then builder_new J config
      else if json_is J t ''splitter'' then splitter_new J rnd config
      else if json_is J t ''limiter'' then limiter_new J config
      else if json_is J t ''nop'' then Inr NopFT
      else if json_is J t ''throttle'' then throttle_new J config
      else if b_with_lua B \<and> json_is J t ''converter_lua'' then lua_new J config
      else if img_enabled (l_image (b_libs B)) \<and> json_is J t ''image'' then image_new J config
      else throw Invalid_argument ''Unknown filtra'')"

text \<open>A base class constructor runs, and throws, before the derived one.\<close>

definition filtra_known :: "('j, 'c) bridge \<Rightarrow> 'j \<Rightarrow> bool" where
  "filtra_known B t \<longleftrightarrow>
     (\<exists>s \<in> {''comparator'', ''finder'', ''eraser'', ''builder'', ''splitter'', ''limiter'',
             ''nop'', ''throttle''}. json_is (b_json B) t s) \<or>
     b_with_lua B \<and> json_is (b_json B) t ''converter_lua'' \<or>
     img_enabled (l_image (b_libs B)) \<and> json_is (b_json B) t ''image''"

definition filtra_create ::
  "('j, 'c) bridge \<Rightarrow> nat \<Rightarrow> 'j \<Rightarrow> ('j, 'c) filtra res" where
  "filtra_create B rnd config =
     bind_res (jsub (b_json B) config ''type'') (\<lambda>t.
       if filtra_known B t then
         bind_res (filtra_base_new (b_json B) config NopFT) (\<lambda>f.
         bind_res (filtra_kind_new B rnd t config) (\<lambda>k. Inr (f\<lparr>f_kind := k\<rparr>)))
       else throw Invalid_argument ''Unknown filtra'')"

end
