(* ===== verification/Json_Instance.thy ===== *)
theory Json_Instance
  imports Json_Lib
begin

text \<open>
  A concrete JSON library for the witnesses: values as a datatype, texts and CBOR encodings
  read from two finite tables.  It satisfies the documented behaviour that the theorems name
  as hypotheses, so those hypotheses can hold.  No definition of the model refers to it.
\<close>

datatype jv =
    JNull | JBool bool | JInt "64 word" | JUInt "64 word" | JFloat double
  | JStr string | JBin "8 word list" | JArr "jv list" | JObj "(string \<times> jv) list"

fun jv_items :: "jv \<Rightarrow> (string \<times> jv) list" where
  "jv_items (JObj ms) = ms"
| "jv_items _ = []"

fun jv_elems :: "jv \<Rightarrow> jv list" where
  "jv_elems (JArr xs) = xs"
| "jv_elems (JObj ms) = map snd ms"
| "jv_elems JNull = []"
| "jv_elems v = [v]"

fun jv_is_object :: "jv \<Rightarrow> bool" where
  "jv_is_object (JObj _) = True"
| "jv_is_object _ = False"

fun jv_is_integer :: "jv \<Rightarrow> bool" where
  "jv_is_integer (JInt _) = True"
| "jv_is_integer (JUInt _) = True"
| "jv_is_integer _ = False"

fun jv_get_string :: "jv \<Rightarrow> string + string" where
  "jv_get_string (JStr s) = Inr s"
| "jv_get_string _ = Inl ''type must be string''"

fun jv_get_bool :: "jv \<Rightarrow> string + bool" where
  "jv_get_bool (JBool b) = Inr b"
| "jv_get_bool _ = Inl ''type must be boolean''"

fun jv_get_double :: "jv \<Rightarrow> string + double" where
  "jv_get_double (JFloat x) = Inr x"
| "jv_get_double (JInt w) = Inr (double_of_int64 w)"
| "jv_get_double (JUInt w) = Inr (round64 (of_int (uint w)))"
| "jv_get_double _ = Inl ''type must be number''"

fun jv_get_int :: "jv \<Rightarrow> string + 64 word" where
  "jv_get_int (JInt w) = Inr w"
| "jv_get_int (JUInt w) = Inr w"
| "jv_get_int _ = Inl ''type must be number''"

definition jv_at :: "jv \<Rightarrow> string \<Rightarrow> string + jv" where
  "jv_at j k = (case map_of (jv_items j) k of None \<Rightarrow> Inl ''key not found'' | Some v \<Rightarrow> Inr v)"

fun jv_at_ix :: "jv \<Rightarrow> nat \<Rightarrow> string + jv" where
  "jv_at_ix (JArr xs) i = (if i < length xs then Inr (xs ! i) else Inl ''index out of range'')"
| "jv_at_ix _ _ = Inl ''cannot use at()''"

fun jv_erase :: "jv \<Rightarrow> string \<Rightarrow> string + jv" where
  "jv_erase (JObj ms) k = Inr (JObj (filter (\<lambda>m. fst m \<noteq> k) ms))"
| "jv_erase _ _ = Inl ''cannot use erase()''"

fun jv_set :: "jv \<Rightarrow> string \<Rightarrow> jv \<Rightarrow> string + jv" where
  "jv_set (JObj ms) k v = Inr (JObj (upd_items k v ms))"
| "jv_set JNull k v = Inr (JObj [(k, v)])"
| "jv_set _ _ _ = Inl ''cannot use operator[]''"

fun jv_merge :: "jv \<Rightarrow> jv \<Rightarrow> jv"
and jv_merge_items :: "(string \<times> jv) list \<Rightarrow> (string \<times> jv) list \<Rightarrow> (string \<times> jv) list" where
  "jv_merge t (JObj ps) = JObj (jv_merge_items (jv_items t) ps)"
| "jv_merge t p = p"
| "jv_merge_items ms [] = ms"
| "jv_merge_items ms ((k, p) # ps) =
     (if p = JNull then jv_merge_items (filter (\<lambda>m. fst m \<noteq> k) ms) ps
      else jv_merge_items
             (upd_items k (jv_merge (case map_of ms k of None \<Rightarrow> JNull | Some v \<Rightarrow> v) p) ms) ps)"

definition table_find :: "(jv \<times> string) list \<Rightarrow> jv \<Rightarrow> string + string" where
  "table_find t j = (case map_of t j of None \<Rightarrow> Inl ''no text'' | Some s \<Rightarrow> Inr s)"

definition table_parse :: "(jv \<times> string) list \<Rightarrow> string \<Rightarrow> string + jv" where
  "table_parse t s =
     (case map_of (map (\<lambda>(j, s). (s, j)) t) s of None \<Rightarrow> Inl ''parse error'' | Some j \<Rightarrow> Inr j)"

definition jv_lib :: "(jv \<times> string) list \<Rightarrow> (jv \<times> string) list \<Rightarrow> jv json_lib" where
  "jv_lib texts cbors =
     \<lparr>jnull = JNull, jstring = JStr, jbool = JBool, juint = JUInt, jint = JInt,
      jdouble = JFloat, jbinary = JBin, jarray = JArr, jobject = JObj,
      jis_string = (\<lambda>j. case j of JStr _ \<Rightarrow> True | _ \<Rightarrow> False),
      jis_object = jv_is_object,
      jis_array = (\<lambda>j. case j of JArr _ \<Rightarrow> True | _ \<Rightarrow> False),
      jis_float = (\<lambda>j. case j of JFloat _ \<Rightarrow> True | _ \<Rightarrow> False),
      jis_integer = jv_is_integer,
      jempty = (\<lambda>j. jv_elems j = []),
      jcontains = (\<lambda>j k. k \<in> fst ` set (jv_items j)),
      jat = jv_at, jat_ix = jv_at_ix, jitems = jv_items, jelems = jv_elems,
      jsub = (\<lambda>j k. case jv_at j k of
                 Inr v \<Rightarrow> Inr v
               | Inl w \<Rightarrow> if jv_is_object j then Inl (Undefined w) else throw Json_exception w),
      jvalue_string = (\<lambda>j k d. case jv_at j k of Inr v \<Rightarrow> jv_get_string v
               | Inl w \<Rightarrow> if jv_is_object j then Inr d else Inl w),
      jvalue_bool = (\<lambda>j k d. case jv_at j k of Inr v \<Rightarrow> jv_get_bool v
               | Inl w \<Rightarrow> if jv_is_object j then Inr d else Inl w),
      jvalue_uint64 = (\<lambda>j k d. case jv_at j k of Inr v \<Rightarrow> jv_get_int v
               | Inl w \<Rightarrow> if jv_is_object j then Inr d else Inl w),
      jvalue_int32 = (\<lambda>j k d. case jv_at j k of Inr v \<Rightarrow> map_sum id ucast (jv_get_int v)
               | Inl w \<Rightarrow> if jv_is_object j then Inr d else Inl w),
      jset = jv_set, jerase = jv_erase, jmerge_patch = jv_merge,
      jget_string = jv_get_string, jget_bool = jv_get_bool, jget_double = jv_get_double,
      jget_int64 = jv_get_int, jget_uint64 = jv_get_int,
      jget_int32 = (\<lambda>j. map_sum id ucast (jv_get_int j)),
      jget_uint32 = (\<lambda>j. map_sum id ucast (jv_get_int j)),
      jget_uint16 = (\<lambda>j. map_sum id ucast (jv_get_int j)),
      jget_uint8 = (\<lambda>j. map_sum id ucast (jv_get_int j)),
      jdump = table_find texts, jparse = table_parse texts, jto_cbor = table_find cbors\<rparr>"

lemma jv_lib_simps [simp]:
  "jnull (jv_lib t c) = JNull" "jstring (jv_lib t c) = JStr" "jbool (jv_lib t c) = JBool"
  "juint (jv_lib t c) = JUInt" "jint (jv_lib t c) = JInt" "jdouble (jv_lib t c) = JFloat"
  "jbinary (jv_lib t c) = JBin" "jarray (jv_lib t c) = JArr" "jobject (jv_lib t c) = JObj"
  "jis_string (jv_lib t c) (JStr s) = True" "jis_string (jv_lib t c) (JObj ms) = False"
  "jis_object (jv_lib t c) = jv_is_object" "jis_integer (jv_lib t c) = jv_is_integer"
  "jis_float (jv_lib t c) (JFloat x) = True" "jis_float (jv_lib t c) (JInt w) = False"
  "jis_float (jv_lib t c) (JUInt w) = False" "jis_float (jv_lib t c) (JStr s) = False"
  "jempty (jv_lib t c) j = (jv_elems j = [])"
  "jcontains (jv_lib t c) j k = (k \<in> fst ` set (jv_items j))"
  "jat (jv_lib t c) = jv_at" "jat_ix (jv_lib t c) = jv_at_ix" "jitems (jv_lib t c) = jv_items"
  "jelems (jv_lib t c) = jv_elems" "jset (jv_lib t c) = jv_set" "jerase (jv_lib t c) = jv_erase"
  "jmerge_patch (jv_lib t c) = jv_merge" "jget_string (jv_lib t c) = jv_get_string"
  "jget_bool (jv_lib t c) = jv_get_bool" "jget_double (jv_lib t c) = jv_get_double"
  "jget_int64 (jv_lib t c) = jv_get_int" "jget_uint64 (jv_lib t c) = jv_get_int"
  "jdump (jv_lib t c) = table_find t" "jparse (jv_lib t c) = table_parse t"
  "jto_cbor (jv_lib t c) = table_find c"
  by (simp_all add: jv_lib_def)

text \<open>Constructor \<open>JObj\<close> of a list whose keys are found by evaluation.\<close>

lemma jv_at_JObj [simp]:
  "jv_at (JObj []) k = Inl ''key not found''"
  "jv_at (JObj ((k', v) # ms)) k = (if k' = k then Inr v else jv_at (JObj ms) k)"
  by (simp_all add: jv_at_def)

lemma table_simps [simp]:
  "table_find [] j = Inl ''no text''"
  "table_find ((j', s) # t) j = (if j' = j then Inr s else table_find t j)"
  "table_parse [] s = Inl ''parse error''"
  "table_parse ((j, s') # t) s = (if s' = s then Inr j else table_parse t s)"
  by (simp_all add: table_find_def table_parse_def)

lemma jv_contains_iff: "k \<in> fst ` set (jv_items j) \<longleftrightarrow> map_of (jv_items j) k \<noteq> None"
  by (simp add: map_of_eq_None_iff)

lemma jv_items_object: "jv_items j \<noteq> [] \<Longrightarrow> jv_is_object j"
  by (cases j) auto

lemma jv_members: "json_members (jv_lib t c)"
  unfolding json_members_def
proof (intro conjI allI impI)
  fix j k
  show "jcontains (jv_lib t c) j k \<longleftrightarrow>
    jis_object (jv_lib t c) j \<and> k \<in> fst ` set (jitems (jv_lib t c) j)"
    using jv_items_object [of j] by (cases "jv_items j") auto
  show "jcontains (jv_lib t c) j k \<Longrightarrow>
    \<exists>v. map_of (jitems (jv_lib t c) j) k = Some v \<and> jat (jv_lib t c) j k = Inr v"
    unfolding jv_lib_simps jv_contains_iff by (auto simp: jv_at_def)
  show "\<not> jcontains (jv_lib t c) j k \<Longrightarrow> \<exists>w. jat (jv_lib t c) j k = Inl w"
    unfolding jv_lib_simps jv_contains_iff by (auto simp: jv_at_def)
qed

lemma jv_values: "json_values (jv_lib t c)"
  by (auto simp: json_values_def jv_lib_def)

lemma jv_erases: "json_erases (jv_lib t c)"
  unfolding json_erases_def
proof (intro conjI allI impI)
  fix j k
  show "jis_object (jv_lib t c) j \<Longrightarrow>
    \<exists>j'. jerase (jv_lib t c) j k = Inr j' \<and> jis_object (jv_lib t c) j' \<and>
      jitems (jv_lib t c) j' = filter (\<lambda>m. fst m \<noteq> k) (jitems (jv_lib t c) j)"
    by (cases j) auto
  show "\<not> jis_object (jv_lib t c) j \<Longrightarrow> \<exists>w. jerase (jv_lib t c) j k = Inl w"
    by (cases j) auto
qed

lemma jv_assigns: "json_assigns (jv_lib t c)"
  unfolding json_assigns_def
proof (intro allI impI)
  fix j k v
  show "jis_object (jv_lib t c) j \<Longrightarrow>
    \<exists>j'. jset (jv_lib t c) j k v = Inr j' \<and> jis_object (jv_lib t c) j' \<and>
      jitems (jv_lib t c) j' = upd_items k v (jitems (jv_lib t c) j)"
    by (cases j) auto
qed

end
