(* ===== verification/Filtra_Facts.thy ===== *)
theory Filtra_Facts
  imports Filtras Json_Instance
begin

text \<open>
  What the filtras do: the chunks of a splitter make up the message they came from, a
  throttle spaces the messages it passes, the limiter, comparator, finder and eraser decide
  what their configuration says, and no filtra changes the message a wrapper was made from.
\<close>

section \<open>Chunks\<close>

lemma sint_of_int64:
  assumes "- (2 ^ 63) \<le> z" and "z < 2 ^ 63"
  shows "sint (of_int z :: 64 word) = z"
  using assms by (simp add: signed_of_int signed_take_bit_int_eq_self)

lemma sint_of_nat64: "n < 2 ^ 63 \<Longrightarrow> sint (of_nat n :: 64 word) = int n"
  using sint_of_int64 [of "int n"] by simp

fun chunks :: "nat \<Rightarrow> 'a list \<Rightarrow> 'a list list" where
  "chunks c xs = (if c = 0 \<or> xs = [] then [] else take c xs # chunks c (drop c xs))"

declare chunks.simps [simp del]

lemma chunks_Nil [simp]: "chunks c [] = []"
  by (simp add: chunks.simps)

lemma concat_chunks: "0 < c \<Longrightarrow> concat (chunks c xs) = xs"
proof (induction c xs rule: chunks.induct)
  case (1 c xs)
  then show ?case by (cases "xs = []") (simp_all add: chunks.simps [of c xs])
qed

lemma chunks_length: "ch \<in> set (chunks c xs) \<Longrightarrow> 0 < length ch \<and> length ch \<le> c"
proof (induction c xs rule: chunks.induct)
  case (1 c xs)
  then show ?case by (auto simp: chunks.simps [of c xs] split: if_splits)
qed

lemma rest_word:
  fixes n k :: nat
  assumes "n < 2 ^ 63" and "k < 2 ^ 63 + n"
  shows "sint (of_nat n - of_nat k :: 64 word) = int n - int k"
  using sint_of_int64 [of "int n - int k"] assms by simp

lemma chunks_drop_step:
  assumes "0 < c" and "i * c < length xs"
  shows "chunks c (drop (i * c) xs) = take c (drop (i * c) xs) # chunks c (drop (Suc i * c) xs)"
  using assms by (subst chunks.simps) (simp add: add.commute)

text \<open>The message a splitter makes for one chunk.\<close>

definition chunk_message ::
  "'j json_lib \<Rightarrow> 64 word \<Rightarrow> nat \<Rightarrow> string \<Rightarrow> nat \<Rightarrow> string \<Rightarrow> ('j, 'c) message" where
  "chunk_message J msg_id tot topic i buf =
     message_of_json J
       (jarray J [jstring J ''____SPL'', juint J msg_id, juint J (of_nat tot),
                  jint J (of_nat i), jbinary J (bytes_of buf)]) CBOR topic"

lemma wr_raw_again:
  assumes "wr_raw J w = Inr (s, w')" and "m_valid (w_orig w)"
  shows "wr_raw J w' = Inr (s, w') \<and> m_valid (w_alt w') \<and> wr_msg w' = w_alt w'"
proof -
  from assms(1) obtain m where m: "get_raw J (wr_msg w) = Inr (s, m)"
    and w': "w' = (wr_touch w)\<lparr>w_alt := m\<rparr>"
    by (auto simp: wr_raw_def bind_res_Inr_iff)
  have "m_valid (wr_msg w)"
    using assms(2) by (simp add: wr_msg_def wr_touch_def)
  with get_raw_frame [OF m] have "m_valid m" "m_serialized m" "m_raw m = s" by simp_all
  then show ?thesis
    by (simp add: w' wr_raw_def wr_msg_def wr_touch_def get_raw_def)
qed

lemma splitter_step:
  fixes J :: "'j json_lib" and w :: "('j, 'c) wrapper"
  assumes raw: "wr_raw J w = Inr (data, w)"
    and sp: "0 < unat (sp_chunk_size sp)" "sp_counter sp = of_nat i"
    and n: "length data < 2 ^ 62" "unat (sp_chunk_size sp) < length data"
    and i: "i * unat (sp_chunk_size sp) < length data"
  shows "splitter_generate J sp (Source w) =
    Inr (sp\<lparr>sp_counter := of_nat (Suc i)\<rparr>, Source w,
         chunk_message J (sp_message_id sp) (length data) (m_topic (wr_msg w)) i
           (take (unat (sp_chunk_size sp)) (drop (i * unat (sp_chunk_size sp)) data)))"
proof -
  define c where "c = unat (sp_chunk_size sp)"
  define k where "k = i * c"
  have k: "k < length data" using i by (simp add: k_def c_def)
  have "i \<le> i * c" using sp(1) by (cases c) (simp_all add: c_def)
  then have "i < 2 ^ 62" using k n(1) unfolding k_def by linarith
  then have ne: "sp_counter sp \<noteq> - 1"
    using sint_of_nat64 [of i] sp(2) by (auto dest: arg_cong [where f = sint])
  have chunk: "sp_chunk_size sp = of_nat c" by (simp add: c_def)
  then have start: "sp_chunk_size sp * sp_counter sp = of_nat k"
    by (simp add: sp(2) k_def mult.commute)
  have uk: "unat (of_nat k :: 64 word) = k"
    using k n(1) by (simp add: unat_of_nat)
  define r where "r = length data - k"
  have rest: "of_nat (length data) - of_nat k = (of_nat r :: 64 word)"
    using k by (simp add: r_def of_nat_diff)
  have ur: "unat (of_nat r :: 64 word) = r"
    using n(1) by (simp add: unat_of_nat r_def)
  have pos: "\<not> (of_nat r :: 64 word) <=s 0"
    using sint_of_nat64 [of r] n(1) k by (simp add: word_sle_eq r_def)
  have tk: "\<not> sp_chunk_size sp < of_nat r \<Longrightarrow> take r (drop k data) = take c (drop k data)"
    by (simp add: word_less_nat_alt ur c_def [symmetric]) (simp add: r_def)
  have "splitter_generate J sp (Source w) =
    Inr (sp\<lparr>sp_counter := sp_counter sp + 1\<rparr>, Source w,
         message_of_json J (jarray J [jstring J ''____SPL'', juint J (sp_message_id sp),
           juint J (of_nat (length data)), jint J (sp_counter sp),
           jbinary J (bytes_of (take c (drop k data)))]) CBOR (m_topic (wr_msg w)))"
    using ne k pos
    by (simp add: splitter_generate_def raw start rest uk ur tk c_def Let_def)
  moreover have "sp_counter sp + 1 = of_nat (Suc i)" by (simp add: sp(2))
  ultimately show ?thesis
    by (simp only: chunk_message_def c_def [symmetric] k_def [symmetric] sp(2))
qed

lemma splitter_done:
  assumes raw: "wr_raw J w = Inr (data, w)"
    and sp: "0 < unat (sp_chunk_size sp)" "sp_counter sp = of_nat i" "i < 2 ^ 63"
    and n: "length data < 2 ^ 62" "unat (sp_chunk_size sp) < length data"
    and i: "length data \<le> i * unat (sp_chunk_size sp)"
      "i * unat (sp_chunk_size sp) < length data + unat (sp_chunk_size sp)"
  shows "splitter_generate J sp (Source w) = Inr (sp, Source w, message_default J)"
proof -
  define c where "c = unat (sp_chunk_size sp)"
  have ne: "sp_counter sp \<noteq> - 1"
    using sint_of_nat64 [of i] sp(2,3) by (auto dest: arg_cong [where f = sint])
  have chunk: "sp_chunk_size sp = of_nat c" by (simp add: c_def)
  then have start: "sp_chunk_size sp * sp_counter sp = of_nat (i * c)"
    by (simp add: sp(2) mult.commute)
  have "sint (of_nat (length data) - of_nat (i * c) :: 64 word) = int (length data) - int (i * c)"
    by (rule rest_word) (use n i in \<open>simp_all add: c_def\<close>)
  moreover have "int (length data) - int (i * c) \<le> 0"
    using i(1) unfolding c_def [symmetric] by linarith
  ultimately have "(of_nat (length data) - of_nat (i * c) :: 64 word) <=s 0"
    unfolding word_sle_eq by simp
  then show ?thesis
    using ne raw by (simp add: splitter_generate_def start Let_def)
qed

text \<open>The loop of the pipeline that takes the messages of a splitter, with fuel.\<close>

fun splitter_drain ::
  "nat \<Rightarrow> 'j json_lib \<Rightarrow> splitter_state \<Rightarrow> ('j, 'c) split_source \<Rightarrow>
     ('j, 'c) message list res option" where
  "splitter_drain 0 J sp src = None"
| "splitter_drain (Suc fuel) J sp src =
     (case splitter_generate J sp src of
        Inl e \<Rightarrow> Some (Inl e)
      | Inr (sp', src', m) \<Rightarrow>
          if m_valid m then
            map_option (\<lambda>r. bind_res r (\<lambda>ms. Inr (m # ms))) (splitter_drain fuel J sp' src')
          else Some (Inr []))"

lemma chunk_message_valid [simp]: "m_valid (chunk_message J msg_id n t i buf)"
  by (simp add: chunk_message_def)

lemma splitter_drain_from:
  assumes raw: "wr_raw J w = Inr (data, w)"
    and c: "c = unat (sp_chunk_size sp)" "0 < c" "c < length data"
    and n: "length data < 2 ^ 62"
    and i: "i * c < length data + c" and fuel: "length (chunks c (drop (i * c) data)) < fuel"
  shows "splitter_drain fuel J (sp\<lparr>sp_counter := of_nat i\<rparr>) (Source w) =
    Some (Inr (map (\<lambda>(k, buf). chunk_message J (sp_message_id sp) (length data)
                      (m_topic (wr_msg w)) k buf)
            (enumerate i (chunks c (drop (i * c) data)))))"
  using i fuel
proof (induction "chunks c (drop (i * c) data)" arbitrary: i fuel)
  case Nil
  then have le: "length data \<le> i * c"
    using c(2) by (metis chunks_drop_step list.distinct(1) not_le)
  have "i \<le> i * c" using c(2) by (cases c) simp_all
  then have "i < 2 ^ 62 + 2 ^ 62" using Nil.prems(1) c n by linarith
  then have "i < 2 ^ 63" by simp
  then have "splitter_generate J (sp\<lparr>sp_counter := of_nat i\<rparr>) (Source w) =
      Inr (sp\<lparr>sp_counter := of_nat i\<rparr>, Source w, message_default J)"
    using raw c n le Nil.prems(1) by (intro splitter_done [where i = i and data = data]) simp_all
  moreover obtain f where "fuel = Suc f" using Nil.prems(2) by (cases fuel) auto
  ultimately show ?case using Nil.hyps by simp
next
  case (Cons buf rest)
  have lt: "i * c < length data"
  proof (rule ccontr)
    assume "\<not> i * c < length data"
    then have "chunks c (drop (i * c) data) = []" by simp
    with Cons.hyps(2) show False by simp
  qed
  have buf: "buf = take c (drop (i * c) data)" "rest = chunks c (drop (Suc i * c) data)"
    using chunks_drop_step [OF c(2) lt] Cons.hyps(2) by simp_all
  obtain f where f: "fuel = Suc f" using Cons.prems(2) by (cases fuel) auto
  have step: "splitter_generate J (sp\<lparr>sp_counter := of_nat i\<rparr>) (Source w) =
      Inr (sp\<lparr>sp_counter := of_nat (Suc i)\<rparr>, Source w,
           chunk_message J (sp_message_id sp) (length data) (m_topic (wr_msg w)) i buf)"
    using splitter_step [of J w data "sp\<lparr>sp_counter := of_nat i\<rparr>" i] raw c n lt
    by (simp add: buf)
  have "splitter_drain f J (sp\<lparr>sp_counter := of_nat (Suc i)\<rparr>) (Source w) =
    Some (Inr (map (\<lambda>(k, buf). chunk_message J (sp_message_id sp) (length data)
                      (m_topic (wr_msg w)) k buf)
            (enumerate (Suc i) (chunks c (drop (Suc i * c) data)))))"
  proof (rule Cons.hyps(1) [OF buf(2)])
    show "Suc i * c < length data + c" using lt by simp
    have "length (buf # rest) < Suc f" using Cons.prems(2) Cons.hyps(2) f by metis
    then show "length (chunks c (drop (Suc i * c) data)) < f" by (simp add: buf(2))
  qed
  then show ?case
    unfolding f using Cons.hyps(2) [symmetric] by (simp add: step buf(2) del: of_nat_Suc)
qed

lemma splitter_process_split:
  "wr_raw J w = Inr (data, w') \<Longrightarrow> unat (sp_chunk_size sp) < length data \<Longrightarrow>
     splitter_process J sp src w =
       Inr (sp\<lparr>sp_counter := 0, sp_message_id := sp_message_id sp + 1\<rparr>, Source w', ''self'', w')"
  by (simp add: splitter_process_def)

lemma splitter_process_small:
  "wr_raw J w = Inr (data, w') \<Longrightarrow> length data \<le> unat (sp_chunk_size sp) \<Longrightarrow>
     splitter_process J sp src w = Inr (sp, src, [], wr_pass w')"
  by (simp add: splitter_process_def)

lemma splitter_drain_all:
  assumes raw: "wr_raw J w0 = Inr (data, w)" "m_valid (w_orig w0)"
    and c: "c = unat (sp_chunk_size sp)" "0 < c" "c < length data"
    and n: "length data < 2 ^ 62"
    and fuel: "length (chunks c data) < fuel"
  shows "splitter_drain fuel J (sp\<lparr>sp_counter := 0\<rparr>) (Source w) =
    Some (Inr (map (\<lambda>(k, buf). chunk_message J (sp_message_id sp) (length data)
                      (m_topic (wr_msg w)) k buf) (enumerate 0 (chunks c data))))"
  using splitter_drain_from [of J w data c sp 0 fuel] wr_raw_again [OF raw] assms by simp

lemma chunks_count: "0 < c \<Longrightarrow> length (chunks c xs) = (length xs + c - 1) div c"
proof (induction c xs rule: chunks.induct)
  case (1 c xs)
  show ?case
  proof (cases "xs = []")
    case False
    define m where "m = length xs - 1"
    have xs: "length xs = Suc m" using False by (cases xs) (simp_all add: m_def)
    have "length (chunks c xs) = Suc ((length (drop c xs) + c - 1) div c)"
      using 1 False by (subst chunks.simps) simp
    also have "(length (drop c xs) + c - 1) div c = m div c"
    proof (cases "c \<le> m")
      case True
      then show ?thesis by (simp add: xs)
    next
      case no: False
      then have "length (drop c xs) = 0" by (simp add: xs)
      then show ?thesis using no \<open>0 < c\<close> by simp
    qed
    also have "Suc (m div c) = (m + c) div c" using \<open>0 < c\<close> by simp
    also have "m + c = length xs + c - 1" by (simp add: xs)
    finally show ?thesis .
  qed (use 1 in simp)
qed

text \<open>With a chunk size of zero the messages never end.\<close>

lemma splitter_zero_step:
  assumes raw: "wr_raw J w = Inr (data, w)" and d: "data \<noteq> []" "length data < 2 ^ 63"
    and z: "sp_chunk_size sp = 0" and c: "sp_counter sp \<noteq> - 1"
  shows "\<exists>m. splitter_generate J sp (Source w) =
    Inr (sp\<lparr>sp_counter := sp_counter sp + 1\<rparr>, Source w, m) \<and> m_valid m"
proof -
  have "\<not> (of_nat (length data) :: 64 word) <=s 0"
    using sint_of_nat64 [OF d(2)] d(1) by (simp add: word_sle_eq)
  then show ?thesis
    using raw c by (simp add: splitter_generate_def z Let_def)
qed

section \<open>Limiter and throttle\<close>

lemma limiter_spec:
  "wr_raw J w = Inr (data, w') \<Longrightarrow>
     limiter_process J limit w = Inr ([], wr_pass_if (length data \<le> unat limit) w')"
  by (simp add: limiter_process_def)

text \<open>The arrival times of the messages a throttle passes.\<close>

fun throttle_run :: "throttle_state \<Rightarrow> (int \<times> ('j, 'c) wrapper) list \<Rightarrow> int list" where
  "throttle_run th [] = []"
| "throttle_run th ((now, w) # ms) =
     (let (th', w') = throttle_process now th w
      in (if w_passed w' then [now] else []) @ throttle_run th' ms)"

definition spaced :: "double \<Rightarrow> int \<Rightarrow> int \<Rightarrow> bool" where
  "spaced delay t t' \<longleftrightarrow> dle delay (round64 (of_int (elapsed_ms t' t)))"

lemma throttle_process_cases:
  "throttle_process now th w =
     (if spaced (th_delay_ms th) (th_last th) now
      then (th\<lparr>th_last := now\<rparr>, wr_pass w) else (th, wr_reject w))"
  by (simp add: throttle_process_def spaced_def)

lemma throttle_run_spaced:
  "successively (spaced (th_delay_ms th)) (th_last th # throttle_run th ms)"
proof (induction th ms rule: throttle_run.induct)
  case (2 th now w ms)
  then show ?case
    by (cases "spaced (th_delay_ms th) (th_last th) now")
      (simp_all add: throttle_process_cases successively_Cons)
qed simp

section \<open>Comparator\<close>

fun compare_rat :: "comparator_operator \<Rightarrow> rat \<Rightarrow> rat \<Rightarrow> bool" where
  "compare_rat Op_eq a b = (a = b)"
| "compare_rat Op_gt a b = (b < a)"
| "compare_rat Op_gte a b = (b \<le> a)"
| "compare_rat Op_lt a b = (a < b)"
| "compare_rat Op_lte a b = (a \<le> b)"
| "compare_rat Op_unkn a b = False"

fun number_value :: "number \<Rightarrow> rat option" where
  "number_value (Long w) = Some (of_int (sint w))"
| "number_value (Double (Fin q)) = Some q"
| "number_value (Double _) = None"

definition exact :: "number \<Rightarrow> bool" where
  "exact x \<longleftrightarrow> (\<forall>w. x = Long w \<longrightarrow> \<bar>sint w\<bar> < 2 ^ 53)"

lemma compare_int_rat: "compare_int oper a b = compare_rat oper (of_int a) (of_int b)"
  by (cases oper) simp_all

lemma compare_double_rat: "compare_double oper (Fin a) (Fin b) = compare_rat oper a b"
  by (cases oper) simp_all

lemma as_double_exact:
  "exact x \<Longrightarrow> number_value x = Some a \<Longrightarrow> as_double x = Fin a"
  by (cases x rule: number_value.cases) (auto simp: exact_def double_of_int64_exact)

lemma compare_numbers_exact:
  assumes "number_value x = Some a" "number_value y = Some b" "exact x" "exact y"
  shows "compare_numbers oper x y = compare_rat oper a b"
  using assms as_double_exact [of x a] as_double_exact [of y b]
  by (cases x; cases y)
    (auto simp: compare_int_rat compare_double_rat)

lemma json_number_cases:
  "(\<exists>x. json_number J v = Inr (Some x)) \<or> json_number J v = Inr None \<or>
   (\<exists>e. json_number J v = throw Json_exception e)"
  unfolding json_number_def
  by (cases "jget_double J v"; cases "jget_int64 J v") simp_all

lemma comparator_decides:
  assumes "wr_json J w = Inr (payload, w')" and "jat J payload key = Inr v"
    and "json_number J v = Inr (Some x)"
  shows "comparator_process J negation oper key n w =
    Inr ([], wr_pass_if (compare_numbers oper x n \<noteq> negation) w')"
  using assms
  by (simp add: comparator_process_def wr_pass_if_def wr_pass_def wr_reject_def Let_def)

lemma comparator_not_number:
  assumes "wr_json J w = Inr (payload, w')"
    and "\<And>v x. jat J payload key = Inr v \<Longrightarrow> json_number J v \<noteq> Inr (Some x)"
  shows "comparator_process J negation oper key n w = throw Invalid_argument ''json''"
proof (cases "jat J payload key")
  case (Inr v)
  have "json_number J v = Inr None \<or> (\<exists>e. json_number J v = throw Json_exception e)"
    using json_number_cases [of J v] assms(2) [OF Inr] by blast
  then show ?thesis
    using assms(1) Inr by (auto simp: comparator_process_def res_simps)
qed (use assms in \<open>simp add: comparator_process_def res_simps\<close>)

section \<open>Finder\<close>

lemma find_in_string_sublist:
  "find_in_string oper txt msg =
     (case oper of
        Contain \<Rightarrow> sublist txt msg
      | Contained \<Rightarrow> sublist msg txt
      | Match \<Rightarrow> txt = msg
      | Search_unkn \<Rightarrow> False)"
  by (cases oper) (simp_all add: str_find_sublist del: not_None_eq)

lemma finder_text:
  assumes "txt \<noteq> []" and "wr_raw J w = Inr (raw, w')"
  shows "finder_process J fmt negation oper txt [] [] w =
    Inr ([], wr_pass_if (find_in_string oper txt raw \<noteq> negation) w')"
  using assms by (simp add: finder_process_def wr_pass_if_def wr_pass_def wr_reject_def)

lemma finder_keys:
  assumes "keys \<noteq> []" and "wr_json J w = Inr (payload, w')"
  shows "finder_process J JSON negation oper [] keys value_key w =
    Inr ([], wr_pass_if ((\<forall>k \<in> set keys. jcontains J payload k) \<noteq> negation) w')"
  using assms
  by (simp add: finder_process_def find_in_keys_def wr_pass_if_def wr_pass_def wr_reject_def
      list_all_iff)

lemma finder_value:
  assumes "txt \<noteq> []" "value_key \<noteq> []" and "wr_json J w = Inr (payload, w')"
    and "jcontains J payload value_key" "sub_string J payload value_key = Inr s"
  shows "finder_process J JSON negation oper txt [] value_key w =
    Inr ([], wr_pass_if (find_in_string oper txt s \<noteq> negation) w')"
  using assms
  by (simp add: finder_process_def find_in_value_def wr_pass_if_def wr_pass_def wr_reject_def)

lemma finder_unconfigured:
  "finder_process J fmt negation oper [] [] value_key w = Inr ([], wr_pass_if negation w)"
  by (simp add: finder_process_def wr_pass_if_def wr_pass_def wr_reject_def)

section \<open>Eraser\<close>

lemma erase_keys_object:
  assumes "json_erases J" and "jis_object J j"
  shows "jis_object J (erase_keys J ks j) \<and>
    jitems J (erase_keys J ks j) = filter (\<lambda>m. fst m \<notin> set ks) (jitems J j)"
  using assms(2)
proof (induction ks arbitrary: j)
  case (Cons k ks)
  from json_erasesD(1) [OF assms(1) Cons.prems]
  obtain j' where j': "jerase J j k = Inr j'" "jis_object J j'"
    "jitems J j' = filter (\<lambda>m. fst m \<noteq> k) (jitems J j)" by blast
  then show ?case
    using Cons.IH [OF j'(2)] by (auto intro: filter_cong)
qed simp

lemma erase_keys_other:
  assumes "json_erases J" and "\<not> jis_object J j"
  shows "erase_keys J ks j = j"
proof (induction ks)
  case (Cons k ks)
  obtain e where "jerase J j k = Inl e"
    using json_erasesD(2) [OF assms, of k] by blast
  with Cons show ?case by simp
qed simp

section \<open>What no filtra touches\<close>

definition same_config :: "('j, 'c) filtra \<Rightarrow> ('j, 'c) filtra \<Rightarrow> bool" where
  "same_config f g \<longleftrightarrow> g = f\<lparr>f_kind := f_kind g\<rparr>"

locale message_handler =
  fixes process :: "'t \<Rightarrow> 'f \<Rightarrow> ('j, 'c) wrapper \<Rightarrow> 'f \<times> (string \<times> ('j, 'c) wrapper) res"
    and same :: "'f \<Rightarrow> 'f \<Rightarrow> bool"
  assumes keeps_original: "process t f w = (f', Inr (hop, w')) \<Longrightarrow> w_orig w' = w_orig w"
    and hop_cases: "process t f w = (f', Inr (hop, w')) \<Longrightarrow> hop = [] \<or> hop = ''self''"
    and keeps_config: "process t f w = (f', r) \<Longrightarrow> same f f'"
begin

text \<open>
  A message sent through filtras, one after the other, each at its own time, while they
  pass it.
\<close>

fun run_chain :: "('t \<times> 'f) list \<Rightarrow> ('j, 'c) wrapper \<Rightarrow> ('j, 'c) wrapper res" where
  "run_chain [] w = Inr w"
| "run_chain ((t, f) # fs) w =
     (case snd (process t f w) of
        Inl e \<Rightarrow> Inl e
      | Inr (_, w') \<Rightarrow> if w_passed w' then run_chain fs w' else Inr w')"

lemma chain_keeps_original: "run_chain fs w = Inr w' \<Longrightarrow> w_orig w' = w_orig w"
proof (induction fs w rule: run_chain.induct)
  case (2 t f fs w)
  obtain f' r where p: "process t f w = (f', r)" by (cases "process t f w")
  with "2.prems" obtain hop w1 where r: "r = Inr (hop, w1)" by (cases r) auto
  from keeps_original [OF p [unfolded r]] "2.IH" [of "(hop, w1)" hop w1] "2.prems" p r
  show ?case by (auto split: if_splits)
qed simp

end

lemma wr_orig_frame:
  "wr_raw J w = Inr (s, w') \<Longrightarrow> w_orig w' = w_orig w"
  "wr_json J w = Inr (j, w') \<Longrightarrow> w_orig w' = w_orig w"
  by (auto dest: wr_raw_frame wr_json_frame)

lemma engine_writeback_orig [simp]: "w_orig (engine_writeback w env) = w_orig w"
  by (simp add: engine_writeback_def)

lemma try_catch_Inr:
  "try_catch h r f = Inr x \<Longrightarrow> (\<And>m. f m \<noteq> Inr x) \<Longrightarrow> r = Inr x"
  by (cases r) (auto simp: try_catch_def split: fault.splits if_splits)

lemma comparator_frame:
  assumes "comparator_process J neg oper key n w = Inr (hop, w')"
  shows "w_orig w' = w_orig w \<and> hop = []"
proof (cases "wr_json J w")
  case (Inr p)
  obtain payload w1 where p: "wr_json J w = Inr (payload, w1)" using Inr by (cases p) simp
  obtain v x where "jat J payload key = Inr v" "json_number J v = Inr (Some x)"
    using comparator_not_number [OF p, of key] assms by fastforce
  from comparator_decides [OF p this] assms wr_orig_frame(2) [OF p]
  show ?thesis by auto
qed (use assms in \<open>simp add: comparator_process_def\<close>)

lemma find_in_frame:
  "find_in_keys J fmt keys w = Inr (b, w') \<Longrightarrow> w_orig w' = w_orig w"
  "find_in_value J fmt oper txt key w = Inr (b, w') \<Longrightarrow> w_orig w' = w_orig w"
  by (auto simp: find_in_keys_def find_in_value_def bind_res_Inr_iff
      split: if_splits dest!: wr_orig_frame(2))

lemma finder_frame:
  "finder_process J fmt neg oper txt keys key w = Inr (hop, w') \<Longrightarrow>
     w_orig w' = w_orig w \<and> hop = []"
  by (auto simp: finder_process_def bind_res_Inr_iff Let_def
      split: if_splits dest!: wr_orig_frame(1) find_in_frame)

lemma build_on_orig: "build_on B j w = Inr (j', w') \<Longrightarrow> w_orig w' = w_orig w"
  by (auto simp: build_on_def bind_res_Inr_iff Let_def)

lemma builder_frame:
  "builder_process B payload extra w = Inr (hop, w') \<Longrightarrow> w_orig w' = w_orig w \<and> hop = []"
  by (auto simp: builder_process_def bind_res_Inr_iff split: if_splits dest!: build_on_orig)

lemma lua_frame:
  "lua_process B l w = (l', Inr (hop, w')) \<Longrightarrow> w_orig w' = w_orig w \<and> hop = []"
  by (auto simp: lua_process_def Let_def bind_res_Inr_iff
      split: sum.splits lua_ref.splits option.splits prod.splits dest!: wr_orig_frame(1))

lemma image_frame:
  "image_process I extra w = Inr (hop, w') \<Longrightarrow> w_orig w' = w_orig w \<and> hop = []"
  by (auto simp: image_process_def Let_def bind_res_Inr_iff split: prod.splits if_splits)

lemma same_config_refl [simp]: "same_config f f"
  by (simp add: same_config_def)

lemma same_config_kind [simp]: "same_config f (f\<lparr>f_kind := k\<rparr>)"
  by (simp add: same_config_def)

lemma filtra_process_message_frame:
  assumes "filtra_process_message B now f w = (f', Inr (hop, w'))"
  shows "w_orig w' = w_orig w \<and> (hop = [] \<or> hop = ''self'')"
  using assms
  by (auto simp: filtra_process_message_def eraser_process_def limiter_process_def
      nop_process_def throttle_process_def splitter_process_def bind_res_Inr_iff Let_def
      split: filtra_kind.splits sum.splits if_splits prod.splits
      dest!: comparator_frame finder_frame builder_frame lua_frame image_frame wr_orig_frame)

lemma filtra_process_message_same:
  "same_config f (fst (filtra_process_message B now f w))"
  by (auto simp: filtra_process_message_def Let_def
      split: filtra_kind.splits sum.splits prod.splits)

interpretation filtra: message_handler "filtra_process B" same_config
  for B :: "('j, 'c) bridge"
proof unfold_locales
  fix now and f f' :: "('j, 'c) filtra" and w w' :: "('j, 'c) wrapper" and hop
  assume "filtra_process B now f w = (f', Inr (hop, w'))"
  then show "w_orig w' = w_orig w" "hop = [] \<or> hop = ''self''"
    unfolding filtra_process_def by (auto dest: filtra_process_message_frame)
next
  fix now and f f' :: "('j, 'c) filtra" and w :: "('j, 'c) wrapper" and r
  assume "filtra_process B now f w = (f', r)"
  then show "same_config f f'"
    using filtra_process_message_same by (metis filtra_process_def fst_conv)
qed

section \<open>Metadata and images\<close>

text \<open>
  \<open>merge_patch\<close> with a value that is not an object replaces the target by it; the metadata of
  a filtra that configures none is null.
\<close>

definition json_patches :: "'j json_lib \<Rightarrow> bool" where
  "json_patches J \<longleftrightarrow>
     \<not> jis_object J (jnull J) \<and> (\<forall>t p. \<not> jis_object J p \<longrightarrow> jmerge_patch J t p = p)"

lemma metadata_reset:
  assumes "json_patches J"
  shows "w_metadata (wr_add_metadata J (jnull J) w) = jnull J"
  using assms by (simp add: json_patches_def wr_add_metadata_def)

lemma jv_patches: "json_patches (jv_lib t c)"
proof -
  have "jv_merge j p = p" if "\<not> jv_is_object p" for j p
    using that by (cases p) simp_all
  then show ?thesis by (simp add: json_patches_def)
qed

text \<open>Without an extra to store it in, the scaled image is dropped.\<close>

lemma image_without_extra:
  assumes "image_process I [] w = Inr (hop, w')"
  shows "m_raw (wr_msg w') = m_raw (wr_msg w) \<and> w_extra w' = w_extra w \<and> w_passed w'"
  using assms
  by (auto simp: image_process_def Let_def bind_res_Inr_iff get_payload_uchar_def wr_msg_def
      wr_touch_def wr_pass_def message_copy_def split: if_splits)

end
