(* ===== verification/TSQueue.thy ===== *)
theory TSQueue
  imports Prelude
begin

text \<open>
  tsqueue.h and utils/threadsafe_queue.h: the blocking queues between the threads of a
  pipeline.  Each operation runs under the queue's mutex, so it is one step of the state; a
  \<open>pop\<close> that has to wait is \<open>None\<close>.  The interface both queues share is the locale
  \<open>fifo_queue\<close>.  The last section breaks \<open>pop\<close> and \<open>set_non_blocking\<close> into the steps
  another thread can come between.
\<close>

section \<open>The queues\<close>

record 'a tsqueue =
  q_max :: nat
  q_items :: "'a list"
  q_blocking :: bool

definition tsq_new :: "nat \<Rightarrow> bool \<Rightarrow> 'a tsqueue" where
  "tsq_new max_size blocking = \<lparr>q_max = max_size, q_items = [], q_blocking = blocking\<rparr>"

definition tsq_set_non_blocking :: "'a tsqueue \<Rightarrow> 'a tsqueue" where
  "tsq_set_non_blocking q = q\<lparr>q_blocking := False\<rparr>"

definition tsq_set_blocking :: "'a tsqueue \<Rightarrow> 'a tsqueue" where
  "tsq_set_blocking q = q\<lparr>q_blocking := True\<rparr>"

definition tsq_check_size :: "'a tsqueue \<Rightarrow> unit res" where
  "tsq_check_size q =
     (if 0 < q_max q \<and> q_max q \<le> length (q_items q)
      then throw Overflow_error ''Queue is full!'' else Inr ())"

definition tsq_push :: "'a tsqueue \<Rightarrow> 'a \<Rightarrow> 'a tsqueue res" where
  "tsq_push q x =
     bind_res (tsq_check_size q) (\<lambda>_. Inr (q\<lparr>q_items := q_items q @ [x]\<rparr>))"

definition tsq_pop :: "'a tsqueue \<Rightarrow> ('a \<times> 'a tsqueue) res option" where
  "tsq_pop q =
     (if q_items q = [] \<and> q_blocking q then None
      else Some (case q_items q of
                   [] \<Rightarrow> throw Underflow_error ''No messages in queue!''
                 | x # xs \<Rightarrow> Inr (x, q\<lparr>q_items := xs\<rparr>)))"

record 'a threadsafe_queue =
  t_items :: "'a list"

definition tsafe_enqueue :: "'a threadsafe_queue \<Rightarrow> 'a \<Rightarrow> 'a threadsafe_queue res" where
  "tsafe_enqueue q x = Inr (q\<lparr>t_items := t_items q @ [x]\<rparr>)"

definition tsafe_dequeue :: "'a threadsafe_queue \<Rightarrow> ('a \<times> 'a threadsafe_queue) res option" where
  "tsafe_dequeue q =
     (case t_items q of [] \<Rightarrow> None | x # xs \<Rightarrow> Some (Inr (x, q\<lparr>t_items := xs\<rparr>)))"

definition tsafe_empty :: "'a threadsafe_queue \<Rightarrow> bool" where
  "tsafe_empty q \<longleftrightarrow> t_items q = []"

section \<open>The queue interface\<close>

text \<open>Pushing a list of values, and popping a number of them, by any \<open>push\<close> and \<open>pop\<close>.\<close>

fun push_all :: "('q \<Rightarrow> 'a \<Rightarrow> 'q res) \<Rightarrow> 'q \<Rightarrow> 'a list \<Rightarrow> 'q res" where
  "push_all push q [] = Inr q"
| "push_all push q (x # xs) = bind_res (push q x) (\<lambda>q'. push_all push q' xs)"

fun pop_many :: "('q \<Rightarrow> ('a \<times> 'q) res option) \<Rightarrow> nat \<Rightarrow> 'q \<Rightarrow> ('a list \<times> 'q) option" where
  "pop_many pop 0 q = Some ([], q)"
| "pop_many pop (Suc n) q =
     (case pop q of
        Some (Inr (x, q')) \<Rightarrow> map_option (\<lambda>(xs, q''). (x # xs, q'')) (pop_many pop n q')
      | _ \<Rightarrow> None)"

text \<open>
  What a client relies on: a queue with room takes the value at its end, a full one throws
  and is unchanged by its caller, and a pop returns the front as soon as there is one.
\<close>

locale fifo_queue =
  fixes items :: "'q \<Rightarrow> 'a list"
    and room :: "'q \<Rightarrow> bool"
    and push :: "'q \<Rightarrow> 'a \<Rightarrow> 'q res"
    and pop :: "'q \<Rightarrow> ('a \<times> 'q) res option"
  assumes push_room: "room q \<Longrightarrow> \<exists>q'. push q x = Inr q' \<and> items q' = items q @ [x]"
    and push_full: "\<not> room q \<Longrightarrow> \<exists>e. push q x = Inl e"
    and pop_front: "items q = x # xs \<Longrightarrow> \<exists>q'. pop q = Some (Inr (x, q')) \<and> items q' = xs"
begin

lemma push_items: "push q x = Inr q' \<Longrightarrow> items q' = items q @ [x]"
  using push_room [of q x] push_full [of q x] by (cases "room q") auto

lemma push_all_items: "push_all push q xs = Inr q' \<Longrightarrow> items q' = items q @ xs"
  by (induction xs arbitrary: q) (auto simp: bind_res_Inr_iff dest: push_items)

lemma pop_many_items:
  "items q = xs @ ys \<Longrightarrow> \<exists>q'. pop_many pop (length xs) q = Some (xs, q') \<and> items q' = ys"
proof (induction xs arbitrary: q)
  case (Cons x xs)
  then obtain q1 where q1: "pop q = Some (Inr (x, q1))" "items q1 = xs @ ys"
    using pop_front [of q x "xs @ ys"] by auto
  with Cons.IH [of q1] show ?case by auto
qed simp

lemma first_in_first_out:
  assumes "push_all push q xs = Inr q'"
  shows "\<exists>q''. pop_many pop (length (items q @ xs)) q' = Some (items q @ xs, q'') \<and> items q'' = []"
  using push_all_items [OF assms] pop_many_items [of q' "items q @ xs" "[]"] by simp

end

definition tsq_room :: "'a tsqueue \<Rightarrow> bool" where
  "tsq_room q \<longleftrightarrow> q_max q = 0 \<or> length (q_items q) < q_max q"

interpretation tsq: fifo_queue q_items tsq_room tsq_push tsq_pop
  by unfold_locales (auto simp: tsq_room_def tsq_push_def tsq_check_size_def tsq_pop_def)

interpretation tsafe: fifo_queue t_items "\<lambda>_. True" tsafe_enqueue tsafe_dequeue
  by unfold_locales (auto simp: tsafe_enqueue_def tsafe_dequeue_def)

lemma tsq_push_Inr_iff:
  "tsq_push q x = Inr q' \<longleftrightarrow> tsq_room q \<and> q' = q\<lparr>q_items := q_items q @ [x]\<rparr>"
  by (auto simp: tsq_push_def tsq_check_size_def tsq_room_def)

lemma tsq_push_full:
  "tsq_push q x = Inl e \<longleftrightarrow> \<not> tsq_room q \<and> e = Exn Overflow_error ''Queue is full!''"
  by (auto simp: tsq_push_def tsq_check_size_def tsq_room_def)

text \<open>The size bound is an invariant of every operation.\<close>

definition tsq_bounded :: "'a tsqueue \<Rightarrow> bool" where
  "tsq_bounded q \<longleftrightarrow> q_max q = 0 \<or> length (q_items q) \<le> q_max q"

lemma tsq_bounded_intros [wf_intros, intro]:
  "tsq_bounded (tsq_new n b)"
  "tsq_bounded q \<Longrightarrow> tsq_bounded (tsq_set_blocking q)"
  "tsq_bounded q \<Longrightarrow> tsq_bounded (tsq_set_non_blocking q)"
  "tsq_push q x = Inr q' \<Longrightarrow> tsq_bounded q'"
  "tsq_bounded q \<Longrightarrow> tsq_pop q = Some (Inr (x, q')) \<Longrightarrow> tsq_bounded q'"
  by (auto simp: tsq_bounded_def tsq_new_def tsq_set_blocking_def tsq_set_non_blocking_def
      tsq_push_Inr_iff tsq_room_def tsq_pop_def split: if_splits list.splits)

section \<open>Waiting and waking\<close>

text \<open>
  One consumer inside \<open>pop\<close> and one thread inside \<open>set_non_blocking\<close>, with producers.
  \<open>wait(lock, pred)\<close> tests its predicate under the mutex and, if it fails, goes to sleep and
  releases the mutex in one step; a wake-up sends the consumer back to the test.  \<open>push\<close> holds
  the mutex; \<open>set_non_blocking\<close> stores the flag and notifies without it.
\<close>

datatype consumer = Entering | Tested | Asleep | Returned

record 'a wait_state =
  ws_queue :: "'a tsqueue"
  ws_consumer :: consumer
  ws_notifying :: bool

definition ws_start :: "'a tsqueue \<Rightarrow> 'a wait_state" where
  "ws_start q = \<lparr>ws_queue = q, ws_consumer = Entering, ws_notifying = False\<rparr>"

definition ws_wake :: "consumer \<Rightarrow> consumer" where
  "ws_wake c = (if c = Asleep then Entering else c)"

inductive wait_step :: "'a wait_state \<Rightarrow> 'a wait_state \<Rightarrow> bool" where
  test_fails: "ws_consumer s = Entering \<Longrightarrow> tsq_pop (ws_queue s) = None \<Longrightarrow>
    wait_step s (s\<lparr>ws_consumer := Tested\<rparr>)"
| test_holds: "ws_consumer s = Entering \<Longrightarrow> tsq_pop (ws_queue s) = Some (Inr (x, q)) \<Longrightarrow>
    wait_step s (s\<lparr>ws_consumer := Returned, ws_queue := q\<rparr>)"
| test_throws: "ws_consumer s = Entering \<Longrightarrow> tsq_pop (ws_queue s) = Some (Inl e) \<Longrightarrow>
    wait_step s (s\<lparr>ws_consumer := Returned\<rparr>)"
| sleep: "ws_consumer s = Tested \<Longrightarrow> wait_step s (s\<lparr>ws_consumer := Asleep\<rparr>)"
| producer: "ws_consumer s \<noteq> Tested \<Longrightarrow> tsq_push (ws_queue s) x = Inr q \<Longrightarrow>
    wait_step s (s\<lparr>ws_queue := q, ws_consumer := ws_wake (ws_consumer s)\<rparr>)"
| store_flag: "wait_step s (s\<lparr>ws_queue := tsq_set_non_blocking (ws_queue s), ws_notifying := True\<rparr>)"
| notify: "ws_notifying s \<Longrightarrow>
    wait_step s (s\<lparr>ws_notifying := False, ws_consumer := ws_wake (ws_consumer s)\<rparr>)"

inductive ws_reachable :: "'a tsqueue \<Rightarrow> 'a wait_state \<Rightarrow> bool" for q where
  ws_init: "ws_reachable q (ws_start q)"
| ws_next: "ws_reachable q s \<Longrightarrow> wait_step s t \<Longrightarrow> ws_reachable q t"

inductive_cases wait_stepE: "wait_step s t"

text \<open>No value is ever in the queue while its consumer sleeps.\<close>

definition ws_inv :: "'a wait_state \<Rightarrow> bool" where
  "ws_inv s \<longleftrightarrow> (ws_consumer s \<in> {Tested, Asleep} \<longrightarrow> q_items (ws_queue s) = [])"

lemma wait_step_inv: "wait_step s t \<Longrightarrow> ws_inv s \<Longrightarrow> ws_inv t"
  by (induction rule: wait_step.induct)
    (auto simp: ws_inv_def tsq_pop_def tsq_set_non_blocking_def ws_wake_def tsq_push_Inr_iff
      split: if_splits)

lemma ws_reachable_inv: "ws_reachable q s \<Longrightarrow> ws_inv s"
  by (induction rule: ws_reachable.induct)
    (auto simp: ws_inv_def ws_start_def intro: wait_step_inv [unfolded ws_inv_def, rule_format])

text \<open>
  But \<open>set_non_blocking\<close> can come between the failed test and the sleep, and its notification
  is lost: from any blocking empty queue the consumer can end asleep on a queue that is no
  longer blocking, with nobody left to wake it.
\<close>

lemma lost_wakeup_reachable:
  assumes "q_items q = []" and "q_blocking q"
  shows "ws_reachable q \<lparr>ws_queue = tsq_set_non_blocking q, ws_consumer = Asleep,
           ws_notifying = False\<rparr>"
proof -
  have "ws_reachable q (ws_start q)" by (rule ws_init)
  moreover have "wait_step (ws_start q) \<lparr>ws_queue = q, ws_consumer = Tested, ws_notifying = False\<rparr>"
    using wait_step.test_fails [of "ws_start q"] assms by (simp add: ws_start_def tsq_pop_def)
  moreover have "wait_step \<lparr>ws_queue = q, ws_consumer = Tested, ws_notifying = False\<rparr>
      \<lparr>ws_queue = tsq_set_non_blocking q, ws_consumer = Tested, ws_notifying = True\<rparr>"
    using wait_step.store_flag [of "\<lparr>ws_queue = q, ws_consumer = Tested, ws_notifying = False\<rparr>"]
    by simp
  moreover have "wait_step \<lparr>ws_queue = tsq_set_non_blocking q, ws_consumer = Tested, ws_notifying = True\<rparr>
      \<lparr>ws_queue = tsq_set_non_blocking q, ws_consumer = Tested, ws_notifying = False\<rparr>"
    using wait_step.notify [of "\<lparr>ws_queue = tsq_set_non_blocking q, ws_consumer = Tested,
      ws_notifying = True\<rparr>"] by (simp add: ws_wake_def)
  moreover have "wait_step \<lparr>ws_queue = tsq_set_non_blocking q, ws_consumer = Tested, ws_notifying = False\<rparr>
      \<lparr>ws_queue = tsq_set_non_blocking q, ws_consumer = Asleep, ws_notifying = False\<rparr>"
    using wait_step.sleep [of "\<lparr>ws_queue = tsq_set_non_blocking q, ws_consumer = Tested,
      ws_notifying = False\<rparr>"] by simp
  ultimately show ?thesis by (blast intro: ws_next)
qed

text \<open>There, only a later push, or a second \<open>set_non_blocking\<close>, moves anything.\<close>

lemma asleep_steps:
  "wait_step s t \<Longrightarrow> ws_consumer s = Asleep \<Longrightarrow> \<not> ws_notifying s \<Longrightarrow>
     ws_consumer t = Asleep \<and> ws_notifying t \<or> q_items (ws_queue t) \<noteq> []"
  by (erule wait_stepE) (auto simp: tsq_push_Inr_iff)

end
