(* ===== verification/Internal_Queue.thy ===== *)
theory Internal_Queue
  imports TSQueue Message
begin

text \<open>
  internal_queue.h and connectors/internal_connector.h: the named queues through which one
  pipeline hands messages to others.  A queue holds a buffer per subscriber under a key that
  is never used twice; \<open>push\<close> appends to every buffer, in the iteration order of the
  \<open>unordered_map\<close>, which the list of buffers stands for.  An \<open>RQueue\<close> points at a buffer by
  its queue and key; the null pointer is \<open>None\<close>.
\<close>

section \<open>Queues and their subscribers\<close>

record 'm internal_queue =
  iq_buffers :: "(64 word \<times> 'm tsqueue) list"
  iq_max_key :: "64 word"

definition iq_empty :: "'m internal_queue" where
  "iq_empty = \<lparr>iq_buffers = [], iq_max_key = 0\<rparr>"

record rqueue =
  rq_id :: "64 word"
  rq_queue :: "(string \<times> 64 word) option"

definition rqueue_default :: rqueue where
  "rqueue_default = \<lparr>rq_id = 0, rq_queue = None\<rparr>"

text \<open>\<open>subscribe\<close> of the queue \<open>queuid\<close>: the queue afterwards, and the handle or the exception.\<close>

definition iq_subscribe ::
  "string \<Rightarrow> 'm internal_queue \<Rightarrow> nat \<Rightarrow> 'm internal_queue \<times> rqueue res" where
  "iq_subscribe queuid iq buffer_size =
     (if iq_max_key iq = - 1 then (iq, throw Overflow_error ''Too many subscribers!'')
      else
        let key = iq_max_key iq + 1; iq' = iq\<lparr>iq_max_key := key\<rparr>
        in if key \<in> fst ` set (iq_buffers iq)
           then (iq', throw Runtime_error ''Can not subscribe!'')
           else (iq'\<lparr>iq_buffers := iq_buffers iq @ [(key, tsq_new buffer_size True)]\<rparr>,
                 Inr \<lparr>rq_id = key, rq_queue = Some (queuid, key)\<rparr>))"

definition iq_unsubscribe :: "'m internal_queue \<Rightarrow> rqueue \<Rightarrow> 'm internal_queue" where
  "iq_unsubscribe iq rq =
     iq\<lparr>iq_buffers := filter (\<lambda>b. fst b \<noteq> rq_id rq) (iq_buffers iq)\<rparr>"

text \<open>
  The loop of \<open>push\<close>: the first full buffer ends it with the exception of \<open>TSQueue::push\<close>,
  and the buffers before it keep the message.
\<close>

fun push_buffers ::
  "(64 word \<times> 'm tsqueue) list \<Rightarrow> 'm \<Rightarrow> (64 word \<times> 'm tsqueue) list \<times> unit res" where
  "push_buffers [] m = ([], Inr ())"
| "push_buffers ((k, q) # bs) m =
     (case tsq_push q m of
        Inl e \<Rightarrow> ((k, q) # bs, Inl e)
      | Inr q' \<Rightarrow> let (bs', r) = push_buffers bs m in ((k, q') # bs', r))"

definition iq_push :: "'m internal_queue \<Rightarrow> 'm \<Rightarrow> 'm internal_queue \<times> unit res" where
  "iq_push iq m =
     (let (bs, r) = push_buffers (iq_buffers iq) m in (iq\<lparr>iq_buffers := bs\<rparr>, r))"

definition iq_exit_blocking_calls :: "'m internal_queue \<Rightarrow> 'm internal_queue" where
  "iq_exit_blocking_calls iq =
     iq\<lparr>iq_buffers := map (\<lambda>(k, q). (k, tsq_set_non_blocking q)) (iq_buffers iq)\<rparr>"

section \<open>The table of queues\<close>

text \<open>\<open>queues_[queuid]\<close> creates the queue it does not find.\<close>

type_synonym 'm queues = "string \<rightharpoonup> 'm internal_queue"

definition get_queue :: "'m queues \<Rightarrow> string \<Rightarrow> 'm internal_queue \<times> 'm queues" where
  "get_queue qs queuid =
     (case qs queuid of
        Some iq \<Rightarrow> (iq, qs)
      | None \<Rightarrow> (iq_empty, qs(queuid \<mapsto> iq_empty)))"

definition redirect ::
  "('j, 'c) message queues \<Rightarrow> ('j, 'c) message \<Rightarrow> string \<Rightarrow> ('j, 'c) message queues \<times> unit res" where
  "redirect qs msg queuid =
     (let (iq, qs') = get_queue qs queuid; (iq', r) = iq_push iq (message_copy msg)
      in (qs'(queuid \<mapsto> iq'), r))"

text \<open>The calls through an \<open>RQueue\<close>; its pointer is null before the first \<open>subscribe\<close> and
  dangles once the buffer is erased.\<close>

definition rq_buffer :: "'m queues \<Rightarrow> rqueue \<Rightarrow> (string \<times> 64 word \<times> 'm tsqueue) res" where
  "rq_buffer qs rq =
     (case rq_queue rq of
        None \<Rightarrow> Inl (Undefined ''null queue pointer'')
      | Some (queuid, key) \<Rightarrow>
          (case qs queuid of
             None \<Rightarrow> Inl (Undefined ''dangling queue pointer'')
           | Some iq \<Rightarrow>
               (case map_of (iq_buffers iq) key of
                  None \<Rightarrow> Inl (Undefined ''dangling queue pointer'')
                | Some q \<Rightarrow> Inr (queuid, key, q))))"

definition set_buffer :: "string \<Rightarrow> 64 word \<Rightarrow> 'm tsqueue \<Rightarrow> 'm queues \<Rightarrow> 'm queues" where
  "set_buffer queuid key q qs =
     (case qs queuid of
        None \<Rightarrow> qs
      | Some iq \<Rightarrow> qs(queuid \<mapsto> iq\<lparr>iq_buffers :=
          map (\<lambda>b. if fst b = key then (key, q) else b) (iq_buffers iq)\<rparr>))"

definition rq_pop :: "'m queues \<Rightarrow> rqueue \<Rightarrow> ('m \<times> 'm queues) res option" where
  "rq_pop qs rq =
     (case rq_buffer qs rq of
        Inl e \<Rightarrow> Some (Inl e)
      | Inr (queuid, key, q) \<Rightarrow>
          map_option (\<lambda>r. bind_res r (\<lambda>(m, q'). Inr (m, set_buffer queuid key q' qs)))
            (tsq_pop q))"

definition rq_exit_blocking_calls :: "'m queues \<Rightarrow> rqueue \<Rightarrow> 'm queues res" where
  "rq_exit_blocking_calls qs rq =
     bind_res (rq_buffer qs rq)
       (\<lambda>(queuid, key, q). Inr (set_buffer queuid key (tsq_set_non_blocking q) qs))"

section \<open>Facts about queues\<close>

text \<open>Keys are distinct, positive and at most the counter; every buffer keeps its bound.\<close>

definition iq_wf :: "'m internal_queue \<Rightarrow> bool" where
  "iq_wf iq \<longleftrightarrow> distinct (map fst (iq_buffers iq)) \<and>
     (\<forall>(k, q) \<in> set (iq_buffers iq). 0 < k \<and> k \<le> iq_max_key iq \<and> tsq_bounded q)"

lemma push_buffers_keys [simp]: "map fst (fst (push_buffers bs m)) = map fst bs"
  by (induction bs m rule: push_buffers.induct) (auto split: sum.splits prod.splits)

lemma push_buffers_set:
  "(k, q) \<in> set (fst (push_buffers bs m)) \<Longrightarrow>
     (k, q) \<in> set bs \<or> (\<exists>q0. (k, q0) \<in> set bs \<and> tsq_push q0 m = Inr q)"
  by (induction bs m rule: push_buffers.induct) (auto split: sum.splits prod.splits)

lemma push_buffers_ok:
  assumes "\<forall>(k, q) \<in> set bs. tsq_room q"
  shows "push_buffers bs m = (map (\<lambda>(k, q). (k, q\<lparr>q_items := q_items q @ [m]\<rparr>)) bs, Inr ())"
  using assms
proof (induction bs)
  case (Cons b bs)
  obtain k0 q0 where b: "b = (k0, q0)" by (cases b)
  have push: "tsq_push q0 m = Inr (q0\<lparr>q_items := q_items q0 @ [m]\<rparr>)"
    using Cons.prems by (simp add: tsq_push_Inr_iff b)
  have "\<forall>(k, q) \<in> set bs. tsq_room q" using Cons.prems by simp
  from Cons.IH [OF this] show ?case by (simp add: b push)
qed simp

lemma push_buffers_full:
  assumes "\<forall>(k, q) \<in> set bs. tsq_room q" and "\<not> tsq_room q"
  shows "push_buffers (bs @ (k, q) # cs) m =
    (map (\<lambda>(k, q). (k, q\<lparr>q_items := q_items q @ [m]\<rparr>)) bs @ (k, q) # cs,
     throw Overflow_error ''Queue is full!'')"
  using assms(1)
proof (induction bs)
  case Nil
  have "tsq_push q m = throw Overflow_error ''Queue is full!''"
    using assms(2) by (simp add: tsq_push_full)
  then show ?case by simp
next
  case (Cons b bs)
  obtain k0 q0 where b: "b = (k0, q0)" by (cases b)
  have push: "tsq_push q0 m = Inr (q0\<lparr>q_items := q_items q0 @ [m]\<rparr>)"
    using Cons.prems by (simp add: tsq_push_Inr_iff b)
  have "\<forall>(k, q) \<in> set bs. tsq_room q" using Cons.prems by simp
  from Cons.IH [OF this] show ?case by (simp add: b push)
qed

lemma word_less_plus_one: "w \<noteq> - 1 \<Longrightarrow> w < w + (1 :: 64 word)"
  by (metis add.commute add_eq_0_iff2 lessI unatSuc word_less_nat_alt)

lemma iq_subscribe_cases:
  assumes "iq_wf iq"
  obtains (full) "iq_max_key iq = - 1"
      "iq_subscribe n iq sz = (iq, throw Overflow_error ''Too many subscribers!'')"
  | (ok) "iq_max_key iq \<noteq> - 1"
      "iq_subscribe n iq sz =
         (iq\<lparr>iq_max_key := iq_max_key iq + 1,
             iq_buffers := iq_buffers iq @ [(iq_max_key iq + 1, tsq_new sz True)]\<rparr>,
          Inr \<lparr>rq_id = iq_max_key iq + 1, rq_queue = Some (n, iq_max_key iq + 1)\<rparr>)"
proof (cases "iq_max_key iq = - 1")
  case False
  then have "iq_max_key iq < iq_max_key iq + 1"
    by (simp add: word_less_plus_one)
  then have "iq_max_key iq + 1 \<notin> fst ` set (iq_buffers iq)"
    using assms by (auto simp: iq_wf_def)
  with False show ?thesis by (intro ok) (simp_all add: iq_subscribe_def Let_def)
qed (simp add: full iq_subscribe_def)

lemma tsq_new_bounded: "tsq_bounded (tsq_new n b)"
  by (rule tsq_bounded_intros)

lemma iq_wf_empty [wf_intros]: "iq_wf iq_empty"
  by (simp add: iq_wf_def iq_empty_def)

lemma iq_wf_subscribe [wf_intros]:
  assumes "iq_wf iq"
  shows "iq_wf (fst (iq_subscribe n iq sz))"
proof (rule iq_subscribe_cases [OF assms, of n sz])
  assume "iq_max_key iq = - 1" "iq_subscribe n iq sz = (iq, throw Overflow_error ''Too many subscribers!'')"
  then show ?thesis using assms by simp
next
  assume ok: "iq_max_key iq \<noteq> - 1"
    "iq_subscribe n iq sz =
       (iq\<lparr>iq_max_key := iq_max_key iq + 1,
           iq_buffers := iq_buffers iq @ [(iq_max_key iq + 1, tsq_new sz True)]\<rparr>,
        Inr \<lparr>rq_id = iq_max_key iq + 1, rq_queue = Some (n, iq_max_key iq + 1)\<rparr>)"
  have less: "iq_max_key iq < iq_max_key iq + 1"
    using ok(1) by (rule word_less_plus_one)
  moreover have "0 < iq_max_key iq + 1"
    using less by (metis word_gt_0 word_not_simps(1))
  moreover have "iq_max_key iq + 1 \<notin> fst ` set (iq_buffers iq)"
    using assms less by (auto simp: iq_wf_def)
  ultimately show ?thesis
    using assms by (auto simp: ok(2) iq_wf_def tsq_new_bounded)
qed

lemma iq_wf_unsubscribe [wf_intros]: "iq_wf iq \<Longrightarrow> iq_wf (iq_unsubscribe iq rq)"
  by (auto simp: iq_wf_def iq_unsubscribe_def distinct_map_filter)

lemma iq_wf_push [wf_intros]:
  assumes "iq_wf iq"
  shows "iq_wf (fst (iq_push iq m))"
proof -
  let ?bs = "fst (push_buffers (iq_buffers iq) m)"
  have "distinct (map fst ?bs)"
    using assms by (simp only: push_buffers_keys iq_wf_def)
  moreover have "0 < k \<and> k \<le> iq_max_key iq \<and> tsq_bounded q" if "(k, q) \<in> set ?bs" for k q
    using push_buffers_set [OF that] assms
    by (fastforce simp: iq_wf_def intro: tsq_bounded_intros(4))
  ultimately show ?thesis
    by (auto simp: iq_wf_def iq_push_def case_prod_beta)
qed

lemma iq_wf_exit [wf_intros]: "iq_wf iq \<Longrightarrow> iq_wf (iq_exit_blocking_calls iq)"
  by (auto simp: iq_wf_def iq_exit_blocking_calls_def comp_def case_prod_beta
      intro: tsq_bounded_intros(3))

text \<open>What a subscriber sees: pushes in order, from its subscription on.\<close>

definition iq_contents :: "'m internal_queue \<Rightarrow> 64 word \<Rightarrow> 'm list option" where
  "iq_contents iq key = map_option q_items (map_of (iq_buffers iq) key)"

fun iq_push_all :: "'m internal_queue \<Rightarrow> 'm list \<Rightarrow> 'm internal_queue \<times> unit res" where
  "iq_push_all iq [] = (iq, Inr ())"
| "iq_push_all iq (m # ms) =
     (case iq_push iq m of (iq', Inr _) \<Rightarrow> iq_push_all iq' ms | (iq', Inl e) \<Rightarrow> (iq', Inl e))"

lemma push_buffers_map_of:
  "push_buffers bs m = (bs', Inr ()) \<Longrightarrow>
     map_of bs' = (\<lambda>k. map_option (\<lambda>q. q\<lparr>q_items := q_items q @ [m]\<rparr>) (map_of bs k))"
  by (induction bs m arbitrary: bs' rule: push_buffers.induct)
    (fastforce split: sum.splits prod.splits simp: tsq_push_Inr_iff fun_eq_iff)+

lemma iq_push_contents:
  "iq_push iq m = (iq', Inr ()) \<Longrightarrow>
     iq_contents iq' key = map_option (\<lambda>xs. xs @ [m]) (iq_contents iq key)"
  by (auto simp: iq_push_def iq_contents_def option.map_comp comp_def
      split: prod.splits dest!: push_buffers_map_of)

lemma iq_push_all_contents:
  "iq_push_all iq ms = (iq', Inr ()) \<Longrightarrow>
     iq_contents iq' key = map_option (\<lambda>xs. xs @ ms) (iq_contents iq key)"
proof (induction iq ms rule: iq_push_all.induct)
  case (2 iq m ms)
  obtain iq1 r where p: "iq_push iq m = (iq1, r)" by (cases "iq_push iq m")
  with "2.prems" have r: "r = Inr ()" by (cases r) auto
  with p "2.prems" have "iq_push_all iq1 ms = (iq', Inr ())" by simp
  with p r "2.IH" iq_push_contents [of iq m iq1 key]
  show ?case by (simp add: option.map_comp comp_def)
qed (simp add: option.map_ident)

end
