(* ===== verification/Pipeline.thy ===== *)
theory Pipeline
  imports Filtra_Facts Internal_Queue
begin

text \<open>
  pipeline.cpp, the processing thread: a message walks along the filtras of its pipeline,
  following their hops, and ends in the sending queue, in internal queues, or nowhere.
  Other threads enter as parameters: \<open>pe_active\<close> is what the n-th test of \<open>is_active()\<close>
  returns, \<open>pe_clock\<close> what the clock says then.  A hop may lead backwards, so the walk has
  fuel, and \<open>None\<close> is a walk that has not ended; the last section says when enough fuel exists.
\<close>

section \<open>The state of a walk\<close>

record ('j, 'c) pipe_env =
  pe_bridge :: "('j, 'c) bridge"
  pe_active :: "nat \<Rightarrow> bool"
  pe_clock :: "nat \<Rightarrow> int"

record ('j, 'c) pipe =
  p_filtras :: "('j, 'c) filtra list"
  p_queues :: "('j, 'c) message queues"
  p_received :: "('j, 'c) message tsqueue"
  p_events :: "bool tsqueue"
  p_out :: "('j, 'c) wrapper tsqueue"
  p_last_error :: string
  p_checks :: nat

type_synonym ('j, 'c) walk_result = "(('j, 'c) pipe \<times> unit res) option"

definition set_filtra :: "nat \<Rightarrow> ('j, 'c) filtra \<Rightarrow> ('j, 'c) pipe \<Rightarrow> ('j, 'c) pipe" where
  "set_filtra ix f st = st\<lparr>p_filtras := (p_filtras st)[ix := f]\<rparr>"

definition tick :: "('j, 'c) pipe \<Rightarrow> ('j, 'c) pipe" where
  "tick st = st\<lparr>p_checks := Suc (p_checks st)\<rparr>"

text \<open>The first filtra of that name; "out", and a name no filtra has, is the end.\<close>

fun index_of_name :: "string \<Rightarrow> ('j, 'c) filtra list \<Rightarrow> nat" where
  "index_of_name name [] = 0"
| "index_of_name name (f # fs) = (if f_name f = name then 0 else Suc (index_of_name name fs))"

definition find_filtra_index :: "('j, 'c) filtra list \<Rightarrow> string \<Rightarrow> nat" where
  "find_filtra_index fs name = (if name = ''out'' then length fs else index_of_name name fs)"

definition next_index :: "('j, 'c) filtra list \<Rightarrow> string \<Rightarrow> nat \<Rightarrow> nat" where
  "next_index fs hop ix = (if hop \<noteq> [] then find_filtra_index fs hop else Suc ix)"

text \<open>\<open>InternalQueue::redirect\<close> of the working copy to each destination in turn.\<close>

fun redirect_all ::
  "string list \<Rightarrow> ('j, 'c) wrapper \<Rightarrow> ('j, 'c) pipe \<Rightarrow>
     ('j, 'c) pipe \<times> ('j, 'c) wrapper \<times> unit res" where
  "redirect_all [] w st = (st, w, Inr ())"
| "redirect_all (queuid # qs) w st =
     (let w' = wr_touch w; (queues, r) = redirect (p_queues st) (wr_msg w') queuid;
          st' = st\<lparr>p_queues := queues\<rparr>
      in case r of Inl e \<Rightarrow> (st', w', Inl e) | Inr _ \<Rightarrow> redirect_all qs w' st')"

definition push_out :: "('j, 'c) wrapper \<Rightarrow> ('j, 'c) pipe \<Rightarrow> ('j, 'c) pipe \<times> unit res" where
  "push_out w st =
     (if w_passed w then
        (case tsq_push (p_out st) w of
           Inl e \<Rightarrow> (st, Inl e)
         | Inr q \<Rightarrow> (st\<lparr>p_out := q\<rparr>, Inr ()))
      else (st, Inr ()))"

text \<open>The wrapper of a frame is gone when the frame returns.\<close>

definition forget_source :: "nat \<Rightarrow> ('j, 'c) pipe \<Rightarrow> ('j, 'c) pipe" where
  "forget_source ix st =
     (if ix < length (p_filtras st) then
        (case f_kind (p_filtras st ! ix) of
           SplitterFT sp (Source _) \<Rightarrow>
             set_filtra ix ((p_filtras st ! ix)\<lparr>f_kind := SplitterFT sp Dangling\<rparr>) st
         | _ \<Rightarrow> st)
      else st)"

section \<open>Processing a message\<close>

text \<open>
  The body of the loop up to the hop: how the call of the filtra ended.
\<close>

datatype ('j, 'c) step_end = Fault fault | Dropped | Went string "('j, 'c) wrapper"

definition call_filtra ::
  "('j, 'c) pipe_env \<Rightarrow> nat \<Rightarrow> ('j, 'c) wrapper \<Rightarrow> ('j, 'c) pipe \<Rightarrow>
     ('j, 'c) pipe \<times> ('j, 'c) step_end" where
  "call_filtra E ix w st =
     (let (f', r) = filtra_process (pe_bridge E) (pe_clock E (p_checks st)) (p_filtras st ! ix) w;
          st' = set_filtra ix f' (tick st)
      in case r of
           Inr (hop, w') \<Rightarrow> (st', Went hop w')
         | Inl (Undefined m) \<Rightarrow> (st', Fault (Undefined m))
         | Inl (Exn c m) \<Rightarrow>
             if catches Invalid_argument c then (st', Dropped)
             else if catches Std_exception c then (st'\<lparr>p_last_error := m\<rparr>, Dropped)
             else (st', Fault (Exn c m)))"

text \<open>
  One turn of the loop of \<open>process(msg_ptr, filtra_ix)\<close>, given how the loop goes on (\<open>walk\<close>)
  and how the messages a filtra generates after it answered "self" are processed (\<open>split\<close>).
\<close>

definition walk_step ::
  "('j, 'c) pipe_env \<Rightarrow> (('j, 'c) wrapper \<Rightarrow> nat \<Rightarrow> ('j, 'c) pipe \<Rightarrow> ('j, 'c) walk_result) \<Rightarrow>
     (nat \<Rightarrow> nat \<Rightarrow> ('j, 'c) pipe \<Rightarrow> ('j, 'c) walk_result) \<Rightarrow>
     ('j, 'c) wrapper \<Rightarrow> nat \<Rightarrow> ('j, 'c) pipe \<Rightarrow> ('j, 'c) walk_result" where
  "walk_step E walk split w ix st =
     (if ix < length (p_filtras st) \<and> pe_active E (p_checks st) then
        (case call_filtra E ix w st of
           (st1, Fault e) \<Rightarrow> Some (st1, Inl e)
         | (st1, Dropped) \<Rightarrow> Some (st1, Inr ())
         | (st1, Went hop w') \<Rightarrow>
             let f = p_filtras st1 ! ix in
             if hop = ''self'' then
               map_option (\<lambda>(st2, r). (forget_source ix st2, r))
                 (split ix (next_index (p_filtras st1) (f_hop_passed f) ix) st1)
             else if w_passed w' then
               (case redirect_all (f_queues f) w' st1 of
                  (st2, w2, Inl e) \<Rightarrow> Some (st2, Inl e)
                | (st2, w2, Inr _) \<Rightarrow>
                    walk w2 (next_index (p_filtras st1) (f_hop_passed f) ix) st2)
             else if f_hop_rejected f \<noteq> [] then
               walk (wr_pass w') (find_filtra_index (p_filtras st1) (f_hop_rejected f)) st1
             else Some (push_out w' st1))
      else Some (push_out w (if ix < length (p_filtras st) then tick st else st)))"

definition split_step ::
  "('j, 'c) pipe_env \<Rightarrow> (('j, 'c) wrapper \<Rightarrow> nat \<Rightarrow> ('j, 'c) pipe \<Rightarrow> ('j, 'c) walk_result) \<Rightarrow>
     (nat \<Rightarrow> nat \<Rightarrow> ('j, 'c) pipe \<Rightarrow> ('j, 'c) walk_result) \<Rightarrow>
     nat \<Rightarrow> nat \<Rightarrow> ('j, 'c) pipe \<Rightarrow> ('j, 'c) walk_result" where
  "split_step E walk split ix target st =
     (case filtra_generate (pe_bridge E) (p_filtras st ! ix) of
        Inl e \<Rightarrow> Some (st, Inl e)
      | Inr (f, m) \<Rightarrow>
          let st1 = set_filtra ix f st in
          if m_valid m then
            (case walk (wrapper_of (b_json (pe_bridge E)) (message_copy m)) target st1 of
               None \<Rightarrow> None
             | Some (st2, Inl e) \<Rightarrow> Some (st2, Inl e)
             | Some (st2, Inr _) \<Rightarrow> split ix target st2)
          else Some (st1, Inr ()))"

fun walk_from ::
  "('j, 'c) pipe_env \<Rightarrow> nat \<Rightarrow> ('j, 'c) wrapper \<Rightarrow> nat \<Rightarrow> ('j, 'c) pipe \<Rightarrow> ('j, 'c) walk_result"
and split_from ::
  "('j, 'c) pipe_env \<Rightarrow> nat \<Rightarrow> nat \<Rightarrow> nat \<Rightarrow> ('j, 'c) pipe \<Rightarrow> ('j, 'c) walk_result" where
  "walk_from E 0 = (\<lambda>w ix st. None)"
| "walk_from E (Suc n) = walk_step E (walk_from E n) (split_from E n)"
| "split_from E 0 = (\<lambda>ix target st. None)"
| "split_from E (Suc n) = split_step E (walk_from E n) (split_from E n)"

definition pipe_process ::
  "('j, 'c) pipe_env \<Rightarrow> nat \<Rightarrow> ('j, 'c) message \<Rightarrow> nat \<Rightarrow> ('j, 'c) pipe \<Rightarrow> ('j, 'c) walk_result" where
  "pipe_process E fuel m ix st = walk_from E fuel (wrapper_of (b_json (pe_bridge E)) m) ix st"

section \<open>Processing an event\<close>

text \<open>
  \<open>process()\<close>.  Its first loop declares a second \<open>msg\<close>, so the message a filtra generates
  stays in the loop, and the \<open>msg\<close> that is tested after it is the invalid one of line 142.
\<close>

fun first_generated ::
  "('j, 'c) pipe_env \<Rightarrow> nat \<Rightarrow> nat \<Rightarrow> ('j, 'c) pipe \<Rightarrow> (nat \<times> ('j, 'c) pipe) res" where
  "first_generated E 0 ix st = Inr (ix, st)"
| "first_generated E (Suc n) ix st =
     bind_res (filtra_generate (pe_bridge E) (p_filtras st ! ix)) (\<lambda>(f, m).
       if m_valid m then Inr (ix, set_filtra ix f st)
       else first_generated E n (Suc ix) (set_filtra ix f st))"

text \<open>The rest of \<open>process()\<close>, for a message that filtra \<open>ix\<close> generated.\<close>

fun event_chain ::
  "('j, 'c) pipe_env \<Rightarrow> nat \<Rightarrow> nat \<Rightarrow> ('j, 'c) wrapper \<Rightarrow> ('j, 'c) pipe \<Rightarrow>
     ('j, 'c) pipe \<times> unit res" where
  "event_chain E 0 ix w st = push_out w st"
| "event_chain E (Suc n) ix w st =
     (if \<not> w_passed w then push_out w st
      else
        let (f', r) = filtra_process (pe_bridge E) (pe_clock E (p_checks st)) (p_filtras st ! ix) w;
            st' = set_filtra ix f' st
        in case r of
             Inl (Exn c m) \<Rightarrow>
               if catches Std_exception c then (st'\<lparr>p_last_error := m\<rparr>, Inr ())
               else (st', Inl (Exn c m))
           | Inl (Undefined m) \<Rightarrow> (st', Inl (Undefined m))
           | Inr (_, w') \<Rightarrow>
               if w_passed w' then
                 (case redirect_all (f_queues f') w' st' of
                    (st2, w2, Inl e) \<Rightarrow> (st2, Inl e)
                  | (st2, w2, Inr _) \<Rightarrow> event_chain E n (Suc ix) w2 st2)
               else event_chain E n (Suc ix) w' st')"

definition event_message ::
  "('j, 'c) pipe_env \<Rightarrow> ('j, 'c) message \<Rightarrow> nat \<Rightarrow> ('j, 'c) pipe \<Rightarrow> ('j, 'c) pipe \<times> unit res" where
  "event_message E msg ix st =
     (let w = wrapper_of (b_json (pe_bridge E)) msg
      in case redirect_all (f_queues (p_filtras st ! ix)) w st of
           (st2, w2, Inl e) \<Rightarrow> (st2, Inl e)
         | (st2, w2, Inr _) \<Rightarrow> event_chain E (length (p_filtras st) - Suc ix) (Suc ix) w2 st2)"

definition pipe_event :: "('j, 'c) pipe_env \<Rightarrow> ('j, 'c) pipe \<Rightarrow> ('j, 'c) pipe \<times> unit res" where
  "pipe_event E st =
     (case first_generated E (length (p_filtras st)) 0 st of
        Inl e \<Rightarrow> (st, Inl e)
      | Inr (ix, st') \<Rightarrow>
          let msg = message_default (b_json (pe_bridge E)) in
          if m_valid msg then event_message E msg ix st' else (st', Inr ()))"

section \<open>The processing loops\<close>

text \<open>
  \<open>handle_messages\<close> and \<open>handle_events\<close>: both queues are non-blocking, an empty one throws
  \<open>underflow_error\<close>, which ends the loop, as it does when the processing itself throws it.
\<close>

fun handle_messages ::
  "('j, 'c) pipe_env \<Rightarrow> nat \<Rightarrow> ('j, 'c) pipe \<Rightarrow> ('j, 'c) walk_result" where
  "handle_messages E 0 st = None"
| "handle_messages E (Suc n) st =
     (if \<not> pe_active E (p_checks st) then Some (tick st, Inr ())
      else case tsq_pop (p_received st) of
        None \<Rightarrow> None
      | Some (Inl (Exn c m)) \<Rightarrow>
          Some (tick st, if catches Underflow_error c then Inr () else Inl (Exn c m))
      | Some (Inl (Undefined m)) \<Rightarrow> Some (tick st, Inl (Undefined m))
      | Some (Inr (m, q)) \<Rightarrow>
          (case pipe_process E n m 0 ((tick st)\<lparr>p_received := q\<rparr>) of
             None \<Rightarrow> None
           | Some (st', Inl (Exn c t)) \<Rightarrow>
               Some (st', if catches Underflow_error c then Inr () else Inl (Exn c t))
           | Some (st', Inl (Undefined t)) \<Rightarrow> Some (st', Inl (Undefined t))
           | Some (st', Inr _) \<Rightarrow> handle_messages E n st'))"

fun handle_events ::
  "('j, 'c) pipe_env \<Rightarrow> nat \<Rightarrow> ('j, 'c) pipe \<Rightarrow> ('j, 'c) walk_result" where
  "handle_events E 0 st = None"
| "handle_events E (Suc n) st =
     (if \<not> pe_active E (p_checks st) then Some (tick st, Inr ())
      else case tsq_pop (p_events st) of
        None \<Rightarrow> None
      | Some (Inl (Exn c m)) \<Rightarrow>
          Some (tick st, if catches Underflow_error c then Inr () else Inl (Exn c m))
      | Some (Inl (Undefined m)) \<Rightarrow> Some (tick st, Inl (Undefined m))
      | Some (Inr (_, q)) \<Rightarrow>
          (case pipe_event E ((tick st)\<lparr>p_events := q\<rparr>) of
             (st', Inl (Exn c t)) \<Rightarrow>
               Some (st', if catches Underflow_error c then Inr () else Inl (Exn c t))
           | (st', Inl (Undefined t)) \<Rightarrow> Some (st', Inl (Undefined t))
           | (st', Inr _) \<Rightarrow> handle_events E n st'))"

end
