(* ===== verification/Pipeline_Facts.thy ===== *)
theory Pipeline_Facts
  imports Pipeline
begin

text \<open>
  Facts about the processing thread: what no walk changes, what it may add to the sending
  queue, that walks end when every hop leads forwards, and that without hops a walk is the
  chain of the filtras.
\<close>

section \<open>The cases of a turn\<close>

lemma walk_step_cases:
  assumes "walk_step E walk split w ix st = Some r"
  obtains (finish) "\<not> (ix < length (p_filtras st) \<and> pe_active E (p_checks st))"
      "r = push_out w (if ix < length (p_filtras st) then tick st else st)"
  | (fault) st1 e where "ix < length (p_filtras st)" "pe_active E (p_checks st)"
      "call_filtra E ix w st = (st1, Fault e)" "r = (st1, Inl e)"
  | (dropped) st1 where "ix < length (p_filtras st)" "pe_active E (p_checks st)"
      "call_filtra E ix w st = (st1, Dropped)" "r = (st1, Inr ())"
  | (self) st1 w' st2 q where "ix < length (p_filtras st)" "pe_active E (p_checks st)"
      "call_filtra E ix w st = (st1, Went ''self'' w')"
      "split ix (next_index (p_filtras st1) (f_hop_passed (p_filtras st1 ! ix)) ix) st1 =
         Some (st2, q)"
      "r = (forget_source ix st2, q)"
  | (passed_fault) st1 hop w' st2 w2 e where
      "ix < length (p_filtras st)" "pe_active E (p_checks st)"
      "call_filtra E ix w st = (st1, Went hop w')" "hop \<noteq> ''self''" "w_passed w'"
      "redirect_all (f_queues (p_filtras st1 ! ix)) w' st1 = (st2, w2, Inl e)"
      "r = (st2, Inl e)"
  | (passed) st1 hop w' st2 w2 where
      "ix < length (p_filtras st)" "pe_active E (p_checks st)"
      "call_filtra E ix w st = (st1, Went hop w')" "hop \<noteq> ''self''" "w_passed w'"
      "redirect_all (f_queues (p_filtras st1 ! ix)) w' st1 = (st2, w2, Inr ())"
      "walk w2 (next_index (p_filtras st1) (f_hop_passed (p_filtras st1 ! ix)) ix) st2 = Some r"
  | (rejected) st1 hop w' where "ix < length (p_filtras st)" "pe_active E (p_checks st)"
      "call_filtra E ix w st = (st1, Went hop w')" "hop \<noteq> ''self''" "\<not> w_passed w'"
      "f_hop_rejected (p_filtras st1 ! ix) \<noteq> []"
      "walk (wr_pass w')
         (find_filtra_index (p_filtras st1) (f_hop_rejected (p_filtras st1 ! ix))) st1 = Some r"
  | (stopped) st1 hop w' where "ix < length (p_filtras st)" "pe_active E (p_checks st)"
      "call_filtra E ix w st = (st1, Went hop w')" "hop \<noteq> ''self''" "\<not> w_passed w'"
      "f_hop_rejected (p_filtras st1 ! ix) = []" "r = push_out w' st1"
proof (cases "ix < length (p_filtras st) \<and> pe_active E (p_checks st)")
  case False
  then show ?thesis using assms by (intro finish) (auto simp: walk_step_def)
next
  case True
  obtain st1 k where c: "call_filtra E ix w st = (st1, k)" by (cases "call_filtra E ix w st")
  show ?thesis
  proof (cases k)
    case (Fault e)
    then show ?thesis using assms True c by (intro fault [of st1 e]) (auto simp: walk_step_def)
  next
    case Dropped
    then show ?thesis using assms True c by (intro dropped [of st1]) (auto simp: walk_step_def)
  next
    case (Went hop w')
    note c = c [unfolded Went]
    consider "hop = ''self''" | "hop \<noteq> ''self''" "w_passed w'"
      | "hop \<noteq> ''self''" "\<not> w_passed w'" "f_hop_rejected (p_filtras st1 ! ix) \<noteq> []"
      | "hop \<noteq> ''self''" "\<not> w_passed w'" "f_hop_rejected (p_filtras st1 ! ix) = []"
      by blast
    then show ?thesis
    proof cases
      case 1
      then show ?thesis using assms True c self by (auto simp: walk_step_def Let_def)
    next
      case 2
      obtain st2 w2 q where r: "redirect_all (f_queues (p_filtras st1 ! ix)) w' st1 = (st2, w2, q)"
        by (metis prod.collapse)
      show ?thesis
        using assms True c 2 r passed [of st1 hop w' st2 w2] passed_fault [of st1 hop w' st2 w2]
        by (cases q) (auto simp: walk_step_def Let_def)
    next
      case 3
      then show ?thesis using assms True c rejected by (auto simp: walk_step_def Let_def)
    next
      case 4
      then show ?thesis using assms True c stopped by (auto simp: walk_step_def Let_def)
    qed
  qed
qed

lemma split_step_cases:
  assumes "split_step E walk split ix target st = Some r"
  obtains (fault) e where "filtra_generate (pe_bridge E) (p_filtras st ! ix) = Inl e"
      "r = (st, Inl e)"
  | (ended) f m where "filtra_generate (pe_bridge E) (p_filtras st ! ix) = Inr (f, m)"
      "\<not> m_valid m" "r = (set_filtra ix f st, Inr ())"
  | (walk_fault) f m st2 e where
      "filtra_generate (pe_bridge E) (p_filtras st ! ix) = Inr (f, m)" "m_valid m"
      "walk (wrapper_of (b_json (pe_bridge E)) (message_copy m)) target (set_filtra ix f st) =
         Some (st2, Inl e)" "r = (st2, Inl e)"
  | (more) f m st2 where "filtra_generate (pe_bridge E) (p_filtras st ! ix) = Inr (f, m)"
      "m_valid m"
      "walk (wrapper_of (b_json (pe_bridge E)) (message_copy m)) target (set_filtra ix f st) =
         Some (st2, Inr ())" "split ix target st2 = Some r"
  using assms unfolding split_step_def Let_def
  by (auto split: sum.splits prod.splits if_splits option.splits)


section \<open>Relations every walk respects\<close>

definition walk_respects ::
  "('j, 'c) pipe_env \<Rightarrow> (('j, 'c) pipe \<Rightarrow> ('j, 'c) pipe \<Rightarrow> bool) \<Rightarrow> bool" where
  "walk_respects E R \<longleftrightarrow>
     (\<forall>st. R st st) \<and> (\<forall>a b c. R a b \<longrightarrow> R b c \<longrightarrow> R a c) \<and> (\<forall>st. R st (tick st)) \<and>
     (\<forall>ix w st. R st (fst (call_filtra E ix w st))) \<and>
     (\<forall>qs w st. R st (fst (redirect_all qs w st))) \<and>
     (\<forall>w st. R st (fst (push_out w st))) \<and> (\<forall>ix st. R st (forget_source ix st)) \<and>
     (\<forall>ix st f m. filtra_generate (pe_bridge E) (p_filtras st ! ix) = Inr (f, m) \<longrightarrow>
        R st (set_filtra ix f st))"

lemma walk_respectsD:
  assumes "walk_respects E R"
  shows "R st st" and "R a b \<Longrightarrow> R b c \<Longrightarrow> R a c" and "R st (tick st)"
    and "call_filtra E ix w st = (st1, k) \<Longrightarrow> R st st1"
    and "redirect_all qs w st = (st1, x) \<Longrightarrow> R st st1"
    and "R st (fst (push_out w st))" and "R st (forget_source ix st)"
    and "filtra_generate (pe_bridge E) (p_filtras st ! ix) = Inr (f, m) \<Longrightarrow>
      R st (set_filtra ix f st)"
  using assms unfolding walk_respects_def by (blast, blast, blast, metis fst_conv, metis fst_conv, blast+)

lemma walk_split_rel:
  assumes R: "walk_respects E R"
  shows "(\<forall>w ix st r. walk_from E n w ix st = Some r \<longrightarrow> R st (fst r)) \<and>
    (\<forall>ix t st r. split_from E n ix t st = Some r \<longrightarrow> R st (fst r))"
proof (induction n)
  case (Suc n)
  note trans = walk_respectsD(2) [OF R] and call = walk_respectsD(4) [OF R]
    and redirect = walk_respectsD(5) [OF R] and push = walk_respectsD(6) [OF R]
    and gen = walk_respectsD(8) [OF R]
  have W: "walk_from E n w ix st = Some r \<Longrightarrow> R st (fst r)"
    and S: "split_from E n ix t st = Some r \<Longrightarrow> R st (fst r)" for w ix t st r
    using Suc.IH by blast+
  show ?case
  proof (intro conjI allI impI)
    fix w ix st r
    assume "walk_from E (Suc n) w ix st = Some r"
    then have "walk_step E (walk_from E n) (split_from E n) w ix st = Some r" by simp
    then show "R st (fst r)"
    proof (cases rule: walk_step_cases)
      case finish
      then show ?thesis
        using trans [OF walk_respectsD(3) [OF R] push] push by simp
    next
      case (fault st1 e)
      then show ?thesis using call by simp
    next
      case (dropped st1)
      then show ?thesis using call by simp
    next
      case (self st1 w' st2 q)
      then have "R st1 st2" using S by fastforce
      then show ?thesis
        using trans [OF call [OF self(3)]] trans [OF _ walk_respectsD(7) [OF R]] self(5) by simp
    next
      case (passed_fault st1 hop w' st2 w2 e)
      then show ?thesis using trans [OF call redirect] by simp
    next
      case (passed st1 hop w' st2 w2)
      then show ?thesis using trans [OF trans [OF call redirect] W] by simp
    next
      case (rejected st1 hop w')
      then show ?thesis using trans [OF call W] by simp
    next
      case (stopped st1 hop w')
      then show ?thesis using trans [OF call push] by simp
    qed
  next
    fix ix t st r
    assume "split_from E (Suc n) ix t st = Some r"
    then have "split_step E (walk_from E n) (split_from E n) ix t st = Some r" by simp
    then show "R st (fst r)"
    proof (cases rule: split_step_cases)
      case (fault e)
      then show ?thesis using walk_respectsD(1) [OF R] by simp
    next
      case (ended f m)
      then show ?thesis using gen by simp
    next
      case (walk_fault f m st2 e)
      then show ?thesis using trans [OF gen W] by fastforce
    next
      case (more f m st2)
      have "R (set_filtra ix f st) st2" using W [OF more(3)] by simp
      then show ?thesis using trans [OF trans [OF gen [OF more(1)]] S [OF more(4)]] by simp
    qed
  qed
qed simp

text \<open>The configuration of the filtras stays; only what their kind remembers changes.\<close>

definition same_filtras :: "('j, 'c) pipe \<Rightarrow> ('j, 'c) pipe \<Rightarrow> bool" where
  "same_filtras st st' \<longleftrightarrow> list_all2 same_config (p_filtras st) (p_filtras st')"

lemma same_config_trans: "same_config f g \<Longrightarrow> same_config g h \<Longrightarrow> same_config f h"
  unfolding same_config_def by (metis filtra.surjective filtra.update_convs(8) filtra.select_convs)

lemma same_filtras_refl [simp]: "same_filtras st st"
  by (simp add: same_filtras_def list_all2_refl)

lemma same_filtras_trans: "same_filtras a b \<Longrightarrow> same_filtras b c \<Longrightarrow> same_filtras a c"
  unfolding same_filtras_def by (rule list_all2_trans) (auto intro: same_config_trans)

lemma same_filtras_set:
  "same_config (p_filtras st ! ix) f \<Longrightarrow> same_filtras st (set_filtra ix f st)"
  unfolding same_filtras_def set_filtra_def
  by (cases "ix < length (p_filtras st)")
    (auto simp: list_all2_conv_all_nth nth_list_update)

lemma filtra_generate_same: "filtra_generate B f = Inr (f', m) \<Longrightarrow> same_config f f'"
  by (auto simp: filtra_generate_def bind_res_Inr_iff split: filtra_kind.splits)

lemma call_filtra_shape:
  assumes "call_filtra E ix w st = (st1, k)"
  shows "\<exists>f err. same_config (p_filtras st ! ix) f \<and>
    st1 = (set_filtra ix f (tick st))\<lparr>p_last_error := err\<rparr>"
proof -
  obtain f r where p: "filtra_process (pe_bridge E) (pe_clock E (p_checks st)) (p_filtras st ! ix) w
    = (f, r)" by (cases "filtra_process (pe_bridge E) (pe_clock E (p_checks st)) (p_filtras st ! ix) w")
  have "st1 = set_filtra ix f (tick st) \<or> (\<exists>err. st1 = (set_filtra ix f (tick st))\<lparr>p_last_error := err\<rparr>)"
    using assms p
    by (auto simp: call_filtra_def Let_def split: sum.splits fault.splits if_splits prod.splits)
  moreover have "set_filtra ix f (tick st) =
      (set_filtra ix f (tick st))\<lparr>p_last_error := p_last_error (set_filtra ix f (tick st))\<rparr>"
    by simp
  ultimately show ?thesis
    using filtra.keeps_config [OF p] by blast
qed

lemma redirect_all_shape:
  "redirect_all qs w st = (st1, w1, r) \<Longrightarrow>
     \<exists>queues. st1 = st\<lparr>p_queues := queues\<rparr> \<and> w_passed w1 = w_passed w \<and> w_orig w1 = w_orig w"
proof (induction qs w st arbitrary: st1 w1 r rule: redirect_all.induct)
  case (1 w st)
  then show ?case by (auto intro: exI [of _ "p_queues st"])
next
  case (2 queuid qs w st)
  obtain queues q where rd: "redirect (p_queues st) (wr_msg (wr_touch w)) queuid = (queues, q)"
    by (cases "redirect (p_queues st) (wr_msg (wr_touch w)) queuid")
  show ?case
  proof (cases q)
    case (Inl e)
    then show ?thesis using "2.prems" rd by (auto simp: Let_def)
  next
    case (Inr u)
    then have "redirect_all qs (wr_touch w) (st\<lparr>p_queues := queues\<rparr>) = (st1, w1, r)"
      using "2.prems" rd by (simp add: Let_def)
    from "2.IH" [OF refl rd [symmetric] refl refl Inr this] show ?thesis by auto
  qed
qed

lemma push_out_shape:
  "\<exists>ws. fst (push_out w st) = st\<lparr>p_out := (p_out st)\<lparr>q_items := q_items (p_out st) @ ws\<rparr>\<rparr> \<and>
     (\<forall>v \<in> set ws. w_passed v)"
proof (cases "w_passed w \<and> tsq_room (p_out st)")
  case True
  then have "tsq_push (p_out st) w = Inr ((p_out st)\<lparr>q_items := q_items (p_out st) @ [w]\<rparr>)"
    by (simp add: tsq_push_Inr_iff)
  then show ?thesis using True by (intro exI [of _ "[w]"]) (simp add: push_out_def)
next
  case False
  then have "fst (push_out w st) = st"
    using tsq_push_full [of "p_out st" w] by (auto simp: push_out_def split: sum.splits dest: tsq_push_Inr_iff [THEN iffD1])
  then show ?thesis by (intro exI [of _ "[]"]) simp
qed

lemma forget_source_shape:
  "\<exists>f. same_config (p_filtras st ! ix) f \<and> forget_source ix st = set_filtra ix f st"
proof (cases "\<exists>sp v. ix < length (p_filtras st) \<and>
    f_kind (p_filtras st ! ix) = SplitterFT sp (Source v)")
  case True
  then obtain sp v where "ix < length (p_filtras st)"
    "f_kind (p_filtras st ! ix) = SplitterFT sp (Source v)" by blast
  then show ?thesis
    by (intro exI [of _ "(p_filtras st ! ix)\<lparr>f_kind := SplitterFT sp Dangling\<rparr>"])
      (simp add: forget_source_def)
next
  case False
  then have "forget_source ix st = st"
    unfolding forget_source_def by (simp split: filtra_kind.split split_source.split)
  then show ?thesis
    by (intro exI [of _ "p_filtras st ! ix"]) (simp add: set_filtra_def)
qed

lemma respects_same_filtras: "walk_respects (E :: ('j, 'c) pipe_env) same_filtras"
  unfolding walk_respects_def
proof (intro conjI allI impI)
  fix st :: "('j, 'c) pipe" and ix w
  show "same_filtras st (tick st)"
    by (simp add: tick_def same_filtras_def list_all2_refl)
  obtain st1 k where c: "call_filtra E ix w st = (st1, k)" by (cases "call_filtra E ix w st")
  obtain f err where f: "same_config (p_filtras st ! ix) f"
    "st1 = (set_filtra ix f (tick st))\<lparr>p_last_error := err\<rparr>"
    using call_filtra_shape [OF c] by blast
  then show "same_filtras st (fst (call_filtra E ix w st))"
    using same_filtras_set [of st ix f] c by (simp add: same_filtras_def set_filtra_def tick_def)
  show "same_filtras st (fst (push_out w st))"
    using push_out_shape [of w st] by (auto simp: same_filtras_def list_all2_refl)
  show "same_filtras st (forget_source ix st)"
    using forget_source_shape [of st ix] same_filtras_set by metis
next
  fix qs w and st :: "('j, 'c) pipe"
  obtain st1 w1 q where r: "redirect_all qs w st = (st1, w1, q)" by (metis prod.collapse)
  show "same_filtras st (fst (redirect_all qs w st))"
    using redirect_all_shape [OF r] r by (auto simp: same_filtras_def list_all2_refl)
qed (auto intro: same_filtras_trans same_filtras_set filtra_generate_same)

lemmas walk_same_filtras = walk_split_rel [OF respects_same_filtras, THEN conjunct1, rule_format]
  and split_same_filtras = walk_split_rel [OF respects_same_filtras, THEN conjunct2, rule_format]

text \<open>The sending queue only grows, by wrappers that passed.\<close>

definition sends_passed :: "('j, 'c) pipe \<Rightarrow> ('j, 'c) pipe \<Rightarrow> bool" where
  "sends_passed st st' \<longleftrightarrow>
     (\<exists>ws. p_out st' = (p_out st)\<lparr>q_items := q_items (p_out st) @ ws\<rparr> \<and> (\<forall>v \<in> set ws. w_passed v))"

lemma sends_passed_same_out: "p_out st' = p_out st \<Longrightarrow> sends_passed st st'"
  unfolding sends_passed_def by (intro exI [of _ "[]"]) simp

lemma respects_sends_passed: "walk_respects (E :: ('j, 'c) pipe_env) sends_passed"
  unfolding walk_respects_def
proof (intro conjI allI impI)
  fix a b c :: "('j, 'c) pipe"
  assume "sends_passed a b" "sends_passed b c"
  then show "sends_passed a c" unfolding sends_passed_def by fastforce
next
  fix st :: "('j, 'c) pipe" and ix w
  obtain st1 k where c: "call_filtra E ix w st = (st1, k)" by (cases "call_filtra E ix w st")
  show "sends_passed st (fst (call_filtra E ix w st))"
    using call_filtra_shape [OF c] c
    by (auto intro!: sends_passed_same_out simp: set_filtra_def tick_def)
  show "sends_passed st (fst (push_out w st))"
    using push_out_shape [of w st] by (auto simp: sends_passed_def)
  show "sends_passed st (forget_source ix st)"
    using forget_source_shape [of st ix]
    by (auto intro!: sends_passed_same_out simp: set_filtra_def)
next
  fix qs w and st :: "('j, 'c) pipe"
  obtain st1 w1 q where r: "redirect_all qs w st = (st1, w1, q)" by (metis prod.collapse)
  show "sends_passed st (fst (redirect_all qs w st))"
    using redirect_all_shape [OF r] r by (auto intro!: sends_passed_same_out)
qed (auto intro!: sends_passed_same_out simp: tick_def set_filtra_def)

lemmas walk_sends_passed = walk_split_rel [OF respects_sends_passed, THEN conjunct1, rule_format]

section \<open>Fuel\<close>

text \<open>A walk that has ended ends the same way with more fuel.\<close>

definition le_walk :: "('a \<Rightarrow> 'b \<Rightarrow> 'd \<Rightarrow> 'r option) \<Rightarrow> ('a \<Rightarrow> 'b \<Rightarrow> 'd \<Rightarrow> 'r option) \<Rightarrow> bool" where
  "le_walk f g \<longleftrightarrow> (\<forall>a b c r. f a b c = Some r \<longrightarrow> g a b c = Some r)"

lemma walk_step_mono:
  assumes "le_walk walk walk'" "le_walk split split'"
  shows "le_walk (walk_step E walk split) (walk_step E walk' split')"
  unfolding le_walk_def
proof (intro allI impI)
  fix w ix st r
  assume a: "walk_step E walk split w ix st = Some r"
  have W: "walk u i s = Some q \<Longrightarrow> walk' u i s = Some q" for u i s q
    using assms(1) unfolding le_walk_def by blast
  have S: "split i t s = Some q \<Longrightarrow> split' i t s = Some q" for i t s q
    using assms(2) unfolding le_walk_def by blast
  from a show "walk_step E walk' split' w ix st = Some r"
    by (cases rule: walk_step_cases) (auto simp: walk_step_def Let_def dest: W S)
qed

lemma split_step_mono:
  assumes "le_walk walk walk'" "le_walk split split'"
  shows "le_walk (split_step E walk split) (split_step E walk' split')"
  unfolding le_walk_def
proof (intro allI impI)
  fix ix t st r
  assume a: "split_step E walk split ix t st = Some r"
  have W: "walk u i s = Some q \<Longrightarrow> walk' u i s = Some q" for u i s q
    using assms(1) unfolding le_walk_def by blast
  have S: "split i t s = Some q \<Longrightarrow> split' i t s = Some q" for i t s q
    using assms(2) unfolding le_walk_def by blast
  from a show "split_step E walk' split' ix t st = Some r"
  proof (cases rule: split_step_cases)
    case (walk_fault f m st2 e)
    then show ?thesis using W [OF walk_fault(3)] by (simp add: split_step_def Let_def)
  next
    case (more f m st2)
    then show ?thesis using W [OF more(3)] S [OF more(4)] by (simp add: split_step_def Let_def)
  qed (auto simp: split_step_def Let_def)
qed

lemma fuel_Suc: "le_walk (walk_from E n) (walk_from E (Suc n)) \<and>
    le_walk (split_from E n) (split_from E (Suc n))"
proof (induction n)
  case 0
  show ?case by (simp add: le_walk_def)
next
  case (Suc n)
  then show ?case by (metis split_step_mono walk_from.simps(2) split_from.simps(2) walk_step_mono)
qed

lemma le_walk_trans: "le_walk f g \<Longrightarrow> le_walk g h \<Longrightarrow> le_walk f h"
  by (simp add: le_walk_def)

lemma fuel_mono:
  assumes "n \<le> m"
  shows "le_walk (walk_from E n) (walk_from E m) \<and> le_walk (split_from E n) (split_from E m)"
  using assms
proof (induction m rule: dec_induct)
  case base
  show ?case by (simp add: le_walk_def)
next
  case (step k)
  then show ?case using fuel_Suc [of E k] by (auto intro: le_walk_trans)
qed

lemma walk_more_fuel: "walk_from E n w ix st = Some r \<Longrightarrow> n \<le> m \<Longrightarrow> walk_from E m w ix st = Some r"
  and split_more_fuel: "split_from E n ix t st = Some r \<Longrightarrow> n \<le> m \<Longrightarrow> split_from E m ix t st = Some r"
  using fuel_mono [of n m E] unfolding le_walk_def by blast+

section \<open>Walks that only go forwards end\<close>

definition forward_only :: "('j, 'c) filtra list \<Rightarrow> bool" where
  "forward_only fs \<longleftrightarrow>
     (\<forall>ix < length fs. ix < next_index fs (f_hop_passed (fs ! ix)) ix \<and>
        (f_hop_rejected (fs ! ix) \<noteq> [] \<longrightarrow> ix < find_filtra_index fs (f_hop_rejected (fs ! ix))))"

lemma same_config_fields:
  "same_config f g \<Longrightarrow> f_name g = f_name f \<and> f_hop_passed g = f_hop_passed f \<and>
     f_hop_rejected g = f_hop_rejected f \<and> f_queues g = f_queues f"
  unfolding same_config_def by (metis filtra.select_convs filtra.surjective filtra.update_convs(8))

lemma same_config_index:
  "list_all2 same_config fs gs \<Longrightarrow> index_of_name name gs = index_of_name name fs"
  by (induction rule: list_all2_induct) (auto dest: same_config_fields)

lemma same_find:
  assumes "list_all2 same_config fs gs"
  shows "find_filtra_index gs = find_filtra_index fs" and "next_index gs = next_index fs"
  using same_config_index [OF assms] list_all2_lengthD [OF assms]
  by (auto simp: find_filtra_index_def next_index_def fun_eq_iff)

lemma same_forward:
  assumes "list_all2 same_config fs gs" and "forward_only fs"
  shows "forward_only gs"
  unfolding forward_only_def
proof (intro allI impI)
  fix ix assume "ix < length gs"
  then have ix: "ix < length fs" using list_all2_lengthD [OF assms(1)] by simp
  from same_config_fields [OF list_all2_nthD [OF assms(1) ix]] assms(2) ix same_find [OF assms(1)]
  show "ix < next_index gs (f_hop_passed (gs ! ix)) ix \<and>
    (f_hop_rejected (gs ! ix) \<noteq> [] \<longrightarrow> ix < find_filtra_index gs (f_hop_rejected (gs ! ix)))"
    by (simp add: forward_only_def)
qed

text \<open>A forward walk leaves the filtras before its start as they are.\<close>

definition same_before :: "nat \<Rightarrow> ('j, 'c) pipe \<Rightarrow> ('j, 'c) pipe \<Rightarrow> bool" where
  "same_before ix st st' \<longleftrightarrow> take ix (p_filtras st') = take ix (p_filtras st)"

lemma same_before_le: "same_before b st st' \<Longrightarrow> a \<le> b \<Longrightarrow> same_before a st st'"
  unfolding same_before_def by (metis min.absorb1 take_take)

lemma same_before_trans: "same_before a x y \<Longrightarrow> same_before a y z \<Longrightarrow> same_before a x z"
  by (simp add: same_before_def)

lemma same_before_set: "ix \<le> i \<Longrightarrow> same_before ix st (set_filtra i f st)"
  by (simp add: same_before_def set_filtra_def)

lemma same_before_call: "call_filtra E i w st = (st1, k) \<Longrightarrow> ix \<le> i \<Longrightarrow> same_before ix st st1"
  using call_filtra_shape [of E i w st st1 k]
  by (auto simp: same_before_def set_filtra_def tick_def)

lemma same_before_redirect: "redirect_all qs w st = (st1, w1, r) \<Longrightarrow> same_before ix st st1"
  using redirect_all_shape [of qs w st st1 w1 r] by (auto simp: same_before_def)

lemma same_before_push: "same_before ix st (fst (push_out w st))"
  using push_out_shape [of w st] by (auto simp: same_before_def)

lemma same_before_forget: "ix \<le> i \<Longrightarrow> same_before ix st (forget_source i st)"
  using forget_source_shape [of st i] same_before_set by metis

lemma call_same: "call_filtra E ix w st = (st1, k) \<Longrightarrow> same_filtras st st1"
  using walk_respectsD(4) [OF respects_same_filtras] by blast

lemma redirect_same: "redirect_all qs w st = (st1, x) \<Longrightarrow> same_filtras st st1"
  using walk_respectsD(5) [OF respects_same_filtras] by blast

lemma same_filtras_simps:
  assumes "same_filtras st st'"
  shows "length (p_filtras st') = length (p_filtras st)"
    and "forward_only (p_filtras st) \<Longrightarrow> forward_only (p_filtras st')"
  using assms unfolding same_filtras_def
  by (auto dest: list_all2_lengthD same_forward)

lemma forward_before:
  "(\<forall>w ix st r. forward_only (p_filtras st) \<longrightarrow> walk_from E n w ix st = Some r \<longrightarrow>
      same_before ix st (fst r)) \<and>
   (\<forall>ix t st r. forward_only (p_filtras st) \<longrightarrow> ix < t \<longrightarrow> split_from E n ix t st = Some r \<longrightarrow>
      same_before ix st (fst r))"
proof (induction n)
  case (Suc n)
  have W: "forward_only (p_filtras st) \<Longrightarrow> walk_from E n w i st = Some r \<Longrightarrow> ix \<le> i \<Longrightarrow>
      same_before ix st (fst r)"
    and S: "forward_only (p_filtras st) \<Longrightarrow> i < t \<Longrightarrow> split_from E n i t st = Some r \<Longrightarrow>
      ix \<le> i \<Longrightarrow> same_before ix st (fst r)" for w i ix t st r
    using Suc.IH same_before_le by blast+
  show ?case
  proof (intro conjI allI impI)
    fix w ix st r
    assume fw: "forward_only (p_filtras st)" and "walk_from E (Suc n) w ix st = Some r"
    then have "walk_step E (walk_from E n) (split_from E n) w ix st = Some r" by simp
    then show "same_before ix st (fst r)"
    proof (cases rule: walk_step_cases)
      case finish
      then show ?thesis
        using same_before_push [of ix st w] same_before_push [of ix "tick st" w]
        by (auto simp: same_before_def tick_def)
    next
      case (fault st1 e)
      then show ?thesis using same_before_call by fastforce
    next
      case (dropped st1)
      then show ?thesis using same_before_call by fastforce
    next
      case (self st1 w' st2 q)
      note s1 = same_filtras_simps [OF call_same [OF self(3)]]
      have "ix < next_index (p_filtras st1) (f_hop_passed (p_filtras st1 ! ix)) ix"
        using s1 fw self(1) by (auto simp: forward_only_def)
      then have "same_before ix st1 st2" using S [OF s1(2) [OF fw] _ self(4)] by simp
      then show ?thesis
        using same_before_trans [OF same_before_trans [OF same_before_call [OF self(3)]]]
          same_before_forget [of ix ix st2] self(5) by simp
    next
      case (passed_fault st1 hop w' st2 w2 e)
      then show ?thesis
        using same_before_trans [OF same_before_call [OF passed_fault(3) order_refl]
            same_before_redirect [OF passed_fault(6)]] by simp
    next
      case (passed st1 hop w' st2 w2)
      note s1 = same_filtras_simps [OF call_same [OF passed(3)]]
      note s2 = same_filtras_simps [OF redirect_same [OF passed(6)]]
      have "ix < next_index (p_filtras st1) (f_hop_passed (p_filtras st1 ! ix)) ix"
        using s1 fw passed(1) by (auto simp: forward_only_def)
      then have "same_before ix st2 (fst r)"
        using W [OF s2(2) [OF s1(2) [OF fw]] passed(7)] by simp
      then show ?thesis
        using same_before_trans [OF same_before_trans [OF same_before_call [OF passed(3)]
            same_before_redirect [OF passed(6)]]] by simp
    next
      case (rejected st1 hop w')
      note s1 = same_filtras_simps [OF call_same [OF rejected(3)]]
      have "ix < find_filtra_index (p_filtras st1) (f_hop_rejected (p_filtras st1 ! ix))"
        using s1 fw rejected(1,6) by (auto simp: forward_only_def)
      then have "same_before ix st1 (fst r)"
        using W [OF s1(2) [OF fw] rejected(7)] by simp
      then show ?thesis using same_before_trans [OF same_before_call [OF rejected(3)]] by simp
    next
      case (stopped st1 hop w')
      then show ?thesis
        using same_before_trans [OF same_before_call [OF stopped(3) order_refl] same_before_push]
        by simp
    qed
  next
    fix ix t st r
    assume fw: "forward_only (p_filtras st)" and t: "ix < t"
      and "split_from E (Suc n) ix t st = Some r"
    then have "split_step E (walk_from E n) (split_from E n) ix t st = Some r" by simp
    then show "same_before ix st (fst r)"
    proof (cases rule: split_step_cases)
      case (fault e)
      then show ?thesis by (simp add: same_before_def)
    next
      case (ended f m)
      then show ?thesis by (simp add: same_before_set)
    next
      case (walk_fault f m st2 e)
      have "forward_only (p_filtras (set_filtra ix f st))"
        using same_filtras_simps(2) [OF same_filtras_set [OF filtra_generate_same [OF walk_fault(1)]]] fw
        by simp
      then have "same_before ix (set_filtra ix f st) st2"
        using W [OF _ walk_fault(3), of ix] t by simp
      then show ?thesis
        using same_before_trans [OF same_before_set [of ix ix]] walk_fault(4) by simp
    next
      case (more f m st2)
      have f1: "forward_only (p_filtras (set_filtra ix f st))"
        using same_filtras_simps(2) [OF same_filtras_set [OF filtra_generate_same [OF more(1)]]] fw
        by simp
      have b1: "same_before ix (set_filtra ix f st) st2"
        using W [OF f1 more(3), of ix] t by simp
      have "forward_only (p_filtras st2)"
        using same_filtras_simps(2) [OF walk_same_filtras [OF more(3)]] f1 by simp
      then have "same_before ix st2 (fst r)" using S [OF _ t more(4)] by simp
      then show ?thesis
        using same_before_trans [OF same_before_trans [OF same_before_set b1]] by blast
    qed
  qed
qed simp

text \<open>What is left of the counter of a splitter decreases with each message it makes.\<close>

fun split_measure :: "('j, 'c) filtra_kind \<Rightarrow> nat" where
  "split_measure (SplitterFT sp src) = unat (- 1 - sp_counter sp)"
| "split_measure _ = 0"

lemma unat_pred_less: "x \<noteq> (0 :: 64 word) \<Longrightarrow> unat (x - 1) < unat x"
  by (metis measure_unat)

lemma generate_measure:
  assumes "filtra_generate B f = Inr (f', m)" and "m_valid m"
  shows "split_measure (f_kind f') < split_measure (f_kind f)"
proof (cases "f_kind f")
  case (SplitterFT sp src)
  have "sp_counter sp \<noteq> - 1" and
    "\<exists>src'. f_kind f' = SplitterFT (sp\<lparr>sp_counter := sp_counter sp + 1\<rparr>) src'"
    using assms SplitterFT
    by (auto simp: filtra_generate_def splitter_generate_def bind_res_Inr_iff Let_def
        split: split_source.splits if_splits)
  moreover have "unat (- 1 - sp_counter sp - 1) < unat (- 1 - sp_counter sp)"
    if "sp_counter sp \<noteq> - 1"
    using that by (intro unat_pred_less) simp
  ultimately show ?thesis using SplitterFT by (auto simp: algebra_simps)
qed (use assms in \<open>auto simp: filtra_generate_def\<close>)

lemma same_before_nth:
  "same_before (Suc ix) st st' \<Longrightarrow> length (p_filtras st') = length (p_filtras st) \<Longrightarrow>
     p_filtras st' ! ix = p_filtras st ! ix"
  unfolding same_before_def by (metis lessI nth_take)

lemma split_ends:
  assumes ends: "\<And>w st. forward_only (p_filtras st) \<Longrightarrow> length (p_filtras st) = len \<Longrightarrow>
      \<exists>n r. walk_from E n w t st = Some r"
    and t: "ix < t"
  shows "forward_only (p_filtras st) \<Longrightarrow> length (p_filtras st) = len \<Longrightarrow> ix < len \<Longrightarrow>
      \<exists>n r. split_from E n ix t st = Some r"
proof (induction "split_measure (f_kind (p_filtras st ! ix))" arbitrary: st rule: less_induct)
  case less
  show ?case
  proof (cases "filtra_generate (pe_bridge E) (p_filtras st ! ix)")
    case (Inl e)
    then have "split_from E (Suc 0) ix t st = Some (st, Inl e)"
      by (simp add: split_step_def)
    then show ?thesis by blast
  next
    case (Inr fm)
    obtain f m where g: "filtra_generate (pe_bridge E) (p_filtras st ! ix) = Inr (f, m)"
      using Inr by (cases fm) auto
    define st1 where "st1 = set_filtra ix f st"
    note same1 = same_filtras_simps [OF same_filtras_set [OF filtra_generate_same [OF g]]]
    have len1: "length (p_filtras st1) = len" and fw1: "forward_only (p_filtras st1)"
      using same1 less.prems by (simp_all add: st1_def)
    have nth1: "p_filtras st1 ! ix = f"
      using less.prems by (simp add: st1_def set_filtra_def)
    show ?thesis
    proof (cases "m_valid m")
      case False
      then have "split_from E (Suc 0) ix t st = Some (st1, Inr ())"
        using g by (simp add: split_step_def st1_def)
      then show ?thesis by blast
    next
      case True
      obtain n1 r1 where w: "walk_from E n1 (wrapper_of (b_json (pe_bridge E)) (message_copy m))
          t st1 = Some r1"
        using ends [OF fw1 len1] by blast
      obtain st2 q where r1: "r1 = (st2, q)" by (cases r1)
      show ?thesis
      proof (cases q)
        case (Inl e)
        then have "split_from E (Suc n1) ix t st = Some (st2, Inl e)"
          using g True w r1 by (simp add: split_step_def st1_def)
        then show ?thesis by blast
      next
        case q: (Inr u)
        note same2 = same_filtras_simps [OF walk_same_filtras [OF w], unfolded r1 fst_conv]
        have "same_before (Suc ix) st1 st2"
          using forward_before [of E n1] fw1 w r1 same_before_le [of t st1 st2 "Suc ix"] t
          by fastforce
        then have "p_filtras st2 ! ix = f"
          using same_before_nth same2(1) nth1 by metis
        then have "split_measure (f_kind (p_filtras st2 ! ix)) <
            split_measure (f_kind (p_filtras st ! ix))"
          using generate_measure [OF g True] by simp
        then obtain n2 r where s: "split_from E n2 ix t st2 = Some r"
          using less.hyps [of st2] same2 len1 fw1 less.prems(3) by auto
        have "split_from E (Suc (max n1 n2)) ix t st = Some r"
          using g True r1 q walk_more_fuel [OF w, of "max n1 n2"]
            split_more_fuel [OF s, of "max n1 n2"]
          by (simp add: split_step_def st1_def)
        then show ?thesis by blast
      qed
    qed
  qed
qed

lemma walk_ends:
  fixes st :: "('j, 'c) pipe"
  shows "forward_only (p_filtras st) \<Longrightarrow> \<exists>n r. walk_from E n w ix st = Some r"
proof (induction "length (p_filtras st) - ix" arbitrary: w ix st rule: less_induct)
  case less
  show ?case
  proof (cases "ix < length (p_filtras st) \<and> pe_active E (p_checks st)")
    case False
    have "walk_from E (Suc 0) w ix st \<noteq> None" using False by (auto simp: walk_step_def)
    then show ?thesis by blast
  next
    case True
    obtain st1 k where c: "call_filtra E ix w st = (st1, k)" by (cases "call_filtra E ix w st")
    note s1 = same_filtras_simps [OF call_same [OF c]]
    have fw1: "forward_only (p_filtras st1)" using s1 less.prems by simp
    show ?thesis
    proof (cases k)
      case (Went hop w')
      let ?f = "p_filtras st1 ! ix"
      let ?next = "next_index (p_filtras st1) (f_hop_passed ?f) ix"
      have nx: "ix < ?next" using fw1 True s1 by (simp add: forward_only_def)
      consider "hop = ''self''" | "hop \<noteq> ''self''" "w_passed w'"
        | "hop \<noteq> ''self''" "\<not> w_passed w'" "f_hop_rejected ?f \<noteq> []"
        | "hop \<noteq> ''self''" "\<not> w_passed w'" "f_hop_rejected ?f = []" by blast
      then show ?thesis
      proof cases
        case 1
        have "\<exists>n r. split_from E n ix ?next st1 = Some r"
        proof (rule split_ends [where len = "length (p_filtras st)"])
          fix u and s :: "('j, 'c) pipe"
          assume s: "forward_only (p_filtras s)"
            "length (p_filtras s) = length (p_filtras st)"
          have "length (p_filtras s) - ?next < length (p_filtras st) - ix"
            using s(2) True nx by linarith
          then show "\<exists>n r. walk_from E n u ?next s = Some r"
            using s less.hyps by blast
        qed (use nx fw1 s1 True in simp_all)
        then obtain n r where "split_from E n ix ?next st1 = Some r" by blast
        then have "walk_from E (Suc n) w ix st \<noteq> None"
          using True c Went 1 by (simp add: walk_step_def Let_def)
        then show ?thesis by blast
      next
        case 2
        obtain st2 w2 q where rd: "redirect_all (f_queues ?f) w' st1 = (st2, w2, q)"
          by (metis prod.collapse)
        note s2 = same_filtras_simps [OF redirect_same [OF rd]]
        show ?thesis
        proof (cases q)
          case (Inl e)
          then have "walk_from E (Suc 0) w ix st \<noteq> None"
            using True c Went 2 rd by (simp add: walk_step_def Let_def)
          then show ?thesis by blast
        next
          case (Inr u)
          have "length (p_filtras st2) - ?next < length (p_filtras st) - ix"
            using s1(1) s2(1) True nx by linarith
          then obtain n r where "walk_from E n w2 ?next st2 = Some r"
            using less.hyps [of st2 ?next w2] s2 fw1 by blast
          then have "walk_from E (Suc n) w ix st \<noteq> None"
            using True c Went 2 rd Inr by (simp add: walk_step_def Let_def)
          then show ?thesis by blast
        qed
      next
        case 3
        let ?rej = "find_filtra_index (p_filtras st1) (f_hop_rejected ?f)"
        have "ix < ?rej" using 3 fw1 True s1 by (simp add: forward_only_def)
        then have "length (p_filtras st1) - ?rej < length (p_filtras st) - ix"
          using s1(1) True by linarith
        then obtain n r where "walk_from E n (wr_pass w') ?rej st1 = Some r"
          using less.hyps [of st1 ?rej "wr_pass w'"] fw1 by blast
        then have "walk_from E (Suc n) w ix st \<noteq> None"
          using True c Went 3 by (simp add: walk_step_def Let_def)
        then show ?thesis by blast
      next
        case 4
        then have "walk_from E (Suc 0) w ix st \<noteq> None"
          using True c Went by (simp add: walk_step_def Let_def)
        then show ?thesis by blast
      qed
    next
      case (Fault e)
      then have "walk_from E (Suc 0) w ix st \<noteq> None" using True c by (simp add: walk_step_def)
      then show ?thesis by blast
    next
      case Dropped
      then have "walk_from E (Suc 0) w ix st \<noteq> None" using True c by (simp add: walk_step_def)
      then show ?thesis by blast
    qed
  qed
qed

section \<open>Walks without hops\<close>

text \<open>No hops, no internal queues, no splitter: the walk is the chain of the filtras.\<close>

fun is_splitter :: "('j, 'c) filtra_kind \<Rightarrow> bool" where
  "is_splitter (SplitterFT _ _) = True"
| "is_splitter _ = False"

definition plain :: "('j, 'c) filtra \<Rightarrow> bool" where
  "plain f \<longleftrightarrow> f_hop_passed f = [] \<and> f_hop_rejected f = [] \<and> f_queues f = [] \<and>
     \<not> is_splitter (f_kind f)"

lemma process_hop_plain:
  assumes "filtra_process B now f w = (f', Inr (hop, w'))" and "\<not> is_splitter (f_kind f)"
  shows "hop = [] \<and> \<not> is_splitter (f_kind f')"
  using assms unfolding filtra_process_def
  by (auto simp: filtra_process_message_def eraser_process_def limiter_process_def
      nop_process_def bind_res_Inr_iff Let_def
      split: filtra_kind.splits if_splits prod.splits
      dest: comparator_frame finder_frame builder_frame lua_frame image_frame)

text \<open>How a chain ends: what is sent, and what the call of \<open>process\<close> does.\<close>

fun chain_sends :: "('j, 'c) wrapper res \<Rightarrow> ('j, 'c) wrapper list" where
  "chain_sends (Inr w) = (if w_passed w then [w] else [])"
| "chain_sends (Inl e) = []"

fun chain_result :: "('j, 'c) wrapper res \<Rightarrow> unit res" where
  "chain_result (Inr w) = Inr ()"
| "chain_result (Inl (Exn c m)) =
     (if catches Std_exception c then Inr () else Inl (Exn c m))"
| "chain_result (Inl (Undefined m)) = Inl (Undefined m)"

lemma walk_is_chain:
  fixes st :: "('j, 'c) pipe"
  assumes "\<forall>f \<in> set (drop ix (p_filtras st)). plain f" and "\<forall>k. pe_active E k"
    and "w_passed w" and "q_max (p_out st) = 0"
    and "c = filtra.run_chain (pe_bridge E)
      (zip (map (pe_clock E) [p_checks st ..< p_checks st + (length (p_filtras st) - ix)])
        (drop ix (p_filtras st))) w"
  shows "\<exists>st'. walk_from E (Suc (length (p_filtras st) - ix)) w ix st = Some (st', chain_result c) \<and>
    q_items (p_out st') = q_items (p_out st) @ chain_sends c"
  using assms(1,3,4,5)
proof (induction "length (p_filtras st) - ix" arbitrary: ix st w c)
  case 0
  then have "\<not> ix < length (p_filtras st)" by simp
  moreover have "tsq_push (p_out st) w = Inr ((p_out st)\<lparr>q_items := q_items (p_out st) @ [w]\<rparr>)"
    using "0.prems"(3) by (simp add: tsq_push_Inr_iff tsq_room_def)
  ultimately show ?case
    using 0 by (simp add: walk_step_def push_out_def)
next
  case (Suc d)
  then have ix: "ix < length (p_filtras st)" by simp
  define f where "f = p_filtras st ! ix"
  define k where "k = p_checks st"
  have dr: "drop ix (p_filtras st) = f # drop (Suc ix) (p_filtras st)"
    using ix by (simp add: f_def Cons_nth_drop_Suc)
  then have pf: "plain f" using Suc.prems(1) by simp
  have times: "map (pe_clock E) [k ..< k + (length (p_filtras st) - ix)] =
      pe_clock E k # map (pe_clock E) [Suc k ..< Suc k + (length (p_filtras st) - Suc ix)]"
  proof -
    have "k < k + (length (p_filtras st) - ix)" using ix by simp
    then have "[k ..< k + (length (p_filtras st) - ix)] =
        k # [Suc k ..< k + (length (p_filtras st) - ix)]" by (rule upt_conv_Cons)
    moreover have "k + (length (p_filtras st) - ix) = Suc k + (length (p_filtras st) - Suc ix)"
      using ix by simp
    ultimately show ?thesis by (simp only: list.map)
  qed
  obtain f' r where p: "filtra_process (pe_bridge E) (pe_clock E k) f w = (f', r)"
    by (cases "filtra_process (pe_bridge E) (pe_clock E k) f w")
  define st1 where "st1 = set_filtra ix f' (tick st)"
  have len1: "length (p_filtras st1) = length (p_filtras st)"
    by (simp add: st1_def set_filtra_def tick_def)
  have c: "c = (case r of Inl e \<Rightarrow> Inl e
      | Inr (_, w') \<Rightarrow> if w_passed w'
          then filtra.run_chain (pe_bridge E)
            (zip (map (pe_clock E) [Suc k ..< Suc k + (length (p_filtras st) - Suc ix)])
              (drop (Suc ix) (p_filtras st))) w'
          else Inr w')"
    using Suc.prems(4) unfolding dr k_def [symmetric] times
    by (simp only: zip_Cons_Cons filtra.run_chain.simps p snd_conv)
  show ?case
  proof (cases r)
    case (Inl e)
    have out: "q_items (p_out st1) = q_items (p_out st)"
      by (simp add: st1_def set_filtra_def tick_def)
    have call: "call_filtra E ix w st =
      (case e of Undefined m \<Rightarrow> (st1, Fault (Undefined m))
       | Exn c m \<Rightarrow>
           if catches Invalid_argument c then (st1, Dropped)
           else if catches Std_exception c then (st1\<lparr>p_last_error := m\<rparr>, Dropped)
           else (st1, Fault (Exn c m)))"
      using p Inl by (simp add: call_filtra_def f_def k_def st1_def Let_def split: fault.split)
    show ?thesis
    proof (cases e)
      case (Exn x m)
      consider "x = Invalid_argument" | "x = Foreign_exception"
        | "x \<noteq> Invalid_argument" "x \<noteq> Foreign_exception" by blast
      then show ?thesis
        by cases (use ix assms(2) call Inl c out Exn in \<open>simp_all add: walk_step_def res_simps\<close>)
    qed (use ix assms(2) call Inl c out in \<open>simp add: walk_step_def\<close>)
  next
    case (Inr hw)
    obtain hop w' where hw: "hw = (hop, w')" by (cases hw)
    have hop: "hop = []"
      using process_hop_plain [OF p [unfolded Inr hw]] pf by (simp add: plain_def)
    have same: "same_config f f'" using filtra.keeps_config [OF p] .
    have f1: "p_filtras st1 ! ix = f'" using ix by (simp add: st1_def set_filtra_def tick_def)
    have flds: "f_hop_passed f' = []" "f_hop_rejected f' = []" "f_queues f' = []"
      using same_config_fields [OF same] pf by (simp_all add: plain_def)
    have call: "call_filtra E ix w st = (st1, Went [] w')"
      using p Inr hw hop by (simp add: call_filtra_def f_def k_def st1_def)
    show ?thesis
    proof (cases "w_passed w'")
      case True
      have dr1: "drop (Suc ix) (p_filtras st1) = drop (Suc ix) (p_filtras st)"
        by (simp add: st1_def set_filtra_def tick_def)
      have k1: "p_checks st1 = Suc k" and o1: "p_out st1 = p_out st"
        by (simp_all add: st1_def set_filtra_def tick_def k_def)
      have "\<exists>st'. walk_from E (Suc (length (p_filtras st1) - Suc ix)) w' (Suc ix) st1 =
          Some (st', chain_result c) \<and> q_items (p_out st') = q_items (p_out st1) @ chain_sends c"
      proof (rule Suc.hyps(1))
        show "d = length (p_filtras st1) - Suc ix" using Suc.hyps(2) len1 by simp
        show "\<forall>f\<in>set (drop (Suc ix) (p_filtras st1)). plain f"
          using Suc.prems(1) dr unfolding dr1 by simp
        show "c = filtra.run_chain (pe_bridge E)
          (zip (map (pe_clock E) [p_checks st1 ..< p_checks st1 + (length (p_filtras st1) - Suc ix)])
            (drop (Suc ix) (p_filtras st1))) w'"
          unfolding k1 dr1 len1 using c Inr hw True by simp
      qed (use True o1 Suc.prems(3) in simp_all)
      moreover have "Suc (length (p_filtras st1) - Suc ix) = length (p_filtras st) - ix"
        using ix len1 by simp
      moreover have "walk_from E (Suc (length (p_filtras st) - ix)) w ix st =
          walk_from E (length (p_filtras st) - ix) w' (Suc ix) st1"
        using ix assms(2) call True f1 flds by (simp add: walk_step_def next_index_def)
      ultimately show ?thesis using o1 by simp
    next
      case False
      then have "walk_from E (Suc (length (p_filtras st) - ix)) w ix st = Some (st1, Inr ())"
        using ix assms(2) call f1 flds by (simp add: walk_step_def push_out_def)
      then show ?thesis
        using c Inr hw False by (simp add: st1_def set_filtra_def tick_def)
    qed
  qed
qed

section \<open>Walks that are cut short, and walks that never end\<close>

text \<open>A pipeline that is no longer active sends what it holds, at whatever filtra it is.\<close>

lemma walk_inactive:
  assumes "\<not> pe_active E (p_checks st)" and "w_passed w" and "q_max (p_out st) = 0"
    and "ix < length (p_filtras st)"
  shows "walk_from E (Suc n) w ix st =
    Some ((tick st)\<lparr>p_out := (p_out st)\<lparr>q_items := q_items (p_out st) @ [w]\<rparr>\<rparr>, Inr ())"
proof -
  have "tsq_push (p_out st) w = Inr ((p_out st)\<lparr>q_items := q_items (p_out st) @ [w]\<rparr>)"
    using assms(3) by (simp add: tsq_push_Inr_iff tsq_room_def)
  then show ?thesis using assms by (simp add: walk_step_def push_out_def tick_def)
qed

text \<open>A filtra whose hop names itself keeps the message for as long as it passes it.\<close>

lemma walk_self_hop:
  assumes "\<forall>k. pe_active E k" and "p_filtras st = [f]" and "f_kind f = NopFT"
    and "f_name f \<noteq> []" "f_name f \<noteq> ''out''" "f_hop_passed f = f_name f" "f_queues f = []"
  shows "walk_from E n w 0 st = None"
  using assms(2)
proof (induction n arbitrary: w st)
  case (Suc n)
  have call: "call_filtra E 0 w st =
      (tick st, Went [] (wr_pass (wr_add_metadata (b_json (pe_bridge E)) (f_metadata f) w)))"
    using Suc.prems assms(3)
    by (simp add: call_filtra_def filtra_process_def filtra_process_message_def nop_process_def
        set_filtra_def tick_def)
  have fs: "p_filtras (tick st) = [f]" using Suc.prems by (simp add: tick_def)
  have "next_index [f] (f_hop_passed f) 0 = 0"
    using assms(4-6) by (simp add: next_index_def find_filtra_index_def)
  then show ?case
    using call fs Suc.prems Suc.IH [OF fs] assms(1,7)
    by (simp add: walk_step_def)
qed simp

section \<open>Events\<close>

lemma first_generated_out:
  "first_generated E n ix st = Inr (i, st') \<Longrightarrow>
     p_out st' = p_out st \<and> p_queues st' = p_queues st"
  by (induction E n ix st rule: first_generated.induct)
    (auto simp: bind_res_Inr_iff set_filtra_def split: if_splits)

lemma pipe_event_sends_nothing:
  "pipe_event E st = (st', r) \<Longrightarrow> p_out st' = p_out st \<and> p_queues st' = p_queues st"
  by (auto simp: pipe_event_def Let_def split: sum.splits prod.splits dest: first_generated_out)

section \<open>Hops\<close>

lemma index_of_name_spec:
  "(index_of_name name fs < length fs \<and> f_name (fs ! index_of_name name fs) = name \<and>
      (\<forall>i < index_of_name name fs. f_name (fs ! i) \<noteq> name)) \<or>
   (index_of_name name fs = length fs \<and> (\<forall>f \<in> set fs. f_name f \<noteq> name))"
  by (induction fs) (auto simp: less_Suc_eq_0_disj)

lemma find_filtra_index_spec:
  "find_filtra_index fs name = ix \<longleftrightarrow>
     (if name = ''out'' \<or> (\<forall>f \<in> set fs. f_name f \<noteq> name) then ix = length fs
      else ix < length fs \<and> f_name (fs ! ix) = name \<and> (\<forall>i < ix. f_name (fs ! i) \<noteq> name))"
proof -
  have "ix = j" if "ix < length fs" "f_name (fs ! ix) = name" "\<forall>i < ix. f_name (fs ! i) \<noteq> name"
    "j < length fs" "f_name (fs ! j) = name" "\<forall>i < j. f_name (fs ! i) \<noteq> name" for j
    using that by (metis nat_neq_iff)
  then show ?thesis
    using index_of_name_spec [of name fs] by (auto simp: find_filtra_index_def)
qed

end
