(* ===== verification/Authbundle.thy ===== *)
theory Authbundle
  imports Prelude
begin

text \<open>
  database/authbundle.h and authbundle.cpp: the credentials of a connector and the table
  that stores them.  SQLite is a parameter: the table is the list of its rows, whether it
  opens, prepares a statement and completes a step are arguments; a query for an id returns
  the first row that has it.
\<close>

section \<open>Types and their texts\<close>

datatype service_type = GCP | MQTT311 | MQTT50 | EMAIL | AWS | HTTP | AZURE | SLACK | No_service

datatype auth_type = JWT_ES256 | PASSWORD | SERVICE_KEY | ACCESS_KEY | BASIC | BEARER | No_auth

definition get_service_type :: "string \<Rightarrow> service_type" where
  "get_service_type val =
     (if val = ''gcp'' then GCP else if val = ''mqtt311'' then MQTT311
      else if val = ''mqtt50'' then MQTT50 else if val = ''email'' then EMAIL
      else if val = ''aws'' then AWS else if val = ''http'' then HTTP
      else if val = ''azure'' then AZURE else if val = ''slack'' then SLACK else No_service)"

fun service_type_to_string :: "service_type \<Rightarrow> string" where
  "service_type_to_string GCP = ''gcp''"
| "service_type_to_string MQTT311 = ''mqtt311''"
| "service_type_to_string MQTT50 = ''mqtt50''"
| "service_type_to_string EMAIL = ''email''"
| "service_type_to_string AWS = ''aws''"
| "service_type_to_string HTTP = ''http''"
| "service_type_to_string AZURE = ''azure''"
| "service_type_to_string SLACK = ''slack''"
| "service_type_to_string No_service = []"

definition get_auth_type :: "string \<Rightarrow> auth_type" where
  "get_auth_type val =
     (if val = ''jwt_es256'' then JWT_ES256 else if val = ''password'' then PASSWORD
      else if val = ''service_key'' then SERVICE_KEY else if val = ''access_key'' then ACCESS_KEY
      else if val = ''bearer'' then BEARER else if val = ''basic'' then BASIC else No_auth)"

fun auth_type_to_string :: "auth_type \<Rightarrow> string" where
  "auth_type_to_string JWT_ES256 = ''jwt_es256''"
| "auth_type_to_string PASSWORD = ''password''"
| "auth_type_to_string SERVICE_KEY = ''service_key''"
| "auth_type_to_string ACCESS_KEY = ''access_key''"
| "auth_type_to_string BASIC = ''basic''"
| "auth_type_to_string BEARER = ''bearer''"
| "auth_type_to_string No_auth = []"

lemma service_type_text: "get_service_type (service_type_to_string t) = t"
  by (cases t) (simp_all add: get_service_type_def)

lemma auth_type_text: "get_auth_type (auth_type_to_string t) = t"
  by (cases t) (simp_all add: get_auth_type_def)

section \<open>The table\<close>

record authbundle =
  ab_id :: string
  ab_service :: service_type
  ab_auth :: auth_type
  ab_username :: string
  ab_password :: string
  ab_keyname :: string
  ab_keydata :: string
  ab_description :: string

record authbundle_row =
  row_id :: "string option"
  row_service :: "string option"
  row_auth :: "string option"
  row_username :: "string option"
  row_password :: "string option"
  row_keyname :: "string option"
  row_description :: "string option"
  row_keydata :: "string option"

record authbundle_db =
  db_opens :: bool
  db_prepares :: bool
  db_steps :: bool
  db_closes :: bool
  db_rows :: "authbundle_row list"

definition row_of_authbundle :: "authbundle \<Rightarrow> authbundle_row" where
  "row_of_authbundle ab =
     \<lparr>row_id = Some (c_string (ab_id ab)),
      row_service = Some (c_string (service_type_to_string (ab_service ab))),
      row_auth = Some (c_string (auth_type_to_string (ab_auth ab))),
      row_username = Some (c_string (ab_username ab)),
      row_password = Some (c_string (ab_password ab)),
      row_keyname = Some (c_string (ab_keyname ab)),
      row_description = Some (c_string (ab_description ab)),
      row_keydata = Some (ab_keydata ab)\<rparr>"

text \<open>\<open>open_db\<close>, the body of the operation, \<open>close_db\<close>.\<close>

definition with_db :: "authbundle_db \<Rightarrow> 'a res \<Rightarrow> 'a res" where
  "with_db db r =
     (if \<not> db_opens db then throw Runtime_error ''Can't open database''
      else case r of
             Inl e \<Rightarrow> Inl e
           | Inr x \<Rightarrow> if db_closes db then Inr x
                       else throw Runtime_error ''Can't close database'')"

definition authbundle_insert ::
  "authbundle_db \<Rightarrow> authbundle \<Rightarrow> authbundle_db \<times> bool res" where
  "authbundle_insert db ab =
     (let completes = (db_opens db \<and> db_prepares db \<and> db_steps db)
      in (if completes then db\<lparr>db_rows := db_rows db @ [row_of_authbundle ab]\<rparr> else db,
          with_db db (Inr (db_prepares db \<and> db_steps db))))"

definition authbundle_remove ::
  "authbundle_db \<Rightarrow> string \<Rightarrow> authbundle_db \<times> bool res" where
  "authbundle_remove db i =
     (let completes = (db_opens db \<and> db_prepares db \<and> db_steps db)
      in (if completes
          then db\<lparr>db_rows := filter (\<lambda>r. row_id r \<noteq> Some (c_string i)) (db_rows db)\<rparr> else db,
          with_db db (Inr (db_prepares db \<and> db_steps db))))"

definition column_text :: "string option \<Rightarrow> string" where
  "column_text v = (case v of None \<Rightarrow> [] | Some s \<Rightarrow> c_string s)"

text \<open>\<open>get\<close> fills the bundle it is given; a key of no bytes leaves its key as it was.\<close>

definition authbundle_get ::
  "authbundle_db \<Rightarrow> string \<Rightarrow> authbundle \<Rightarrow> authbundle option res" where
  "authbundle_get db i ab =
     with_db db
       (if \<not> db_prepares db then Inr None
        else case find (\<lambda>r. row_id r = Some i) (db_rows db) of
          None \<Rightarrow> Inr None
        | Some r \<Rightarrow>
            Inr (Some \<lparr>ab_id = column_text (row_id r),
                       ab_service = get_service_type (column_text (row_service r)),
                       ab_auth = get_auth_type (column_text (row_auth r)),
                       ab_username = column_text (row_username r),
                       ab_password = column_text (row_password r),
                       ab_keyname = column_text (row_keyname r),
                       ab_keydata = (case row_keydata r of
                          Some k \<Rightarrow> if k \<noteq> [] then k else ab_keydata ab
                        | None \<Rightarrow> ab_keydata ab),
                       ab_description = column_text (row_description r)\<rparr>))"

section \<open>What is stored is found\<close>

definition plain_bundle :: "authbundle \<Rightarrow> bool" where
  "plain_bundle ab \<longleftrightarrow>
     (\<forall>s \<in> {ab_id ab, ab_username ab, ab_password ab, ab_keyname ab, ab_description ab}.
        CHR 0x00 \<notin> set s)"

lemma type_texts_plain [simp]:
  "c_string (service_type_to_string t) = service_type_to_string t"
  "c_string (auth_type_to_string a) = auth_type_to_string a"
  by (cases t; simp) (cases a; simp)

lemma insert_then_get:
  assumes "db_opens db" "db_prepares db" "db_steps db" "db_closes db"
    and "plain_bundle ab" and "\<forall>r \<in> set (db_rows db). row_id r \<noteq> Some (ab_id ab)"
    and "ab_keydata fresh = []"
  shows "authbundle_get (fst (authbundle_insert db ab)) (ab_id ab) fresh = Inr (Some ab)"
proof -
  have ids: "c_string (ab_id ab) = ab_id ab" "c_string (ab_username ab) = ab_username ab"
    "c_string (ab_password ab) = ab_password ab" "c_string (ab_keyname ab) = ab_keyname ab"
    "c_string (ab_description ab) = ab_description ab"
    using assms(5) by (simp_all add: plain_bundle_def c_string_no_nul)
  have "find (\<lambda>r. row_id r = Some (ab_id ab)) (rows @ [row_of_authbundle ab]) =
      Some (row_of_authbundle ab)" if "\<forall>r \<in> set rows. row_id r \<noteq> Some (ab_id ab)" for rows
    using that ids by (induction rows) (simp_all add: row_of_authbundle_def)
  note this [OF assms(6)]
  then show ?thesis
    using assms ids
    by (simp add: authbundle_get_def authbundle_insert_def with_db_def row_of_authbundle_def
        column_text_def service_type_text auth_type_text)
qed

lemma remove_then_get:
  assumes "db_opens db" "db_prepares db" "db_steps db" "db_closes db" and "CHR 0x00 \<notin> set i"
  shows "authbundle_get (fst (authbundle_remove db i)) i fresh = Inr None"
proof -
  have "find (\<lambda>r. row_id r = Some i) (filter (\<lambda>r. row_id r \<noteq> Some i) (db_rows db)) = None"
    by (auto simp: find_None_iff)
  then show ?thesis
    using assms by (simp add: authbundle_get_def authbundle_remove_def with_db_def c_string_no_nul)
qed

end
