(* ===== verification/Connector.thy ===== *)
theory Connector
  imports Pipeline_Facts Authbundle
begin

text \<open>
  connectors/connector.h, generator_connector.h and internal_connector.h: the base class of
  the connectors, its pacing and statistics, the generator of periodic messages, and the
  connector to an internal queue.  Times are parameters; a connector's own state is a record
  beside its base.
\<close>

section \<open>The base class\<close>

datatype connector_mode = Mode_unkn | Mode_in | Mode_out

record connector_stat =
  last_in :: int
  last_out :: int
  count_in :: "64 word"
  count_out :: "64 word"

record connector_base =
  cb_stat :: connector_stat
  cb_mode :: connector_mode
  cb_pipeid :: string
  cb_active :: bool
  cb_polling_period :: int
  cb_authbundle_id :: string
  cb_format :: msg_format

definition stat_zero :: connector_stat where
  "stat_zero = \<lparr>last_in = 0, last_out = 0, count_in = 0, count_out = 0\<rparr>"

text \<open>
  A missing or mistyped field takes its default; an unknown format is an
  \<open>invalid_argument\<close>, which no clause here catches.
\<close>

definition connector_new ::
  "'j json_lib \<Rightarrow> string \<Rightarrow> connector_mode \<Rightarrow> 'j \<Rightarrow> connector_base res" where
  "connector_new J pipeid mode config =
     bind_res (jat_or J (jget_uint32 J) config ''polling_period'' 0) (\<lambda>period.
     bind_res (jat_or J (jget_string J) config ''authbundle_id'' []) (\<lambda>ab.
     bind_res (try_catch Json_exception
                 (bind_res (jat_get J (jget_string J) config ''msg_format'') format_from_string)
                 (\<lambda>_. Inr UNKN)) (\<lambda>fmt.
       Inr \<lparr>cb_stat = stat_zero, cb_mode = mode, cb_pipeid = pipeid, cb_active = True,
            cb_polling_period = uint period, cb_authbundle_id = ab, cb_format = fmt\<rparr>)))"

definition connector_activate :: "connector_base \<Rightarrow> connector_base" where
  "connector_activate b = b\<lparr>cb_active := True\<rparr>"

definition connector_deactivate :: "connector_base \<Rightarrow> connector_base" where
  "connector_deactivate b = b\<lparr>cb_active := False\<rparr>"

text \<open>
  \<open>receive\<close>: how long it sleeps at time \<open>now\<close>, and the base after \<open>do_receive\<close> returned \<open>r\<close>
  at time \<open>later\<close>; \<open>send\<close> likewise.
\<close>

definition receive_sleep :: "connector_base \<Rightarrow> int \<Rightarrow> int" where
  "receive_sleep b now =
     (if now < last_in (cb_stat b) + cb_polling_period b
      then last_in (cb_stat b) + cb_polling_period b - now else 0)"

definition note_receive :: "int \<Rightarrow> connector_base \<Rightarrow> 'a res \<Rightarrow> connector_base" where
  "note_receive later b r =
     (case r of
        Inl _ \<Rightarrow> b
      | Inr _ \<Rightarrow> b\<lparr>cb_stat := (cb_stat b)\<lparr>count_in := count_in (cb_stat b) + 1, last_in := later\<rparr>\<rparr>)"

definition note_send :: "int \<Rightarrow> connector_base \<Rightarrow> 'a res \<Rightarrow> connector_base" where
  "note_send later b r =
     (case r of
        Inl _ \<Rightarrow> b
      | Inr _ \<Rightarrow> b\<lparr>cb_stat := (cb_stat b)\<lparr>count_out := count_out (cb_stat b) + 1, last_out := later\<rparr>\<rparr>)"

lemma receive_paced:
  assumes "0 \<le> cb_polling_period b"
  shows "0 \<le> receive_sleep b now" and
    "last_in (cb_stat b) + cb_polling_period b \<le> now + receive_sleep b now"
  by (simp_all add: receive_sleep_def)

section \<open>The generator\<close>

record generator =
  g_period :: "64 word"
  g_payload :: string
  g_first_call :: bool

definition generator_new ::
  "'j json_lib \<Rightarrow> string \<Rightarrow> connector_mode \<Rightarrow> 'j \<Rightarrow> (connector_base \<times> generator) res" where
  "generator_new J pipeid mode config =
     bind_res (connector_new J pipeid mode config) (\<lambda>b.
       if mode = Mode_out
       then throw Configuration_error ''GeneratorConnector does not support OUT mode!''
       else
         bind_res (sub_string J config ''payload'') (\<lambda>payload.
         bind_res (jsub J config ''period'') (\<lambda>v.
         bind_res (json_res (jget_uint64 J v)) (\<lambda>period.
           Inr (b, \<lparr>g_period = period, g_payload = payload, g_first_call = True\<rparr>)))))"

text \<open>
  The wait of \<open>do_receive\<close>: \<open>active k\<close> is what the k-th test of \<open>is_active_\<close> finds, one
  millisecond after the one before; the result is how many milliseconds it slept, and
  whether the counter reached zero.
\<close>

function generator_wait :: "(nat \<Rightarrow> bool) \<Rightarrow> nat \<Rightarrow> 64 word \<Rightarrow> nat \<times> bool" where
  "generator_wait active k cnt =
     (if \<not> active k then (k, False)
      else if cnt - 1 = 0 then (Suc k, True)
      else generator_wait active (Suc k) (cnt - 1))"
  by pat_completeness auto
termination
proof (relation "measure (\<lambda>(_, _, cnt). unat (cnt - 1))")
  fix active :: "nat \<Rightarrow> bool" and k and cnt :: "64 word"
  assume "cnt - 1 \<noteq> 0"
  then show "((active, Suc k, cnt - 1), active, k, cnt) \<in> measure (\<lambda>(_, _, cnt). unat (cnt - 1))"
    using unat_pred_less [of "cnt - 1"] by simp
qed simp

declare generator_wait.simps [simp del]

definition generator_receive ::
  "'j json_lib \<Rightarrow> (nat \<Rightarrow> bool) \<Rightarrow> generator \<Rightarrow> generator \<times> nat \<times> ('j, 'c) message res" where
  "generator_receive J active g =
     (let msg = message_of_string J (g_payload g) JSON []
      in if g_first_call g then (g\<lparr>g_first_call := False\<rparr>, 0, Inr msg)
         else case generator_wait active 0 (g_period g) of
                (ms, True) \<Rightarrow> (g, ms, Inr msg)
              | (ms, False) \<Rightarrow> (g, ms, throw Underflow_error ''No messages''))"

text \<open>A period of zero counts through all 64-bit values.\<close>

definition full_period :: "64 word \<Rightarrow> nat" where
  "full_period period = (if period = 0 then 2 ^ 64 else unat period)"

lemma full_period_step: "period - 1 \<noteq> 0 \<Longrightarrow> full_period period = Suc (full_period (period - 1))"
proof -
  assume a: "period - 1 \<noteq> 0"
  show ?thesis
  proof (cases "period = 0")
    case True
    have "unat (- 1 :: 64 word) = 2 ^ 64 - 1"
      by (simp add: unsigned_minus_1_eq_mask mask_eq_exp_minus_1)
    then show ?thesis by (simp add: full_period_def True)
  next
    case False
    then have "unat (period - 1) = unat period - 1" by (rule unat_minus_one)
    moreover have "unat period \<noteq> 0" using False by (metis unat_eq_zero)
    ultimately show ?thesis using a False by (simp add: full_period_def)
  qed
qed

lemma generator_wait_ends:
  "(\<forall>i < full_period cnt. active (k + i)) \<Longrightarrow>
     generator_wait active k cnt = (k + full_period cnt, True)"
proof (induction active k cnt rule: generator_wait.induct)
  case (1 active k cnt)
  have "0 < full_period cnt" by (simp add: full_period_def unat_gt_0)
  then have act: "active k" using "1.prems" by force
  show ?case
  proof (cases "cnt - 1 = 0")
    case True
    then have "cnt = 1" by simp
    then show ?thesis
      using act by (subst generator_wait.simps) (simp add: full_period_def)
  next
    case False
    have "\<forall>i < full_period (cnt - 1). active (Suc k + i)"
      using "1.prems" full_period_step [OF False] by auto
    with "1.IH" act False full_period_step [OF False] show ?thesis
      by (subst generator_wait.simps) simp
  qed
qed

lemma generator_wait_stops:
  "i < full_period cnt \<Longrightarrow> \<not> active (k + i) \<Longrightarrow> \<exists>ms \<le> k + i. generator_wait active k cnt = (ms, False)"
proof (induction active k cnt arbitrary: i rule: generator_wait.induct)
  case (1 active k cnt)
  show ?case
  proof (cases "active k")
    case False
    then show ?thesis by (subst generator_wait.simps) auto
  next
    case True
    then obtain i' where i: "i = Suc i'" using "1.prems"(2) by (cases i) auto
    have ne: "cnt - 1 \<noteq> 0"
    proof
      assume "cnt - 1 = 0"
      then have "full_period cnt = 1" by (simp add: full_period_def)
      with "1.prems"(1) i show False by simp
    qed
    have "i' < full_period (cnt - 1)" using "1.prems"(1) full_period_step [OF ne] i by simp
    with "1.IH" [OF _ ne, of i'] True "1.prems"(2) i
    obtain ms where "ms \<le> Suc k + i'" "generator_wait active (Suc k) (cnt - 1) = (ms, False)"
      by auto
    with True ne i show ?thesis by (subst generator_wait.simps) auto
  qed
qed

section \<open>The internal queue connector\<close>

record internal_connector =
  ic_queuid :: string
  ic_buffer_size :: "64 word"
  ic_incoming :: rqueue

text \<open>The constructor makes the queue in the table if it is not there.\<close>

definition internal_new ::
  "'j json_lib \<Rightarrow> ('j, 'c) message queues \<Rightarrow> string \<Rightarrow> connector_mode \<Rightarrow> 'j \<Rightarrow>
     ('j, 'c) message queues \<times> (connector_base \<times> internal_connector) res" where
  "internal_new J qs pipeid mode config =
     (case bind_res (connector_new J pipeid mode config) (\<lambda>b.
             bind_res (jat_get J (jget_string J) config ''name'') (\<lambda>name. Inr (b, name))) of
        Inl e \<Rightarrow> (qs, Inl e)
      | Inr (b, name) \<Rightarrow>
          (snd (get_queue qs name),
           bind_res (json_res (jvalue_int32 J config ''buffer_size'' 100)) (\<lambda>n.
             Inr (b, \<lparr>ic_queuid = name, ic_buffer_size = scast n,
                      ic_incoming = rqueue_default\<rparr>))))"

definition internal_connect ::
  "connector_mode \<Rightarrow> internal_connector \<Rightarrow> 'm queues \<Rightarrow> internal_connector \<times> 'm queues \<times> unit res" where
  "internal_connect mode c qs =
     (if mode = Mode_in then
        (let (iq, qs') = get_queue qs (ic_queuid c);
             (iq', r) = iq_subscribe (ic_queuid c) iq (unat (ic_buffer_size c))
         in case r of
              Inl e \<Rightarrow> (c, qs'(ic_queuid c \<mapsto> iq'), Inl e)
            | Inr rq \<Rightarrow> (c\<lparr>ic_incoming := rq\<rparr>, qs'(ic_queuid c \<mapsto> iq'), Inr ()))
      else (c, qs, Inr ()))"

definition internal_disconnect ::
  "connector_mode \<Rightarrow> internal_connector \<Rightarrow> 'm queues \<Rightarrow> 'm queues" where
  "internal_disconnect mode c qs =
     (if mode = Mode_in then
        (let (iq, qs') = get_queue qs (ic_queuid c)
         in qs'(ic_queuid c \<mapsto> iq_unsubscribe iq (ic_incoming c)))
      else qs)"

definition internal_receive ::
  "internal_connector \<Rightarrow> ('j, 'c) message queues \<Rightarrow>
     (('j, 'c) message \<times> ('j, 'c) message queues) res option" where
  "internal_receive c qs =
     map_option (\<lambda>r. bind_res r (\<lambda>(m, qs'). Inr (message_copy m, qs'))) (rq_pop qs (ic_incoming c))"

text \<open>\<open>do_send\<close> pushes \<open>msg_ptr()\<close>, the working copy, which does not make one.\<close>

definition internal_send ::
  "internal_connector \<Rightarrow> ('j, 'c) wrapper \<Rightarrow> ('j, 'c) message queues \<Rightarrow>
     ('j, 'c) message queues \<times> unit res" where
  "internal_send c w qs =
     (let (iq, qs') = get_queue qs (ic_queuid c); (iq', r) = iq_push iq (wr_msg_ptr w)
      in (qs'(ic_queuid c \<mapsto> iq'), r))"

definition internal_stop :: "internal_connector \<Rightarrow> 'm queues \<Rightarrow> 'm queues res" where
  "internal_stop c qs = rq_exit_blocking_calls qs (ic_incoming c)"

lemma internal_send_untouched:
  assumes "qs (ic_queuid c) = Some iq"
  shows "internal_send c (wrapper_of J m) qs =
    (let (iq', r) = iq_push iq (message_default J) in (qs(ic_queuid c \<mapsto> iq'), r))"
  using assms by (simp add: internal_send_def get_queue_def wr_msg_ptr_def split: prod.splits)

lemma connect_gives_buffer:
  assumes "qs (ic_queuid c) = Some iq" "iq_wf iq" "iq_max_key iq \<noteq> - 1"
  shows "\<exists>c' qs' key. internal_connect Mode_in c qs = (c', qs', Inr ()) \<and>
    ic_queuid c' = ic_queuid c \<and> ic_incoming c' = \<lparr>rq_id = key, rq_queue = Some (ic_queuid c, key)\<rparr> \<and>
    qs' (ic_queuid c) = Some (iq\<lparr>iq_max_key := key,
       iq_buffers := iq_buffers iq @ [(key, tsq_new (unat (ic_buffer_size c)) True)]\<rparr>) \<and>
    key \<notin> fst ` set (iq_buffers iq)"
proof (rule iq_subscribe_cases [OF assms(2), of "ic_queuid c" "unat (ic_buffer_size c)"])
  assume s: "iq_max_key iq \<noteq> - 1" "iq_subscribe (ic_queuid c) iq (unat (ic_buffer_size c)) =
       (iq\<lparr>iq_max_key := iq_max_key iq + 1, iq_buffers := iq_buffers iq @
           [(iq_max_key iq + 1, tsq_new (unat (ic_buffer_size c)) True)]\<rparr>,
        Inr \<lparr>rq_id = iq_max_key iq + 1, rq_queue = Some (ic_queuid c, iq_max_key iq + 1)\<rparr>)"
  have "iq_max_key iq < iq_max_key iq + 1" using s(1) by (rule word_less_plus_one)
  then have "iq_max_key iq + 1 \<notin> fst ` set (iq_buffers iq)"
    using assms(2) by (auto simp: iq_wf_def)
  then show ?thesis
    using assms(1) s(2) by (simp add: internal_connect_def get_queue_def)
qed (use assms(3) in simp)

text \<open>A handle whose buffer was erased dangles.\<close>

lemma stop_after_disconnect:
  assumes "ic_incoming c = \<lparr>rq_id = key, rq_queue = Some (ic_queuid c, key)\<rparr>"
  shows "\<exists>m. internal_stop c (internal_disconnect Mode_in c qs) = Inl (Undefined m)"
proof -
  have "map_of (filter (\<lambda>b. fst b \<noteq> key) bs) key = None"
    for bs :: "(64 word \<times> 'a tsqueue) list"
    by (simp add: map_of_eq_None_iff)
  then show ?thesis
    using assms
    by (auto simp: internal_stop_def internal_disconnect_def rq_exit_blocking_calls_def
        rq_buffer_def iq_unsubscribe_def split: prod.splits)
qed

text \<open>What a connector subscribed to a queue receives is what was pushed since, in order.\<close>

lemma set_buffer_contents:
  assumes "qs queuid = Some iq" "map_of (iq_buffers iq) key = Some q0"
  shows "\<exists>iq'. set_buffer queuid key q qs queuid = Some iq' \<and> map_of (iq_buffers iq') key = Some q"
proof -
  have "map_of (map (\<lambda>b. if fst b = key then (key, q) else b) bs) key = Some q"
    if "map_of bs key = Some q0" for bs :: "(64 word \<times> 'a tsqueue) list"
    using that by (induction bs) (auto split: if_splits)
  with assms show ?thesis by (simp add: set_buffer_def)
qed

lemma rq_pop_many:
  assumes "rq_queue rq = Some (queuid, key)"
  shows "qs queuid = Some iq \<Longrightarrow> iq_contents iq key = Some (ms @ rest) \<Longrightarrow>
    \<exists>qs' iq'. pop_many (\<lambda>qs. rq_pop qs rq) (length ms) qs = Some (ms, qs') \<and>
      qs' queuid = Some iq' \<and> iq_contents iq' key = Some rest"
proof (induction ms arbitrary: qs iq)
  case (Cons m ms)
  then obtain q where q: "map_of (iq_buffers iq) key = Some q" "q_items q = m # ms @ rest"
    by (auto simp: iq_contents_def)
  have pop: "rq_pop qs rq = Some (Inr (m, set_buffer queuid key (q\<lparr>q_items := ms @ rest\<rparr>) qs))"
    using assms Cons.prems(1) q by (simp add: rq_pop_def rq_buffer_def tsq_pop_def)
  obtain iq1 where iq1: "set_buffer queuid key (q\<lparr>q_items := ms @ rest\<rparr>) qs queuid = Some iq1"
    "map_of (iq_buffers iq1) key = Some (q\<lparr>q_items := ms @ rest\<rparr>)"
    using set_buffer_contents [where qs = qs and queuid = queuid, OF Cons.prems(1) q(1)] by blast
  then have "iq_contents iq1 key = Some (ms @ rest)" by (simp add: iq_contents_def)
  from Cons.IH [where qs = "set_buffer queuid key (q\<lparr>q_items := ms @ rest\<rparr>) qs", OF iq1(1) this]
    pop show ?case by auto
qed simp

end
