(* ===== verification/Spec2Isabelle.thy ===== *)
theory Spec2Isabelle
  imports Css_Checks Theme_Facts Colour_Facts Style_Component Pipeline_Facts Connector
    Http_Connector Authbundle
begin

text \<open>
  Header.
\<close>

section \<open>The style sheets of the documentation page\<close>


definition sample_theme :: js where
  "sample_theme = Obj
     [(''codeBlock'', Obj [(''backgroundColor'', Str ''#11171a'')]),
      (''colors'', Obj
         [(''border'', Obj []), (''gray'', Obj [(''100'', Str ''#F5F5F5'')]), (''http'', Obj []),
          (''primary'', Obj [(''light'', Str ''#6868cf''), (''main'', Str ''#32329f'')]),
          (''responses'', Obj
             [(''error'', Obj []), (''info'', Obj []), (''redirect'', Obj []), (''success'', Obj [])]),
          (''text'', Obj [(''primary'', Str ''#333333'')]), (''warning'', Obj [])]),
      (''fab'', Obj []), (''logo'', Obj []),
      (''rightPanel'', Obj
         [(''servers'', Obj [(''overlay'', Obj []), (''url'', Obj [])]),
          (''backgroundColor'', Str ''#263238''), (''textColor'', Str ''#ffffff''),
          (''width'', Str ''40%'')]),
      (''schema'', Obj [(''arrow'', Obj []), (''typeNameColor'', Str ''#666666'')]),
      (''sidebar'', Obj
         [(''arrow'', Obj []), (''groupItems'', Obj []), (''level1Items'', Obj []),
          (''backgroundColor'', Str ''#fafafa''), (''width'', Str ''260px'')]),
      (''spacing'', Obj []), (''breakpoints'', Obj []),
      (''typography'', Obj [(''code'', Obj []), (''headings'', Obj []), (''links'', Obj [])])]"

definition sample_props :: js where
  "sample_props = Obj [(''theme'', sample_theme)]"

definition sample_host :: host where
  "sample_host = \<lparr>h_invoke = (\<lambda>f vs. Inr (Str [])), h_style = (\<lambda>f p. Inr []), h_source = (\<lambda>f. []),
     h_class = (\<lambda>c. ''sc-a''), h_frames = (\<lambda>k. ''k''), h_pow = (\<lambda>x y. x)\<rparr>"

lemma colour_hash: "hex_colour (CHR ''#'' # t) = Some c \<Longrightarrow> is_colour (Str (CHR ''#'' # t))"
  by (simp add: is_colour_def yr_def resolve_hash)

lemmas hex_simps = hex_colour_def hex_value_def Let_def

lemma sample_colours:
  "is_colour (Str ''#11171a'')" "is_colour (Str ''#F5F5F5'')" "is_colour (Str ''#6868cf'')"
  "is_colour (Str ''#32329f'')" "is_colour (Str ''#333333'')" "is_colour (Str ''#263238'')"
  "is_colour (Str ''#ffffff'')" "is_colour (Str ''#666666'')" "is_colour (Str ''#fafafa'')"
  by (rule colour_hash, simp add: hex_simps)+

lemma sample_fits: "fits page_shape sample_props"
  by (simp add: page_shape_def theme_shape_def sample_props_def sample_theme_def sample_colours)

lemma sample_host_ok: "returns sample_host" "good_hook sample_props"
  by (simp_all add: returns_def sample_host_def good_hook_def sample_props_def sample_theme_def
      js_path.simps inherited_def object_members_def)



text \<open>
  C2. In every style sheet the braces of the rendered text close what they open, for every
  theme whose texts contain no brace, except in four: there the block of the component is
  closed early, by one brace in \<open>tp\<close>, \<open>gm\<close> and \<open>vm\<close> and by three in \<open>qb\<close>.
\<close>

theorem sheets_balance:
  assumes "(n, ps) \<in> set sheets" and "tidy h" and "clean p" and "sheet_text ps h p = Inr s"
  shows "(balanced s \<longleftrightarrow> n \<notin> {''tp'', ''gm'', ''vm'', ''qb''}) \<and>
    depth_run (if n = ''qb'' then 3 else if n \<in> {''tp'', ''gm'', ''vm''} then 1 else 0) s = Some 0"
  using sheet_depth [OF assms] surplus_balanced [of "surplus n" s]
  by (auto simp: surplus_def split: if_splits)

lemma sample_tidy: "tidy sample_host" "clean sample_props"
  by (simp_all add: tidy_def sample_host_def neutral_def depth_run_append sample_props_def
      sample_theme_def)

lemma tp_sheet: "(''tp'', tp_css) \<in> set sheets"
  by (simp add: sheets_def page_sheets_def)

lemma sheets_balance_witness:
  "\<exists>s. sheet_text tp_css sample_host sample_props = Inr s \<and> \<not> balanced s"
proof -
  obtain s where s: "sheet_text tp_css sample_host sample_props = Inr s"
    using sheet_safe [OF tp_sheet sample_fits sample_host_ok] by (auto simp: sheet_needs_def)
  from sheets_balance [OF tp_sheet sample_tidy s] s show ?thesis by simp
qed

text \<open>
  C3. The badge \<open>qu\<close> throws a type error for a theme without a colour of the name in its \<open>type\<close>.
\<close>

theorem badge_of_unknown_type:
  assumes "js_path p [''theme'', ''colors''] = Inr cs" and "js_path p [''type''] = Inr t"
    and "js_get cs (js_text t) = Inr Undef"
  shows "sheet_text qu_css h p =
    Inl (Type_error ''Cannot read properties of undefined (reading main)'')"
  using assms
  by (simp add: sheet_text_Mi qu_css_def Mi_dyn jcat_def)

definition unknown_badge :: js where
  "unknown_badge = Obj
     [(''theme'', Obj [(''colors'', Obj [(''primary'', Obj [])])]), (''type'', Str ''odd'')]"

lemma badge_of_unknown_type_witness:
  "sheet_text qu_css sample_host unknown_badge =
    Inl (Type_error ''Cannot read properties of undefined (reading main)'')"
  by (rule badge_of_unknown_type [of _ "Obj [(''primary'', Obj [])]" "Str ''odd''"])
    (simp_all add: unknown_badge_def js_path.simps inherited_def object_members_def)

text \<open>
  C4. Flattening a template when the component is defined, and the functions in it when it is
  rendered, gives the text of flattening all of it when it is rendered, if no object of the
  template has a function as a member.
\<close>

theorem early_flattening:
  "list_all literal_chunk cs \<Longrightarrow> component_text h p (Fi cs) = Mi (Chunks cs) h p"
  by (rule component_text_Fi)

lemma early_flattening_witness:
  "component_text sample_host sample_props (Fi [lit ''a: '', dyn (E_at [''theme'', ''rightPanel'', ''width''])])
     = Inr ''a: 40%''"
proof -
  have "list_all literal_chunk [lit ''a: '', dyn (E_at [''theme'', ''rightPanel'', ''width''])]"
    by (simp add: dyn_def)
  from early_flattening [OF this, of sample_host sample_props] show ?thesis
    by (simp add: Mi_dyn sample_props_def sample_theme_def js_path.simps)
qed

section \<open>Class names and inserted rules\<close>

text \<open>
  C5. Two hashes have the same class name only if they are equal, or are 0 and 52.
\<close>

theorem class_names_distinct: "hi v = hi w \<longleftrightarrow> v = w \<or> {v, w} = {0, 52}"
  using hi_injective [of v w] hi_same_52 by (auto simp: doubleton_eq_iff)

text \<open>C6. No class name contains the letters \<open>ad\<close> next to each other, in either case.\<close>

theorem class_names_without_ad: "\<not> has_ad (hi e)"
  unfolding hi_def by (rule dash_has_no_ad)

text \<open>
  C7. The numbers of the groups: registering an identifier keeps the two maps inverse to each
  other, gives the same number when repeated, and gives different identifiers different numbers.
\<close>

theorem group_numbers:
  assumes "ids_ok s"
  shows "ids_ok (snd (Xo a s)) \<and> Xo a (snd (Xo a s)) = (fst (Xo a s), snd (Xo a s)) \<and>
    (fst (Xo a s) = fst (Xo b (snd (Xo a s))) \<longleftrightarrow> a = b)"
  using Xo_ok [OF assms, of a] Xo_again [of a s] Xo_distinct [OF assms, of a b] by auto

lemma group_numbers_witness: "fst (Xo ''sc-a'' ids_new) \<noteq> fst (Xo ''sc-b'' (snd (Xo ''sc-a'' ids_new)))"
  using group_numbers [OF ids_ok_new, of "''sc-a''" "''sc-b''"] by simp

text \<open>
  C8. Inserting the rules of a name appends what the browser takes of them, as the browser
  writes it, to the rules of the component, changes the rules of no other component, and makes
  the name known.
\<close>

theorem inserted_rules:
  assumes "document.sheet_ok s" and "fst (register_id e s) < 2 ^ 30"
    and "length (document.all_rules s) + length rs < 2 ^ 32"
  shows "\<exists>s'. sheet_insert (document.target b) e t rs s = Inr s' \<and> document.sheet_ok s' \<and>
    has_name e t s' \<and>
    document.rules_of s' =
      (document.rules_of s)(e := document.rules_of s e @ map (b_writes b) (filter (b_takes b) rs))"
  using assms by (rule document.sheet_insert_rules)

definition sample_browser :: browser where
  "sample_browser = \<lparr>b_takes = (\<lambda>r. r \<noteq> ''}''), b_writes = (\<lambda>r. r @ '' '')\<rparr>"

lemma inserted_rules_witness:
  "\<exists>s'. sheet_insert (document.target sample_browser) ''sc-a'' ''x'' [''.x{}'', ''}''] sheet_new = Inr s' \<and>
    document.rules_of s' ''sc-a'' = [''.x{} '']"
proof -
  have "fst (register_id ''sc-a'' (sheet_new :: virtual_tag sheet)) < 2 ^ 30"
    by (simp add: register_id_def Xo_def sheet_new_def ids_new_def next_free.simps)
  moreover have "length (document.all_rules (sheet_new :: virtual_tag sheet)) + length [''.x{}'', ''}''] < 2 ^ 32"
    by (simp add: document.all_rules_def sheet_new_def)
  moreover have "document.rules_of (sheet_new :: virtual_tag sheet) ''sc-a'' = []"
    by (simp add: document.rules_of_def sheet_new_def ids_new_def)
  ultimately show ?thesis
    using inserted_rules [OF document.sheet_ok_new, of "''sc-a''" "[''.x{}'', ''}'']" sample_browser "''x''"]
    by (auto simp: sample_browser_def)
qed












section \<open>The theme\<close>


definition red_theme :: theme where
  "red_theme = Node [(''colors'', Node [(''primary'', Node [(''main'', leaf ''#f00'')])])]"


text \<open>C14. An entry of the default theme that the user's theme does not reach stays.\<close>

theorem default_theme_stays:
  assumes "proper n" and "\<not> reaches n ks" and "theme_at e ks = Some t"
  shows "theme_at (merge_value e n) ks = Some t"
  using assms by (rule default_entry_stays)

lemma default_theme_stays_witness:
  "theme_at (merge_value (Vr (\<lambda>x y. x)) red_theme) [''sidebar'', ''width''] = Some (leaf ''260px'')"
  by (rule default_theme_stays) (simp_all add: red_theme_def Vr_def Vr_sidebar_def)

text \<open>C15. Merging the user's theme twice is merging it once.\<close>

theorem merged_once:
  assumes "proper (Node b)"
  shows "Zr (Node a) [Some (Node b), Some (Node b)] = Zr (Node a) [Some (Node b)]"
  using merge_fields_again [OF assms] by simp

lemma merged_once_witness:
  "Zr (Vr (\<lambda>x y. x)) [Some red_theme, Some red_theme] = Zr (Vr (\<lambda>x y. x)) [Some red_theme]"
  unfolding Vr_def red_theme_def by (rule merged_once) simp







text \<open>C19. A colour of three bytes is read back from the text it is written as.\<close>

theorem colour_read_back:
  assumes "r < 256" and "g < 256" and "b < 256"
  shows "yr (Str (Or \<lparr>red = dnat r, green = dnat g, blue = dnat b, alpha = None\<rparr>)) =
    Inr \<lparr>red = dnat r, green = dnat g, blue = dnat b, alpha = None\<rparr>"
  using assms by (rule read_written)

lemma colour_read_back_witness:
  "yr (Str (Or \<lparr>red = dnat 17, green = dnat 34, blue = dnat 200, alpha = None\<rparr>)) =
    Inr \<lparr>red = dnat 17, green = dnat 34, blue = dnat 200, alpha = None\<rparr>"
  by (rule colour_read_back) simp_all


end
